(* ===== verification/Prelude.thy ===== *)
theory Prelude
  imports Main
begin

text \<open>
  The shared prelude: results and errors in Go's style, the functions of Go's
  \<^verbatim>\<open>strings\<close> and \<^verbatim>\<open>strconv\<close> packages that the modelled code uses (on byte strings,
  one \<^typ>\<open>char\<close> per byte), three-way comparators, and the generic lemmas and
  theorem collections the components use.
\<close>

named_theorems go_defs \<open>definitions that proofs unfold by simplification\<close>
named_theorems res_simps \<open>rewriting of results\<close>

section \<open>Results\<close>

text \<open>
  A Go function that returns \<open>(value, error)\<close> is a function into a sum: \<open>Inl\<close> is
  the error and \<open>Inr\<close> the value.
\<close>

type_synonym ('e, 'a) res = "'e + 'a"

definition rbind :: "('e, 'a) res \<Rightarrow> ('a \<Rightarrow> ('e, 'b) res) \<Rightarrow> ('e, 'b) res" where
  "rbind m f = (case m of Inl e \<Rightarrow> Inl e | Inr x \<Rightarrow> f x)"

lemma rbind_simps [simp]:
  "rbind (Inl e) f = Inl e"
  "rbind (Inr x) f = f x"
  by (simp_all add: rbind_def)

lemma rbind_eq_Inr [res_simps]:
  "rbind m f = Inr y \<longleftrightarrow> (\<exists>x. m = Inr x \<and> f x = Inr y)"
  by (cases m) auto

lemma rbind_eq_Inl [res_simps]:
  "rbind m f = Inl e \<longleftrightarrow> m = Inl e \<or> (\<exists>x. m = Inr x \<and> f x = Inl e)"
  by (cases m) auto

section \<open>Byte strings\<close>

abbreviation byte :: "char \<Rightarrow> int" where
  "byte c \<equiv> of_char c"

abbreviation nl :: char where
  "nl \<equiv> CHR 0x0A"

definition isDigit :: "char \<Rightarrow> bool" where
  "isDigit c \<longleftrightarrow> 48 \<le> byte c \<and> byte c \<le> 57"

definition isAlpha :: "char \<Rightarrow> bool" where
  "isAlpha c \<longleftrightarrow> (65 \<le> byte c \<and> byte c \<le> 90) \<or> (97 \<le> byte c \<and> byte c \<le> 122)"

lemma byte_bounds [simp]: "0 \<le> byte c" "byte c < 256"
  using pos_mod_sign [of 256 "byte c"] pos_mod_bound [of 256 "byte c"] by simp_all

lemma takeWhile_all: "list_all P xs \<Longrightarrow> takeWhile P xs = xs"
  by (induction xs) auto

lemma dropWhile_all: "list_all P xs \<Longrightarrow> dropWhile P xs = []"
  by (induction xs) auto

text \<open>\<^verbatim>\<open>strings.HasPrefix\<close>.\<close>

fun hasPrefix :: "'a list \<Rightarrow> 'a list \<Rightarrow> bool" where
  "hasPrefix s [] = True"
| "hasPrefix [] (p # ps) = False"
| "hasPrefix (x # xs) (p # ps) = (x = p \<and> hasPrefix xs ps)"

lemma hasPrefix_append [simp]: "hasPrefix (p @ s) p"
  by (induction p) auto

lemma hasPrefix_iff: "hasPrefix s p \<longleftrightarrow> (\<exists>r. s = p @ r)"
proof (induction s p rule: hasPrefix.induct)
  case (1 s)
  then show ?case by simp
next
  case (2 p ps)
  then show ?case by simp
next
  case (3 x xs p ps)
  then show ?case by auto
qed

text \<open>\<^verbatim>\<open>strings.Split\<close> with a separator of one byte.\<close>

fun splitChar :: "'a \<Rightarrow> 'a list \<Rightarrow> 'a list list" where
  "splitChar c [] = [[]]"
| "splitChar c (x # xs) =
     (if x = c then [] # splitChar c xs
      else (case splitChar c xs of [] \<Rightarrow> [[x]] | y # ys \<Rightarrow> (x # y) # ys))"

lemma splitChar_not_Nil [simp]: "splitChar c s \<noteq> []"
  by (cases s) (auto split: list.splits)

lemma splitChar_absent: "c \<notin> set s \<Longrightarrow> splitChar c s = [s]"
  by (induction s) auto

lemma splitChar_append:
  "c \<notin> set s \<Longrightarrow> splitChar c (s @ c # t) = s # splitChar c t"
  by (induction s) (auto split: list.splits)

lemma length_splitChar: "length (splitChar c s) = Suc (count_list s c)"
  by (induction s) (auto split: list.splits)

lemma splitChar_pieces: "x \<in> set (splitChar c s) \<Longrightarrow> c \<notin> set x"
  by (induction s arbitrary: x) (auto split: list.splits if_splits)

text \<open>\<^verbatim>\<open>strings.Join\<close>.\<close>

fun join :: "string list \<Rightarrow> string \<Rightarrow> string" where
  "join [] sep = []"
| "join [a] sep = a"
| "join (a # b # as) sep = a @ sep @ join (b # as) sep"

lemma join_splitChar: "join (splitChar c s) [c] = s"
proof (induction s)
  case Nil
  then show ?case by simp
next
  case (Cons x xs)
  then show ?case
    by (cases "splitChar c xs" rule: list.exhaust; cases "tl (splitChar c xs)")
       (auto split: list.splits)
qed

text \<open>
  \<^verbatim>\<open>strings.SplitN(s, sep, 2)\<close> with a separator of one byte: the part before the first
  separator, and what follows it when there is one.
\<close>

definition splitN2 :: "'a \<Rightarrow> 'a list \<Rightarrow> 'a list list" where
  "splitN2 c s =
     (if c \<in> set s then [takeWhile (\<lambda>x. x \<noteq> c) s, tl (dropWhile (\<lambda>x. x \<noteq> c) s)] else [s])"

lemma splitN2_append [simp]: "c \<notin> set s \<Longrightarrow> splitN2 c (s @ c # t) = [s, t]"
  by (auto simp: splitN2_def takeWhile_append dropWhile_append)

text \<open>\<^verbatim>\<open>strings.Trim(s, cut)\<close> with a cut set of one byte.\<close>

definition trimChar :: "'a \<Rightarrow> 'a list \<Rightarrow> 'a list" where
  "trimChar c s = rev (dropWhile (\<lambda>x. x = c) (rev (dropWhile (\<lambda>x. x = c) s)))"

text \<open>
  \<^verbatim>\<open>strings.TrimSpace(s) == ""\<close>: the string consists of white space only. Go strips
  the code points with the Unicode property White\_Space, here by their UTF-8 bytes.
\<close>

definition stripSpaceRune :: "int list \<Rightarrow> int list option" where
  "stripSpaceRune bs =
     (case bs of
        [] \<Rightarrow> None
      | b0 # r0 \<Rightarrow>
          (if (9 \<le> b0 \<and> b0 \<le> 13) \<or> b0 = 32 then Some r0
           else (case r0 of
              [] \<Rightarrow> None
            | b1 # r1 \<Rightarrow>
                (if b0 = 194 \<and> b1 \<in> {133, 160} then Some r1
                 else (case r1 of
                    [] \<Rightarrow> None
                  | b2 # r2 \<Rightarrow>
                      (if (b0 = 225 \<and> b1 = 154 \<and> b2 = 128)
                          \<or> (b0 = 226 \<and> b1 = 128 \<and>
                             ((128 \<le> b2 \<and> b2 \<le> 138) \<or> b2 \<in> {168, 169, 175}))
                          \<or> (b0 = 226 \<and> b1 = 129 \<and> b2 = 159)
                          \<or> (b0 = 227 \<and> b1 = 128 \<and> b2 = 128)
                       then Some r2 else None))))))"

lemma stripSpaceRune_shorter:
  "stripSpaceRune bs = Some r \<Longrightarrow> length r < length bs"
  by (auto simp: stripSpaceRune_def split: list.splits if_splits)

function allSpace :: "int list \<Rightarrow> bool" where
  "allSpace bs =
     (if bs = [] then True
      else (case stripSpaceRune bs of None \<Rightarrow> False | Some r \<Rightarrow> allSpace r))"
  by pat_completeness auto
termination
  by (relation "measure length") (auto dest: stripSpaceRune_shorter)

declare allSpace.simps [simp del]

definition isBlank :: "string \<Rightarrow> bool" where
  "isBlank s \<longleftrightarrow> allSpace (map of_char s)"

text \<open>
  \<^verbatim>\<open>bufio.Scanner\<close>: the lines of a text, without the terminating newline and without a
  carriage return before it; an empty last line does not count.
\<close>

definition dropCR :: "string \<Rightarrow> string" where
  "dropCR l = (if l \<noteq> [] \<and> last l = CHR 0x0D then butlast l else l)"

definition scanLines :: "string \<Rightarrow> string list" where
  "scanLines s =
     (let ls = splitChar nl s
      in map dropCR (if last ls = [] then butlast ls else ls))"

fun printLines :: "string list \<Rightarrow> string" where
  "printLines [] = []"
| "printLines (l # ls) = l @ nl # printLines ls"

text \<open>\<^verbatim>\<open>strings.Contains\<close>.\<close>

fun containsSub :: "'a list \<Rightarrow> 'a list \<Rightarrow> bool" where
  "containsSub [] p = (p = [])"
| "containsSub (c # cs) p = (hasPrefix (c # cs) p \<or> containsSub cs p)"

section \<open>strconv.Atoi\<close>

fun digitsVal :: "int \<Rightarrow> string \<Rightarrow> int" where
  "digitsVal acc [] = acc"
| "digitsVal acc (c # cs) = digitsVal (10 * acc + (byte c - 48)) cs"

text \<open>
  \<^verbatim>\<open>strconv.Atoi\<close> on a platform with 64-bit \<open>int\<close>: an optional sign, then one or more
  digits; \<open>None\<close> stands for \<^verbatim>\<open>ErrSyntax\<close> and \<^verbatim>\<open>ErrRange\<close>.
\<close>

definition atoiUnsigned :: "string \<Rightarrow> int option" where
  "atoiUnsigned s = (if s \<noteq> [] \<and> list_all isDigit s then Some (digitsVal 0 s) else None)"

definition atoi :: "string \<Rightarrow> int option" where
  "atoi s =
     (case s of
        [] \<Rightarrow> None
      | c # cs \<Rightarrow>
          (if c = CHR ''-'' then
             (case atoiUnsigned cs of
                None \<Rightarrow> None
              | Some n \<Rightarrow> if n \<le> 2 ^ 63 then Some (- n) else None)
           else
             (case atoiUnsigned (if c = CHR ''+'' then cs else s) of
                None \<Rightarrow> None
              | Some n \<Rightarrow> if n < 2 ^ 63 then Some n else None)))"

section \<open>Three-way comparators\<close>

text \<open>
  The loop of the version comparison code: both sequences are read position by position
  up to the longer length, a missing position reads as the pad, and the first position
  that compares unequal decides.
\<close>

fun cmpLoop :: "('a \<Rightarrow> 'a \<Rightarrow> int) \<Rightarrow> 'a \<Rightarrow> 'a list \<Rightarrow> 'a list \<Rightarrow> int" where
  "cmpLoop cmp p [] [] = 0"
| "cmpLoop cmp p (a # as) [] = (let r = cmp a p in if r \<noteq> 0 then r else cmpLoop cmp p as [])"
| "cmpLoop cmp p [] (b # bs) = (let r = cmp p b in if r \<noteq> 0 then r else cmpLoop cmp p [] bs)"
| "cmpLoop cmp p (a # as) (b # bs) =
     (let r = cmp a b in if r \<noteq> 0 then r else cmpLoop cmp p as bs)"

lemma pad_induct [case_names Nil Left Right Both]:
  fixes as bs :: "'a list"
  assumes "P [] []"
    and "\<And>a as. P as [] \<Longrightarrow> P (a # as) []"
    and "\<And>b bs. P [] bs \<Longrightarrow> P [] (b # bs)"
    and "\<And>a as b bs. P as bs \<Longrightarrow> P (a # as) (b # bs)"
  shows "P as bs"
proof (induction as arbitrary: bs)
  case Nil
  show ?case by (induction bs) (simp_all add: assms)
next
  case (Cons a as)
  then show ?case by (cases bs) (simp_all add: assms)
qed

definition padHd :: "'a \<Rightarrow> 'a list \<Rightarrow> 'a" where
  "padHd p xs = (case xs of [] \<Rightarrow> p | x # _ \<Rightarrow> x)"

lemma padHd_simps [simp]: "padHd p [] = p" "padHd p (x # xs) = x"
  by (simp_all add: padHd_def)

lemma cmpLoop_append_same:
  "(\<And>x. x \<in> set xs \<Longrightarrow> cmp x x = 0) \<Longrightarrow> cmpLoop cmp p (xs @ as) (xs @ bs) = cmpLoop cmp p as bs"
  by (induction xs) auto

locale comparator =
  fixes dom :: "'a \<Rightarrow> bool"
    and cmp :: "'a \<Rightarrow> 'a \<Rightarrow> int"
  assumes cmp_range: "cmp x y \<in> {-1, 0, 1}"
    and cmp_anti: "cmp y x = - cmp x y"
    and cmp_trans: "dom x \<Longrightarrow> dom y \<Longrightarrow> dom z \<Longrightarrow> cmp x y \<le> 0 \<Longrightarrow> cmp y z \<le> 0 \<Longrightarrow> cmp x z \<le> 0"
begin

lemma cmp_refl: "cmp x x = 0"
  using cmp_anti [of x x] by simp

lemma cmp_zero_sym: "cmp x y = 0 \<longleftrightarrow> cmp y x = 0"
  using cmp_anti [of x y] by auto

lemma cmp_eq_cong:
  assumes "dom x" and "dom y" and "dom z" and "cmp x y = 0"
  shows "cmp x z = cmp y z"
proof -
  have yx: "cmp y x = 0" using assms(4) cmp_zero_sym by simp
  have 1: "cmp x z \<le> 0 \<longleftrightarrow> cmp y z \<le> 0"
    using cmp_trans [OF assms(1,2,3)] cmp_trans [OF assms(2,1,3)] assms(4) yx by auto
  have 2: "cmp z x \<le> 0 \<longleftrightarrow> cmp z y \<le> 0"
    using cmp_trans [OF assms(3,1,2)] cmp_trans [OF assms(3,2,1)] assms(4) yx by auto
  show ?thesis
    using 1 2 cmp_anti [of x z] cmp_anti [of y z] cmp_range [of x z] cmp_range [of y z] by auto
qed

lemma cmp_less_trans:
  assumes d: "dom x" "dom y" "dom z" and xy: "cmp x y \<le> 0" and yz: "cmp y z \<le> 0"
    and s: "cmp x y < 0 \<or> cmp y z < 0"
  shows "cmp x z < 0"
proof (rule ccontr)
  assume "\<not> cmp x z < 0"
  with cmp_trans [OF d xy yz] have xz: "cmp x z = 0" by simp
  then have "cmp z x \<le> 0" using cmp_zero_sym by force
  then have "cmp z y \<le> 0" and "cmp y x \<le> 0"
    using cmp_trans [OF d(3,1,2) _ xy] cmp_trans [OF d(2,3,1) yz] by auto
  then show False using s cmp_anti [of x y] cmp_anti [of y z] by auto
qed

lemma cmpLoop_range: "cmpLoop cmp p as bs \<in> {-1, 0, 1}"
  by (induction as bs rule: pad_induct) (use cmp_range in \<open>auto simp: Let_def\<close>)

lemma cmpLoop_step:
  "cmpLoop cmp p as bs =
     (let r = cmp (padHd p as) (padHd p bs) in if r \<noteq> 0 then r else cmpLoop cmp p (tl as) (tl bs))"
  by (cases as; cases bs) (simp_all add: cmp_refl Let_def)

lemma cmpLoop_anti: "cmpLoop cmp p bs as = - cmpLoop cmp p as bs"
proof (induction as bs rule: pad_induct)
  case (Left a as)
  then show ?case using cmp_anti [of a p] by (auto simp: Let_def)
next
  case (Right b bs)
  then show ?case using cmp_anti [of b p] by (auto simp: Let_def)
next
  case (Both a as b bs)
  then show ?case using cmp_anti [of a b] by (auto simp: Let_def)
qed simp

lemma cmpLoop_trans:
  assumes "list_all dom as" and "list_all dom bs" and "list_all dom cs" and "dom p"
    and "cmpLoop cmp p as bs \<le> 0" and "cmpLoop cmp p bs cs \<le> 0"
  shows "cmpLoop cmp p as cs \<le> 0"
  using assms
proof (induction "length as + length bs + length cs" arbitrary: as bs cs rule: less_induct)
  case less
  define x y z where "x = padHd p as" and "y = padHd p bs" and "z = padHd p cs"
  have d: "dom x" "dom y" "dom z"
    using less.prems(1-4) by (auto simp: x_def y_def z_def padHd_def split: list.splits)
  have tls: "list_all dom (tl as)" "list_all dom (tl bs)" "list_all dom (tl cs)"
    using less.prems(1-3) by (cases as; cases bs; cases cs; simp)+
  have xy: "cmp x y \<le> 0" and yz: "cmp y z \<le> 0"
    using less.prems(5,6) cmpLoop_step [of p as bs] cmpLoop_step [of p bs cs]
    by (auto simp: x_def y_def z_def Let_def split: if_splits)
  show ?case
  proof (cases "cmp x y = 0 \<and> cmp y z = 0")
    case False
    then have "cmp x z < 0" using cmp_less_trans [OF d xy yz] xy yz by linarith
    then show ?thesis using cmpLoop_step [of p as cs] by (simp add: x_def z_def Let_def)
  next
    case True
    then have xz: "cmp x z = 0" using cmp_eq_cong [OF d] by simp
    have loops: "cmpLoop cmp p (tl as) (tl bs) \<le> 0" "cmpLoop cmp p (tl bs) (tl cs) \<le> 0"
      using True less.prems(5,6) cmpLoop_step [of p as bs] cmpLoop_step [of p bs cs]
      by (simp_all add: x_def y_def z_def Let_def)
    show ?thesis
    proof (cases "as = [] \<and> bs = [] \<and> cs = []")
      case True
      then show ?thesis by simp
    next
      case False
      then have "length (tl as) + length (tl bs) + length (tl cs) < length as + length bs + length cs"
        by (cases as; cases bs; cases cs) auto
      from less.hyps [OF this tls less.prems(4) loops] xz cmpLoop_step [of p as cs]
      show ?thesis by (simp add: x_def z_def Let_def)
    qed
  qed
qed

end

end
