(* ===== verification/GoIO.thy ===== *)
theory GoIO
  imports Prelude "HOL-Library.List_Lexorder" "HOL-Library.Char_ord"
begin

text \<open>
  Effects. A Go function that touches the outside world and returns an error is a function
  from a world to a result and the world it leaves. The world holds a file system, the
  history of the calls that left the process (system calls and commands) and a fault
  oracle: for every call, given the calls before it, whether it fails. The combinators
  follow Go's control flow: \<open>bind\<close> is \<^verbatim>\<open>if err != nil { return err }\<close>, \<open>attempt\<close> hands
  the error to the caller as a value, \<open>deferIO\<close> is a deferred function that sees and may
  replace the result.
\<close>

section \<open>Control flow\<close>

type_synonym ('w, 'e, 'a) io = "'w \<Rightarrow> ('e + 'a) \<times> 'w"

definition ret :: "'a \<Rightarrow> ('w, 'e, 'a) io" where
  "ret x = (\<lambda>w. (Inr x, w))"

definition throw :: "'e \<Rightarrow> ('w, 'e, 'a) io" where
  "throw e = (\<lambda>w. (Inl e, w))"

definition bind :: "('w, 'e, 'a) io \<Rightarrow> ('a \<Rightarrow> ('w, 'e, 'b) io) \<Rightarrow> ('w, 'e, 'b) io" where
  "bind m f = (\<lambda>w. case m w of (Inl e, w') \<Rightarrow> (Inl e, w') | (Inr x, w') \<Rightarrow> f x w')"

definition andThen :: "('w, 'e, 'a) io \<Rightarrow> ('w, 'e, 'b) io \<Rightarrow> ('w, 'e, 'b) io" where
  "andThen m k = bind m (\<lambda>_. k)"

definition gets :: "('w \<Rightarrow> 'a) \<Rightarrow> ('w, 'e, 'a) io" where
  "gets f = (\<lambda>w. (Inr (f w), w))"

definition modifies :: "('w \<Rightarrow> 'w) \<Rightarrow> ('w, 'e, unit) io" where
  "modifies f = (\<lambda>w. (Inr (), f w))"

definition attempt :: "('w, 'e, 'a) io \<Rightarrow> ('w, 'e, 'e + 'a) io" where
  "attempt m = (\<lambda>w. case m w of (r, w') \<Rightarrow> (Inr r, w'))"

definition ignoring :: "('w, 'e, 'a) io \<Rightarrow> ('w, 'e, unit) io" where
  "ignoring m = (\<lambda>w. (Inr (), snd (m w)))"

definition deferIO ::
    "('w, 'e, 'a) io \<Rightarrow> ('e + 'a \<Rightarrow> ('w, 'e, 'b) io) \<Rightarrow> ('w, 'e, 'b) io" where
  "deferIO m d = (\<lambda>w. case m w of (r, w') \<Rightarrow> d r w')"

definition whenIO :: "bool \<Rightarrow> ('w, 'e, unit) io \<Rightarrow> ('w, 'e, unit) io" where
  "whenIO b m = (if b then m else ret ())"

primrec forEach :: "'a list \<Rightarrow> ('a \<Rightarrow> ('w, 'e, unit) io) \<Rightarrow> ('w, 'e, unit) io" where
  "forEach [] f = ret ()"
| "forEach (x # xs) f = andThen (f x) (forEach xs f)"

lemma io_run [simp]:
  "ret x w = (Inr x, w)"
  "throw e w = (Inl e, w)"
  "gets g w = (Inr (g w), w)"
  "modifies h w = (Inr (), h w)"
  "whenIO True m = m"
  "whenIO False m = ret ()"
  by (simp_all add: ret_def throw_def gets_def modifies_def whenIO_def)

lemma bind_ok: "m w = (Inr x, w') \<Longrightarrow> bind m f w = f x w'"
  by (simp add: bind_def)

lemma bind_err: "m w = (Inl e, w') \<Longrightarrow> bind m f w = (Inl e, w')"
  by (simp add: bind_def)

lemma bind_ret [simp]: "bind (ret x) f = f x"
  by (simp add: bind_def ret_def)

lemma bind_gets [simp]: "bind (gets g) f w = f (g w) w"
  by (simp add: bind_def)

lemma bind_throw [simp]: "bind (throw e) f = throw e"
  by (simp add: bind_def throw_def)

lemma andThen_simps [simp]:
  "andThen (ret x) k = k"
  "andThen (throw e) k = throw e"
  "andThen (modifies h) k w = k (h w)"
  by (simp_all add: andThen_def bind_def modifies_def throw_def)

lemma bind_split:
  "P (bind m f w) \<longleftrightarrow>
     (\<forall>e w'. m w = (Inl e, w') \<longrightarrow> P (Inl e, w')) \<and>
     (\<forall>x w'. m w = (Inr x, w') \<longrightarrow> P (f x w'))"
  by (cases "m w"; cases "fst (m w)") (auto simp: bind_def)

lemma bind_Inr:
  "bind m f w = (Inr y, w') \<longleftrightarrow> (\<exists>x w1. m w = (Inr x, w1) \<and> f x w1 = (Inr y, w'))"
  by (cases "m w"; cases "fst (m w)") (auto simp: bind_def)

lemma andThen_Inr:
  "andThen m k w = (Inr y, w') \<longleftrightarrow> (\<exists>x w1. m w = (Inr x, w1) \<and> k w1 = (Inr y, w'))"
  by (simp add: andThen_def bind_Inr)

lemma andThen_Inl:
  "andThen m k w = (Inl e, w') \<longleftrightarrow>
     m w = (Inl e, w') \<or> (\<exists>x w1. m w = (Inr x, w1) \<and> k w1 = (Inl e, w'))"
  by (cases "m w"; cases "fst (m w)") (auto simp: andThen_def bind_def)

lemma andThen_ok: "m w = (Inr x, w') \<Longrightarrow> andThen m k w = k w'"
  by (simp add: andThen_def bind_def)

lemma andThen_err: "m w = (Inl e, w') \<Longrightarrow> andThen m k w = (Inl e, w')"
  by (simp add: andThen_def bind_def)

lemma attempt_run [simp]: "attempt m w = (Inr (fst (m w)), snd (m w))"
  by (simp add: attempt_def split: prod.splits)

lemma ignoring_run [simp]: "ignoring m w = (Inr (), snd (m w))"
  by (simp add: ignoring_def)

lemma deferIO_run [simp]: "deferIO m d w = d (fst (m w)) (snd (m w))"
  by (simp add: deferIO_def split: prod.splits)

subsection \<open>Invariants of effects\<close>

text \<open>\<open>keeps P m\<close>: whatever its result, \<open>m\<close> keeps \<open>P\<close>.\<close>

definition keeps :: "('w \<Rightarrow> bool) \<Rightarrow> ('w, 'e, 'a) io \<Rightarrow> bool" where
  "keeps P m \<longleftrightarrow> (\<forall>w. P w \<longrightarrow> P (snd (m w)))"

named_theorems keeps_intros \<open>preservation through the combinators\<close>

lemma keepsD: "keeps P m \<Longrightarrow> P w \<Longrightarrow> P (snd (m w))"
  by (simp add: keeps_def)

lemma keeps_ret [keeps_intros]: "keeps P (ret x)"
  and keeps_throw [keeps_intros]: "keeps P (throw e)"
  and keeps_gets [keeps_intros]: "keeps P (gets g)"
  by (simp_all add: keeps_def)

lemma keeps_modifies [keeps_intros]: "(\<And>w. P w \<Longrightarrow> P (h w)) \<Longrightarrow> keeps P (modifies h)"
  by (simp add: keeps_def)

lemma keeps_bind [keeps_intros]:
  "keeps P m \<Longrightarrow> (\<And>x. keeps P (f x)) \<Longrightarrow> keeps P (bind m f)"
  unfolding keeps_def by (auto simp: bind_def split: prod.splits sum.splits)

lemma keeps_andThen [keeps_intros]: "keeps P m \<Longrightarrow> keeps P k \<Longrightarrow> keeps P (andThen m k)"
  unfolding andThen_def by (intro keeps_bind)

lemma keeps_attempt [keeps_intros]: "keeps P m \<Longrightarrow> keeps P (attempt m)"
  and keeps_ignoring [keeps_intros]: "keeps P m \<Longrightarrow> keeps P (ignoring m)"
  by (simp_all add: keeps_def)

lemma keeps_deferIO [keeps_intros]:
  "keeps P m \<Longrightarrow> (\<And>r. keeps P (d r)) \<Longrightarrow> keeps P (deferIO m d)"
  by (simp add: keeps_def)

lemma keeps_whenIO [keeps_intros]: "keeps P m \<Longrightarrow> keeps P (whenIO b m)"
  by (cases b) (simp_all add: keeps_ret)

lemma keeps_if [keeps_intros]:
  "keeps P m \<Longrightarrow> keeps P n \<Longrightarrow> keeps P (if b then m else n)"
  by simp

lemma keeps_forEach [keeps_intros]:
  "(\<And>x. x \<in> set xs \<Longrightarrow> keeps P (f x)) \<Longrightarrow> keeps P (forEach xs f)"
  by (induction xs) (auto intro: keeps_intros)

section \<open>Paths\<close>

text \<open>\<^verbatim>\<open>filepath.Clean\<close>, \<^verbatim>\<open>Join\<close>, \<^verbatim>\<open>Dir\<close> and \<^verbatim>\<open>Base\<close>.\<close>

abbreviation slash :: char where
  "slash \<equiv> CHR ''/''"

fun cleanComps :: "bool \<Rightarrow> string list \<Rightarrow> string list \<Rightarrow> string list" where
  "cleanComps rooted acc [] = rev acc"
| "cleanComps rooted acc (c # cs) =
     (if c = '''' \<or> c = ''.'' then cleanComps rooted acc cs
      else if c = ''..'' then
        (if acc \<noteq> [] \<and> hd acc \<noteq> ''..'' then cleanComps rooted (tl acc) cs
         else if rooted then cleanComps rooted acc cs
         else cleanComps rooted (c # acc) cs)
      else cleanComps rooted (c # acc) cs)"

definition pathClean :: "string \<Rightarrow> string" where
  "pathClean p =
     (if p = '''' then ''.''
      else
        (let rooted = (hd p = slash);
             body = join (cleanComps rooted [] (splitChar slash p)) ''/''
         in if rooted then slash # body else if body = '''' then ''.'' else body))"

definition pathJoin :: "string list \<Rightarrow> string" where
  "pathJoin elems =
     (case dropWhile (\<lambda>e. e = '''') elems of
        [] \<Rightarrow> ''''
      | es \<Rightarrow> pathClean (join es ''/''))"

definition pathDir :: "string \<Rightarrow> string" where
  "pathDir p = pathClean (rev (dropWhile (\<lambda>c. c \<noteq> slash) (rev p)))"

definition pathBase :: "string \<Rightarrow> string" where
  "pathBase p =
     (if p = '''' then ''.''
      else
        (let q = rev (dropWhile (\<lambda>c. c = slash) (rev p))
         in if q = '''' then ''/'' else rev (takeWhile (\<lambda>c. c \<noteq> slash) (rev q))))"

text \<open>The same path as its list of names, for absolute paths.\<close>

definition absPath :: "string list \<Rightarrow> string" where
  "absPath cs = slash # join cs ''/''"

definition plainName :: "string \<Rightarrow> bool" where
  "plainName c \<longleftrightarrow> c \<noteq> '''' \<and> c \<noteq> ''.'' \<and> c \<noteq> ''..'' \<and> slash \<notin> set c"

lemma cleanComps_plain: "list_all plainName cs \<Longrightarrow> cleanComps r acc cs = rev acc @ cs"
  by (induction cs arbitrary: acc) (auto simp: plainName_def)

lemma splitChar_join:
  "cs \<noteq> [] \<Longrightarrow> list_all (\<lambda>c. x \<notin> set c) cs \<Longrightarrow> splitChar x (join cs [x]) = cs"
proof (induction cs rule: induct_list012)
  case (2 a)
  then show ?case by (simp add: splitChar_absent)
next
  case (3 a b cs)
  then show ?case by (simp add: splitChar_append)
qed simp

lemma pathClean_absPath [simp]: "list_all plainName cs \<Longrightarrow> pathClean (absPath cs) = absPath cs"
proof (cases "cs = []")
  case False
  assume "list_all plainName cs"
  then have "list_all (\<lambda>c. slash \<notin> set c) cs" by (auto simp: list_all_iff plainName_def)
  with False \<open>list_all plainName cs\<close> show ?thesis
    by (simp add: pathClean_def absPath_def splitChar_join cleanComps_plain)
qed (simp add: pathClean_def absPath_def)

section \<open>The world\<close>

datatype fnode = FDir | FFile string | FLink string

datatype event =
    ECmd "string list"
  | EMkdirAll string
  | ERemove string
  | ERemoveAll string
  | ESymlink string string
  | EWrite string
  | ECopy string string
  | ECall string

text \<open>
  The file system: an association list from clean absolute paths to nodes, so that a
  directory can be listed; \<open>fget\<close> reads it as a map. Path resolution does not follow links
  in the middle of a path: the code only ever uses links as the last name.
\<close>

type_synonym fsys = "(string \<times> fnode) list"

definition fget :: "fsys \<Rightarrow> string \<rightharpoonup> fnode" where
  "fget f = map_of f"

definition fput :: "fsys \<Rightarrow> string \<Rightarrow> fnode \<Rightarrow> fsys" where
  "fput f p n = (p, n) # filter (\<lambda>e. fst e \<noteq> p) f"

definition fdrop :: "(string \<Rightarrow> bool) \<Rightarrow> fsys \<Rightarrow> fsys" where
  "fdrop P f = filter (\<lambda>e. \<not> P (fst e)) f"

lemma fget_fput [simp]: "fget (fput f p n) q = (if q = p then Some n else fget f q)"
  by (induction f) (auto simp: fget_def fput_def)

lemma fget_fdrop [simp]: "fget (fdrop P f) q = (if P q then None else fget f q)"
  by (induction f) (auto simp: fget_def fdrop_def)

definition listDir :: "fsys \<Rightarrow> string \<Rightarrow> string list" where
  "listDir f d = sort (filter (\<lambda>p. pathDir p = d \<and> p \<noteq> d) (map fst f))"

record world =
  fs :: fsys
  hist :: "event list"
  faults :: "event list \<Rightarrow> event \<Rightarrow> bool"

text \<open>
  A call that leaves the process: it is recorded, and fails when the oracle says so.
  The history is newest first.
\<close>

definition fallible :: "'e \<Rightarrow> event \<Rightarrow> ('m world_scheme, 'e, unit) io" where
  "fallible e ev = (\<lambda>w.
     let w' = w\<lparr>hist := ev # hist w\<rparr>
     in if faults w (hist w) ev then (Inl e, w') else (Inr (), w'))"

lemma fallible_ok: "\<not> faults w (hist w) ev \<Longrightarrow> fallible e ev w = (Inr (), w\<lparr>hist := ev # hist w\<rparr>)"
  by (simp add: fallible_def)

lemma fallible_world: "snd (fallible e ev w) = w\<lparr>hist := ev # hist w\<rparr>"
  by (simp add: fallible_def Let_def)

end
