(* ===== verification/Partition.thy ===== *)
theory Partition
  imports GoIO
begin

text \<open>
  Disk partitions, \<^verbatim>\<open>partition/partition.go\<close>, \<^verbatim>\<open>partition/mount.go\<close> and
  \<^verbatim>\<open>partition/utils.go\<close>: reading the output of \<^verbatim>\<open>lsblk\<close>, finding the root partitions,
  the list of mounts the package has created, and running a function with the other root
  file system mounted.
\<close>

section \<open>Data\<close>

datatype perr =
    ErrBootloader
  | ErrPartitionDetection
  | ErrNoDualPartition
  | ErrNoHardwareYaml
  | ErrNoCommand
  | ErrCmd "string list"
  | ErrSys event
  | ErrText string
  | Panic string

record blockDevice =
  name :: string
  shortName :: string
  device :: string
  parentName :: string
  mountpoint :: string

record Partition =
  partitions :: "blockDevice list"

datatype MountOption = RO | RW

record mountEntry =
  source :: string
  target :: string
  options :: string
  bindMount :: bool

record pworld = world +
  mounts :: "mountEntry list"

definition writablePartitionLabel :: string where "writablePartitionLabel = ''writable''"
definition rootfsAlabel :: string where "rootfsAlabel = ''system-a''"
definition rootfsBlabel :: string where "rootfsBlabel = ''system-b''"
definition bootPartitionLabel :: string where "bootPartitionLabel = ''system-boot''"

definition cacheDir :: string where "cacheDir = ''/writable/cache''"
definition mountTarget :: string where "mountTarget = ''/writable/cache/system''"

lemmas label_defs [go_defs] =
  writablePartitionLabel_def rootfsAlabel_def rootfsBlabel_def bootPartitionLabel_def

section \<open>Commands\<close>

definition runCommand :: "string list \<Rightarrow> ('m world_scheme, perr, unit) io" where
  "runCommand args =
     (if args = [] then throw ErrNoCommand else fallible (ErrCmd args) (ECmd args))"

definition osMkdirAll :: "string \<Rightarrow> ('m world_scheme, perr, unit) io" where
  "osMkdirAll p =
     andThen (fallible (ErrSys (EMkdirAll p)) (EMkdirAll p))
       (modifies (\<lambda>w. w\<lparr>fs := fput (fs w) p FDir\<rparr>))"

definition fsck :: "string \<Rightarrow> ('m world_scheme, perr, unit) io" where
  "fsck dev = runCommand [''/sbin/fsck'', ''-M'', ''-av'', dev]"

fun stringInSliceFrom :: "int \<Rightarrow> string list \<Rightarrow> string \<Rightarrow> int" where
  "stringInSliceFrom i [] v = -1"
| "stringInSliceFrom i (s # ss) v = (if s = v then i else stringInSliceFrom (i + 1) ss v)"

definition stringInSlice :: "string list \<Rightarrow> string \<Rightarrow> int" where
  "stringInSlice slice v = stringInSliceFrom 0 slice v"

lemma stringInSliceFrom_bound:
  "0 \<le> i \<Longrightarrow> (v \<in> set ss \<longrightarrow> i \<le> stringInSliceFrom i ss v) \<and> (v \<notin> set ss \<longrightarrow> stringInSliceFrom i ss v = -1)"
proof (induction ss arbitrary: i)
  case (Cons s ss)
  have "0 \<le> i + 1" using Cons.prems by simp
  from Cons.IH [OF this] show ?case by force
qed simp

lemma stringInSlice_mem [simp]: "stringInSlice ss v \<ge> 0 \<longleftrightarrow> v \<in> set ss"
  using stringInSliceFrom_bound [of 0 v ss] by (auto simp: stringInSlice_def)

lemma stringInSlice_neg [simp]: "stringInSlice ss v < 0 \<longleftrightarrow> v \<notin> set ss"
  using stringInSlice_mem [of ss v] by linarith

section \<open>Reading lsblk\<close>

definition rootPartitionLabels :: "string list" where
  "rootPartitionLabels = [rootfsAlabel, rootfsBlabel]"

definition allPartitionLabels :: "string list" where
  "allPartitionLabels = rootPartitionLabels @ [bootPartitionLabel] @ [writablePartitionLabel]"

text \<open>
  The regular expression of \<^verbatim>\<open>loadPartitionDetails\<close>: a token is a non-empty run of bytes
  that are neither white space nor quotes, and of quoted strings. \<open>lsblkToken\<close> reads the
  longest token at the start of the line; \<open>lsblkTokens\<close> collects all of them, skipping
  bytes where none starts.
\<close>

definition isReSpace :: "char \<Rightarrow> bool" where
  "isReSpace c \<longleftrightarrow> byte c \<in> {9, 10, 12, 13, 32}"

abbreviation quote :: char where
  "quote \<equiv> CHR 0x22"

function (sequential) lsblkToken :: "string \<Rightarrow> string \<times> string" where
  "lsblkToken [] = ([], [])"
| "lsblkToken (c # cs) =
     (if c = quote then
        (if quote \<in> set cs then
           (let q = takeWhile (\<lambda>x. x \<noteq> quote) cs;
                (t, r) = lsblkToken (tl (dropWhile (\<lambda>x. x \<noteq> quote) cs))
            in (quote # q @ quote # t, r))
         else ([], c # cs))
      else if isReSpace c then ([], c # cs)
      else (let (t, r) = lsblkToken cs in (c # t, r)))"
  by pat_completeness auto
termination
proof (relation "measure length")
  fix c :: char and cs
  show "(tl (dropWhile (\<lambda>x. x \<noteq> quote) cs), c # cs) \<in> measure length"
    using length_dropWhile_le [of "\<lambda>x. x \<noteq> quote" cs] by simp
qed auto

lemma lsblkToken_shorter:
  "lsblkToken s = (t, r) \<Longrightarrow> length r \<le> length s \<and> (t \<noteq> [] \<longrightarrow> length r < length s)"
proof (induction s arbitrary: t r rule: lsblkToken.induct)
  case (2 c cs)
  have d: "length (tl (dropWhile (\<lambda>x. x \<noteq> quote) cs)) \<le> length cs"
    using length_dropWhile_le [of "\<lambda>x. x \<noteq> quote" cs] by simp
  show ?case
    using "2.prems" "2.IH"(1) "2.IH"(2) d
    by (fastforce simp: Let_def split: if_splits prod.splits)
qed simp

function lsblkTokens :: "string \<Rightarrow> string list" where
  "lsblkTokens [] = []"
| "lsblkTokens (c # cs) =
     (case lsblkToken (c # cs) of
        (t, r) \<Rightarrow> if t = [] then lsblkTokens cs else t # lsblkTokens r)"
  by pat_completeness auto
termination
  by (relation "measure length") (auto simp del: lsblkToken.simps dest!: sym [THEN lsblkToken_shorter])

text \<open>
  One field per token, \<^verbatim>\<open>NAME="value"\<close>. A token without an equals sign makes the code
  index past the end of the split.
\<close>

definition lsblkField :: "string \<Rightarrow> (perr, string \<times> string) res" where
  "lsblkField match =
     (case splitChar (CHR ''='') match of
        n # v # _ \<Rightarrow> Inr (n, trimChar quote v)
      | _ \<Rightarrow> Inl (Panic ''index out of range''))"

fun lsblkFields :: "(string \<rightharpoonup> string) \<Rightarrow> string list \<Rightarrow> (perr, string \<rightharpoonup> string) res" where
  "lsblkFields fds [] = Inr fds"
| "lsblkFields fds (m # ms) =
     (case lsblkField m of
        Inl e \<Rightarrow> Inl e
      | Inr (n, v) \<Rightarrow> lsblkFields (fds(n \<mapsto> v)) ms)"

definition fieldOr :: "(string \<rightharpoonup> string) \<Rightarrow> string \<Rightarrow> string" where
  "fieldOr fds k = (case fds k of None \<Rightarrow> '''' | Some v \<Rightarrow> v)"

fun loadLines :: "string list \<Rightarrow> (perr, blockDevice list) res" where
  "loadLines [] = Inr []"
| "loadLines (line # lines) =
     rbind (lsblkFields Map.empty (lsblkTokens line)) (\<lambda>fds.
       (case fds ''LABEL'' of
          None \<Rightarrow> loadLines lines
        | Some n \<Rightarrow>
            (if n = '''' \<or> n = [quote, quote] then loadLines lines
             else if stringInSlice allPartitionLabels n < 0 then loadLines lines
             else
               rbind (loadLines lines) (\<lambda>rest.
                 Inr (\<lparr>name = n,
                       shortName = [last n],
                       device = ''/dev/'' @ fieldOr fds ''NAME'',
                       parentName = ''/dev/'' @ fieldOr fds ''PKNAME'',
                       mountpoint = fieldOr fds ''MOUNTPOINT''\<rparr> # rest)))))"

text \<open>\<open>lsblk\<close> is the output of the command split at newlines, or its error.\<close>

definition loadPartitionDetails :: "(perr, string list) res \<Rightarrow> (perr, blockDevice list) res" where
  "loadPartitionDetails lsblk = rbind lsblk loadLines"

section \<open>Which partition is which\<close>

definition rootPartitions :: "Partition \<Rightarrow> blockDevice list" where
  "rootPartitions p = filter (\<lambda>part. stringInSlice rootPartitionLabels (name part) \<ge> 0) (partitions p)"

definition dualRootPartitions :: "Partition \<Rightarrow> bool" where
  "dualRootPartitions p \<longleftrightarrow> length (rootPartitions p) = 2"

definition singleRootPartition :: "Partition \<Rightarrow> bool" where
  "singleRootPartition p \<longleftrightarrow> length (rootPartitions p) = 1"

definition writablePartition :: "Partition \<Rightarrow> blockDevice option" where
  "writablePartition p = find (\<lambda>part. name part = writablePartitionLabel) (partitions p)"

definition bootPartition :: "Partition \<Rightarrow> blockDevice option" where
  "bootPartition p = find (\<lambda>part. name part = bootPartitionLabel) (partitions p)"

definition rootPartition :: "Partition \<Rightarrow> blockDevice option" where
  "rootPartition p = find (\<lambda>part. mountpoint part = ''/'') (rootPartitions p)"

definition otherRootPartition :: "Partition \<Rightarrow> blockDevice option" where
  "otherRootPartition p = find (\<lambda>part. mountpoint part \<noteq> ''/'') (rootPartitions p)"

section \<open>The mount list\<close>

definition removeMountByTarget :: "mountEntry list \<Rightarrow> string \<Rightarrow> mountEntry list" where
  "removeMountByTarget mnts t = filter (\<lambda>m. target m \<noteq> t) mnts"

text \<open>\<^verbatim>\<open>mount\<close>: the arguments of \<^verbatim>\<open>/bin/mount\<close>, with options only when there are any.\<close>

definition mount :: "string \<Rightarrow> string \<Rightarrow> string \<Rightarrow> ('m world_scheme, perr, unit) io" where
  "mount src tgt opts =
     runCommand ([''/bin/mount''] @ (if opts \<noteq> '''' then [''-o'' @ opts] else []) @ [src] @ [tgt])"

definition mountAndAddToGlobalMountList :: "mountEntry \<Rightarrow> ('m pworld_scheme, perr, unit) io" where
  "mountAndAddToGlobalMountList m =
     andThen (mount (source m) (target m) (options m))
       (modifies (\<lambda>w. w\<lparr>mounts := mounts w @ [m]\<rparr>))"

definition unmountAndRemoveFromGlobalMountList :: "string \<Rightarrow> ('m pworld_scheme, perr, unit) io" where
  "unmountAndRemoveFromGlobalMountList t =
     andThen (runCommand [''/bin/umount'', t])
       (modifies (\<lambda>w. w\<lparr>mounts := removeMountByTarget (mounts w) t\<rparr>))"

text \<open>
  \<^verbatim>\<open>sort.Sort(sort.Reverse(mountsCopy))\<close>: by target, greatest first; Go compares strings
  byte by byte. The order of entries with the same target is not specified by Go; an
  insertion sort is one of its possible results.
\<close>

definition reverseSorted :: "mountEntry list \<Rightarrow> mountEntry list" where
  "reverseSorted ms = rev (sort_key target ms)"

definition undoMounts :: "bool \<Rightarrow> ('m pworld_scheme, perr, unit) io" where
  "undoMounts bindMountsOnly =
     bind (gets (\<lambda>w. reverseSorted (mounts w))) (\<lambda>mountsCopy.
       forEach mountsCopy (\<lambda>m.
         if bindMountsOnly \<and> \<not> bindMount m then ret ()
         else unmountAndRemoveFromGlobalMountList (target m)))"

section \<open>Mounting the other root file system\<close>

definition nilDeref :: "('w, perr, 'a) io" where
  "nilDeref = throw (Panic ''nil pointer dereference'')"

definition unmountOtherRootfs :: "('m pworld_scheme, perr, unit) io" where
  "unmountOtherRootfs = unmountAndRemoveFromGlobalMountList mountTarget"

definition mountOtherRootfs :: "Partition \<Rightarrow> bool \<Rightarrow> ('m pworld_scheme, perr, unit) io" where
  "mountOtherRootfs p readOnly =
     andThen (osMkdirAll mountTarget)
       (case otherRootPartition p of
          None \<Rightarrow> nilDeref
        | Some other \<Rightarrow>
            (let m = \<lparr>source = device other, target = mountTarget, options = '''', bindMount = False\<rparr>
             in if readOnly then mountAndAddToGlobalMountList (m\<lparr>options := ''ro''\<rparr>)
                else andThen (fsck (source m)) (mountAndAddToGlobalMountList m)))"

definition bindmountThisRootfsRO :: "string \<Rightarrow> ('m pworld_scheme, perr, unit) io" where
  "bindmountThisRootfsRO t =
     mountAndAddToGlobalMountList
       \<lparr>source = ''/'', target = t, options = ''bind,ro'', bindMount = True\<rparr>"

definition ensureOtherMountedRO :: "Partition \<Rightarrow> ('m pworld_scheme, perr, unit) io" where
  "ensureOtherMountedRO p =
     bind (attempt (runCommand [''/bin/mountpoint'', mountTarget])) (\<lambda>r.
       (case r of Inr _ \<Rightarrow> ret () | Inl _ \<Rightarrow> mountOtherRootfs p True))"

definition remountOther :: "Partition \<Rightarrow> MountOption \<Rightarrow> ('m pworld_scheme, perr, unit) io" where
  "remountOther p option =
     (case option of
        RW \<Rightarrow>
          andThen unmountOtherRootfs
            (case otherRootPartition p of
               None \<Rightarrow> nilDeref
             | Some other \<Rightarrow>
                 andThen (fsck (device other))
                   (mountAndAddToGlobalMountList
                      \<lparr>source = device other, target = mountTarget, options = '''', bindMount = False\<rparr>))
      | RO \<Rightarrow>
          (case otherRootPartition p of
             None \<Rightarrow> nilDeref
           | Some other \<Rightarrow> mount (device other) mountTarget ''remount,ro''))"

definition requiredChrootMounts :: "Partition \<Rightarrow> string list" where
  "requiredChrootMounts p =
     [''/dev'', ''/proc'', ''/sys''] @
     (case bootPartition p of
        Some boot \<Rightarrow> if mountpoint boot \<noteq> '''' then [mountpoint boot] else []
      | None \<Rightarrow> [])"

definition bindmountRequiredFilesystems :: "Partition \<Rightarrow> ('m pworld_scheme, perr, unit) io" where
  "bindmountRequiredFilesystems p =
     andThen
       (forEach (requiredChrootMounts p) (\<lambda>f.
          mountAndAddToGlobalMountList
            \<lparr>source = f, target = pathJoin [mountTarget, f], options = ''bind'', bindMount = True\<rparr>))
       (let targetInChroot = pathJoin [mountTarget, mountTarget]
        in andThen (osMkdirAll targetInChroot) (bindmountThisRootfsRO targetInChroot))"

definition unmountRequiredFilesystems :: "('m pworld_scheme, perr, unit) io" where
  "unmountRequiredFilesystems = undoMounts True"

text \<open>
  A deferred function that reports its own error only when the function itself
  succeeded.
\<close>

definition afterwards ::
    "('w, perr, unit) io \<Rightarrow> (perr, unit) res \<Rightarrow> ('w, perr, unit) io" where
  "afterwards cleanup r =
     bind (attempt cleanup) (\<lambda>d.
       (case r of
          Inl e \<Rightarrow> throw e
        | Inr _ \<Rightarrow> (case d of Inl derr \<Rightarrow> throw derr | Inr _ \<Rightarrow> ret ())))"

definition RunWithOther ::
    "Partition \<Rightarrow> MountOption \<Rightarrow> (string \<Rightarrow> ('m pworld_scheme, perr, unit) io)
     \<Rightarrow> ('m pworld_scheme, perr, unit) io" where
  "RunWithOther p option f =
     (if \<not> dualRootPartitions p then throw ErrNoDualPartition
      else if option = RW then
        andThen (remountOther p RW)
          (deferIO
             (andThen (bindmountRequiredFilesystems p)
                (deferIO (f mountTarget) (afterwards unmountRequiredFilesystems)))
             (afterwards (remountOther p RO)))
      else f mountTarget)"

text \<open>
  \<^verbatim>\<open>getPartitionDetails\<close>, called by \<^verbatim>\<open>New\<close>, which drops its error: the partitions that
  were read stay in the object even when detection fails.
\<close>

definition getPartitionDetails ::
    "(perr, string list) res \<Rightarrow> Partition \<Rightarrow> ('m pworld_scheme, perr, unit) io \<times> Partition" where
  "getPartitionDetails lsblk p =
     (case loadPartitionDetails lsblk of
        Inl e \<Rightarrow> (throw e, p\<lparr>partitions := []\<rparr>)
      | Inr parts \<Rightarrow>
          (let p = p\<lparr>partitions := parts\<rparr>
           in (if \<not> dualRootPartitions p \<and> \<not> singleRootPartition p then throw ErrPartitionDetection
               else if dualRootPartitions p then ensureOtherMountedRO p
               else ret (), p)))"

definition isPanic :: "(perr, 'a) res \<Rightarrow> bool" where
  "isPanic r = (case r of Inl (Panic _) \<Rightarrow> True | _ \<Rightarrow> False)"

definition New :: "(perr, string list) res \<Rightarrow> ('m pworld_scheme, perr, Partition) io" where
  "New lsblk =
     (case getPartitionDetails lsblk \<lparr>partitions = []\<rparr> of
        (m, p) \<Rightarrow>
          bind (attempt m) (\<lambda>r. (case r of Inl (Panic s) \<Rightarrow> throw (Panic s) | _ \<Rightarrow> ret p)))"

section \<open>Facts about the partition table\<close>

lemma rootPartitions_labels:
  "part \<in> set (rootPartitions p) \<Longrightarrow> name part \<in> {rootfsAlabel, rootfsBlabel}"
  by (auto simp: rootPartitions_def rootPartitionLabels_def)

lemma find_filter_Some: "find P xs = Some x \<Longrightarrow> x \<in> set xs \<and> P x"
  by (induction xs) (auto split: if_splits)

lemma rootPartition_Some:
  "rootPartition p = Some d \<Longrightarrow> d \<in> set (rootPartitions p) \<and> mountpoint d = ''/''"
  unfolding rootPartition_def by (rule find_filter_Some)

lemma otherRootPartition_Some:
  "otherRootPartition p = Some d \<Longrightarrow> d \<in> set (rootPartitions p) \<and> mountpoint d \<noteq> ''/''"
  unfolding otherRootPartition_def by (rule find_filter_Some)

text \<open>What loading promises of every device.\<close>

definition wfDevice :: "blockDevice \<Rightarrow> bool" where
  "wfDevice d \<longleftrightarrow> name d \<in> set allPartitionLabels \<and> shortName d = [last (name d)]"

lemma loadLines_wf: "loadLines lines = Inr ds \<Longrightarrow> list_all wfDevice ds"
proof (induction lines arbitrary: ds)
  case (Cons line lines)
  from Cons.prems obtain fds where
    f: "lsblkFields Map.empty (lsblkTokens line) = Inr fds"
    by (auto simp: rbind_eq_Inr)
  show ?case
  proof (cases "fds ''LABEL''")
    case None
    with Cons f show ?thesis by simp
  next
    case (Some n)
    show ?thesis
    proof (cases "n = [] \<or> n = [quote, quote] \<or> n \<notin> set allPartitionLabels")
      case True
      with Cons f Some show ?thesis by (auto split: if_splits)
    next
      case False
      with Cons f Some show ?thesis by (auto simp: rbind_eq_Inr wfDevice_def)
    qed
  qed
qed simp

lemma wfDevice_root_short:
  "wfDevice d \<Longrightarrow> d \<in> set (rootPartitions p) \<Longrightarrow> shortName d \<in> {''a'', ''b''}"
  using rootPartitions_labels [of d p] by (auto simp: wfDevice_def go_defs)

section \<open>Facts about the mount list\<close>

lemma runCommand_ok:
  "args \<noteq> [] \<Longrightarrow> runCommand args w = (Inr (), w') \<longleftrightarrow>
     \<not> faults w (hist w) (ECmd args) \<and> w' = w\<lparr>hist := ECmd args # hist w\<rparr>"
  by (auto simp: runCommand_def fallible_def Let_def)

lemma mount_world: "snd (mount s t opts w) = w\<lparr>hist := hist (snd (mount s t opts w))\<rparr>"
  by (simp add: mount_def runCommand_def fallible_world)

lemma unmount_ok:
  "unmountAndRemoveFromGlobalMountList t w = (Inr (), w') \<Longrightarrow>
     w' = w\<lparr>hist := ECmd [''/bin/umount'', t] # hist w, mounts := removeMountByTarget (mounts w) t\<rparr>"
  by (auto simp: unmountAndRemoveFromGlobalMountList_def andThen_Inr runCommand_ok)

definition umountEvent :: "mountEntry \<Rightarrow> event" where
  "umountEvent m = ECmd [''/bin/umount'', target m]"

lemma undo_loop:
  assumes "forEach ms (\<lambda>m. if only \<and> \<not> bindMount m then ret ()
     else unmountAndRemoveFromGlobalMountList (target m)) w = (Inr (), w')"
  shows "let gone = filter (\<lambda>m. \<not> only \<or> bindMount m) ms
    in hist w' = rev (map umountEvent gone) @ hist w \<and>
       mounts w' = filter (\<lambda>m. target m \<notin> target ` set gone) (mounts w)"
  using assms
proof (induction ms arbitrary: w)
  case (Cons m ms)
  show ?case
  proof (cases "only \<and> \<not> bindMount m")
    case True
    with Cons.prems Cons.IH [of w] show ?thesis by (simp add: Let_def)
  next
    case False
    with Cons.prems obtain w1 where
      u: "unmountAndRemoveFromGlobalMountList (target m) w = (Inr (), w1)"
      and r: "forEach ms (\<lambda>m. if only \<and> \<not> bindMount m then ret ()
        else unmountAndRemoveFromGlobalMountList (target m)) w1 = (Inr (), w')"
      by (auto simp: andThen_Inr)
    from unmount_ok [OF u] have h: "hist w1 = umountEvent m # hist w"
      and m: "mounts w1 = removeMountByTarget (mounts w) (target m)"
      by (simp_all add: umountEvent_def)
    from Cons.IH [OF r] False h m show ?thesis
      by (auto simp: Let_def removeMountByTarget_def intro: filter_cong)
  qed
qed simp

lemma reverseSorted_set [simp]: "set (reverseSorted ms) = set ms"
  by (simp add: reverseSorted_def)

lemma reverseSorted_sorted: "sorted_wrt (\<lambda>a b. target b \<le> target a) (reverseSorted ms)"
proof -
  have "sorted (map target (sort_key target ms))" by simp
  then show ?thesis
    by (simp add: reverseSorted_def sorted_wrt_rev sorted_wrt_map)
qed

lemma append_le_string: "(s :: string) \<le> s @ t"
  by (induction s) (auto simp: Cons_le_Cons)

lemma undoMounts_ok:
  assumes "undoMounts only w = (Inr (), w')"
  shows "let gone = filter (\<lambda>m. \<not> only \<or> bindMount m) (reverseSorted (mounts w))
    in hist w' = rev (map umountEvent gone) @ hist w \<and>
       mounts w' = filter (\<lambda>m. target m \<notin> target ` set gone) (mounts w)"
proof -
  from assms have "forEach (reverseSorted (mounts w)) (\<lambda>m. if only \<and> \<not> bindMount m then ret ()
     else unmountAndRemoveFromGlobalMountList (target m)) w = (Inr (), w')"
    by (simp add: undoMounts_def)
  then show ?thesis by (rule undo_loop)
qed

lemma undoMounts_no_binds:
  "undoMounts True w = (Inr (), w') \<Longrightarrow> m \<in> set (mounts w') \<Longrightarrow> \<not> bindMount m"
  using undoMounts_ok [of True w w'] by (auto simp: Let_def)

lemma undoMounts_all:
  "undoMounts False w = (Inr (), w') \<Longrightarrow> mounts w' = []"
  using undoMounts_ok [of False w w'] by (auto simp: Let_def filter_empty_conv)

section \<open>Properties\<close>

lemma fst_snd_eq: "m w = (fst (m w), snd (m w))"
  by simp

lemma afterwards_snd: "snd (afterwards c r w) = snd (c w)"
  by (cases "fst (c w)"; cases r) (simp_all add: afterwards_def bind_def)

lemma afterwards_fst:
  "fst (afterwards c r w) = (case r of Inl e \<Rightarrow> Inl e | Inr _ \<Rightarrow> fst (c w))"
  by (cases "fst (c w)"; cases r) (simp_all add: afterwards_def bind_def)

lemma remountRO_hist:
  "otherRootPartition p = Some d \<Longrightarrow>
     snd (remountOther p RO w) =
       w\<lparr>hist := ECmd [''/bin/mount'', ''-oremount,ro'', device d, mountTarget] # hist w\<rparr>"
  by (simp add: remountOther_def mount_def runCommand_def fallible_world)

lemma RunWithOther_RW:
  assumes "dualRootPartitions p" and "remountOther p RW w = (Inr (), w1)"
  shows "RunWithOther p RW f w =
    afterwards (remountOther p RO)
      (fst (andThen (bindmountRequiredFilesystems p)
        (deferIO (f mountTarget) (afterwards unmountRequiredFilesystems)) w1))
      (snd (andThen (bindmountRequiredFilesystems p)
        (deferIO (f mountTarget) (afterwards unmountRequiredFilesystems)) w1))"
  using assms by (simp add: RunWithOther_def andThen_ok)


definition calmWorld :: pworld where
  "calmWorld = \<lparr>fs = [], hist = [], faults = (\<lambda>_ _. False), mounts = []\<rparr>"

definition dualPartition :: Partition where
  "dualPartition = \<lparr>partitions =
     [\<lparr>name = ''system-a'', shortName = ''a'', device = ''/dev/sda3'', parentName = ''/dev/sda'',
       mountpoint = ''/''\<rparr>,
      \<lparr>name = ''system-b'', shortName = ''b'', device = ''/dev/sda4'', parentName = ''/dev/sda'',
       mountpoint = ''''\<rparr>]\<rparr>"

lemma dualPartition_facts:
  "dualRootPartitions dualPartition"
  "otherRootPartition dualPartition = Some (partitions dualPartition ! 1)"
  by (simp_all add: dualPartition_def otherRootPartition_def dualRootPartitions_def
      rootPartitions_def rootPartitionLabels_def go_defs)

lemma calm_remount: "fst (remountOther dualPartition RW calmWorld) = Inr ()"
  using dualPartition_facts(2)
  by (simp add: remountOther_def unmountOtherRootfs_def unmountAndRemoveFromGlobalMountList_def
      fsck_def mountAndAddToGlobalMountList_def mount_def runCommand_def fallible_def andThen_def
      bind_def calmWorld_def Let_def)


text \<open>
  \<^verbatim>\<open>undoMounts\<close> unmounts in an order that works: it runs one \<^verbatim>\<open>umount\<close> per recorded
  mount it selects, no mount point before one below it, and afterwards none of the selected
  mounts is recorded any more.
\<close>

lemma undoMounts_order:
  assumes "undoMounts only w = (Inr (), w')"
  shows "\<exists>gone. hist w' = rev (map umountEvent gone) @ hist w
    \<and> set gone = {m \<in> set (mounts w). \<not> only \<or> bindMount m}
    \<and> (\<forall>i j. i < j \<and> j < length gone \<longrightarrow> \<not> hasPrefix (target (gone ! j)) (target (gone ! i) @ ''/''))
    \<and> (\<forall>m \<in> set (mounts w'). only \<and> \<not> bindMount m)"
proof (intro exI conjI)
  let ?gone = "filter (\<lambda>m. \<not> only \<or> bindMount m) (reverseSorted (mounts w))"
  note u = undoMounts_ok [OF assms, unfolded Let_def]
  show "hist w' = rev (map umountEvent ?gone) @ hist w" using u by simp
  show "set ?gone = {m \<in> set (mounts w). \<not> only \<or> bindMount m}" by auto
  have s: "sorted_wrt (\<lambda>a b. target b \<le> target a) ?gone"
    using reverseSorted_sorted by (rule sorted_wrt_filter)
  show "\<forall>i j. i < j \<and> j < length ?gone \<longrightarrow>
      \<not> hasPrefix (target (?gone ! j)) (target (?gone ! i) @ ''/'')"
  proof (intro allI impI notI)
    fix i j assume ij: "i < j \<and> j < length ?gone"
      and pre: "hasPrefix (target (?gone ! j)) (target (?gone ! i) @ ''/'')"
    from s ij have le: "target (?gone ! j) \<le> target (?gone ! i)"
      by (simp add: sorted_wrt_iff_nth_less)
    from pre obtain r where r: "target (?gone ! j) = target (?gone ! i) @ slash # r"
      by (auto simp: hasPrefix_iff)
    with append_le_string [of "target (?gone ! i)" "slash # r"] le
    have "target (?gone ! i) @ slash # r = target (?gone ! i)" by auto
    then show False by simp
  qed
  show "\<forall>m \<in> set (mounts w'). only \<and> \<not> bindMount m" using u by auto
qed

end
