(* ===== verification/Bootloader.thy ===== *)
theory Bootloader
  imports Partition
begin

text \<open>
  Boot loaders, \<^verbatim>\<open>partition/bootloader.go\<close>, \<^verbatim>\<open>partition/bootloader_uboot.go\<close>,
  \<^verbatim>\<open>partition/bootloader_grub.go\<close>, \<^verbatim>\<open>partition/assets.go\<close> and the part of
  \<^verbatim>\<open>partition/partition.go\<close> that uses them. The stored boot variables are reached through
  three back ends (grub's environment block, the u-boot environment, the deprecated u-boot
  text file); the locale \<open>boot_env\<close> is what the callers rely on, and each back end is an
  interpretation of it. The tools behind the back ends are the parameter \<open>boottools\<close>.
\<close>

section \<open>Names and tools\<close>

definition bootloaderRootfsVar :: string where "bootloaderRootfsVar = ''snappy_ab''"
definition bootloaderBootmodeVar :: string where "bootloaderBootmodeVar = ''snappy_mode''"
definition bootloaderTrialBootVar :: string where "bootloaderTrialBootVar = ''snappy_trial_boot''"
definition bootloaderBootmodeTry :: string where "bootloaderBootmodeTry = ''try''"
definition bootloaderBootmodeSuccess :: string where "bootloaderBootmodeSuccess = ''regular''"
definition bootloaderSystemAB :: string where "bootloaderSystemAB = ''system-AB''"

lemmas bootvar_defs [go_defs] =
  bootloaderRootfsVar_def bootloaderBootmodeVar_def bootloaderTrialBootVar_def
  bootloaderBootmodeTry_def bootloaderBootmodeSuccess_def

definition bootloaderUbootDir :: string where "bootloaderUbootDir = ''/boot/uboot''"
definition bootloaderUbootConfigFile :: string where "bootloaderUbootConfigFile = ''/boot/uboot/uEnv.txt''"
definition bootloaderUbootStampFile :: string where "bootloaderUbootStampFile = ''/boot/uboot/snappy-stamp.txt''"
definition bootloaderUbootEnvFile :: string where "bootloaderUbootEnvFile = ''/boot/uboot/snappy-system.txt''"
definition bootloaderUbootFwEnvFile :: string where "bootloaderUbootFwEnvFile = ''/boot/uboot/uboot.env''"
definition bootloaderGrubDir :: string where "bootloaderGrubDir = ''/boot/grub''"
definition bootloaderGrubConfigFile :: string where "bootloaderGrubConfigFile = ''/boot/grub/grub.cfg''"
definition bootloaderGrubEnvFile :: string where "bootloaderGrubEnvFile = ''/boot/grub/grubenv''"
definition bootloaderGrubEnvCmd :: string where "bootloaderGrubEnvCmd = ''/usr/bin/grub-editenv''"
definition hardwareSpecFile :: string where "hardwareSpecFile = ''/writable/cache/hardware.yaml''"
definition flashAssetsDir :: string where "flashAssetsDir = ''/writable/cache/flashtool-assets''"

text \<open>The contents of \<^verbatim>\<open>hardware.yaml\<close>.\<close>

record hardwareSpecType =
  Kernel :: string
  Initrd :: string
  DtbDir :: string
  PartitionLayout :: string
  HwBootloader :: string

text \<open>
  The code outside the repository: the ini parser (\<^verbatim>\<open>goconfigparser\<close>, without section
  headers), \<^verbatim>\<open>grub-editenv\<close> on the contents of its file, the u-boot environment
  library (\<^verbatim>\<open>uenv\<close>) on the contents of its file, and the yaml decoder on
  \<^verbatim>\<open>hardware.yaml\<close>.
\<close>

record boottools =
  cfgRead :: "string \<Rightarrow> perr option"
  cfgGet :: "string \<Rightarrow> string \<Rightarrow> (perr, string) res"
  cfgNoOption :: "string \<Rightarrow> perr"
  editenvSet :: "string \<Rightarrow> string \<Rightarrow> string"
  editenvList :: "string \<Rightarrow> string"
  uenvOpen :: "string \<Rightarrow> perr option"
  uenvGet :: "string \<Rightarrow> string \<Rightarrow> string"
  uenvSet :: "string \<Rightarrow> string \<Rightarrow> string \<Rightarrow> string"
  hwYaml :: "string \<Rightarrow> (perr, hardwareSpecType) res"

section \<open>Files\<close>

definition fileExists :: "string \<Rightarrow> 'm world_scheme \<Rightarrow> bool" where
  "fileExists p w =
     (case fget (fs w) p of
        None \<Rightarrow> False
      | Some (FLink t) \<Rightarrow> fget (fs w) (pathJoin [pathDir p, t]) \<noteq> None
      | Some _ \<Rightarrow> True)"

definition readFile :: "string \<Rightarrow> ('m world_scheme, perr, string) io" where
  "readFile p =
     bind (gets (\<lambda>w. fget (fs w) p)) (\<lambda>n.
       (case n of Some (FFile c) \<Rightarrow> ret c | _ \<Rightarrow> throw (ErrSys (ECall (''open '' @ p)))))"

definition contentOf :: "string \<Rightarrow> 'm world_scheme \<Rightarrow> string" where
  "contentOf p w = (case fget (fs w) p of Some (FFile c) \<Rightarrow> c | _ \<Rightarrow> '''')"

definition atomicWriteFile :: "string \<Rightarrow> string \<Rightarrow> ('m world_scheme, perr, unit) io" where
  "atomicWriteFile p c =
     andThen (fallible (ErrSys (EWrite p)) (EWrite p))
       (modifies (\<lambda>w. w\<lparr>fs := fput (fs w) p (FFile c)\<rparr>))"

text \<open>\<^verbatim>\<open>os.RemoveAll\<close>: the path and everything below it; a missing path is no error.\<close>

definition below :: "string \<Rightarrow> string \<Rightarrow> bool" where
  "below p q \<longleftrightarrow> q = p \<or> hasPrefix q (p @ ''/'')"

definition osRemoveAll :: "string \<Rightarrow> ('m world_scheme, perr, unit) io" where
  "osRemoveAll p =
     andThen (fallible (ErrSys (ERemoveAll p)) (ERemoveAll p))
       (modifies (\<lambda>w. w\<lparr>fs := fdrop (below p) (fs w)\<rparr>))"

definition osRemove :: "string \<Rightarrow> ('m world_scheme, perr, unit) io" where
  "osRemove p =
     andThen (fallible (ErrSys (ERemove p)) (ERemove p))
       (bind (gets (\<lambda>w. fget (fs w) p)) (\<lambda>n.
          if n = None then throw (ErrSys (ERemove p))
          else modifies (\<lambda>w. w\<lparr>fs := fdrop (\<lambda>q. q = p) (fs w)\<rparr>)))"

section \<open>The u-boot text file\<close>

record configFileChange =
  Name :: string
  Value :: string

record modState =
  mLine :: string
  mUpdated :: "configFileChange list"
  mNeeded :: bool

definition modifyOne :: "configFileChange \<Rightarrow> modState \<Rightarrow> modState" where
  "modifyOne ch st =
     (if hasPrefix (mLine st) (Name ch @ ''='') then
        (let v = splitN2 (CHR ''='') (mLine st) ! 1;
             st = st\<lparr>mUpdated := mUpdated st @ [ch]\<rparr>
         in if v \<noteq> Value ch then st\<lparr>mLine := Name ch @ ''='' @ Value ch, mNeeded := True\<rparr> else st)
      else st)"

fun modifyLines ::
    "configFileChange list \<Rightarrow> string list \<Rightarrow> configFileChange list \<Rightarrow> bool
     \<Rightarrow> string list \<times> configFileChange list \<times> bool" where
  "modifyLines changes [] upd need = ([], upd, need)"
| "modifyLines changes (l # ls) upd need =
     (let st = fold modifyOne changes \<lparr>mLine = l, mUpdated = upd, mNeeded = need\<rparr>;
          (ls', upd', need') = modifyLines changes ls (mUpdated st) (mNeeded st)
      in (mLine st # ls', upd', need'))"

definition appendMissing ::
    "configFileChange list \<Rightarrow> configFileChange list \<Rightarrow> string list" where
  "appendMissing changes upd =
     map (\<lambda>ch. Name ch @ ''='' @ Value ch)
       (filter (\<lambda>ch. \<not> list_ex (\<lambda>u. Name u = Name ch) upd) changes)"

text \<open>The new contents, when the file has to be written.\<close>

definition modifiedContent :: "configFileChange list \<Rightarrow> string \<Rightarrow> string option" where
  "modifiedContent changes content =
     (let (ls, upd, need) = modifyLines changes (scanLines content) [] False;
          extra = appendMissing changes upd
      in if need \<or> extra \<noteq> [] then Some (printLines (ls @ extra)) else None)"

definition modifyNameValueFile ::
    "string \<Rightarrow> configFileChange list \<Rightarrow> ('m world_scheme, perr, unit) io" where
  "modifyNameValueFile path changes =
     bind (readFile path) (\<lambda>content.
       (case modifiedContent changes content of
          None \<Rightarrow> ret ()
        | Some c \<Rightarrow> atomicWriteFile path c))"

section \<open>The three back ends\<close>

definition getBootVarLegacy :: "boottools \<Rightarrow> string \<Rightarrow> ('m world_scheme, perr, string) io" where
  "getBootVarLegacy bt n =
     bind (attempt (readFile bootloaderUbootEnvFile)) (\<lambda>r.
       (case r of
          Inl _ \<Rightarrow> ret ''''
        | Inr c \<Rightarrow>
            (case cfgRead bt c of
               Some _ \<Rightarrow> ret ''''
             | None \<Rightarrow> (case cfgGet bt c n of Inl e \<Rightarrow> throw e | Inr v \<Rightarrow> ret v))))"

definition setBootVarLegacy :: "boottools \<Rightarrow> string \<Rightarrow> string \<Rightarrow> ('m world_scheme, perr, unit) io" where
  "setBootVarLegacy bt n v =
     bind (attempt (getBootVarLegacy bt n)) (\<lambda>cur.
       if cur = Inr v then ret ()
       else modifyNameValueFile bootloaderUbootEnvFile [\<lparr>Name = n, Value = v\<rparr>])"

definition uenvOpenIO :: "boottools \<Rightarrow> ('m world_scheme, perr, string) io" where
  "uenvOpenIO bt =
     bind (readFile bootloaderUbootFwEnvFile) (\<lambda>c.
       (case uenvOpen bt c of Some e \<Rightarrow> throw e | None \<Rightarrow> ret c))"

definition setBootVarFwEnv :: "boottools \<Rightarrow> string \<Rightarrow> string \<Rightarrow> ('m world_scheme, perr, unit) io" where
  "setBootVarFwEnv bt n v =
     bind (uenvOpenIO bt) (\<lambda>env.
       if uenvGet bt env n = v then ret ()
       else atomicWriteFile bootloaderUbootFwEnvFile (uenvSet bt env n v))"

definition getBootVarFwEnv :: "boottools \<Rightarrow> string \<Rightarrow> ('m world_scheme, perr, string) io" where
  "getBootVarFwEnv bt n = bind (uenvOpenIO bt) (\<lambda>env. ret (uenvGet bt env n))"

definition grubGetBootVar :: "boottools \<Rightarrow> string \<Rightarrow> ('m world_scheme, perr, string) io" where
  "grubGetBootVar bt n =
     andThen (runCommand [bootloaderGrubEnvCmd, bootloaderGrubEnvFile, ''list''])
       (bind (gets (\<lambda>w. editenvList bt (contentOf bootloaderGrubEnvFile w))) (\<lambda>output.
          (case cfgRead bt output of
             Some e \<Rightarrow> throw e
           | None \<Rightarrow> (case cfgGet bt output n of Inl e \<Rightarrow> throw e | Inr v \<Rightarrow> ret v))))"

definition grubSetBootVar :: "boottools \<Rightarrow> string \<Rightarrow> string \<Rightarrow> ('m world_scheme, perr, unit) io" where
  "grubSetBootVar bt n v =
     (let arg = n @ ''='' @ v
      in andThen (runCommand [bootloaderGrubEnvCmd, bootloaderGrubEnvFile, ''set'', arg])
           (modifies (\<lambda>w. w\<lparr>fs := fput (fs w) bootloaderGrubEnvFile
              (FFile (editenvSet bt (contentOf bootloaderGrubEnvFile w) arg))\<rparr>)))"

section \<open>Boot loader objects\<close>

datatype ubootEnv = FwEnv | LegacyEnv

datatype bootKind = Uboot ubootEnv | Grub

record bootLoader =
  kind :: bootKind
  currentRootfs :: string
  otherRootfs :: string
  currentBootPath :: string
  otherBootPath :: string
  bootloaderDir :: string

text \<open>
  \<^verbatim>\<open>newBootLoader\<close>: \<open>None\<close> on a system without a second root partition. A system whose
  root partitions are both not mounted at the root makes it dereference a nil pointer.
\<close>

definition newBootLoader ::
    "Partition \<Rightarrow> bootKind \<Rightarrow> string \<Rightarrow> (perr, bootLoader option) res" where
  "newBootLoader p k dir =
     (case otherRootPartition p of
        None \<Rightarrow> Inr None
      | Some other \<Rightarrow>
          (case rootPartition p of
             None \<Rightarrow> Inl (Panic ''nil pointer dereference'')
           | Some cur \<Rightarrow>
               (let c = [last (name cur)]; o' = [last (name other)]
                in Inr (Some \<lparr>kind = k, currentRootfs = c, otherRootfs = o',
                     currentBootPath = pathJoin [dir, c], otherBootPath = pathJoin [dir, o'],
                     bootloaderDir = dir\<rparr>))))"

definition newUboot :: "Partition \<Rightarrow> 'm world_scheme \<Rightarrow> (perr, bootLoader option) res" where
  "newUboot p w =
     (if \<not> fileExists bootloaderUbootConfigFile w then Inr None
      else newBootLoader p
        (Uboot (if fileExists bootloaderUbootFwEnvFile w then FwEnv else LegacyEnv)) bootloaderUbootDir)"

definition newGrub :: "Partition \<Rightarrow> 'm world_scheme \<Rightarrow> (perr, bootLoader option) res" where
  "newGrub p w =
     (if \<not> fileExists bootloaderGrubConfigFile w then Inr None
      else newBootLoader p Grub bootloaderGrubDir)"

definition bootloader :: "Partition \<Rightarrow> ('m world_scheme, perr, bootLoader) io" where
  "bootloader p = (\<lambda>w.
     (case newUboot p w of
        Inl e \<Rightarrow> (Inl e, w)
      | Inr (Some u) \<Rightarrow> (Inr u, w)
      | Inr None \<Rightarrow>
          (case newGrub p w of
             Inl e \<Rightarrow> (Inl e, w)
           | Inr (Some g) \<Rightarrow> (Inr g, w)
           | Inr None \<Rightarrow> (Inl ErrBootloader, w))))"

definition GetBootVar :: "boottools \<Rightarrow> bootLoader \<Rightarrow> string \<Rightarrow> ('m world_scheme, perr, string) io" where
  "GetBootVar bt b =
     (case kind b of
        Uboot FwEnv \<Rightarrow> getBootVarFwEnv bt
      | Uboot LegacyEnv \<Rightarrow> getBootVarLegacy bt
      | Grub \<Rightarrow> grubGetBootVar bt)"

definition setBootVar ::
    "boottools \<Rightarrow> bootLoader \<Rightarrow> string \<Rightarrow> string \<Rightarrow> ('m world_scheme, perr, unit) io" where
  "setBootVar bt b =
     (case kind b of
        Uboot FwEnv \<Rightarrow> setBootVarFwEnv bt
      | Uboot LegacyEnv \<Rightarrow> setBootVarLegacy bt
      | Grub \<Rightarrow> grubSetBootVar bt)"

text \<open>The two boot loaders write the two variables in opposite orders.\<close>

definition ToggleRootFS :: "boottools \<Rightarrow> bootLoader \<Rightarrow> string \<Rightarrow> ('m world_scheme, perr, unit) io" where
  "ToggleRootFS bt b other =
     (case kind b of
        Uboot _ \<Rightarrow>
          andThen (setBootVar bt b bootloaderRootfsVar other)
            (setBootVar bt b bootloaderBootmodeVar bootloaderBootmodeTry)
      | Grub \<Rightarrow>
          andThen (setBootVar bt b bootloaderBootmodeVar bootloaderBootmodeTry)
            (setBootVar bt b bootloaderRootfsVar other))"

definition GetNextBootRootFSName :: "boottools \<Rightarrow> bootLoader \<Rightarrow> ('m world_scheme, perr, string) io" where
  "GetNextBootRootFSName bt b = GetBootVar bt b bootloaderRootfsVar"

definition MarkCurrentBootSuccessful ::
    "boottools \<Rightarrow> bootLoader \<Rightarrow> string \<Rightarrow> ('m world_scheme, perr, unit) io" where
  "MarkCurrentBootSuccessful bt b current =
     andThen (setBootVar bt b bootloaderTrialBootVar ''0'')
       (andThen (setBootVar bt b bootloaderRootfsVar current)
          (andThen (setBootVar bt b bootloaderBootmodeVar bootloaderBootmodeSuccess)
             (case kind b of
                Uboot _ \<Rightarrow> osRemoveAll bootloaderUbootStampFile
              | Grub \<Rightarrow> ret ())))"

definition BootDir :: "bootLoader \<Rightarrow> string" where
  "BootDir b = (case kind b of Uboot _ \<Rightarrow> bootloaderUbootDir | Grub \<Rightarrow> bootloaderGrubDir)"

definition BootloaderDir :: "'m world_scheme \<Rightarrow> string" where
  "BootloaderDir w =
     (if fileExists bootloaderUbootDir w then bootloaderUbootDir
      else if fileExists bootloaderGrubDir w then bootloaderGrubDir
      else '''')"

section \<open>Boot assets\<close>

text \<open>
  \<^verbatim>\<open>helpers.CopyIfDifferent\<close> and \<^verbatim>\<open>helpers.RSyncWithDelete\<close> as calls with a result.
\<close>

definition copyTo :: "string \<Rightarrow> string \<Rightarrow> ('m world_scheme, perr, unit) io" where
  "copyTo src dst =
     andThen (fallible (ErrSys (ECopy src dst)) (ECopy src dst))
       (bind (gets (\<lambda>w. fget (fs w) src)) (\<lambda>n.
          (case n of
             Some (FFile c) \<Rightarrow> modifies (\<lambda>w. w\<lparr>fs := fput (fs w) dst (FFile c)\<rparr>)
           | _ \<Rightarrow> throw (ErrSys (ECopy src dst)))))"

definition CopyIfDifferent :: "string \<Rightarrow> string \<Rightarrow> ('m world_scheme, perr, unit) io" where
  "CopyIfDifferent src dst =
     bind (gets (\<lambda>w. (fget (fs w) src, fget (fs w) dst))) (\<lambda>(a, b).
       if a \<noteq> None \<and> a = b then ret () else copyTo src dst)"

text \<open>The entries below a directory, moved below another one.\<close>

definition rebase :: "string \<Rightarrow> string \<Rightarrow> string \<Rightarrow> string" where
  "rebase src dst p = dst @ drop (length src) p"

definition RSyncWithDelete :: "string \<Rightarrow> string \<Rightarrow> ('m world_scheme, perr, unit) io" where
  "RSyncWithDelete src dst =
     andThen (fallible (ErrSys (ECopy src dst)) (ECopy src dst))
       (modifies (\<lambda>w. w\<lparr>fs :=
          map (\<lambda>(p, n). (rebase src dst p, n))
            (filter (\<lambda>(p, n). below src p \<and> p \<noteq> src) (fs w))
          @ fdrop (\<lambda>p. below dst p \<and> p \<noteq> dst) (fs w)\<rparr>))"

text \<open>\<^verbatim>\<open>bootAssets\<close> is a Go map; \<open>assets\<close> lists its entries in the order of the iteration.\<close>

definition SyncBootFiles ::
    "bootLoader \<Rightarrow> (string \<times> string) list \<Rightarrow> ('m world_scheme, perr, unit) io" where
  "SyncBootFiles b assets =
     andThen
       (forEach assets (\<lambda>(src, dst). CopyIfDifferent src (pathJoin [bootloaderDir b, dst])))
       (let srcDir = currentBootPath b; destDir = otherBootPath b
        in andThen (forEach [srcDir, destDir] osMkdirAll) (RSyncWithDelete srcDir destDir))"

definition normalizeKernelInitrdName :: "string \<Rightarrow> string" where
  "normalizeKernelInitrdName n = splitN2 (CHR ''-'') (pathBase n) ! 0"

definition readHardwareSpec :: "boottools \<Rightarrow> ('m world_scheme, perr, hardwareSpecType) io" where
  "readHardwareSpec bt =
     bind (gets (\<lambda>w. fget (fs w) hardwareSpecFile)) (\<lambda>n.
       (case n of
          None \<Rightarrow> throw ErrNoHardwareYaml
        | Some (FFile data) \<Rightarrow> (case hwYaml bt data of Inl e \<Rightarrow> throw e | Inr h \<Rightarrow> ret h)
        | Some _ \<Rightarrow> throw (ErrSys (ECall (''open '' @ hardwareSpecFile)))))"

text \<open>
  \<^verbatim>\<open>/bin/cp\<close> into a file or a directory. The deferred clean-ups of \<^verbatim>\<open>HandleAssets\<close> are
  collected in the order they are registered and run in reverse when the function has
  not failed.
\<close>

definition cpCommand :: "string \<Rightarrow> string \<Rightarrow> ('m world_scheme, perr, unit) io" where
  "cpCommand src dst =
     andThen (runCommand [''/bin/cp'', src, dst])
       (modifies (\<lambda>w.
          (case fget (fs w) src of
             Some (FFile c) \<Rightarrow>
               w\<lparr>fs := fput (fs w)
                 (if fget (fs w) dst = Some FDir then pathJoin [dst, pathBase src] else dst) (FFile c)\<rparr>
           | _ \<Rightarrow> w)))"

fun installKernelInitrd ::
    "string \<Rightarrow> string list \<Rightarrow> string list \<Rightarrow> ('m world_scheme, perr, string list) io" where
  "installKernelInitrd destDir [] cleanup = ret cleanup"
| "installKernelInitrd destDir (file # files) cleanup =
     (if file = '''' then installKernelInitrd destDir files cleanup
      else
        (let path = pathJoin [cacheDir, file]
         in bind (gets (fileExists path)) (\<lambda>ex.
              if \<not> ex then installKernelInitrd destDir files cleanup
              else andThen (cpCommand path (pathJoin [destDir, normalizeKernelInitrdName file]))
                     (installKernelInitrd destDir files (cleanup @ [pathDir path])))))"

definition installDtbs ::
    "string \<Rightarrow> hardwareSpecType \<Rightarrow> string list \<Rightarrow> ('m world_scheme, perr, string list) io" where
  "installDtbs destDir hw cleanup =
     (let dtbSrcDir = pathJoin [cacheDir, DtbDir hw]
      in bind (gets (fileExists dtbSrcDir)) (\<lambda>ex.
           if DtbDir hw \<noteq> '''' \<and> ex then
             (let dtbDestDir = pathJoin [destDir, ''dtbs'']
              in andThen (osMkdirAll dtbDestDir)
                   (bind (gets (\<lambda>w. listDir (fs w) dtbSrcDir)) (\<lambda>files.
                      andThen (forEach files (\<lambda>file. cpCommand file dtbDestDir))
                        (ret (cleanup @ [dtbSrcDir])))))
           else ret cleanup))"

definition HandleAssets :: "boottools \<Rightarrow> Partition \<Rightarrow> bootLoader \<Rightarrow> ('m world_scheme, perr, unit) io" where
  "HandleAssets bt p b =
     bind (attempt (readHardwareSpec bt)) (\<lambda>r.
       (case r of
          Inl e \<Rightarrow> if e = ErrNoHardwareYaml then ret () else throw e
        | Inr hw \<Rightarrow>
            (if dualRootPartitions p \<and> PartitionLayout hw \<noteq> bootloaderSystemAB
             then throw (ErrText ''hardware spec requires dual root partitions'')
             else
               (let destDir = otherBootPath b
                in andThen (osMkdirAll destDir)
                     (bind (installKernelInitrd destDir [Kernel hw, Initrd hw] []) (\<lambda>c1.
                       bind (installDtbs destDir hw c1) (\<lambda>c2.
                         bind (gets (fileExists flashAssetsDir)) (\<lambda>ex.
                           andThen (whenIO ex (osRemoveAll flashAssetsDir))
                             (andThen (forEach (rev c2) (\<lambda>d. ignoring (osRemoveAll d)))
                                (ignoring (osRemove hardwareSpecFile)))))))))))"

section \<open>Switching the root file system\<close>

definition toggleBootloaderRootfs :: "boottools \<Rightarrow> Partition \<Rightarrow> ('m world_scheme, perr, unit) io" where
  "toggleBootloaderRootfs bt p =
     (if \<not> dualRootPartitions p then throw (ErrText ''System is not dual root'')
      else
        bind (bootloader p) (\<lambda>b.
          andThen (HandleAssets bt p b)
            (case otherRootPartition p of
               None \<Rightarrow> nilDeref
             | Some other \<Rightarrow> ToggleRootFS bt b (shortName other))))"

definition ToggleNextBoot :: "boottools \<Rightarrow> Partition \<Rightarrow> ('m world_scheme, perr, unit) io" where
  "ToggleNextBoot bt p = (if dualRootPartitions p then toggleBootloaderRootfs bt p else ret ())"

definition MarkBootSuccessful :: "boottools \<Rightarrow> Partition \<Rightarrow> ('m world_scheme, perr, unit) io" where
  "MarkBootSuccessful bt p =
     bind (bootloader p) (\<lambda>b.
       (case rootPartition p of
          None \<Rightarrow> nilDeref
        | Some cur \<Rightarrow> MarkCurrentBootSuccessful bt b (shortName cur)))"

text \<open>Errors read as "no"; a nil pointer dereference ends the program.\<close>

definition orFalse :: "('w, perr, bool) io \<Rightarrow> ('w, perr, bool) io" where
  "orFalse m =
     bind (attempt m) (\<lambda>r.
       (case r of Inl (Panic s) \<Rightarrow> throw (Panic s) | Inl _ \<Rightarrow> ret False | Inr x \<Rightarrow> ret x))"

definition IsNextBootOther :: "boottools \<Rightarrow> Partition \<Rightarrow> ('m world_scheme, perr, bool) io" where
  "IsNextBootOther bt p =
     orFalse
       (bind (bootloader p) (\<lambda>b.
          bind (GetBootVar bt b bootloaderBootmodeVar) (\<lambda>value.
            if value \<noteq> bootloaderBootmodeTry then ret False
            else
              bind (GetNextBootRootFSName bt b) (\<lambda>fsname.
                (case otherRootPartition p of
                   None \<Rightarrow> nilDeref
                 | Some other \<Rightarrow> ret (fsname = shortName other))))))"

definition SyncBootloaderFiles ::
    "Partition \<Rightarrow> (string \<times> string) list \<Rightarrow> ('m world_scheme, perr, unit) io" where
  "SyncBootloaderFiles p assets = bind (bootloader p) (\<lambda>b. SyncBootFiles b assets)"

definition partitionBootloaderDir :: "Partition \<Rightarrow> 'm world_scheme \<Rightarrow> string" where
  "partitionBootloaderDir p w =
     (case fst (bootloader p w) of Inl _ \<Rightarrow> '''' | Inr b \<Rightarrow> BootDir b)"

end
