(* ===== verification/BootEnv.thy ===== *)
theory BootEnv
  imports Bootloader
begin

text \<open>
  What the boot loaders promise of the stored boot variables: the locale \<open>boot_env\<close>, its
  interpretations on the three back ends of \<^verbatim>\<open>partition/bootloader_uboot.go\<close> and
  \<^verbatim>\<open>partition/bootloader_grub.go\<close>, and the properties of \<^verbatim>\<open>ToggleNextBoot\<close>,
  \<^verbatim>\<open>MarkBootSuccessful\<close> and \<^verbatim>\<open>IsNextBootOther\<close> that rest on it.
\<close>

section \<open>The interface\<close>

text \<open>Names and values of boot variables: letters, digits, underscores.\<close>

definition wordChar :: "char \<Rightarrow> bool" where
  "wordChar c \<longleftrightarrow> isAlpha c \<or> isDigit c \<or> c = CHR ''_''"

definition plainWord :: "string \<Rightarrow> bool" where
  "plainWord s \<longleftrightarrow> s \<noteq> [] \<and> list_all wordChar s"

lemma plainWord_vars [simp]:
  "plainWord bootloaderRootfsVar" "plainWord bootloaderBootmodeVar"
  "plainWord bootloaderTrialBootVar" "plainWord bootloaderBootmodeTry"
  "plainWord bootloaderBootmodeSuccess" "plainWord ''0''" "plainWord ''a''" "plainWord ''b''"
  by (simp_all add: go_defs plainWord_def wordChar_def isAlpha_def isDigit_def)

lemma bootvars_distinct [simp]:
  "bootloaderRootfsVar \<noteq> bootloaderBootmodeVar" "bootloaderBootmodeVar \<noteq> bootloaderRootfsVar"
  "bootloaderTrialBootVar \<noteq> bootloaderRootfsVar" "bootloaderRootfsVar \<noteq> bootloaderTrialBootVar"
  "bootloaderTrialBootVar \<noteq> bootloaderBootmodeVar" "bootloaderBootmodeVar \<noteq> bootloaderTrialBootVar"
  "bootloaderBootmodeSuccess \<noteq> bootloaderBootmodeTry"
  by (simp_all add: go_defs)

lemma wordChar_special:
  "wordChar c \<Longrightarrow> c \<noteq> CHR ''='' \<and> c \<noteq> nl \<and> c \<noteq> CHR 0x0D"
  by (auto simp: wordChar_def isAlpha_def isDigit_def)

locale boot_env =
  fixes good :: "'w \<Rightarrow> bool"
    and calm :: "'w \<Rightarrow> bool"
    and view :: "'w \<Rightarrow> string \<Rightarrow> (perr, string) res"
    and getv :: "string \<Rightarrow> ('w, perr, string) io"
    and setv :: "string \<Rightarrow> string \<Rightarrow> ('w, perr, unit) io"
  assumes get_calm: "good w \<Longrightarrow> calm w \<Longrightarrow>
      \<exists>w'. getv n w = (view w n, w') \<and> good w' \<and> calm w' \<and> view w' = view w"
    and set_total: "good w \<Longrightarrow> calm w \<Longrightarrow> plainWord n \<Longrightarrow> plainWord v \<Longrightarrow>
      \<exists>w'. setv n v w = (Inr (), w')"
    and set_good: "good w \<Longrightarrow> plainWord n \<Longrightarrow> plainWord v \<Longrightarrow> setv n v w = (Inr (), w') \<Longrightarrow>
      good w' \<and> (calm w \<longrightarrow> calm w')"
    and set_same: "good w \<Longrightarrow> plainWord n \<Longrightarrow> plainWord v \<Longrightarrow> setv n v w = (Inr (), w') \<Longrightarrow>
      view w' n = Inr v"
    and set_other: "good w \<Longrightarrow> plainWord n \<Longrightarrow> plainWord v \<Longrightarrow> setv n v w = (Inr (), w') \<Longrightarrow>
      plainWord m \<Longrightarrow> m \<noteq> n \<Longrightarrow> view w' m = view w m"
begin

lemma set_two:
  assumes "good w" and "plainWord n" "plainWord v" "plainWord m" "plainWord u" and "m \<noteq> n"
    and "andThen (setv n v) (setv m u) w = (Inr (), w')"
  shows "good w' \<and> (calm w \<longrightarrow> calm w') \<and> view w' n = Inr v \<and> view w' m = Inr u"
proof -
  from assms(7) obtain w1 where 1: "setv n v w = (Inr (), w1)" and 2: "setv m u w1 = (Inr (), w')"
    by (auto simp: andThen_Inr)
  have g1: "good w1" and c1: "calm w \<longrightarrow> calm w1"
    using set_good [OF assms(1,2,3) 1] by auto
  from set_good [OF g1 assms(4,5) 2] set_same [OF g1 assms(4,5) 2]
    set_other [OF g1 assms(4,5) 2 assms(2)] set_same [OF assms(1,2,3) 1] c1 assms(6)
  show ?thesis by auto
qed

lemma set_two_total:
  assumes "good w" and "calm w"
    and "plainWord n" "plainWord v" "plainWord m" "plainWord u" and "m \<noteq> n"
  shows "\<exists>w'. andThen (setv n v) (setv m u) w = (Inr (), w') \<and> good w' \<and> calm w' \<and>
    view w' n = Inr v \<and> view w' m = Inr u"
proof -
  from set_total [OF assms(1-4)] obtain w1 where 1: "setv n v w = (Inr (), w1)" by blast
  then have "good w1" "calm w1" using set_good [OF assms(1,3,4) 1] assms(2) by auto
  from set_total [OF this assms(5,6)] obtain w2 where "setv m u w1 = (Inr (), w2)" by blast
  with 1 have "andThen (setv n v) (setv m u) w = (Inr (), w2)" by (simp add: andThen_ok)
  with set_two [OF assms(1,3-7) this] assms(2) show ?thesis by blast
qed

lemma mark_three:
  assumes "good w" and "plainWord cur"
    and "andThen (setv bootloaderTrialBootVar ''0'')
           (andThen (setv bootloaderRootfsVar cur)
              (andThen (setv bootloaderBootmodeVar bootloaderBootmodeSuccess) k)) w = (Inr (), w')"
  shows "\<exists>w3. k w3 = (Inr (), w') \<and> good w3 \<and> (calm w \<longrightarrow> calm w3) \<and>
     view w3 bootloaderTrialBootVar = Inr ''0'' \<and>
     view w3 bootloaderRootfsVar = Inr cur \<and>
     view w3 bootloaderBootmodeVar = Inr bootloaderBootmodeSuccess"
proof -
  from assms(3) obtain w1 w2 w3 where 1: "setv bootloaderTrialBootVar ''0'' w = (Inr (), w1)"
    and 2: "setv bootloaderRootfsVar cur w1 = (Inr (), w2)"
    and 3: "setv bootloaderBootmodeVar bootloaderBootmodeSuccess w2 = (Inr (), w3)"
    and 4: "k w3 = (Inr (), w')"
    by (auto simp: andThen_Inr)
  have g1: "good w1" and c1: "calm w \<longrightarrow> calm w1"
    using set_good [OF assms(1) _ _ 1] by auto
  have g2: "good w2" and c2: "calm w1 \<longrightarrow> calm w2"
    using set_good [OF g1 _ assms(2) 2] by auto
  have g3: "good w3" and c3: "calm w2 \<longrightarrow> calm w3"
    using set_good [OF g2 _ _ 3] by auto
  have v1: "view w1 bootloaderTrialBootVar = Inr ''0''"
    by (rule set_same [OF assms(1) _ _ 1]) simp_all
  have v2: "view w2 bootloaderRootfsVar = Inr cur" "view w2 bootloaderTrialBootVar = Inr ''0''"
    using set_same [OF g1 _ assms(2) 2] set_other [OF g1 _ assms(2) 2] v1 by auto
  have v3: "view w3 bootloaderBootmodeVar = Inr bootloaderBootmodeSuccess"
    "view w3 bootloaderRootfsVar = Inr cur" "view w3 bootloaderTrialBootVar = Inr ''0''"
    using set_same [OF g2 _ _ 3] set_other [OF g2 _ _ 3] v2 by auto
  from 4 g3 c1 c2 c3 v3 show ?thesis by blast
qed

end

section \<open>What the tools are relied on for\<close>

text \<open>\<^verbatim>\<open>grub-editenv set\<close> stores one variable and leaves the others, \<^verbatim>\<open>list\<close> prints them.\<close>

definition editenv_ok :: "boottools \<Rightarrow> bool" where
  "editenv_ok bt \<longleftrightarrow>
     (\<forall>c n v. plainWord n \<and> plainWord v \<and> cfgRead bt (editenvList bt c) = None \<longrightarrow>
        (let c' = editenvSet bt c (n @ ''='' @ v)
         in cfgRead bt (editenvList bt c') = None \<and>
            cfgGet bt (editenvList bt c') n = Inr v \<and>
            (\<forall>m. plainWord m \<and> m \<noteq> n \<longrightarrow>
               cfgGet bt (editenvList bt c') m = cfgGet bt (editenvList bt c) m)))"

text \<open>The u-boot environment library keeps a map.\<close>

definition uenv_ok :: "boottools \<Rightarrow> bool" where
  "uenv_ok bt \<longleftrightarrow>
     (\<forall>c n v. plainWord n \<and> plainWord v \<and> uenvOpen bt c = None \<longrightarrow>
        uenvOpen bt (uenvSet bt c n v) = None \<and>
        uenvGet bt (uenvSet bt c n v) n = v \<and>
        (\<forall>m. plainWord m \<and> m \<noteq> n \<longrightarrow> uenvGet bt (uenvSet bt c n v) m = uenvGet bt c m))"

text \<open>A file of \<^verbatim>\<open>name=value\<close> lines, and the ini parser on such files.\<close>

definition nvLine :: "string \<times> string \<Rightarrow> string" where
  "nvLine nv = fst nv @ ''='' @ snd nv"

definition nvText :: "(string \<times> string) list \<Rightarrow> string" where
  "nvText kvs = printLines (map nvLine kvs)"

definition wfNV :: "(string \<times> string) list \<Rightarrow> bool" where
  "wfNV kvs \<longleftrightarrow> distinct (map fst kvs) \<and> list_all (\<lambda>(n, v). plainWord n \<and> plainWord v) kvs"

definition cfg_ok :: "boottools \<Rightarrow> bool" where
  "cfg_ok bt \<longleftrightarrow>
     (\<forall>kvs. wfNV kvs \<longrightarrow>
        cfgRead bt (nvText kvs) = None \<and>
        (\<forall>n. cfgGet bt (nvText kvs) n =
           (case map_of kvs n of Some v \<Rightarrow> Inr v | None \<Rightarrow> Inl (cfgNoOption bt n))))"

section \<open>The text file implements a map\<close>

definition nvSet :: "string \<Rightarrow> string \<Rightarrow> (string \<times> string) list \<Rightarrow> (string \<times> string) list" where
  "nvSet n v kvs =
     (if n \<in> fst ` set kvs then map (\<lambda>(m, x). if m = n then (n, v) else (m, x)) kvs
      else kvs @ [(n, v)])"

lemma map_of_nvSet: "map_of (nvSet n v kvs) m = (if m = n then Some v else map_of kvs m)"
proof -
  have 1: "map_of (map (\<lambda>(m, x). if m = n then (n, v) else (m, x)) kvs) m =
      (if m = n \<and> n \<in> fst ` set kvs then Some v else map_of kvs m)"
  proof (induction kvs)
    case (Cons kv kvs)
    then show ?case by (cases kv; cases "m = n"; cases "fst kv = n") simp_all
  qed simp
  have 2: "n \<notin> fst ` set kvs \<Longrightarrow> map_of kvs n = None"
    by (simp add: map_of_eq_None_iff)
  show ?thesis
  proof (cases "n \<in> fst ` set kvs")
    case True
    with 1 show ?thesis by (simp add: nvSet_def)
  next
    case False
    with 2 show ?thesis by (simp add: nvSet_def map_add_def split: option.splits)
  qed
qed

lemma wfNV_nvSet: "wfNV kvs \<Longrightarrow> plainWord n \<Longrightarrow> plainWord v \<Longrightarrow> wfNV (nvSet n v kvs)"
proof -
  assume wf: "wfNV kvs" "plainWord n" "plainWord v"
  have "map fst (map (\<lambda>(m, x). if m = n then (n, v) else (m, x)) kvs) = map fst kvs"
    by (induction kvs) auto
  moreover have "list_all (\<lambda>(n, v). plainWord n \<and> plainWord v)
      (map (\<lambda>(m, x). if m = n then (n, v) else (m, x)) kvs)"
    using wf unfolding wfNV_def list_all_length by (simp add: split_beta)
  ultimately show ?thesis
    using wf by (cases "n \<in> fst ` set kvs") (simp_all add: wfNV_def nvSet_def del: map_map map_eq_conv)
qed

lemma splitChar_printLines:
  "list_all (\<lambda>l. nl \<notin> set l) ls \<Longrightarrow> splitChar nl (printLines ls) = ls @ [[]]"
  by (induction ls) (auto simp: splitChar_append)

lemma scanLines_printLines:
  "list_all (\<lambda>l. nl \<notin> set l \<and> CHR 0x0D \<notin> set l) ls \<Longrightarrow> scanLines (printLines ls) = ls"
proof -
  assume a: "list_all (\<lambda>l. nl \<notin> set l \<and> CHR 0x0D \<notin> set l) ls"
  then have "list_all (\<lambda>l. nl \<notin> set l) ls" by (simp add: list_all_iff)
  moreover have "map dropCR ls = ls"
    using a by (induction ls) (auto simp: dropCR_def dest: last_in_set)
  ultimately show ?thesis by (simp add: scanLines_def splitChar_printLines)
qed

lemma plainWord_chars:
  "plainWord s \<Longrightarrow> CHR ''='' \<notin> set s \<and> nl \<notin> set s \<and> CHR 0x0D \<notin> set s"
  using wordChar_special by (auto simp: plainWord_def list_all_iff)

lemma scanLines_nvText: "wfNV kvs \<Longrightarrow> scanLines (nvText kvs) = map nvLine kvs"
  unfolding nvText_def
proof (rule scanLines_printLines)
  assume wf: "wfNV kvs"
  have "nl \<notin> set (nvLine kv) \<and> CHR 0x0D \<notin> set (nvLine kv)" if "kv \<in> set kvs" for kv
  proof -
    have "plainWord (fst kv)" and "plainWord (snd kv)"
      using wf that by (auto simp: wfNV_def list_all_iff)
    then show ?thesis
      using plainWord_chars [of "fst kv"] plainWord_chars [of "snd kv"] by (simp add: nvLine_def)
  qed
  then show "list_all (\<lambda>l. nl \<notin> set l \<and> CHR 0x0D \<notin> set l) (map nvLine kvs)"
    by (simp add: list_all_iff)
qed

lemma hasPrefix_nvLine:
  "plainWord n \<Longrightarrow> plainWord m \<Longrightarrow> hasPrefix (nvLine (m, x)) (n @ ''='') \<longleftrightarrow> m = n"
proof -
  assume p: "plainWord n" "plainWord m"
  have e: "splitN2 (CHR ''='') (s @ CHR ''='' # t) = [s, t]" if "plainWord s" for s t
    using plainWord_chars [OF that] by simp
  show ?thesis
  proof
    assume "hasPrefix (nvLine (m, x)) (n @ ''='')"
    then obtain r where "m @ CHR ''='' # x = n @ CHR ''='' # r"
      by (auto simp: hasPrefix_iff nvLine_def)
    then show "m = n" using e [OF p(1), of r] e [OF p(2), of x] by simp
  qed (simp add: nvLine_def hasPrefix_iff)
qed

lemma modifyOne_nvLine:
  assumes "plainWord n" "plainWord m"
  shows "modifyOne \<lparr>Name = n, Value = v\<rparr> \<lparr>mLine = nvLine (m, x), mUpdated = u, mNeeded = b\<rparr> =
    (if m = n then \<lparr>mLine = nvLine (n, v), mUpdated = u @ [\<lparr>Name = n, Value = v\<rparr>], mNeeded = b \<or> x \<noteq> v\<rparr>
     else \<lparr>mLine = nvLine (m, x), mUpdated = u, mNeeded = b\<rparr>)"
  using assms hasPrefix_nvLine [OF assms] plainWord_chars [OF assms(2)]
  by (auto simp: modifyOne_def nvLine_def Let_def)

lemma modifyLines_nv:
  assumes "plainWord n" and "list_all (\<lambda>(m, x). plainWord m \<and> plainWord x) kvs"
  shows "modifyLines [\<lparr>Name = n, Value = v\<rparr>] (map nvLine kvs) u b =
    (map nvLine (map (\<lambda>(m, x). if m = n then (n, v) else (m, x)) kvs),
     u @ replicate (length (filter (\<lambda>(m, x). m = n) kvs)) \<lparr>Name = n, Value = v\<rparr>,
     b \<or> list_ex (\<lambda>(m, x). m = n \<and> x \<noteq> v) kvs)"
  using assms(2)
proof (induction kvs arbitrary: u b)
  case (Cons kv kvs)
  obtain m x where kv: "kv = (m, x)" by (cases kv)
  with Cons.prems have "plainWord m" by simp
  with Cons kv modifyOne_nvLine [OF assms(1) \<open>plainWord m\<close>, of v x u b] show ?case by auto
qed simp

text \<open>\<^verbatim>\<open>modifyNameValueFile\<close> with one change is the update of the map, written when needed.\<close>

lemma modifiedContent_nv:
  assumes "wfNV kvs" "plainWord n"
  shows "modifiedContent [\<lparr>Name = n, Value = v\<rparr>] (nvText kvs) =
    (if map_of kvs n = Some v then None else Some (nvText (nvSet n v kvs)))"
proof -
  let ?ch = "\<lparr>Name = n, Value = v\<rparr>"
  let ?k = "length (filter (\<lambda>(m, x). m = n) kvs)"
  have all: "list_all (\<lambda>(m, x). plainWord m \<and> plainWord x) kvs"
    and d: "distinct (map fst kvs)" using assms(1) by (auto simp: wfNV_def)
  note ml = modifyLines_nv [OF assms(2) all, of v "[]" False]
  have k0: "?k = 0 \<longleftrightarrow> n \<notin> fst ` set kvs" by (force simp: filter_empty_conv)
  have extra: "appendMissing [?ch] (replicate ?k ?ch) =
      (if n \<in> fst ` set kvs then [] else [nvLine (n, v)])"
    using k0 by (cases ?k) (auto simp: appendMissing_def nvLine_def)
  have need: "list_ex (\<lambda>(m, x). m = n \<and> x \<noteq> v) kvs \<longleftrightarrow> (\<exists>x. map_of kvs n = Some x \<and> x \<noteq> v)"
    by (auto simp: list_ex_iff map_of_eq_Some_iff [OF d])
  note scan = scanLines_nvText [OF assms(1)]
  show ?thesis
  proof (cases "n \<in> fst ` set kvs")
    case True
    then obtain x where "map_of kvs n = Some x"
      by (cases "map_of kvs n") (auto simp: map_of_eq_None_iff)
    then show ?thesis
      using True ml extra need
      by (cases "x = v")
         (simp_all add: modifiedContent_def scan nvSet_def nvText_def [of "map _ _"] nvText_def [of "_ @ _"])
  next
    case False
    then have "map_of kvs n = None" and "map (\<lambda>(m, x). if m = n then (n, v) else (m, x)) kvs = kvs"
      by (simp add: map_of_eq_None_iff) (rule map_idI, use False in force)
    then show ?thesis
      using False ml extra need
      by (simp add: modifiedContent_def scan nvSet_def nvText_def [of "map _ _"] nvText_def [of "_ @ _"])
  qed
qed

section \<open>The back ends\<close>

definition noFaults :: "'m world_scheme \<Rightarrow> bool" where
  "noFaults w \<longleftrightarrow> (\<forall>h e. \<not> faults w h e)"

lemma contentOf_file: "fget (fs w) p = Some (FFile c) \<Longrightarrow> contentOf p w = c"
  by (simp add: contentOf_def)

lemma readFile_file [simp]: "fget (fs w) p = Some (FFile c) \<Longrightarrow> readFile p w = (Inr c, w)"
  by (simp add: readFile_def)

lemma atomicWriteFile_ok:
  "atomicWriteFile p c w = (Inr (), w') \<Longrightarrow>
     fs w' = fput (fs w) p (FFile c) \<and> faults w' = faults w"
  by (auto simp: atomicWriteFile_def andThen_Inr fallible_def Let_def split: if_splits)

lemma atomicWriteFile_total: "noFaults w \<Longrightarrow> \<exists>w'. atomicWriteFile p c w = (Inr (), w')"
  by (simp add: atomicWriteFile_def andThen_def bind_def fallible_def noFaults_def Let_def)

definition grubGood :: "boottools \<Rightarrow> 'm world_scheme \<Rightarrow> bool" where
  "grubGood bt w \<longleftrightarrow>
     editenv_ok bt \<and> (\<exists>c. fget (fs w) bootloaderGrubEnvFile = Some (FFile c)) \<and>
     cfgRead bt (editenvList bt (contentOf bootloaderGrubEnvFile w)) = None"

definition grubView :: "boottools \<Rightarrow> 'm world_scheme \<Rightarrow> string \<Rightarrow> (perr, string) res" where
  "grubView bt w n = cfgGet bt (editenvList bt (contentOf bootloaderGrubEnvFile w)) n"

lemma grubSet_ok:
  assumes "grubSetBootVar bt n v w = (Inr (), w')"
  shows "fget (fs w') bootloaderGrubEnvFile =
      Some (FFile (editenvSet bt (contentOf bootloaderGrubEnvFile w) (n @ ''='' @ v)))
    \<and> faults w' = faults w"
  using assms
  by (auto simp: grubSetBootVar_def Let_def andThen_Inr runCommand_ok contentOf_def)

interpretation grubEnv: boot_env "grubGood bt" noFaults "grubView bt" "grubGetBootVar bt" "grubSetBootVar bt"
  for bt
proof
  fix w :: "'m world_scheme" and n v
  assume g: "grubGood bt w" "noFaults w"
  then show "\<exists>w'. grubGetBootVar bt n w = (grubView bt w n, w') \<and> grubGood bt w' \<and> noFaults w' \<and>
      grubView bt w' = grubView bt w"
    by (auto simp: grubGetBootVar_def grubGood_def grubView_def fun_eq_iff noFaults_def runCommand_def
        fallible_def andThen_def bind_def contentOf_def Let_def split: sum.splits option.splits)
  show "\<exists>w'. grubSetBootVar bt n v w = (Inr (), w')"
    using g by (simp add: grubSetBootVar_def andThen_def bind_def runCommand_def fallible_def
        noFaults_def Let_def)
next
  fix w w' :: "'m world_scheme" and n v m
  assume a: "grubGood bt w" "plainWord n" "plainWord v" "grubSetBootVar bt n v w = (Inr (), w')"
  note s = grubSet_ok [OF a(4)]
  show "grubGood bt w' \<and> (noFaults w \<longrightarrow> noFaults w')"
    using a s by (simp add: grubGood_def editenv_ok_def noFaults_def contentOf_file Let_def)
  show "grubView bt w' n = Inr v"
    using a s by (simp add: grubGood_def grubView_def editenv_ok_def contentOf_file Let_def)
  show "grubView bt w' m = grubView bt w m" if "plainWord m" "m \<noteq> n"
    using a s that by (simp add: grubGood_def grubView_def editenv_ok_def contentOf_file Let_def)
qed

definition fwGood :: "boottools \<Rightarrow> 'm world_scheme \<Rightarrow> bool" where
  "fwGood bt w \<longleftrightarrow>
     uenv_ok bt \<and> (\<exists>c. fget (fs w) bootloaderUbootFwEnvFile = Some (FFile c) \<and> uenvOpen bt c = None)"

definition fwView :: "boottools \<Rightarrow> 'm world_scheme \<Rightarrow> string \<Rightarrow> (perr, string) res" where
  "fwView bt w n = Inr (uenvGet bt (contentOf bootloaderUbootFwEnvFile w) n)"

lemma fwSet_ok:
  assumes "fwGood bt w" and "plainWord n" "plainWord v" and "setBootVarFwEnv bt n v w = (Inr (), w')"
  shows "\<exists>c c'. fget (fs w) bootloaderUbootFwEnvFile = Some (FFile c)
    \<and> fget (fs w') bootloaderUbootFwEnvFile = Some (FFile c') \<and> uenvOpen bt c' = None
    \<and> uenvGet bt c' n = v \<and> (\<forall>m. plainWord m \<and> m \<noteq> n \<longrightarrow> uenvGet bt c' m = uenvGet bt c m)
    \<and> faults w' = faults w"
proof -
  from assms(1) obtain c where c: "fget (fs w) bootloaderUbootFwEnvFile = Some (FFile c)"
    "uenvOpen bt c = None" and ok: "uenv_ok bt"
    by (auto simp: fwGood_def)
  then have o: "uenvOpenIO bt w = (Inr c, w)" by (simp add: uenvOpenIO_def bind_ok)
  show ?thesis
  proof (cases "uenvGet bt c n = v")
    case True
    with assms(4) o have "w' = w" by (simp add: setBootVarFwEnv_def bind_ok)
    with c True show ?thesis by auto
  next
    case False
    with assms(4) o have "atomicWriteFile bootloaderUbootFwEnvFile (uenvSet bt c n v) w = (Inr (), w')"
      by (simp add: setBootVarFwEnv_def bind_ok)
    from atomicWriteFile_ok [OF this] ok c assms(2,3) show ?thesis by (simp add: uenv_ok_def)
  qed
qed

interpretation fwEnv: boot_env "fwGood bt" noFaults "fwView bt" "getBootVarFwEnv bt" "setBootVarFwEnv bt"
  for bt
proof
  show "\<exists>w'. getBootVarFwEnv bt n w = (fwView bt w n, w') \<and> fwGood bt w' \<and> noFaults w' \<and>
      fwView bt w' = fwView bt w"
    if "fwGood bt w" "noFaults w" for w :: "'m world_scheme" and n
    using that
    by (auto simp: getBootVarFwEnv_def uenvOpenIO_def fwGood_def fwView_def bind_ok contentOf_file)
  show "\<exists>w'. setBootVarFwEnv bt n v w = (Inr (), w')"
    if "fwGood bt w" "noFaults w" for w :: "'m world_scheme" and n v
    using that
    by (auto simp: setBootVarFwEnv_def uenvOpenIO_def fwGood_def bind_ok atomicWriteFile_total)
  fix w w' :: "'m world_scheme" and n v m
  assume a: "fwGood bt w" "plainWord n" "plainWord v" "setBootVarFwEnv bt n v w = (Inr (), w')"
  note s = fwSet_ok [OF a]
  show "fwGood bt w' \<and> (noFaults w \<longrightarrow> noFaults w')"
    using s a(1) by (auto simp: fwGood_def noFaults_def)
  show "fwView bt w' n = Inr v"
    using s by (auto simp: fwView_def contentOf_file)
  show "fwView bt w' m = fwView bt w m" if "plainWord m" "m \<noteq> n"
    using s that by (auto simp: fwView_def contentOf_file)
qed

definition legacyGood :: "boottools \<Rightarrow> 'm world_scheme \<Rightarrow> bool" where
  "legacyGood bt w \<longleftrightarrow>
     cfg_ok bt \<and> (\<exists>kvs. wfNV kvs \<and> fget (fs w) bootloaderUbootEnvFile = Some (FFile (nvText kvs)))"

definition legacyView :: "boottools \<Rightarrow> 'm world_scheme \<Rightarrow> string \<Rightarrow> (perr, string) res" where
  "legacyView bt w n = cfgGet bt (contentOf bootloaderUbootEnvFile w) n"

lemma getBootVarLegacy_run:
  assumes "cfg_ok bt" "wfNV kvs" "fget (fs w) bootloaderUbootEnvFile = Some (FFile (nvText kvs))"
  shows "getBootVarLegacy bt n w =
    ((case map_of kvs n of Some v \<Rightarrow> Inr v | None \<Rightarrow> Inl (cfgNoOption bt n)), w)"
  using assms by (simp add: getBootVarLegacy_def bind_ok cfg_ok_def split: option.splits)

text \<open>Setting a variable in the text file updates the map the file stands for.\<close>

lemma legacySet_ok:
  assumes "cfg_ok bt" "wfNV kvs" "fget (fs w) bootloaderUbootEnvFile = Some (FFile (nvText kvs))"
    and "plainWord n" "plainWord v" and "setBootVarLegacy bt n v w = (Inr (), w')"
  shows "\<exists>kvs'. wfNV kvs' \<and> fget (fs w') bootloaderUbootEnvFile = Some (FFile (nvText kvs'))
    \<and> map_of kvs' = (map_of kvs)(n \<mapsto> v) \<and> faults w' = faults w"
proof (cases "map_of kvs n = Some v")
  case True
  with assms have "w' = w" by (simp add: setBootVarLegacy_def getBootVarLegacy_run bind_ok)
  with True assms show ?thesis by (metis fun_upd_triv)
next
  case False
  then have "(case map_of kvs n of Some v \<Rightarrow> Inr v | None \<Rightarrow> Inl (cfgNoOption bt n)) \<noteq> Inr v"
    by (auto split: option.splits)
  with False assms have
    "atomicWriteFile bootloaderUbootEnvFile (nvText (nvSet n v kvs)) w = (Inr (), w')"
    by (simp add: setBootVarLegacy_def getBootVarLegacy_run bind_ok modifyNameValueFile_def
        modifiedContent_nv)
  from atomicWriteFile_ok [OF this] wfNV_nvSet [OF assms(2,4,5)] map_of_nvSet [of n v kvs]
  show ?thesis by (auto simp: fun_eq_iff)
qed

interpretation legacyEnv: boot_env "legacyGood bt" noFaults "legacyView bt" "getBootVarLegacy bt"
  "setBootVarLegacy bt" for bt
proof
  fix w :: "'m world_scheme" and n
  assume "legacyGood bt w" "noFaults w"
  then show "\<exists>w'. getBootVarLegacy bt n w = (legacyView bt w n, w') \<and> legacyGood bt w' \<and> noFaults w' \<and>
      legacyView bt w' = legacyView bt w"
    by (auto simp: legacyGood_def legacyView_def getBootVarLegacy_run contentOf_file cfg_ok_def)
next
  fix w :: "'m world_scheme" and n v
  assume "legacyGood bt w" "noFaults w" "plainWord n"
  then show "\<exists>w'. setBootVarLegacy bt n v w = (Inr (), w')"
    by (auto simp: legacyGood_def setBootVarLegacy_def getBootVarLegacy_run bind_ok
        modifyNameValueFile_def modifiedContent_nv atomicWriteFile_total)
next
  fix w w' :: "'m world_scheme" and n v m
  assume a: "legacyGood bt w" "plainWord n" "plainWord v" "setBootVarLegacy bt n v w = (Inr (), w')"
  then obtain kvs where k: "cfg_ok bt" "wfNV kvs"
    "fget (fs w) bootloaderUbootEnvFile = Some (FFile (nvText kvs))" by (auto simp: legacyGood_def)
  from legacySet_ok [OF k a(2,3,4)] obtain kvs' where k': "wfNV kvs'"
    "fget (fs w') bootloaderUbootEnvFile = Some (FFile (nvText kvs'))"
    "map_of kvs' = (map_of kvs)(n \<mapsto> v)" "faults w' = faults w" by blast
  show "legacyGood bt w' \<and> (noFaults w \<longrightarrow> noFaults w')"
    using k k' by (auto simp: legacyGood_def noFaults_def)
  show "legacyView bt w' n = Inr v"
    using k k' by (simp add: legacyView_def contentOf_file cfg_ok_def)
  show "legacyView bt w' m = legacyView bt w m" if "m \<noteq> n"
    using k k' that by (simp add: legacyView_def contentOf_file cfg_ok_def)
qed

section \<open>All back ends at once\<close>

definition envGood :: "boottools \<Rightarrow> bootLoader \<Rightarrow> 'm world_scheme \<Rightarrow> bool" where
  "envGood bt b w =
     (case kind b of
        Uboot FwEnv \<Rightarrow> fwGood bt w
      | Uboot LegacyEnv \<Rightarrow> legacyGood bt w
      | Grub \<Rightarrow> grubGood bt w)"

definition envView :: "boottools \<Rightarrow> bootLoader \<Rightarrow> 'm world_scheme \<Rightarrow> string \<Rightarrow> (perr, string) res" where
  "envView bt b w n =
     (case kind b of
        Uboot FwEnv \<Rightarrow> fwView bt w n
      | Uboot LegacyEnv \<Rightarrow> legacyView bt w n
      | Grub \<Rightarrow> grubView bt w n)"

text \<open>
  Every boot loader object keeps the contract, whatever its back end: this is the
  interface the partition code uses.
\<close>

interpretation anyEnv: boot_env "envGood bt b" noFaults "envView bt b" "GetBootVar bt b" "setBootVar bt b"
  for bt b
proof (cases "kind b")
  case Grub
  then have "envGood bt b = (grubGood bt :: 'm world_scheme \<Rightarrow> bool)"
    "envView bt b = (grubView bt :: 'm world_scheme \<Rightarrow> _)"
    "GetBootVar bt b = grubGetBootVar bt" "setBootVar bt b = grubSetBootVar bt"
    by (simp_all add: fun_eq_iff envGood_def envView_def GetBootVar_def setBootVar_def)
  then show "boot_env (envGood bt b) noFaults (envView bt b) (GetBootVar bt b)
      (setBootVar bt b :: _ \<Rightarrow> _ \<Rightarrow> ('m world_scheme, _, _) io)"
    using grubEnv.boot_env_axioms by metis
next
  case (Uboot e)
  show "boot_env (envGood bt b) noFaults (envView bt b) (GetBootVar bt b)
      (setBootVar bt b :: _ \<Rightarrow> _ \<Rightarrow> ('m world_scheme, _, _) io)"
  proof (cases e)
    case FwEnv
    with Uboot have "envGood bt b = (fwGood bt :: 'm world_scheme \<Rightarrow> bool)"
      "envView bt b = (fwView bt :: 'm world_scheme \<Rightarrow> _)"
      "GetBootVar bt b = getBootVarFwEnv bt" "setBootVar bt b = setBootVarFwEnv bt"
      by (simp_all add: fun_eq_iff envGood_def envView_def GetBootVar_def setBootVar_def)
    then show ?thesis using fwEnv.boot_env_axioms by metis
  next
    case LegacyEnv
    with Uboot have "envGood bt b = (legacyGood bt :: 'm world_scheme \<Rightarrow> bool)"
      "envView bt b = (legacyView bt :: 'm world_scheme \<Rightarrow> _)"
      "GetBootVar bt b = getBootVarLegacy bt" "setBootVar bt b = setBootVarLegacy bt"
      by (simp_all add: fun_eq_iff envGood_def envView_def GetBootVar_def setBootVar_def)
    then show ?thesis using legacyEnv.boot_env_axioms by metis
  qed
qed

lemma toggle_ok:
  assumes "envGood bt b w" "noFaults w" "plainWord o'"
  shows "\<exists>w'. ToggleRootFS bt b o' w = (Inr (), w') \<and> envGood bt b w' \<and> noFaults w' \<and>
    envView bt b w' bootloaderBootmodeVar = Inr bootloaderBootmodeTry \<and>
    envView bt b w' bootloaderRootfsVar = Inr o'"
proof (cases "kind b")
  case Grub
  with assms anyEnv.set_two_total [of bt b w bootloaderBootmodeVar bootloaderBootmodeTry
      bootloaderRootfsVar o'] show ?thesis
    by (auto simp: ToggleRootFS_def)
next
  case (Uboot e)
  with assms anyEnv.set_two_total [of bt b w bootloaderRootfsVar o'
      bootloaderBootmodeVar bootloaderBootmodeTry] show ?thesis
    by (auto simp: ToggleRootFS_def)
qed

text \<open>Writing a boot variable does not change which boot loader is found.\<close>

definition sameNodes :: "'m world_scheme \<Rightarrow> 'm world_scheme \<Rightarrow> bool" where
  "sameNodes w w' \<longleftrightarrow>
     (\<forall>p. fget (fs w') p = fget (fs w) p \<or>
        (\<exists>c c'. fget (fs w) p = Some (FFile c) \<and> fget (fs w') p = Some (FFile c')))"

lemma sameNodes_refl [simp]: "sameNodes w w"
  by (simp add: sameNodes_def)

lemma sameNodes_trans: "sameNodes w w1 \<Longrightarrow> sameNodes w1 w2 \<Longrightarrow> sameNodes w w2"
  unfolding sameNodes_def by (metis option.inject fnode.inject(1))

lemma sameNodes_put:
  "fget (fs w) p = Some (FFile c) \<Longrightarrow> fs w' = fput (fs w) p (FFile c') \<Longrightarrow> sameNodes w w'"
  by (auto simp: sameNodes_def)

lemma sameNodes_exists: "sameNodes w w' \<Longrightarrow> fileExists p w' = fileExists p w"
proof -
  assume s: "sameNodes w w'"
  have n: "fget (fs w') q = None \<longleftrightarrow> fget (fs w) q = None" for q
    using s unfolding sameNodes_def by (metis option.distinct(1))
  from s consider "fget (fs w') p = fget (fs w) p"
    | c c' where "fget (fs w) p = Some (FFile c)" "fget (fs w') p = Some (FFile c')"
    unfolding sameNodes_def by blast
  then show ?thesis
    by cases (simp_all add: fileExists_def n split: option.splits fnode.splits)
qed

lemma bootloader_sameNodes:
  "sameNodes w w' \<Longrightarrow> bootloader p w = (Inr b, w) \<Longrightarrow> bootloader p w' = (Inr b, w')"
  by (auto simp: bootloader_def newUboot_def newGrub_def sameNodes_exists
      split: sum.splits option.splits if_splits)

lemma set_sameNodes:
  assumes "envGood bt b w" "plainWord n" "plainWord v" "setBootVar bt b n v w = (Inr (), w')"
  shows "sameNodes w w'"
proof (cases "kind b")
  case Grub
  with assms obtain c where "fget (fs w) bootloaderGrubEnvFile = Some (FFile c)"
    by (auto simp: envGood_def grubGood_def)
  moreover from Grub assms(4) have
    "fs w' = fput (fs w) bootloaderGrubEnvFile
       (FFile (editenvSet bt (contentOf bootloaderGrubEnvFile w) (n @ ''='' @ v)))"
    by (auto simp: setBootVar_def grubSetBootVar_def Let_def andThen_Inr runCommand_ok contentOf_def)
  ultimately show ?thesis by (rule sameNodes_put)
next
  case (Uboot e)
  show ?thesis
  proof (cases e)
    case FwEnv
    with Uboot assms obtain c where c: "fget (fs w) bootloaderUbootFwEnvFile = Some (FFile c)"
      "uenvOpen bt c = None" by (auto simp: envGood_def fwGood_def)
    then have "uenvOpenIO bt w = (Inr c, w)" by (simp add: uenvOpenIO_def bind_ok)
    with Uboot FwEnv assms(4) have "w' = w \<or>
        atomicWriteFile bootloaderUbootFwEnvFile (uenvSet bt c n v) w = (Inr (), w')"
      by (auto simp: setBootVar_def setBootVarFwEnv_def bind_ok split: if_splits)
    then show ?thesis using c(1) by (auto dest!: atomicWriteFile_ok intro: sameNodes_put)
  next
    case LegacyEnv
    with Uboot assms obtain kvs where k: "cfg_ok bt" "wfNV kvs"
      "fget (fs w) bootloaderUbootEnvFile = Some (FFile (nvText kvs))"
      by (auto simp: envGood_def legacyGood_def)
    have "w' = w \<or> (\<exists>c. atomicWriteFile bootloaderUbootEnvFile c w = (Inr (), w'))"
      using Uboot LegacyEnv assms(4) k
      by (auto simp: setBootVar_def setBootVarLegacy_def getBootVarLegacy_run bind_ok
          modifyNameValueFile_def split: if_splits option.splits)
    then show ?thesis using k(3) by (auto dest!: atomicWriteFile_ok intro: sameNodes_put)
  qed
qed

lemma toggle_sameNodes:
  assumes "envGood bt b w" "plainWord o'" "ToggleRootFS bt b o' w = (Inr (), w')"
  shows "sameNodes w w'"
proof -
  from assms(3) obtain n v m u w1 where
    1: "setBootVar bt b n v w = (Inr (), w1)" and 2: "setBootVar bt b m u w1 = (Inr (), w')"
    and p: "plainWord n" "plainWord v" "plainWord m" "plainWord u"
    using assms(2) by (auto simp: ToggleRootFS_def andThen_Inr split: bootKind.splits)
  have "envGood bt b w1" using anyEnv.set_good [OF assms(1) p(1,2) 1] by simp
  with set_sameNodes [OF assms(1) p(1,2) 1] set_sameNodes [OF _ p(3,4) 2]
  show ?thesis by (blast intro: sameNodes_trans)
qed

lemma IsNextBootOther_run:
  assumes "bootloader p w = (Inr b, w)" "envGood bt b w" "noFaults w" "otherRootPartition p = Some d"
    and "envView bt b w bootloaderBootmodeVar = Inr mode" "envView bt b w bootloaderRootfsVar = Inr ab"
  shows "fst (IsNextBootOther bt p w) = Inr (mode = bootloaderBootmodeTry \<and> ab = shortName d)"
proof -
  from anyEnv.get_calm [OF assms(2,3), of bootloaderBootmodeVar] assms(5) obtain w1 where
    1: "GetBootVar bt b bootloaderBootmodeVar w = (Inr mode, w1)" "envGood bt b w1" "noFaults w1"
    "envView bt b w1 = envView bt b w" by auto
  from anyEnv.get_calm [OF 1(2,3), of bootloaderRootfsVar] 1(4) assms(6) obtain w2 where
    2: "GetBootVar bt b bootloaderRootfsVar w1 = (Inr ab, w2)" by auto
  show ?thesis
    using assms(1,4) 1(1) 2
    by (simp add: IsNextBootOther_def orFalse_def bind_ok GetNextBootRootFSName_def)
qed

lemma ToggleNextBoot_run:
  assumes "bootloader p w = (Inr b, w)" and "HandleAssets bt p b w = (Inr (), w1)"
    and "bootloader p w1 = (Inr b, w1)" and "envGood bt b w1" and "noFaults w1"
    and "list_all wfDevice (partitions p)" and "dualRootPartitions p"
  shows "\<exists>w' d. ToggleNextBoot bt p w = (Inr (), w') \<and> otherRootPartition p = Some d
    \<and> envView bt b w' bootloaderBootmodeVar = Inr bootloaderBootmodeTry
    \<and> envView bt b w' bootloaderRootfsVar = Inr (shortName d)
    \<and> fst (IsNextBootOther bt p w') = Inr True"
proof -
  obtain d where d: "otherRootPartition p = Some d"
    using assms(1) by (auto simp: bootloader_def newUboot_def newGrub_def newBootLoader_def
        split: if_splits option.splits)
  then have "d \<in> set (rootPartitions p)" by (simp add: otherRootPartition_Some)
  moreover have "wfDevice d"
    using assms(6) \<open>d \<in> set (rootPartitions p)\<close> by (auto simp: rootPartitions_def list_all_iff)
  ultimately have pw: "plainWord (shortName d)" using wfDevice_root_short [of d p] by auto
  from toggle_ok [OF assms(4,5) pw] obtain w' where
    t: "ToggleRootFS bt b (shortName d) w1 = (Inr (), w')" "envGood bt b w'" "noFaults w'"
    "envView bt b w' bootloaderBootmodeVar = Inr bootloaderBootmodeTry"
    "envView bt b w' bootloaderRootfsVar = Inr (shortName d)" by blast
  have "ToggleNextBoot bt p w = (Inr (), w')"
    using assms(1,2,7) d t(1)
    by (simp add: ToggleNextBoot_def toggleBootloaderRootfs_def bind_ok andThen_ok)
  moreover have "bootloader p w' = (Inr b, w')"
    using bootloader_sameNodes [OF toggle_sameNodes [OF assms(4) pw t(1)] assms(3)] .
  from IsNextBootOther_run [OF this t(2,3) d t(4,5)]
  have "fst (IsNextBootOther bt p w') = Inr True" by simp
  ultimately show ?thesis using d t(4,5) by blast
qed

text \<open>
  C6. After \<^verbatim>\<open>ToggleNextBoot\<close> on a dual-root system, where no call fails, the boot loader
  (grub or u-boot, whatever holds its variables) will try the other root file system:
  \<^verbatim>\<open>ToggleNextBoot\<close> succeeds, the stored mode is \<^verbatim>\<open>try\<close>, the stored root is the other one,
  and \<^verbatim>\<open>IsNextBootOther\<close> answers true.
\<close>

theorem ToggleNextBoot_next_is_other:
  assumes "bootloader p w = (Inr b, w)" and "HandleAssets bt p b w = (Inr (), w1)"
    and "bootloader p w1 = (Inr b, w1)" and "envGood bt b w1" and "noFaults w1"
    and "list_all wfDevice (partitions p)" and "dualRootPartitions p"
  shows "\<exists>w' d. ToggleNextBoot bt p w = (Inr (), w') \<and> otherRootPartition p = Some d
    \<and> envView bt b w' bootloaderBootmodeVar = Inr bootloaderBootmodeTry
    \<and> envView bt b w' bootloaderRootfsVar = Inr (shortName d)
    \<and> fst (IsNextBootOther bt p w') = Inr True"
  using ToggleNextBoot_run [OF assms] .

section \<open>A concrete set of tools\<close>

text \<open>
  Tools that keep the variables as \<^verbatim>\<open>name=value\<close> lines, newest first: an instance of the
  parameter for which everything relied on holds.
\<close>

definition nvParse :: "string \<Rightarrow> (string \<times> string) list" where
  "nvParse s =
     map (\<lambda>l. (takeWhile (\<lambda>c. c \<noteq> CHR ''='') l, tl (dropWhile (\<lambda>c. c \<noteq> CHR ''='') l))) (scanLines s)"

definition lineTools :: boottools where
  "lineTools =
     \<lparr>cfgRead = (\<lambda>_. None),
      cfgGet = (\<lambda>c n. case map_of (nvParse c) n of Some v \<Rightarrow> Inr v | None \<Rightarrow> Inl (ErrText n)),
      cfgNoOption = ErrText,
      editenvSet = (\<lambda>c arg. arg @ nl # c),
      editenvList = (\<lambda>c. c),
      uenvOpen = (\<lambda>_. None),
      uenvGet = (\<lambda>c n. case map_of (nvParse c) n of Some v \<Rightarrow> v | None \<Rightarrow> ''''),
      uenvSet = (\<lambda>c n v. n @ ''='' @ v @ nl # c),
      hwYaml = (\<lambda>_. Inl (ErrText ''yaml''))\<rparr>"

lemma nvParse_cons:
  assumes "plainWord n" "plainWord v"
  shows "nvParse (n @ CHR ''='' # v @ nl # c) = (n, v) # nvParse c"
proof -
  let ?l = "n @ CHR ''='' # v"
  have nlc: "nl \<notin> set ?l" and cr: "CHR 0x0D \<notin> set ?l" and e: "CHR ''='' \<notin> set n"
    using plainWord_chars [OF assms(1)] plainWord_chars [OF assms(2)] by auto
  have "splitChar nl (?l @ nl # c) = ?l # splitChar nl c" by (rule splitChar_append [OF nlc])
  moreover have "dropCR ?l = ?l" using cr by (auto simp: dropCR_def dest: last_in_set)
  ultimately have "scanLines (?l @ nl # c) = ?l # scanLines c"
    by (simp add: scanLines_def Let_def)
  moreover have "takeWhile (\<lambda>c. c \<noteq> CHR ''='') ?l = n" "tl (dropWhile (\<lambda>c. c \<noteq> CHR ''='') ?l) = v"
    using e by (auto simp: takeWhile_append dropWhile_append)
  ultimately show ?thesis by (simp add: nvParse_def)
qed

lemma lineTools_editenv: "editenv_ok lineTools"
  unfolding editenv_ok_def using nvParse_cons by (simp add: lineTools_def Let_def)

lemma lineTools_uenv: "uenv_ok lineTools"
  unfolding uenv_ok_def using nvParse_cons by (simp add: lineTools_def)

definition demoPartition :: Partition where
  "demoPartition = \<lparr>partitions =
     [\<lparr>name = ''system-a'', shortName = ''a'', device = ''/dev/sda3'', parentName = ''/dev/sda'',
       mountpoint = ''/''\<rparr>,
      \<lparr>name = ''system-b'', shortName = ''b'', device = ''/dev/sda4'', parentName = ''/dev/sda'',
       mountpoint = ''''\<rparr>]\<rparr>"

definition demoWorld :: world where
  "demoWorld =
     \<lparr>fs = [(''/boot/grub/grub.cfg'', FFile ''''), (''/boot/grub/grubenv'', FFile '''')],
      hist = [], faults = (\<lambda>_ _. False)\<rparr>"

definition demoLoader :: bootLoader where
  "demoLoader =
     \<lparr>kind = Grub, currentRootfs = ''a'', otherRootfs = ''b'', currentBootPath = ''/boot/grub/a'',
      otherBootPath = ''/boot/grub/b'', bootloaderDir = ''/boot/grub''\<rparr>"

lemmas boot_paths [go_defs] =
  bootloaderUbootConfigFile_def bootloaderUbootFwEnvFile_def bootloaderGrubConfigFile_def
  bootloaderGrubEnvFile_def bootloaderGrubDir_def bootloaderUbootDir_def hardwareSpecFile_def

lemma demo_partition:
  "otherRootPartition demoPartition = Some (partitions demoPartition ! 1)"
  "rootPartition demoPartition = Some (partitions demoPartition ! 0)"
  "dualRootPartitions demoPartition" "list_all wfDevice (partitions demoPartition)"
  by (simp_all add: demoPartition_def otherRootPartition_def rootPartition_def dualRootPartitions_def
      rootPartitions_def rootPartitionLabels_def allPartitionLabels_def wfDevice_def go_defs)

lemma demo_world:
  "bootloader demoPartition demoWorld = (Inr demoLoader, demoWorld)"
  "HandleAssets lineTools demoPartition demoLoader demoWorld = (Inr (), demoWorld)"
  "envGood lineTools demoLoader demoWorld" "noFaults demoWorld"
proof -
  have "fget (fs demoWorld) p =
      (if p = ''/boot/grub/grub.cfg'' \<or> p = ''/boot/grub/grubenv'' then Some (FFile '''') else None)" for p
    by (simp add: demoWorld_def fget_def)
  note f = this
  have "pathJoin [''/boot/grub'', ''a''] = ''/boot/grub/a''" "pathJoin [''/boot/grub'', ''b''] = ''/boot/grub/b''"
    by (simp_all add: pathJoin_def pathClean_def)
  then show "bootloader demoPartition demoWorld = (Inr demoLoader, demoWorld)"
    using demo_partition
    by (simp add: bootloader_def newUboot_def newGrub_def fileExists_def f newBootLoader_def
        demoPartition_def demoLoader_def go_defs Let_def)
  show "HandleAssets lineTools demoPartition demoLoader demoWorld = (Inr (), demoWorld)"
    by (simp add: HandleAssets_def readHardwareSpec_def f bind_def go_defs)
  show "envGood lineTools demoLoader demoWorld"
    using lineTools_editenv f
    by (simp add: envGood_def grubGood_def demoLoader_def go_defs) (simp add: lineTools_def)
  show "noFaults demoWorld" by (simp add: noFaults_def demoWorld_def)
qed

theorem ToggleNextBoot_next_is_other_witness:
  "\<exists>w' d. ToggleNextBoot lineTools demoPartition demoWorld = (Inr (), w')
    \<and> otherRootPartition demoPartition = Some d
    \<and> envView lineTools demoLoader w' bootloaderBootmodeVar = Inr bootloaderBootmodeTry
    \<and> envView lineTools demoLoader w' bootloaderRootfsVar = Inr (shortName d)
    \<and> fst (IsNextBootOther lineTools demoPartition w') = Inr True"
  by (rule ToggleNextBoot_next_is_other [OF demo_world(1) demo_world(2) demo_world(1,3,4)
      demo_partition(4,3)])

text \<open>
  \<^verbatim>\<open>MarkBootSuccessful\<close> that succeeds leaves the boot variables in the state of a good
  boot: the trial marker is cleared, the root is the one the system runs from, the mode is
  \<^verbatim>\<open>regular\<close>.
\<close>

lemma MarkBootSuccessful_state:
  assumes "bootloader p w = (Inr b, w)" and "rootPartition p = Some cur"
    and "list_all wfDevice (partitions p)" and "envGood bt b w"
    and "MarkBootSuccessful bt p w = (Inr (), w')"
  shows "envView bt b w' bootloaderTrialBootVar = Inr ''0''
    \<and> envView bt b w' bootloaderRootfsVar = Inr (shortName cur)
    \<and> envView bt b w' bootloaderBootmodeVar = Inr bootloaderBootmodeSuccess"
proof -
  have m: "cur \<in> set (rootPartitions p)" using assms(2) by (simp add: rootPartition_Some)
  moreover have "wfDevice cur" using assms(3) m by (auto simp: rootPartitions_def list_all_iff)
  ultimately have pw: "plainWord (shortName cur)" using wfDevice_root_short [of cur p] by auto
  from assms(1,2,5) have mk: "MarkCurrentBootSuccessful bt b (shortName cur) w = (Inr (), w')"
    by (simp add: MarkBootSuccessful_def bind_ok)
  from anyEnv.mark_three [OF assms(4) pw mk [unfolded MarkCurrentBootSuccessful_def]] obtain w3 where
    k: "(case kind b of Uboot _ \<Rightarrow> osRemoveAll bootloaderUbootStampFile | Grub \<Rightarrow> ret ()) w3 = (Inr (), w')"
    and v: "envView bt b w3 bootloaderTrialBootVar = Inr ''0''"
      "envView bt b w3 bootloaderRootfsVar = Inr (shortName cur)"
      "envView bt b w3 bootloaderBootmodeVar = Inr bootloaderBootmodeSuccess"
    by blast
  have "envView bt b w' = envView bt b w3"
  proof (cases "kind b")
    case Grub
    with k show ?thesis by simp
  next
    case (Uboot e)
    with k have "fs w' = fdrop (below bootloaderUbootStampFile) (fs w3)"
      by (auto simp: osRemoveAll_def andThen_Inr fallible_def Let_def split: if_splits)
    then have "contentOf bootloaderUbootFwEnvFile w' = contentOf bootloaderUbootFwEnvFile w3"
      "contentOf bootloaderUbootEnvFile w' = contentOf bootloaderUbootEnvFile w3"
      by (simp_all add: contentOf_def below_def bootloaderUbootStampFile_def
          bootloaderUbootFwEnvFile_def bootloaderUbootEnvFile_def)
    with Uboot show ?thesis
      by (simp add: fun_eq_iff envView_def fwView_def legacyView_def split: ubootEnv.splits)
  qed
  with v show ?thesis by simp
qed

end
