(* ===== verification/BootMachine.thy ===== *)
theory BootMachine
  imports BootEnv
begin

text \<open>
  The A/B boot cycle: the grub configuration that \<^verbatim>\<open>partition/migrate_grub.go\<close> installs,
  as a function on the stored boot variables, and the machine made of it and of the single
  writes of \<^verbatim>\<open>ToggleRootFS\<close> and \<^verbatim>\<open>MarkCurrentBootSuccessful\<close>, where power may fail between
  any two writes. The theorems say that an update that does not boot is left again on the
  next boot, whatever the moment of a power failure.
\<close>

section \<open>The grub configuration\<close>

type_synonym bootvars = "string \<rightharpoonup> string"

definition gv :: "bootvars \<Rightarrow> string \<Rightarrow> string" where
  "gv env n = (case env n of None \<Rightarrow> '''' | Some v \<Rightarrow> v)"

lemma gv_upd [simp]: "gv (env(n \<mapsto> v)) m = (if m = n then v else gv env m)"
  by (simp add: gv_def)

record bootChoice =
  label :: string
  kernel :: string
  initrd :: string

text \<open>
  The script of \<^verbatim>\<open>newGrubConfig\<close>: defaults for unset variables, the trial logic, then the
  menu entry; \<open>hasKernel\<close> says whether the directory of a root has a kernel of its own. It
  returns the variables it has saved and what it boots.
\<close>

definition grubDefaults :: "bootvars \<Rightarrow> bootvars" where
  "grubDefaults env =
     (let env = (if gv env ''snappy_mode'' = '''' then env(''snappy_mode'' \<mapsto> ''regular'') else env);
          env = (if gv env ''snappy_ab'' = '''' then env(''snappy_ab'' \<mapsto> ''a'') else env)
      in env)"

definition grubTrial :: "bootvars \<Rightarrow> bootvars" where
  "grubTrial env =
     (if gv env ''snappy_mode'' = ''try'' then
        (if gv env ''snappy_trial_boot'' = ''1'' then
           env(''snappy_ab'' \<mapsto> (if gv env ''snappy_ab'' = ''a'' then ''b'' else ''a''))
         else env(''snappy_trial_boot'' \<mapsto> ''1''))
      else env)"

definition grubMenu :: "(string \<Rightarrow> bool) \<Rightarrow> bootvars \<Rightarrow> bootChoice" where
  "grubMenu hasKernel env =
     (let ab = gv env ''snappy_ab'';
          prefix = bootloaderGrubDir @ ''/'' @ ab
      in if hasKernel ab
         then \<lparr>label = ''system-'' @ ab, kernel = prefix @ ''/vmlinuz'', initrd = prefix @ ''/initrd.img''\<rparr>
         else \<lparr>label = ''system-'' @ ab, kernel = ''/vmlinuz'', initrd = ''/initrd.img''\<rparr>)"

definition grubBoot :: "(string \<Rightarrow> bool) \<Rightarrow> bootvars \<Rightarrow> bootvars \<times> bootChoice" where
  "grubBoot hasKernel env =
     (let env = grubTrial (grubDefaults env) in (env, grubMenu hasKernel env))"

section \<open>The machine\<close>

text \<open>The writes of one operation, in the order of the code.\<close>

definition grubToggleWrites :: "string \<Rightarrow> (string \<times> string) list" where
  "grubToggleWrites other =
     [(bootloaderBootmodeVar, bootloaderBootmodeTry), (bootloaderRootfsVar, other)]"

definition markWrites :: "string \<Rightarrow> (string \<times> string) list" where
  "markWrites cur =
     [(bootloaderTrialBootVar, ''0''), (bootloaderRootfsVar, cur),
      (bootloaderBootmodeVar, bootloaderBootmodeSuccess)]"

lemma ToggleRootFS_writes:
  "kind b = Grub \<Longrightarrow>
     ToggleRootFS bt b other = forEach (grubToggleWrites other) (\<lambda>(n, v). setBootVar bt b n v)"
  by (simp add: ToggleRootFS_def grubToggleWrites_def andThen_def fun_eq_iff bind_def
      split: prod.splits sum.splits)

lemma MarkCurrentBootSuccessful_writes:
  "kind b = Grub \<Longrightarrow>
     MarkCurrentBootSuccessful bt b cur = forEach (markWrites cur) (\<lambda>(n, v). setBootVar bt b n v)"
  by (simp add: MarkCurrentBootSuccessful_def markWrites_def)

text \<open>
  The state of the machine: the stored variables, the root the system runs from, and the
  writes the current operation still has to make. The root \<open>g\<close> is the one that works: only
  it runs snappy, so only it starts an operation. The other one may boot or hang, and does
  nothing but lose power.
\<close>

record machine =
  env :: bootvars
  running :: string
  pending :: "(string \<times> string) list"

definition otherOf :: "string \<Rightarrow> string" where
  "otherOf r = (if r = ''a'' then ''b'' else ''a'')"

definition reboot :: "machine \<Rightarrow> machine" where
  "reboot m =
     (let e = grubTrial (grubDefaults (env m))
      in m\<lparr>env := e, running := gv e ''snappy_ab'', pending := []\<rparr>)"

inductive bootStep :: "string \<Rightarrow> machine \<Rightarrow> machine \<Rightarrow> bool" for g where
  power: "bootStep g m (reboot m)"
| toggle: "running m = g \<Longrightarrow> pending m = [] \<Longrightarrow>
    bootStep g m (m\<lparr>pending := grubToggleWrites (otherOf g)\<rparr>)"
| mark: "running m = g \<Longrightarrow> pending m = [] \<Longrightarrow>
    bootStep g m (m\<lparr>pending := markWrites g\<rparr>)"
| store: "running m = g \<Longrightarrow> pending m = (n, v) # ws \<Longrightarrow>
    bootStep g m (m\<lparr>env := (env m)(n \<mapsto> v), pending := ws\<rparr>)"

inductive bootReach :: "string \<Rightarrow> machine \<Rightarrow> machine \<Rightarrow> bool" for g m0 where
  start: "bootReach g m0 m0"
| step: "bootReach g m0 m \<Longrightarrow> bootStep g m m' \<Longrightarrow> bootReach g m0 m'"

text \<open>A system that runs normally from \<open>g\<close>.\<close>

definition settled :: "string \<Rightarrow> machine \<Rightarrow> bool" where
  "settled g m \<longleftrightarrow>
     g \<in> {''a'', ''b''} \<and> running m = g \<and> pending m = [] \<and>
     gv (env m) ''snappy_ab'' = g \<and> gv (env m) ''snappy_mode'' = ''regular''"

section \<open>The invariant\<close>

definition pendingOk :: "string \<Rightarrow> machine \<Rightarrow> bool" where
  "pendingOk g m \<longleftrightarrow>
     pending m = [] \<or>
     pending m = grubToggleWrites (otherOf g) \<or>
     pending m = [(bootloaderRootfsVar, otherOf g)] \<and> gv (env m) ''snappy_mode'' = ''try'' \<or>
     pending m = markWrites g \<or>
     pending m = tl (markWrites g) \<or>
     pending m = tl (tl (markWrites g)) \<and> gv (env m) ''snappy_ab'' = g"

definition bootInv :: "string \<Rightarrow> machine \<Rightarrow> bool" where
  "bootInv g m \<longleftrightarrow>
     g \<in> {''a'', ''b''} \<and>
     gv (env m) ''snappy_ab'' \<in> {''a'', ''b''} \<and>
     gv (env m) ''snappy_mode'' \<in> {''try'', ''regular''} \<and>
     (gv (env m) ''snappy_mode'' = ''regular'' \<longrightarrow> gv (env m) ''snappy_ab'' = g) \<and>
     running m \<in> {''a'', ''b''} \<and>
     (running m \<noteq> g \<longrightarrow>
        gv (env m) ''snappy_mode'' = ''try'' \<and> gv (env m) ''snappy_trial_boot'' = ''1'' \<and>
        gv (env m) ''snappy_ab'' = running m) \<and>
     pendingOk g m"

lemmas machine_defs =
  grubToggleWrites_def markWrites_def otherOf_def pendingOk_def go_defs

lemma settled_inv: "settled g m \<Longrightarrow> bootInv g m"
  by (auto simp: settled_def bootInv_def pendingOk_def)

lemma grubDefaults_id:
  "gv e ''snappy_ab'' \<in> {''a'', ''b''} \<Longrightarrow> gv e ''snappy_mode'' \<in> {''try'', ''regular''} \<Longrightarrow>
     grubDefaults e = e"
  by (auto simp: grubDefaults_def)

lemma reboot_inv: "bootInv g m \<Longrightarrow> bootInv g (reboot m)"
  unfolding bootInv_def reboot_def Let_def
  by (auto simp: grubDefaults_id grubTrial_def pendingOk_def)

lemma write_inv:
  assumes inv: "bootInv g m" and r: "running m = g" and p: "pending m = (n, v) # ws"
  shows "bootInv g (m\<lparr>env := (env m)(n \<mapsto> v), pending := ws\<rparr>)"
proof -
  have "pendingOk g m" using inv by (simp add: bootInv_def)
  with p consider
      (t1) "n = ''snappy_mode''" "v = ''try''" "ws = [(''snappy_ab'', otherOf g)]"
    | (t2) "n = ''snappy_ab''" "v = otherOf g" "ws = []" "gv (env m) ''snappy_mode'' = ''try''"
    | (m1) "n = ''snappy_trial_boot''" "v = ''0''" "ws = tl (markWrites g)"
    | (m2) "n = ''snappy_ab''" "v = g" "ws = tl (tl (markWrites g))"
    | (m3) "n = ''snappy_mode''" "v = ''regular''" "ws = []" "gv (env m) ''snappy_ab'' = g"
    by (auto simp: pendingOk_def grubToggleWrites_def markWrites_def go_defs)
  then show ?thesis
    using inv r
    by cases (auto simp: bootInv_def pendingOk_def grubToggleWrites_def markWrites_def go_defs otherOf_def)
qed

lemma bootStep_inv: "bootStep g m m' \<Longrightarrow> bootInv g m \<Longrightarrow> bootInv g m'"
proof (induction rule: bootStep.induct)
  case (power m)
  then show ?case by (rule reboot_inv)
next
  case (toggle m)
  then show ?case by (auto simp: bootInv_def pendingOk_def)
next
  case (mark m)
  then show ?case by (auto simp: bootInv_def pendingOk_def)
next
  case (store m n v ws)
  then show ?case by (blast intro: write_inv)
qed

lemma bootReach_inv: "bootReach g m0 m \<Longrightarrow> settled g m0 \<Longrightarrow> bootInv g m"
  by (induction rule: bootReach.induct) (blast intro: settled_inv bootStep_inv)+

section \<open>Properties\<close>

text \<open>
  C1. Fallback. Take a system that runs normally from a working root \<open>g\<close> and let it toggle
  and mark boots in any order, with power failing at any moment, also between two writes
  of one operation. Whenever it then runs from the other root, which never marks its boot
  as successful, the next boot runs \<open>g\<close> again; the other root never boots twice in a row.
\<close>

theorem boot_fallback:
  assumes "settled g m0" and "bootReach g m0 m" and "running m \<noteq> g"
  shows "running (reboot m) = g"
proof -
  have inv: "bootInv g m" using assms(1,2) by (blast intro: bootReach_inv)
  with assms(3) show ?thesis
    by (auto simp: bootInv_def reboot_def Let_def grubDefaults_id grubTrial_def)
qed

definition demoMachine :: machine where
  "demoMachine =
     \<lparr>env = [''snappy_mode'' \<mapsto> ''regular'', ''snappy_ab'' \<mapsto> ''a''], running = ''a'', pending = []\<rparr>"

text \<open>Toggle, both writes, then a reboot.\<close>

definition demoUpdated :: machine where
  "demoUpdated =
     reboot \<lparr>env = (env demoMachine)(''snappy_mode'' \<mapsto> ''try'', ''snappy_ab'' \<mapsto> ''b''),
             running = ''a'', pending = []\<rparr>"

lemma demo_reach: "bootReach ''a'' demoMachine demoUpdated"
proof -
  let ?m1 = "demoMachine\<lparr>pending := grubToggleWrites (otherOf ''a'')\<rparr>"
  let ?m2 = "?m1\<lparr>env := (env ?m1)(''snappy_mode'' \<mapsto> ''try''), pending := [(''snappy_ab'', ''b'')]\<rparr>"
  let ?m3 = "?m2\<lparr>env := (env ?m2)(''snappy_ab'' \<mapsto> ''b''), pending := []\<rparr>"
  have 1: "bootStep ''a'' demoMachine ?m1"
    by (rule bootStep.toggle) (simp_all add: demoMachine_def)
  have 2: "bootStep ''a'' ?m1 ?m2"
    by (rule bootStep.store) (simp_all add: demoMachine_def grubToggleWrites_def go_defs otherOf_def)
  have 3: "bootStep ''a'' ?m2 ?m3"
    by (rule bootStep.store) (simp_all add: demoMachine_def)
  have 4: "bootStep ''a'' ?m3 (reboot ?m3)" by (rule bootStep.power)
  have "bootReach ''a'' demoMachine (reboot ?m3)"
    by (rule bootReach.step [OF bootReach.step [OF bootReach.step [OF bootReach.step
        [OF bootReach.start 1] 2] 3] 4])
  then show ?thesis by (simp add: demoUpdated_def demoMachine_def)
qed

theorem boot_fallback_witness:
  "settled ''a'' demoMachine \<and> running demoUpdated = ''b'' \<and> running (reboot demoUpdated) = ''a''"
proof -
  have s: "settled ''a'' demoMachine" by (simp add: settled_def demoMachine_def gv_def)
  have r: "running demoUpdated = ''b''"
    by (simp add: demoUpdated_def demoMachine_def reboot_def grubTrial_def grubDefaults_def gv_def Let_def)
  then have "running demoUpdated \<noteq> ''a''" by simp
  from boot_fallback [OF s demo_reach this] s r show ?thesis by simp
qed

text \<open>
  C7. An update is tried exactly once, and a successful one is kept. From a settled system
  whose trial marker is clear, the two writes of a toggle make the next boot run the other
  root; when that boot is marked as successful, every later boot runs it too, and when it
  is not, the boot after it runs the old root.
\<close>

definition applyWrites :: "(string \<times> string) list \<Rightarrow> machine \<Rightarrow> machine" where
  "applyWrites ws m = m\<lparr>env := fold (\<lambda>(n, v) e. e(n \<mapsto> v)) ws (env m)\<rparr>"

theorem boot_update_cycle:
  assumes "settled g m" and "gv (env m) ''snappy_trial_boot'' \<noteq> ''1''"
  shows "let other = otherOf g;
             tried = reboot (applyWrites (grubToggleWrites other) m);
             kept = applyWrites (markWrites other) tried
         in running tried = other
          \<and> running (reboot tried) = g
          \<and> settled other kept
          \<and> running ((reboot ^^ Suc k) kept) = other"
proof -
  define other where "other = otherOf g"
  define tried where "tried = reboot (applyWrites (grubToggleWrites other) m)"
  define kept where "kept = applyWrites (markWrites other) tried"
  have g: "g \<in> {''a'', ''b''}" using assms(1) by (auto simp: settled_def)
  have oth: "other \<in> {''a'', ''b''}" "other \<noteq> g" "otherOf other = g"
    using g by (auto simp: other_def otherOf_def)
  have tr: "running tried = other" "gv (env tried) ''snappy_ab'' = other"
    "gv (env tried) ''snappy_mode'' = ''try''" "gv (env tried) ''snappy_trial_boot'' = ''1''"
    "pending tried = []"
    using assms oth
    by (auto simp: tried_def reboot_def Let_def applyWrites_def grubToggleWrites_def go_defs
        grubDefaults_id grubTrial_def)
  have fallb: "running (reboot tried) = g"
    using tr oth by (auto simp: reboot_def Let_def grubDefaults_id grubTrial_def otherOf_def)
  have k: "settled other kept"
    using tr oth by (simp add: kept_def applyWrites_def markWrites_def settled_def go_defs)
  have stay: "settled other (reboot x)" if "settled other x" for x
    using that by (auto simp: settled_def reboot_def Let_def grubDefaults_id grubTrial_def)
  have "settled other ((reboot ^^ n) kept)" for n
    by (induction n) (use k stay in auto)
  then have "running ((reboot ^^ Suc k) kept) = other" using settled_def by blast
  with tr(1) fallb k show ?thesis
    unfolding Let_def other_def [symmetric] tried_def [symmetric] kept_def [symmetric] by blast
qed

theorem boot_update_cycle_witness:
  "settled ''a'' demoMachine
   \<and> running (reboot (applyWrites (grubToggleWrites ''b'') demoMachine)) = ''b''"
proof -
  have s: "settled ''a'' demoMachine" by (simp add: settled_def demoMachine_def gv_def)
  have t: "gv (env demoMachine) ''snappy_trial_boot'' \<noteq> ''1''" by (simp add: demoMachine_def gv_def)
  have "otherOf ''a'' = ''b''" by (simp add: otherOf_def)
  with boot_update_cycle [OF s t, of 0] s show ?thesis by (simp add: Let_def)
qed

end
