(* ===== verification/Version.thy ===== *)
theory Version
  imports Prelude
begin

text \<open>
  Version comparison, \<^verbatim>\<open>snappy/sort.go\<close>: the character order, the comparison of one
  fragment, of one half of a version and of whole versions, the validity check, and the
  laws that make \<^verbatim>\<open>VersionCompare\<close> an order one can sort by.
\<close>

section \<open>The code\<close>

definition cmpInt :: "int \<Rightarrow> int \<Rightarrow> int" where
  "cmpInt intA intB = (if intA < intB then -1 else if intA > intB then 1 else 0)"

definition chOrder :: "char \<Rightarrow> int" where
  "chOrder ch =
     (if ch = CHR ''~'' then -1
      else if isAlpha ch then byte ch
      else if isDigit ch then 0
      else byte ch + 256)"

text \<open>
  \<^verbatim>\<open>cmpString\<close> reads both strings up to the longer length, with \<open>'0'\<close> for a missing
  byte.
\<close>

definition cmpString :: "string \<Rightarrow> string \<Rightarrow> int" where
  "cmpString = cmpLoop (\<lambda>a b. cmpInt (chOrder a) (chOrder b)) (CHR ''0'')"

definition cmpFragment :: "string \<Rightarrow> string \<Rightarrow> int" where
  "cmpFragment a b =
     (case (atoi a, atoi b) of
        (Some intA, Some intB) \<Rightarrow> cmpInt intA intB
      | _ \<Rightarrow> cmpString a b)"

text \<open>\<^verbatim>\<open>getFragments\<close>: the maximal runs of digits and of non-digits.\<close>

function getFragments :: "string \<Rightarrow> string list" where
  "getFragments [] = []"
| "getFragments (c # cs) =
     (let p = (\<lambda>x. isDigit x = isDigit c)
      in (c # takeWhile p cs) # getFragments (dropWhile p cs))"
  by pat_completeness auto
termination
  by (relation "measure length") (auto simp: le_imp_less_Suc length_dropWhile_le)

text \<open>\<^verbatim>\<open>matchEpoch\<close>: the regular expression \<^verbatim>\<open>^[0-9]+:\<close>.\<close>

definition matchEpoch :: "string \<Rightarrow> bool" where
  "matchEpoch a = (takeWhile isDigit a \<noteq> [] \<and> hasPrefix (dropWhile isDigit a) '':'')"

definition VersionIsValid :: "string \<Rightarrow> bool" where
  "VersionIsValid a =
     (if matchEpoch a then False
      else if count_list a (CHR ''-'') > 1 then False
      else if isBlank a then False
      else True)"

definition compareSubversion :: "string \<Rightarrow> string \<Rightarrow> int" where
  "compareSubversion va vb = cmpLoop cmpFragment ''0'' (getFragments va) (getFragments vb)"

text \<open>
  The version as \<^verbatim>\<open>VersionCompare\<close> normalises it: an invalid version counts as \<open>0\<close>, a
  version without a \<open>-\<close> gets the revision \<open>0\<close>.
\<close>

definition normVersion :: "string \<Rightarrow> string" where
  "normVersion v =
     (let v = (if VersionIsValid v then v else ''0'')
      in if CHR ''-'' \<in> set v then v else v @ ''-0'')"

definition VersionCompare :: "string \<Rightarrow> string \<Rightarrow> int" where
  "VersionCompare va vb =
     (let va = normVersion va; vb = normVersion vb;
          mainA = splitChar (CHR ''-'') va ! 0;
          mainB = splitChar (CHR ''-'') vb ! 0;
          res = compareSubversion mainA mainB
      in if res \<noteq> 0 then res
         else
           (let revA = splitChar (CHR ''-'') va ! 1;
                revB = splitChar (CHR ''-'') vb ! 1
            in compareSubversion revA revB))"

text \<open>\<^verbatim>\<open>ByVersion.Less\<close>, and with it \<^verbatim>\<open>BySnapVersion.Less\<close> on the parts' versions.\<close>

definition versionLess :: "string \<Rightarrow> string \<Rightarrow> bool" where
  "versionLess a b \<longleftrightarrow> VersionCompare a b < 0"

section \<open>Characters and fragments\<close>

lemma cmpInt_range: "cmpInt a b \<in> {-1, 0, 1}"
  by (simp add: cmpInt_def)

lemma cmpInt_anti: "cmpInt b a = - cmpInt a b"
  by (simp add: cmpInt_def)

lemma cmpInt_iff [simp]:
  "cmpInt a b \<le> 0 \<longleftrightarrow> a \<le> b"
  "cmpInt a b = 0 \<longleftrightarrow> a = b"
  "cmpInt a b < 0 \<longleftrightarrow> a < b"
  "cmpInt a a = 0"
  by (simp_all add: cmpInt_def)

interpretation chars: comparator "\<lambda>_. True" "\<lambda>a b. cmpInt (chOrder a) (chOrder b)"
proof
  show "cmpInt (chOrder y) (chOrder x) = - cmpInt (chOrder x) (chOrder y)" for x y
    by (rule cmpInt_anti)
qed (use cmpInt_range in auto)

interpretation strs: comparator "\<lambda>_. True" cmpString
proof
  show "cmpString x y \<in> {-1, 0, 1}" for x y
    unfolding cmpString_def by (rule chars.cmpLoop_range)
  show "cmpString y x = - cmpString x y" for x y
    unfolding cmpString_def by (rule chars.cmpLoop_anti)
  show "cmpString x z \<le> 0" if "cmpString x y \<le> 0" "cmpString y z \<le> 0" for x y z
    using that chars.cmpLoop_trans [of x y z "CHR ''0''"]
    by (simp add: cmpString_def list_all_iff)
qed

definition digitStr :: "string \<Rightarrow> bool" where
  "digitStr s \<longleftrightarrow> s \<noteq> [] \<and> list_all isDigit s"

definition nonDigitStr :: "string \<Rightarrow> bool" where
  "nonDigitStr s \<longleftrightarrow> s \<noteq> [] \<and> list_all (\<lambda>c. \<not> isDigit c) s"

text \<open>A fragment is comparable when it is a run of non-digits or a number that fits.\<close>

definition fitsInt :: "string \<Rightarrow> bool" where
  "fitsInt s \<longleftrightarrow> digitsVal 0 s < 2 ^ 63"

definition wfFragment :: "string \<Rightarrow> bool" where
  "wfFragment s \<longleftrightarrow> (digitStr s \<and> fitsInt s) \<or> nonDigitStr s"

lemma chOrder_digit: "isDigit c \<Longrightarrow> chOrder c = 0"
  by (auto simp: chOrder_def isAlpha_def isDigit_def)

lemma chOrder_nonDigit: "\<not> isDigit c \<Longrightarrow> chOrder c \<noteq> 0"
proof -
  have "byte c + 256 \<noteq> 0" using byte_bounds(1) [of c] by linarith
  then show "\<not> isDigit c \<Longrightarrow> chOrder c \<noteq> 0" by (auto simp: chOrder_def isAlpha_def)
qed

lemma isDigit_zero [simp]: "isDigit (CHR ''0'')"
  by (simp add: isDigit_def)

lemma not_isDigit_signs [simp]: "\<not> isDigit (CHR ''-'')" "\<not> isDigit (CHR ''+'')"
  "\<not> isDigit (CHR ''~'')" "\<not> isDigit (CHR '':'')"
  by (simp_all add: isDigit_def)

lemma atoi_digitStr: "digitStr s \<Longrightarrow> atoi s = (if fitsInt s then Some (digitsVal 0 s) else None)"
  by (cases s)
     (auto simp: atoi_def digitStr_def atoiUnsigned_def fitsInt_def split: option.splits)

lemma atoiUnsigned_nonDigit: "nonDigitStr s \<Longrightarrow> atoiUnsigned s = None"
  by (cases s) (auto simp: nonDigitStr_def atoiUnsigned_def)

lemma atoi_nonDigitStr: "nonDigitStr s \<Longrightarrow> atoi s = None"
proof (cases s)
  case (Cons c cs)
  moreover assume "nonDigitStr s"
  ultimately have "atoiUnsigned cs = None" and "atoiUnsigned s = None"
    using atoiUnsigned_nonDigit [of cs] atoiUnsigned_nonDigit [of s]
    by (auto simp: nonDigitStr_def atoiUnsigned_def)
  with Cons show ?thesis by (simp add: atoi_def)
qed (simp add: nonDigitStr_def)

lemma cmpString_digits: "list_all isDigit a \<Longrightarrow> list_all isDigit b \<Longrightarrow> cmpString a b = 0"
  unfolding cmpString_def
  by (induction a b rule: pad_induct) (auto simp: chOrder_digit Let_def)

lemma cmpString_digit_nonDigit:
  "digitStr a \<Longrightarrow> nonDigitStr b \<Longrightarrow> cmpString a b \<noteq> 0"
  by (cases a; cases b)
     (auto simp: digitStr_def nonDigitStr_def cmpString_def chOrder_digit Let_def
        dest: chOrder_nonDigit)

lemma cmpFragment_cases:
  "wfFragment a \<Longrightarrow> wfFragment b \<Longrightarrow> cmpFragment a b =
     (if digitStr a \<and> digitStr b then cmpInt (digitsVal 0 a) (digitsVal 0 b)
      else cmpString a b)"
  by (auto simp: wfFragment_def cmpFragment_def atoi_digitStr atoi_nonDigitStr
      split: option.splits)
     (auto simp: digitStr_def nonDigitStr_def list_all_iff neq_Nil_conv)

lemma cmpFragment_range: "cmpFragment a b \<in> {-1, 0, 1}"
  using cmpInt_range strs.cmp_range by (auto simp: cmpFragment_def split: option.splits)

lemma cmpFragment_anti: "cmpFragment b a = - cmpFragment a b"
proof (cases "\<exists>m n. atoi a = Some m \<and> atoi b = Some n")
  case True
  then obtain m n where "atoi a = Some m" and "atoi b = Some n" by blast
  then show ?thesis using cmpInt_anti [of n m] by (simp add: cmpFragment_def)
next
  case False
  then have "cmpFragment a b = cmpString a b" and "cmpFragment b a = cmpString b a"
    by (auto simp: cmpFragment_def split: option.splits)
  then show ?thesis using strs.cmp_anti [of b a] by simp
qed

text \<open>
  On comparable fragments the comparison is transitive: numbers lie between the runs of
  non-digits that start with a tilde and all others, and are ordered by value.
\<close>

lemma cmpFragment_trans:
  assumes wf: "wfFragment x" "wfFragment y" "wfFragment z"
    and xy: "cmpFragment x y \<le> 0" and yz: "cmpFragment y z \<le> 0"
  shows "cmpFragment x z \<le> 0"
proof -
  have ds: "cmpString a b = 0" if "digitStr a" "digitStr b" for a b
    using that cmpString_digits by (simp add: digitStr_def)
  have le: "cmpString a b \<le> 0" if "wfFragment a" "wfFragment b" "cmpFragment a b \<le> 0" for a b
    using that ds by (auto simp: cmpFragment_cases split: if_splits)
  have sxy: "cmpString x y \<le> 0" and syz: "cmpString y z \<le> 0"
    using le wf xy yz by auto
  show ?thesis
  proof (cases "digitStr x \<and> digitStr z")
    case False
    then show ?thesis
      using strs.cmp_trans [OF _ _ _ sxy syz] wf by (auto simp: cmpFragment_cases)
  next
    case True
    then have "cmpString x z = 0" using ds by blast
    then have "cmpString x y = 0"
      using strs.cmp_less_trans [OF _ _ _ sxy syz] sxy by force
    then have "digitStr y"
      using True wf(2) cmpString_digit_nonDigit by (auto simp: wfFragment_def)
    with True wf xy yz show ?thesis by (simp add: cmpFragment_cases)
  qed
qed

interpretation frags: comparator wfFragment cmpFragment
proof
  show "cmpFragment y x = - cmpFragment x y" for x y by (rule cmpFragment_anti)
qed (rule cmpFragment_range, rule cmpFragment_trans)

section \<open>Whole versions\<close>

definition wfVersion :: "string \<Rightarrow> bool" where
  "wfVersion v \<longleftrightarrow> list_all (\<lambda>f. digitStr f \<longrightarrow> fitsInt f) (getFragments v)"

lemma getFragments_kind: "f \<in> set (getFragments v) \<Longrightarrow> digitStr f \<or> nonDigitStr f"
proof (induction v rule: getFragments.induct)
  case (2 c cs)
  let ?p = "\<lambda>x. isDigit x = isDigit c"
  have "list_all ?p (c # takeWhile ?p cs)"
    by (auto simp: list_all_iff dest: set_takeWhileD)
  then have "digitStr (c # takeWhile ?p cs) \<or> nonDigitStr (c # takeWhile ?p cs)"
    unfolding digitStr_def nonDigitStr_def by (cases "isDigit c") (simp_all add: list_all_iff)
  moreover have "f = c # takeWhile ?p cs \<or> f \<in> set (getFragments (dropWhile ?p cs))"
    using "2.prems" by (simp only: getFragments.simps Let_def list.set insert_iff)
  ultimately show ?case using "2.IH" [OF refl] by blast
qed simp

lemma getFragments_concat: "concat (getFragments v) = v"
  by (induction v rule: getFragments.induct) (auto simp: Let_def)

lemma wfVersion_frags: "wfVersion v \<Longrightarrow> list_all wfFragment (getFragments v)"
  using getFragments_kind by (auto simp: wfVersion_def list_all_iff wfFragment_def)

lemma wfFragment_zero: "wfFragment ''0''"
  by (simp add: wfFragment_def digitStr_def fitsInt_def)

lemma compareSubversion_range: "compareSubversion a b \<in> {-1, 0, 1}"
  unfolding compareSubversion_def by (rule frags.cmpLoop_range)

lemma compareSubversion_anti: "compareSubversion b a = - compareSubversion a b"
  unfolding compareSubversion_def by (rule frags.cmpLoop_anti)

interpretation subv: comparator wfVersion compareSubversion
proof
  show "compareSubversion x z \<le> 0"
    if "wfVersion x" "wfVersion y" "wfVersion z"
      "compareSubversion x y \<le> 0" "compareSubversion y z \<le> 0" for x y z
    using that frags.cmpLoop_trans [of "getFragments x" "getFragments y" "getFragments z" "''0''"]
    by (simp add: compareSubversion_def wfVersion_frags wfFragment_zero)
  show "compareSubversion y x = - compareSubversion x y" for x y
    by (rule compareSubversion_anti)
qed (rule compareSubversion_range)

text \<open>The two halves of a normalised version.\<close>

definition mainPart :: "string \<Rightarrow> string" where
  "mainPart v = splitChar (CHR ''-'') (normVersion v) ! 0"

definition revPart :: "string \<Rightarrow> string" where
  "revPart v = splitChar (CHR ''-'') (normVersion v) ! 1"

lemma VersionCompare_parts:
  "VersionCompare va vb =
     (let r = compareSubversion (mainPart va) (mainPart vb)
      in if r \<noteq> 0 then r else compareSubversion (revPart va) (revPart vb))"
  by (simp add: VersionCompare_def mainPart_def revPart_def Let_def)

text \<open>
  Both indices \<^verbatim>\<open>VersionCompare\<close> reads after the split are in range, and there is nothing
  behind them: the normalised version has exactly two halves.
\<close>

lemma normVersion_dash: "CHR ''-'' \<in> set (normVersion v)"
  by (simp add: normVersion_def Let_def)

lemma normVersion_count: "count_list (normVersion v) (CHR ''-'') = 1"
proof -
  have "count_list s c = 0" if "c \<notin> set s" for s and c :: char
    using that by (simp add: count_list_0_iff)
  moreover have "count_list s c = 1" if "c \<in> set s" "\<not> count_list s c > 1" for s and c :: char
    using that count_list_0_iff [of s c] by linarith
  ultimately show ?thesis
    by (auto simp: normVersion_def Let_def VersionIsValid_def split: if_splits)
qed

lemma normVersion_halves: "splitChar (CHR ''-'') (normVersion v) = [mainPart v, revPart v]"
proof -
  have "length (splitChar (CHR ''-'') (normVersion v)) = 2"
    by (simp add: length_splitChar normVersion_count)
  then show ?thesis
    unfolding mainPart_def revPart_def
    by (cases "splitChar (CHR ''-'') (normVersion v)" rule: list.exhaust;
        cases "tl (splitChar (CHR ''-'') (normVersion v))") auto
qed

definition wfFull :: "string \<Rightarrow> bool" where
  "wfFull v \<longleftrightarrow> wfVersion (mainPart v) \<and> wfVersion (revPart v)"

lemma VersionCompare_range: "VersionCompare a b \<in> {-1, 0, 1}"
  using compareSubversion_range [of "mainPart a" "mainPart b"]
    compareSubversion_range [of "revPart a" "revPart b"]
  by (auto simp: VersionCompare_parts Let_def)

lemma VersionCompare_swap: "VersionCompare b a = - VersionCompare a b"
  using compareSubversion_anti [of "mainPart b" "mainPart a"]
    compareSubversion_anti [of "revPart b" "revPart a"]
  by (auto simp: VersionCompare_parts Let_def)

lemma VersionCompare_le_trans:
  assumes wf: "wfFull x" "wfFull y" "wfFull z"
    and xy: "VersionCompare x y \<le> 0" and yz: "VersionCompare y z \<le> 0"
  shows "VersionCompare x z \<le> 0"
proof -
  let ?m = "\<lambda>a b. compareSubversion (mainPart a) (mainPart b)"
  let ?r = "\<lambda>a b. compareSubversion (revPart a) (revPart b)"
  have wm: "wfVersion (mainPart x)" "wfVersion (mainPart y)" "wfVersion (mainPart z)"
    and wr: "wfVersion (revPart x)" "wfVersion (revPart y)" "wfVersion (revPart z)"
    using wf by (auto simp: wfFull_def)
  have m: "?m x y \<le> 0" "?m y z \<le> 0"
    and r: "?m x y = 0 \<Longrightarrow> ?r x y \<le> 0" "?m y z = 0 \<Longrightarrow> ?r y z \<le> 0"
    using xy yz by (auto simp: VersionCompare_parts Let_def split: if_splits)
  show ?thesis
  proof (cases "?m x y = 0 \<and> ?m y z = 0")
    case True
    then have "?m x z = 0" using subv.cmp_eq_cong [OF wm] by simp
    moreover have "?r x z \<le> 0" using True r subv.cmp_trans [OF wr] by simp
    ultimately show ?thesis by (simp add: VersionCompare_parts)
  next
    case False
    then have "?m x z < 0" using subv.cmp_less_trans [OF wm m] m by linarith
    then show ?thesis by (simp add: VersionCompare_parts Let_def)
  qed
qed

interpretation versions: comparator wfFull VersionCompare
proof
  show "VersionCompare y x = - VersionCompare x y" for x y by (rule VersionCompare_swap)
qed (rule VersionCompare_range, rule VersionCompare_le_trans)

section \<open>Pre-releases\<close>

lemma cmpFragment_nonDigit:
  "nonDigitStr a \<Longrightarrow> cmpFragment a b = cmpString a b"
  by (simp add: cmpFragment_def atoi_nonDigitStr)

lemma cmpString_tilde: "cmpString (p @ CHR ''~'' # t) p = -1"
  unfolding cmpString_def
  using cmpLoop_append_same [of p "\<lambda>a b. cmpInt (chOrder a) (chOrder b)" "CHR ''0''"
      "CHR ''~'' # t" "[]"]
  by (simp add: chOrder_digit) (simp add: chOrder_def cmpInt_def)

lemma cmpFragment_tilde:
  "list_all (\<lambda>c. \<not> isDigit c) t \<Longrightarrow> cmpFragment (CHR ''~'' # t) ''0'' = -1"
  by (subst cmpFragment_nonDigit)
     (simp_all add: nonDigitStr_def cmpString_def chOrder_digit, simp add: chOrder_def cmpInt_def)

lemma frags_tilde_less:
  "cmpLoop cmpFragment ''0'' (getFragments (v @ CHR ''~'' # s)) (getFragments v) = -1"
proof (induction v rule: getFragments.induct)
  case 1
  have "list_all (\<lambda>c. \<not> isDigit c) (takeWhile (\<lambda>x. \<not> isDigit x) s)"
    by (auto simp: list_all_iff dest: set_takeWhileD)
  then show ?case by (simp add: cmpFragment_tilde Let_def)
next
  case (2 c cs)
  let ?p = "\<lambda>x. isDigit x = isDigit c"
  let ?t = "CHR ''~'' # s"
  show ?case
  proof (cases "dropWhile ?p cs = []")
    case False
    then obtain x where x: "x \<in> set cs" "\<not> ?p x" by (auto simp: dropWhile_eq_Nil_conv)
    then have "takeWhile ?p (cs @ ?t) = takeWhile ?p cs"
      and "dropWhile ?p (cs @ ?t) = dropWhile ?p cs @ ?t"
      by (auto intro: takeWhile_append1 dropWhile_append1)
    then show ?thesis using "2.IH" [OF refl] by (simp add: Let_def frags.cmp_refl)
  next
    case drop: True
    then have all: "\<forall>x \<in> set cs. ?p x" by (simp add: dropWhile_eq_Nil_conv)
    show ?thesis
    proof (cases "isDigit c")
      case True
      have "takeWhile ?p (cs @ ?t) = cs" and "dropWhile ?p (cs @ ?t) = ?t"
        and "takeWhile ?p cs = cs"
        using all True by (auto simp: takeWhile_append dropWhile_append takeWhile_eq_all_conv)
      then have "getFragments (c # cs @ ?t) = (c # cs) # getFragments ?t"
        and "getFragments (c # cs) = [c # cs]"
        using getFragments.simps(2) [of c "cs @ ?t"] getFragments.simps(2) [of c cs]
        by (simp_all only: Let_def drop getFragments.simps(1))
      moreover have "cmpLoop cmpFragment ''0'' (getFragments ?t) [] = -1"
        using "2.IH" [OF refl] drop by (simp only: append_Nil getFragments.simps(1))
      ultimately show ?thesis by (simp add: frags.cmp_refl)
    next
      case False
      have tk: "takeWhile ?p (cs @ ?t) = cs @ CHR ''~'' # takeWhile ?p s"
        and tk': "takeWhile ?p cs = cs"
        using all False by (auto simp: takeWhile_append)
      have "nonDigitStr (c # cs @ CHR ''~'' # takeWhile ?p s)"
        using all False by (auto simp: nonDigitStr_def list_all_iff dest: set_takeWhileD)
      then have "cmpFragment (c # cs @ CHR ''~'' # takeWhile ?p s) (c # cs) = -1"
        using cmpString_tilde [of "c # cs"] by (simp add: cmpFragment_nonDigit)
      then show ?thesis
        using getFragments.simps(2) [of c "cs @ ?t"] getFragments.simps(2) [of c cs]
        by (simp only: Let_def tk tk' drop append_Cons cmpLoop.simps) simp
    qed
  qed
qed

lemma halves_noDash:
  assumes "VersionIsValid v" and "CHR ''-'' \<notin> set v"
  shows "mainPart v = v" and "revPart v = ''0''"
  using assms splitChar_append [of "CHR ''-''" v "''0''"]
  by (simp_all add: mainPart_def revPart_def normVersion_def)

text \<open>
  C2. The version comparison is a total preorder on versions whose numbers fit an
  \<^verbatim>\<open>int\<close>: every pair compares as -1, 0 or 1, swapping the arguments negates the result,
  and the relation "not greater" is transitive, so that sorting by \<^verbatim>\<open>ByVersion\<close> and
  \<^verbatim>\<open>BySnapVersion\<close> is well defined.
\<close>

theorem VersionCompare_total_preorder:
  assumes "wfFull x" and "wfFull y" and "wfFull z"
  shows "VersionCompare x y \<in> {-1, 0, 1}
    \<and> VersionCompare y x = - VersionCompare x y
    \<and> (VersionCompare x y \<le> 0 \<and> VersionCompare y z \<le> 0 \<longrightarrow> VersionCompare x z \<le> 0)
    \<and> (VersionCompare x y = 0 \<longrightarrow> VersionCompare x z = VersionCompare y z)"
  using VersionCompare_range [of x y] VersionCompare_swap [of y x]
    VersionCompare_le_trans [OF assms] versions.cmp_eq_cong [OF assms] by blast

theorem VersionCompare_total_preorder_witness:
  "wfFull ''1.2'' \<and> wfFull ''1.10'' \<and> wfFull ''2.0~rc1-3'' \<and>
   VersionCompare ''1.2'' ''1.10'' \<le> 0 \<and> VersionCompare ''1.10'' ''2.0~rc1-3'' \<le> 0 \<and>
   VersionCompare ''1.2'' ''2.0~rc1-3'' \<le> 0"
proof -
  have wf: "wfFull ''1.2''" "wfFull ''1.10''" "wfFull ''2.0~rc1-3''"
    by code_simp+
  have le: "VersionCompare ''1.2'' ''1.10'' \<le> 0" "VersionCompare ''1.10'' ''2.0~rc1-3'' \<le> 0"
    by code_simp+
  show ?thesis using wf le VersionCompare_total_preorder [OF wf] by blast
qed

text \<open>
  A tilde marks a pre-release: whatever follows it, a valid version without a
  revision extended by a tilde compares as older than the version itself.
\<close>

lemma VersionCompare_tilde_older:
  assumes "VersionIsValid v" and "CHR ''-'' \<notin> set v"
    and "VersionIsValid (v @ ''~'' @ s)" and "CHR ''-'' \<notin> set s"
  shows "VersionCompare (v @ ''~'' @ s) v = -1"
proof -
  have "CHR ''-'' \<notin> set (v @ ''~'' @ s)" using assms(2,4) by simp
  from halves_noDash [OF assms(3) this] halves_noDash [OF assms(1,2)] frags_tilde_less [of v s]
  show ?thesis by (simp add: VersionCompare_parts compareSubversion_def)
qed

text \<open>
  Numbers of a version that do not fit an \<^verbatim>\<open>int\<close> are not ordered: two versions that
  consist of one run of digits each, one of them too large, compare as equal.
\<close>

lemma VersionCompare_overflow_equal:
  assumes "digitStr a" and "digitStr b" and "\<not> fitsInt a"
  shows "VersionCompare a b = 0"
proof -
  have frag: "getFragments s = [s]" if "digitStr s" for s
    using that
    by (cases s)
       (auto simp: digitStr_def list_all_iff Let_def takeWhile_eq_all_conv dropWhile_eq_Nil_conv
          [THEN iffD2])
  have dash: "CHR ''-'' \<notin> set s" if "digitStr s" for s
    using that by (auto simp: digitStr_def list_all_iff)
  have valid: "VersionIsValid s" if d: "digitStr s" for s
  proof -
    obtain c cs where s: "s = c # cs" using d by (cases s) (auto simp: digitStr_def)
    then have "isDigit c" using d by (simp add: digitStr_def)
    then have "\<not> isBlank s"
      using s by (auto simp: isBlank_def allSpace.simps [of "_ # _"] stripSpaceRune_def isDigit_def
          split: list.splits)
    moreover have "\<not> matchEpoch s"
      using d by (simp add: matchEpoch_def digitStr_def dropWhile_all)
    moreover have "count_list s (CHR ''-'') = 0" using dash [OF d] by (simp add: count_list_0_iff)
    ultimately show ?thesis by (simp add: VersionIsValid_def)
  qed
  have "cmpFragment a b = 0"
    using assms cmpString_digits [of a b] by (simp add: cmpFragment_def atoi_digitStr digitStr_def)
  moreover have "compareSubversion ''0'' ''0'' = 0" by (rule subv.cmp_refl)
  ultimately show ?thesis
    using assms frag valid dash halves_noDash by (simp add: VersionCompare_parts compareSubversion_def)
qed

lemma VersionCompare_overflow_equal_example:
  "VersionCompare ''20151201123456789012345'' ''7'' = 0"
proof -
  have d: "digitStr ''20151201123456789012345''" "digitStr ''7''"
    and n: "\<not> fitsInt ''20151201123456789012345''"
    by code_simp+
  show ?thesis by (rule VersionCompare_overflow_equal [OF d n])
qed

end
