(* ===== verification/Errors.thy ===== *)
theory Errors
  imports Partition
begin

text \<open>
  The errors of the \<^verbatim>\<open>snappy\<close> package, \<^verbatim>\<open>snappy/errors.go\<close>, with the message of each, and
  the small part of \<^verbatim>\<open>fmt\<close> and \<^verbatim>\<open>strconv\<close> that the messages use.
\<close>

section \<open>Formatting\<close>

definition digitChar :: "int \<Rightarrow> char" where
  "digitChar d = char_of (48 + d)"

function itoaU :: "int \<Rightarrow> string" where
  "itoaU n = (if n < 10 then [digitChar n] else itoaU (n div 10) @ [digitChar (n mod 10)])"
  by pat_completeness auto
termination
  by (relation "measure nat") auto

declare itoaU.simps [simp del]

definition itoa :: "int \<Rightarrow> string" where
  "itoa n = (if n < 0 then CHR ''-'' # itoaU (- n) else itoaU n)"

lemma isDigit_digitChar: "0 \<le> d \<Longrightarrow> d < 10 \<Longrightarrow> isDigit (digitChar d)"
  by (simp add: isDigit_def digitChar_def)

lemma itoaU_digits: "0 \<le> n \<Longrightarrow> list_all isDigit (itoaU n) \<and> itoaU n \<noteq> []"
proof (induction n rule: itoaU.induct)
  case (1 n)
  show ?case
  proof (cases "n < 10")
    case True
    then show ?thesis using 1 isDigit_digitChar by (simp add: itoaU.simps [of n])
  next
    case False
    then show ?thesis using 1 isDigit_digitChar [of "n mod 10"] by (simp add: itoaU.simps [of n])
  qed
qed

lemma digitsVal_append: "digitsVal acc (xs @ ys) = digitsVal (digitsVal acc xs) ys"
  by (induction xs arbitrary: acc) auto

lemma digitsVal_itoaU: "0 \<le> n \<Longrightarrow> digitsVal 0 (itoaU n) = n"
proof (induction n rule: itoaU.induct)
  case (1 n)
  show ?case
  proof (cases "n < 10")
    case True
    then show ?thesis using 1 by (simp add: itoaU.simps [of n] digitChar_def)
  next
    case False
    then have "digitsVal 0 (itoaU (n div 10)) = n div 10" using 1 by simp
    then show ?thesis
      using False by (simp add: itoaU.simps [of n] digitsVal_append digitChar_def)
  qed
qed

text \<open>
  \<^verbatim>\<open>strconv.Quote\<close>; a byte of 128 or more belongs to a code point that is taken to be
  printable and is kept.
\<close>

definition hexDigit :: "int \<Rightarrow> char" where
  "hexDigit d = (if d < 10 then char_of (48 + d) else char_of (87 + d))"

definition quoteChar :: "char \<Rightarrow> string" where
  "quoteChar c =
     (let b = byte c
      in if b = 34 then [CHR 0x5C, c]
         else if b = 92 then [c, c]
         else if b = 7 then [CHR 0x5C, CHR ''a'']
         else if b = 8 then [CHR 0x5C, CHR ''b'']
         else if b = 12 then [CHR 0x5C, CHR ''f'']
         else if b = 10 then [CHR 0x5C, CHR ''n'']
         else if b = 13 then [CHR 0x5C, CHR ''r'']
         else if b = 9 then [CHR 0x5C, CHR ''t'']
         else if b = 11 then [CHR 0x5C, CHR ''v'']
         else if b < 32 \<or> b = 127 then [CHR 0x5C, CHR ''x'', hexDigit (b div 16), hexDigit (b mod 16)]
         else [c])"

definition goQuote :: "string \<Rightarrow> string" where
  "goQuote s = CHR 0x22 # concat (map quoteChar s) @ [CHR 0x22]"

section \<open>The errors\<close>

text \<open>The error variables of the package.\<close>

datatype snapErr =
    ErrPackageNotFound
  | ErrServiceNotFound
  | ErrNeedRoot
  | ErrPackageNotRemovable
  | ErrConfigNotFound
  | ErrInvalidHWDevice
  | ErrHWAccessRemoveNotFound
  | ErrHWAccessAlreadyAdded
  | ErrReadmeInvalid
  | ErrAuthenticationNeeds2fa
  | ErrNotInstalled
  | ErrAlreadyInstalled
  | ErrStillActive
  | ErrPackageNameAlreadyInstalled
  | ErrOEMPackageInstall
  | ErrPrivOpInProgress
  | ErrInvalidCredentials
  | ErrInvalidFrameworkSpecInYaml
  | ErrSnapNotActive
  | ErrBuildPlatformNotSupported
  | ErrLicenseNotAccepted
  | ErrLicenseBlank
  | ErrLicenseNotProvided
  | ErrNotFirstBoot
  | ErrNotImplemented
  | ErrNoOemConfiguration
  | ErrInstalledNonSnapPart
  | ErrSideLoaded
  | ErrPackageNameNotSupported
  | ErrInvalidPart
  | ErrInvalidSeccompPolicy
  | ErrNoSeccompPolicy

fun snapErrText :: "snapErr \<Rightarrow> string" where
  "snapErrText ErrPackageNotFound = ''snappy package not found''"
| "snapErrText ErrServiceNotFound = ''snappy service not found''"
| "snapErrText ErrNeedRoot =
     ''this command requires root access. Please re-run using '' @ [CHR 0x27] @ ''sudo'' @ [CHR 0x27]"
| "snapErrText ErrPackageNotRemovable = ''snappy package cannot be removed''"
| "snapErrText ErrConfigNotFound = ''no config found for this snap''"
| "snapErrText ErrInvalidHWDevice = ''invalid hardware device''"
| "snapErrText ErrHWAccessRemoveNotFound = ''can not find device in hw-access list''"
| "snapErrText ErrHWAccessAlreadyAdded = ''device is already in hw-access list''"
| "snapErrText ErrReadmeInvalid = ''meta/readme.md invalid''"
| "snapErrText ErrAuthenticationNeeds2fa = ''authentication needs second factor''"
| "snapErrText ErrNotInstalled = ''the given snap is not installed''"
| "snapErrText ErrAlreadyInstalled = ''the given snap is already installed''"
| "snapErrText ErrStillActive = ''the given snap is still installed''"
| "snapErrText ErrPackageNameAlreadyInstalled = ''a package by that name is already installed''"
| "snapErrText ErrOEMPackageInstall = ''oem package installation not allowed''"
| "snapErrText ErrPrivOpInProgress = ''privileged operation already in progress''"
| "snapErrText ErrInvalidCredentials = ''invalid credentials''"
| "snapErrText ErrInvalidFrameworkSpecInYaml =
     ''yaml can'' @ [CHR 0x27] @ ''t have both '' @ goQuote ''frameworks'' @ '' and (deprecated) ''
     @ goQuote ''framework'' @ '' keys''"
| "snapErrText ErrSnapNotActive = ''snap not active''"
| "snapErrText ErrBuildPlatformNotSupported = ''building on a not (yet) supported platform''"
| "snapErrText ErrLicenseNotAccepted = ''license not accepted''"
| "snapErrText ErrLicenseBlank =
     ''package.yaml requires accepting a license, but license file was blank''"
| "snapErrText ErrLicenseNotProvided =
     ''package.yaml requires license, but no license was provided''"
| "snapErrText ErrNotFirstBoot = ''this is not your first boot''"
| "snapErrText ErrNotImplemented = ''not implemented''"
| "snapErrText ErrNoOemConfiguration = ''no configuration entry found in the oem snap''"
| "snapErrText ErrInstalledNonSnapPart = ''installed dependent snap is not a SnapPart''"
| "snapErrText ErrSideLoaded = ''cannot update system that uses custom enablement''"
| "snapErrText ErrPackageNameNotSupported = ''package name with origin not supported''"
| "snapErrText ErrInvalidPart = ''invalid package on system''"
| "snapErrText ErrInvalidSeccompPolicy =
     ''policy-version and policy-vendor must be specified together''"
| "snapErrText ErrNoSeccompPolicy = ''no seccomp policy provided''"

text \<open>
  Errors of the operating system: the kind that \<^verbatim>\<open>os.IsNotExist\<close> and \<^verbatim>\<open>os.IsExist\<close>
  tell apart, and the call. \<open>KIO\<close> is the error of a call that the fault oracle lets fail.
\<close>

datatype oskind = KNotExist | KExist | KNotDir | KNotEmpty | KLoop | KIO

text \<open>
  The errors of the package: the variables above, the error types of \<^verbatim>\<open>errors.go\<close>, the
  errors of the operating system, of the partition package, of \<^verbatim>\<open>systemd\<close>, network
  errors and texts made with \<^verbatim>\<open>fmt.Errorf\<close>.
\<close>

datatype serr =
    SErr snapErr
  | ErrDownload int string
  | ErrArchitectureNotSupported "string list"
  | ErrInstallFailed string serr
  | ErrHookFailed string string int
  | ErrDataCopyFailed string string int
  | ErrUpgradeVerificationFailed string
  | ErrStructIllegalContent string string string
  | ErrGarbageCollectImpossible string
  | ErrNameClash string
  | ErrMissingFrameworks "string list"
  | ErrFrameworkInUse "string list"
  | ErrApparmorGenerate int string
  | ErrInvalidYaml string string string
  | OsErr oskind event
  | PartErr perr
  | SystemdError "string list" int string
  | SystemdTimeout string string
  | NetErr string
  | Errorf string
  | GoPanic string

definition IsNotExist :: "serr \<Rightarrow> bool" where
  "IsNotExist e = (case e of OsErr KNotExist _ \<Rightarrow> True | _ \<Rightarrow> False)"

text \<open>The text of a system call error: the operation, its path and the reason.\<close>

fun eventText :: "event \<Rightarrow> string" where
  "eventText (ECmd args) = join args '' ''"
| "eventText (EMkdirAll p) = ''mkdir '' @ p"
| "eventText (ERemove p) = ''remove '' @ p"
| "eventText (ERemoveAll p) = ''unlinkat '' @ p"
| "eventText (ESymlink t p) = ''symlink '' @ t @ '' '' @ p"
| "eventText (EWrite p) = ''open '' @ p"
| "eventText (ECopy s d) = ''copy '' @ s @ '' '' @ d"
| "eventText (ECall s) = s"

fun kindText :: "oskind \<Rightarrow> string" where
  "kindText KNotExist = ''no such file or directory''"
| "kindText KExist = ''file exists''"
| "kindText KNotDir = ''not a directory''"
| "kindText KNotEmpty = ''directory not empty''"
| "kindText KLoop = ''too many levels of symbolic links''"
| "kindText KIO = ''input/output error''"

text \<open>
  \<^verbatim>\<open>Error()\<close>. The argument is the architecture of the system, which the message of
  \<^verbatim>\<open>ErrArchitectureNotSupported\<close> names; the texts of foreign errors (of the partition
  package and of the network) are left at their name.
\<close>

fun errorText :: "string \<Rightarrow> serr \<Rightarrow> string" where
  "errorText arch (SErr e) = snapErrText e"
| "errorText arch (ErrDownload code u) =
     ''received an unexpected http response code ('' @ itoa code @ '') when trying to download '' @ u"
| "errorText arch (ErrArchitectureNotSupported as) =
     ''package'' @ [CHR 0x27] @ ''s supported architectures ('' @ join as '', ''
     @ '') is incompatible with this system ('' @ arch @ '')''"
| "errorText arch (ErrInstallFailed snap e) = snap @ '' failed to install: '' @ errorText arch e"
| "errorText arch (ErrHookFailed cmd out code) =
     ''hook command '' @ cmd @ '' failed with exit status '' @ itoa code
     @ '' (output: '' @ goQuote out @ '')''"
| "errorText arch (ErrDataCopyFailed old new code) =
     ''data copy from '' @ old @ '' to '' @ new @ '' failed with exit status '' @ itoa code"
| "errorText arch (ErrUpgradeVerificationFailed msg) = ''upgrade verification failed: '' @ msg"
| "errorText arch (ErrStructIllegalContent f c wl) =
     ''services description field '' @ [CHR 0x27] @ f @ [CHR 0x27] @ '' contains illegal ''
     @ [CHR 0x27] @ c @ [CHR 0x27] @ '' (legal: '' @ [CHR 0x27] @ wl @ [CHR 0x27] @ '')''"
| "errorText arch (ErrGarbageCollectImpossible s) =
     ''garbage collection impossible: prerequisites untrue: '' @ s"
| "errorText arch (ErrNameClash s) =
     ''you can'' @ [CHR 0x27] @ ''t have a binary and service both called '' @ s"
| "errorText arch (ErrMissingFrameworks xs) = ''missing frameworks: '' @ join xs '', ''"
| "errorText arch (ErrFrameworkInUse xs) = ''framework still in use by: '' @ join xs '', ''"
| "errorText arch (ErrApparmorGenerate code out) =
     ''apparmor generate fails with '' @ itoa code @ '': '' @ [CHR 0x27] @ out @ [CHR 0x27]"
| "errorText arch (ErrInvalidYaml file err yaml) =
     ''can not parse '' @ file @ '': '' @ err @ '' (from: '' @ goQuote yaml @ '')''"
| "errorText arch (OsErr k ev) = eventText ev @ '': '' @ kindText k"
| "errorText arch (PartErr e) = ''partition error''"
| "errorText arch (SystemdError cmd code msg) =
     ''['' @ join cmd '' '' @ ''] failed with exit status '' @ itoa code @ '': '' @ msg"
| "errorText arch (SystemdTimeout action service) =
     service @ '' failed to '' @ action @ '': timeout''"
| "errorText arch (NetErr s) = s"
| "errorText arch (Errorf s) = s"
| "errorText arch (GoPanic s) = s"

end
