(* ===== verification/Os.thy ===== *)
theory Os
  imports Errors
begin

text \<open>
  What the \<^verbatim>\<open>snappy\<close> package uses of Go's \<^verbatim>\<open>os\<close>, \<^verbatim>\<open>ioutil\<close>, \<^verbatim>\<open>filepath\<close> and
  \<^verbatim>\<open>os/exec\<close>: files, links, directories, globs and commands, over the world of the
  partition package extended by the output and exit codes of commands, the clock and the
  answers of the user. Reading follows links anywhere in a path; a call that changes the
  file system takes its path as it is written and needs the parent directory to exist.
\<close>

section \<open>The world\<close>

record sworld = pworld +
  outs :: "event list \<Rightarrow> event \<Rightarrow> string"
  exits :: "event list \<Rightarrow> event \<Rightarrow> int option"
  lapse :: "event list \<Rightarrow> event \<Rightarrow> nat"
  clock :: int
  agrees :: "string \<Rightarrow> string \<Rightarrow> bool"

text \<open>An effect of the partition package, with its errors embedded.\<close>

definition liftP :: "('w, perr, 'a) io \<Rightarrow> ('w, serr, 'a) io" where
  "liftP m = (\<lambda>w. case m w of (Inl e, w') \<Rightarrow> (Inl (PartErr e), w') | (Inr x, w') \<Rightarrow> (Inr x, w'))"

lemma liftP_run:
  "m w = (Inr x, w') \<Longrightarrow> liftP m w = (Inr x, w')"
  "m w = (Inl e, w') \<Longrightarrow> liftP m w = (Inl (PartErr e), w')"
  by (simp_all add: liftP_def)

lemma snd_liftP [simp]: "snd (liftP m w) = snd (m w)"
  by (simp add: liftP_def split: prod.splits sum.splits)

definition fromRes :: "'e + 'a \<Rightarrow> ('w, 'e, 'a) io" where
  "fromRes r = (case r of Inl e \<Rightarrow> throw e | Inr x \<Rightarrow> ret x)"

lemma fromRes_simps [simp]: "fromRes (Inl e) = throw e" "fromRes (Inr x) = ret x"
  by (simp_all add: fromRes_def)

lemma keeps_fromRes [keeps_intros]: "keeps P (fromRes r)"
  by (cases r) (simp_all add: keeps_ret keeps_throw)

section \<open>Looking at files\<close>

definition child :: "string \<Rightarrow> string \<Rightarrow> string" where
  "child d c = (if d = ''/'' then slash # c else d @ slash # c)"

definition isAbs :: "string \<Rightarrow> bool" where
  "isAbs p \<longleftrightarrow> p \<noteq> [] \<and> hd p = slash"

text \<open>
  Path resolution from a directory, following at most \<open>n\<close> links.
\<close>

function walk :: "nat \<Rightarrow> fsys \<Rightarrow> string \<Rightarrow> string list \<Rightarrow> (oskind, string) res" where
  "walk n f d [] = Inr d"
| "walk n f d (c # cs) =
     (if c = '''' \<or> c = ''.'' then walk n f d cs
      else if c = ''..'' then walk n f (pathDir d) cs
      else
        (case fget f (child d c) of
           None \<Rightarrow> Inl KNotExist
         | Some FDir \<Rightarrow> walk n f (child d c) cs
         | Some (FFile _) \<Rightarrow> if cs = [] then Inr (child d c) else Inl KNotDir
         | Some (FLink t) \<Rightarrow>
             (case n of
                0 \<Rightarrow> Inl KLoop
              | Suc m \<Rightarrow> walk m f (if isAbs t then ''/'' else d) (splitChar slash t @ cs))))"
  by pat_completeness auto
termination
  by (relation "measures [\<lambda>(n, f, d, cs). n, \<lambda>(n, f, d, cs). length cs]") auto

text \<open>\<^verbatim>\<open>filepath.EvalSymlinks\<close>: at most 255 links.\<close>

definition evalSymlinks :: "fsys \<Rightarrow> string \<Rightarrow> (oskind, string) res" where
  "evalSymlinks f p = walk 255 f ''/'' (splitChar slash p)"

definition nodeAt :: "fsys \<Rightarrow> string \<Rightarrow> fnode option" where
  "nodeAt f p = (if p = ''/'' then Some FDir else fget f p)"

text \<open>
  \<^verbatim>\<open>os.Stat\<close>. A file or directory found under the path itself needs no resolution.
\<close>

definition stat :: "fsys \<Rightarrow> string \<Rightarrow> (oskind, fnode) res" where
  "stat f p =
     (case nodeAt f p of
        Some FDir \<Rightarrow> Inr FDir
      | Some (FFile c) \<Rightarrow> Inr (FFile c)
      | _ \<Rightarrow> rbind (evalSymlinks f p) (\<lambda>q. case nodeAt f q of None \<Rightarrow> Inl KNotExist | Some n \<Rightarrow> Inr n))"

lemma stat_file: "fget f p = Some (FFile c) \<Longrightarrow> p \<noteq> ''/'' \<Longrightarrow> stat f p = Inr (FFile c)"
  by (simp add: stat_def nodeAt_def)

definition isDirectory :: "fsys \<Rightarrow> string \<Rightarrow> bool" where
  "isDirectory f p \<longleftrightarrow> stat f p = Inr FDir"

definition exists :: "fsys \<Rightarrow> string \<Rightarrow> bool" where
  "exists f p \<longleftrightarrow> (case stat f p of Inr _ \<Rightarrow> True | Inl _ \<Rightarrow> False)"

definition ioReadFile :: "string \<Rightarrow> ('m world_scheme, serr, string) io" where
  "ioReadFile p = (\<lambda>w.
     (case stat (fs w) p of
        Inl k \<Rightarrow> (Inl (OsErr k (ECall (''open '' @ p))), w)
      | Inr (FFile c) \<Rightarrow> (Inr c, w)
      | Inr _ \<Rightarrow> (Inl (OsErr KIO (ECall (''read '' @ p))), w)))"

lemma ioReadFile_world [simp]: "snd (ioReadFile p w) = w"
  by (simp add: ioReadFile_def split: sum.splits fnode.splits)

text \<open>
  \<^verbatim>\<open>filepath.Glob\<close>, with the wild cards \<open>*\<close> and \<open>?\<close>: level by level, the names of each
  directory in their order.
\<close>

fun globMatch :: "string \<Rightarrow> string \<Rightarrow> bool" where
  "globMatch [] s = (s = [])"
| "globMatch (p # ps) [] = (p = CHR ''*'' \<and> globMatch ps [])"
| "globMatch (p # ps) (c # cs) =
     (if p = CHR ''*'' then globMatch ps (c # cs) \<or> globMatch (p # ps) cs
      else (p = CHR ''?'' \<or> p = c) \<and> globMatch ps cs)"

definition dirNames :: "fsys \<Rightarrow> string \<Rightarrow> string list" where
  "dirNames f d =
     (if isDirectory f d
      then (case evalSymlinks f d of Inl _ \<Rightarrow> [] | Inr r \<Rightarrow> map pathBase (listDir f r))
      else [])"

fun globFrom :: "fsys \<Rightarrow> string list \<Rightarrow> string list \<Rightarrow> string list" where
  "globFrom f ds [] = ds"
| "globFrom f ds (p # ps) =
     globFrom f (concat (map (\<lambda>d. map (child d) (filter (globMatch p) (dirNames f d))) ds)) ps"

definition glob :: "fsys \<Rightarrow> string \<Rightarrow> string list" where
  "glob f pat = globFrom f [''/''] (filter (\<lambda>c. c \<noteq> '''') (splitChar slash pat))"

section \<open>Changing files\<close>

definition setNode :: "string \<Rightarrow> fnode \<Rightarrow> ('m world_scheme, serr, unit) io" where
  "setNode p n = modifies (\<lambda>w. w\<lparr>fs := fput (fs w) p n\<rparr>)"

text \<open>\<^verbatim>\<open>ioutil.WriteFile\<close>: a link as the last name is followed.\<close>

definition writeTarget :: "fsys \<Rightarrow> string \<Rightarrow> string" where
  "writeTarget f p =
     (case fget f p of
        Some (FLink _) \<Rightarrow> (case evalSymlinks f p of Inr q \<Rightarrow> q | Inl _ \<Rightarrow> p)
      | _ \<Rightarrow> p)"

definition ioWriteFile :: "string \<Rightarrow> string \<Rightarrow> ('m world_scheme, serr, unit) io" where
  "ioWriteFile p c =
     andThen (fallible (OsErr KIO (EWrite p)) (EWrite p))
       (bind (gets fs) (\<lambda>f.
          if \<not> isDirectory f (pathDir p) then throw (OsErr KNotExist (EWrite p))
          else if nodeAt f (writeTarget f p) = Some FDir then throw (OsErr KIO (EWrite p))
          else setNode (writeTarget f p) (FFile c)))"

text \<open>\<^verbatim>\<open>helpers.AtomicWriteFile\<close> without \<^verbatim>\<open>AtomicWriteFollow\<close>, as one step: a link is replaced.\<close>

definition ioAtomicWrite :: "string \<Rightarrow> string \<Rightarrow> ('m world_scheme, serr, unit) io" where
  "ioAtomicWrite p c =
     andThen (fallible (OsErr KIO (EWrite p)) (EWrite p))
       (bind (gets fs) (\<lambda>f.
          if \<not> isDirectory f (pathDir p) then throw (OsErr KNotExist (EWrite p))
          else if fget f p = Some FDir then throw (OsErr KIO (EWrite p))
          else setNode p (FFile c)))"

definition ioSymlink :: "string \<Rightarrow> string \<Rightarrow> ('m world_scheme, serr, unit) io" where
  "ioSymlink t p =
     andThen (fallible (OsErr KIO (ESymlink t p)) (ESymlink t p))
       (bind (gets fs) (\<lambda>f.
          if \<not> isDirectory f (pathDir p) then throw (OsErr KNotExist (ESymlink t p))
          else if nodeAt f p \<noteq> None then throw (OsErr KExist (ESymlink t p))
          else setNode p (FLink t)))"

text \<open>\<^verbatim>\<open>os.Remove\<close>: a file, a link or an empty directory.\<close>

definition ioRemove :: "string \<Rightarrow> ('m world_scheme, serr, unit) io" where
  "ioRemove p =
     andThen (fallible (OsErr KIO (ERemove p)) (ERemove p))
       (bind (gets fs) (\<lambda>f.
          if fget f p = None then throw (OsErr KNotExist (ERemove p))
          else if fget f p = Some FDir \<and> listDir f p \<noteq> [] then throw (OsErr KNotEmpty (ERemove p))
          else modifies (\<lambda>w. w\<lparr>fs := fdrop (\<lambda>q. q = p) (fs w)\<rparr>)))"

text \<open>\<^verbatim>\<open>os.RemoveAll\<close>: a missing path is no error.\<close>

definition inTree :: "string \<Rightarrow> string \<Rightarrow> bool" where
  "inTree p q \<longleftrightarrow> q = p \<or> hasPrefix q (p @ [slash])"

definition ioRemoveAll :: "string \<Rightarrow> ('m world_scheme, serr, unit) io" where
  "ioRemoveAll p =
     andThen (fallible (OsErr KIO (ERemoveAll p)) (ERemoveAll p))
       (modifies (\<lambda>w. w\<lparr>fs := fdrop (inTree p) (fs w)\<rparr>))"

text \<open>
  \<^verbatim>\<open>os.MkdirAll\<close>: every missing directory on the way; what is there already has to be a
  directory.
\<close>

fun mkdirs :: "string \<Rightarrow> string list \<Rightarrow> fsys \<Rightarrow> bool \<times> fsys" where
  "mkdirs d [] f = (True, f)"
| "mkdirs d (c # cs) f =
     (if c = '''' then mkdirs d cs f
      else if nodeAt f (child d c) = None then mkdirs (child d c) cs (fput f (child d c) FDir)
      else if isDirectory f (child d c) then mkdirs (child d c) cs f
      else (False, f))"

definition ioMkdirAll :: "string \<Rightarrow> ('m world_scheme, serr, unit) io" where
  "ioMkdirAll p =
     andThen (fallible (OsErr KIO (EMkdirAll p)) (EMkdirAll p))
       (\<lambda>w. case mkdirs ''/'' (splitChar slash p) (fs w) of
              (True, f) \<Rightarrow> (Inr (), w\<lparr>fs := f\<rparr>)
            | (False, f) \<Rightarrow> (Inl (OsErr KNotDir (EMkdirAll p)), w\<lparr>fs := f\<rparr>))"

section \<open>Commands\<close>

text \<open>
  A command: its output, and on failure also its exit code, which is missing when the
  command could not be started (\<^verbatim>\<open>helpers.ExitCode\<close> then returns its argument).
\<close>

definition execCmd ::
    "string list \<Rightarrow> ('m sworld_scheme, int option \<times> string, string) io" where
  "execCmd args = (\<lambda>w.
     let ev = ECmd args;
         w' = w\<lparr>hist := ev # hist w, clock := clock w + int (lapse w (hist w) ev)\<rparr>;
         out = outs w (hist w) ev
     in if faults w (hist w) ev then (Inl (exits w (hist w) ev, out), w') else (Inr out, w'))"

definition mapErr :: "('e \<Rightarrow> 'f) \<Rightarrow> ('w, 'e, 'a) io \<Rightarrow> ('w, 'f, 'a) io" where
  "mapErr g m = (\<lambda>w. case m w of (Inl e, w') \<Rightarrow> (Inl (g e), w') | (Inr x, w') \<Rightarrow> (Inr x, w'))"

lemma snd_mapErr [simp]: "snd (mapErr g m w) = snd (m w)"
  by (simp add: mapErr_def split: prod.splits sum.splits)

lemma keeps_mapErr [keeps_intros]: "keeps P m \<Longrightarrow> keeps P (mapErr g m)"
  by (simp add: keeps_def)

lemma keeps_liftP [keeps_intros]: "keeps P m \<Longrightarrow> keeps P (liftP m)"
  by (simp add: keeps_def)

definition timeNow :: "('m sworld_scheme, 'e, int) io" where
  "timeNow = gets clock"

definition sleep :: "int \<Rightarrow> ('m sworld_scheme, 'e, unit) io" where
  "sleep d = modifies (\<lambda>w. w\<lparr>clock := clock w + d\<rparr>)"

text \<open>\<^verbatim>\<open>if err := m; err != nil && !ok(err) { return err }\<close>.\<close>

definition tolerating :: "('e \<Rightarrow> bool) \<Rightarrow> ('w, 'e, unit) io \<Rightarrow> ('w, 'e, unit) io" where
  "tolerating okErr m =
     bind (attempt m) (\<lambda>r. case r of
        Inr _ \<Rightarrow> ret ()
      | Inl e \<Rightarrow> if okErr e then ret () else throw e)"

lemma keeps_tolerating [keeps_intros]: "keeps P m \<Longrightarrow> keeps P (tolerating g m)"
  unfolding tolerating_def
  by (intro keeps_intros) (auto simp: keeps_def split: sum.splits)

section \<open>What the calls keep\<close>

text \<open>
  A call changes a node only when its path is among those it names. \<open>onlyFs\<close> collects what
  the other components need: nothing but the file system, the history and the clock changes.
\<close>

lemma keeps_fallible:
  "(\<And>w h. P w \<Longrightarrow> P (w\<lparr>hist := h\<rparr>)) \<Longrightarrow> keeps P (fallible e ev)"
  by (simp add: keeps_def fallible_world)

definition nodeIs :: "string \<Rightarrow> fnode option \<Rightarrow> 'm world_scheme \<Rightarrow> bool" where
  "nodeIs p n w \<longleftrightarrow> fget (fs w) p = n"

lemma nodeIs_hist [simp]: "nodeIs p n (w\<lparr>hist := h\<rparr>) = nodeIs p n w"
  by (simp add: nodeIs_def)

lemma nodeIs_fs [simp]: "nodeIs p n (w\<lparr>fs := f\<rparr>) \<longleftrightarrow> fget f p = n"
  by (simp add: nodeIs_def)

lemma keeps_nodeIs_fallible [keeps_intros]: "keeps (nodeIs p n) (fallible e ev)"
  by (rule keeps_fallible) simp

lemma keeps_nodeIs_read [keeps_intros]: "keeps P (ioReadFile q)"
  by (simp add: keeps_def)

lemma keeps_nodeIs_exec [keeps_intros]: "keeps (nodeIs p n) (execCmd args)"
  by (simp add: keeps_def execCmd_def Let_def nodeIs_def)

lemma keeps_nodeIs_sleep [keeps_intros]: "keeps (nodeIs p n) (sleep d)"
  by (simp add: keeps_def sleep_def nodeIs_def)

lemma keeps_nodeIs_now [keeps_intros]: "keeps P timeNow"
  by (simp add: timeNow_def keeps_gets)

lemma keeps_nodeIs_set: "p \<noteq> q \<Longrightarrow> keeps (nodeIs p n) (setNode q m)"
  by (simp add: keeps_def setNode_def nodeIs_def)

text \<open>A missing path stays missing under removals, an existing link under additions.\<close>

lemma keeps_None_remove [keeps_intros]: "keeps (nodeIs p None) (ioRemove q)"
  unfolding ioRemove_def by (intro keeps_intros) (simp add: nodeIs_def)

lemma keeps_None_removeAll [keeps_intros]: "keeps (nodeIs p None) (ioRemoveAll q)"
  unfolding ioRemoveAll_def by (intro keeps_intros) (simp add: nodeIs_def)

lemma keeps_other_remove: "p \<noteq> q \<Longrightarrow> keeps (nodeIs p n) (ioRemove q)"
  unfolding ioRemove_def by (intro keeps_intros) (simp add: nodeIs_def)

lemma keeps_other_removeAll: "\<not> inTree q p \<Longrightarrow> keeps (nodeIs p n) (ioRemoveAll q)"
  unfolding ioRemoveAll_def by (intro keeps_intros) (simp add: nodeIs_def)

lemma mkdirs_fget: "fget f p = Some n \<Longrightarrow> fget (snd (mkdirs d cs f)) p = Some n"
proof (induction d cs f rule: mkdirs.induct)
  case (2 d c cs f)
  then show ?case
    by (cases "p = child d c") (auto simp: nodeAt_def split: if_splits)
qed simp

lemma keeps_mkdirAll: "keeps (nodeIs p (Some n)) (ioMkdirAll q)"
  unfolding ioMkdirAll_def
proof (intro keeps_intros)
  show "keeps (nodeIs p (Some n))
     (\<lambda>w. case mkdirs ''/'' (splitChar slash q) (fs w) of
            (True, f) \<Rightarrow> (Inr (), w\<lparr>fs := f\<rparr>)
          | (False, f) \<Rightarrow> (Inl (OsErr KNotDir (EMkdirAll q)), w\<lparr>fs := f\<rparr>))"
    using mkdirs_fget [of _ p n "''/''" "splitChar slash q"]
    by (auto simp: keeps_def nodeIs_def split: prod.splits bool.splits)
       (metis snd_conv)+
qed

lemma keeps_symlink: "keeps (nodeIs p (Some n)) (ioSymlink t q)"
proof (cases "p = q")
  case True
  have "nodeIs p (Some n) w \<Longrightarrow> nodeIs p (Some n) (snd (ioSymlink t q w))" for w :: "'a world_scheme"
    using True by (auto simp: ioSymlink_def andThen_def bind_def fallible_def setNode_def nodeIs_def
        nodeAt_def Let_def throw_def)
  then show ?thesis by (simp add: keeps_def)
next
  case False
  then show ?thesis
    unfolding ioSymlink_def by (intro keeps_intros keeps_nodeIs_set) auto
qed

text \<open>A symlink that was created is there.\<close>

lemma ioSymlink_ok: "ioSymlink t p w = (Inr u, w') \<Longrightarrow> fget (fs w') p = Some (FLink t)"
  by (auto simp: ioSymlink_def andThen_def bind_def fallible_def setNode_def Let_def
      split: if_splits)

end
