(* ===== verification/Helpers.thy ===== *)
theory Helpers
  imports Version Os "HOL-Library.Word"
begin

unbundle bit_operations_syntax

text \<open>
  Small functions of \<^verbatim>\<open>helpers/helpers.go\<close>: the version given to a sideloaded package,
  device numbers, file modes, environment lists, and the atomic replacement of a file with
  all its system calls.
\<close>

section \<open>Versions of sideloaded packages\<close>

definition letters :: string where
  "letters = ''ABCDEFGHIJKLMNOPQRSTUVWXYabcdefghijklmnopqrstuvwxy''"

text \<open>
  \<^verbatim>\<open>NewSideloadVersion\<close> at the time \<open>n\<close>, in nanoseconds: the loop fills its buffer from the
  end. The shift of a signed number is the one of \<open>drop_bit\<close>.
\<close>

fun fillVersion :: "nat \<Rightarrow> int \<Rightarrow> string \<Rightarrow> string" where
  "fillVersion 0 n bs = bs"
| "fillVersion (Suc i) n bs = fillVersion i (drop_bit 5 n) (letters ! nat (n AND 31) # bs)"

definition NewSideloadVersion :: "int \<Rightarrow> string" where
  "NewSideloadVersion n = fillVersion 12 n []"

lemma fillVersion_append: "fillVersion k n bs = fillVersion k n [] @ bs"
proof (induction k arbitrary: n bs)
  case (Suc k)
  show ?case
    by (simp only: fillVersion.simps Suc [of _ "_ # bs"] Suc [of _ "[_]"] append.simps append_assoc)
qed simp

lemma fillVersion_Suc:
  "fillVersion (Suc k) n [] = fillVersion k (n div 32) [] @ [letters ! nat (n mod 32)]"
proof -
  have "n AND 31 = n mod 32" using take_bit_eq_mask [of 5 n] by (simp add: take_bit_eq_mod mask_eq_exp_minus_1)
  then show ?thesis
    using fillVersion_append [of k "n div 32" "[letters ! nat (n mod 32)]"] by (simp add: drop_bit_eq_div)
qed

lemma length_fillVersion: "length (fillVersion k n []) = k"
  by (induction k arbitrary: n) (simp_all add: fillVersion_Suc del: fillVersion.simps(2))

lemma letters_32:
  "list_all (\<lambda>i. isAlpha (letters ! i) \<and> (\<forall>j < 32. cmpInt (chOrder (letters ! i)) (chOrder (letters ! j)) = cmpInt (int i) (int j)))
     [0..<32]"
  by code_simp

lemma letters_alpha: "0 \<le> a \<Longrightarrow> a < 32 \<Longrightarrow> isAlpha (letters ! nat a)"
  using letters_32 by (auto simp: list_all_iff)

lemma letters_cmp:
  assumes "0 \<le> a" "a < 32" "0 \<le> b" "b < 32"
  shows "cmpInt (chOrder (letters ! nat a)) (chOrder (letters ! nat b)) = cmpInt a b"
proof -
  have "nat a \<in> set [0..<32]" "nat b < 32" using assms by auto
  then have "cmpInt (chOrder (letters ! nat a)) (chOrder (letters ! nat b)) = cmpInt (int (nat a)) (int (nat b))"
    using letters_32 unfolding list_all_iff by blast
  then show ?thesis using assms by simp
qed

lemma fillVersion_alpha: "list_all isAlpha (fillVersion k n [])"
  by (induction k arbitrary: n) (simp_all add: fillVersion_Suc letters_alpha del: fillVersion.simps(2))

lemma cmpLoop_snoc:
  "length xs = length ys \<Longrightarrow>
   cmpLoop c p (xs @ [a]) (ys @ [b]) = (if cmpLoop c p xs ys \<noteq> 0 then cmpLoop c p xs ys else c a b)"
  by (induction xs ys rule: list_induct2) (simp_all add: Let_def)

lemma cmpInt_split:
  fixes q r s t :: int
  assumes "0 \<le> r" "r < m" "0 \<le> t" "t < m"
  shows "cmpInt (m * q + r) (m * s + t) = (if cmpInt q s \<noteq> 0 then cmpInt q s else cmpInt r t)"
proof -
  have less: "m * u + v < m * u' + v'" if "u < u'" "v < m" "0 \<le> v'" for u v u' v' :: int
  proof -
    have "m > 0" using assms by linarith
    have "m * u + v < m * u + m" using that by simp
    also have "\<dots> = m * (u + 1)" by (simp add: algebra_simps)
    also have "\<dots> \<le> m * u'" using that \<open>m > 0\<close> by simp
    finally show ?thesis using that by linarith
  qed
  show ?thesis
    using less [of q s r t] less [of s q t r] assms by (cases q s rule: linorder_cases) (auto simp: cmpInt_def)
qed

lemma fillVersion_cmp:
  "cmpString (fillVersion k a []) (fillVersion k b []) = cmpInt (a mod 32 ^ k) (b mod 32 ^ k)"
proof (induction k arbitrary: a b)
  case (Suc k)
  have m: "n mod 32 ^ Suc k = 32 * (n div 32 mod 32 ^ k) + n mod 32" for n :: int
    using zmod_zmult2_eq [of "32 ^ k" n 32] by simp
  have "cmpString (fillVersion (Suc k) a []) (fillVersion (Suc k) b []) =
      (if cmpInt (a div 32 mod 32 ^ k) (b div 32 mod 32 ^ k) \<noteq> 0
       then cmpInt (a div 32 mod 32 ^ k) (b div 32 mod 32 ^ k) else cmpInt (a mod 32) (b mod 32))"
    using Suc [of "a div 32" "b div 32"]
    by (simp only: fillVersion_Suc cmpString_def)
       (subst cmpLoop_snoc, simp_all add: length_fillVersion letters_cmp)
  also have "\<dots> = cmpInt (a mod 32 ^ Suc k) (b mod 32 ^ Suc k)"
    unfolding m by (rule cmpInt_split [symmetric]) simp_all
  finally show ?case .
qed (simp add: cmpString_def)

lemma alpha_not_space: "65 \<le> b \<Longrightarrow> b \<le> 122 \<Longrightarrow> stripSpaceRune (b # bs) = None"
  by (simp add: stripSpaceRune_def split: list.splits)

lemma NewSideloadVersion_valid:
  "VersionIsValid (NewSideloadVersion n)" "CHR ''-'' \<notin> set (NewSideloadVersion n)"
proof -
  let ?v = "NewSideloadVersion n"
  have al: "list_all isAlpha ?v" by (simp add: NewSideloadVersion_def fillVersion_alpha)
  have "length ?v = 12" unfolding NewSideloadVersion_def by (rule length_fillVersion)
  then obtain c cs where v: "?v = c # cs" by (cases ?v) auto
  then have c: "isAlpha c" using al by simp
  show dash: "CHR ''-'' \<notin> set ?v" using al by (auto simp: list_all_iff isAlpha_def)
  have "\<not> isBlank ?v"
    using v c alpha_not_space [of "byte c" "map byte cs"]
    by (auto simp: isBlank_def allSpace.simps [of "_ # _"] isAlpha_def)
  moreover have "\<not> isDigit c" using c by (auto simp: isAlpha_def isDigit_def)
  then have "\<not> matchEpoch ?v" using v by (simp add: matchEpoch_def)
  ultimately show "VersionIsValid ?v" using dash by (simp add: VersionIsValid_def)
qed

lemma isAlpha_nonDigit: "isAlpha c \<Longrightarrow> \<not> isDigit c"
  by (auto simp: isAlpha_def isDigit_def)

lemma fillVersion_fragments: "getFragments (fillVersion (Suc k) n []) = [fillVersion (Suc k) n []]"
proof -
  obtain c cs where v: "fillVersion (Suc k) n [] = c # cs"
    using length_fillVersion [of "Suc k" n] by (cases "fillVersion (Suc k) n []") auto
  have "list_all isAlpha (c # cs)" using fillVersion_alpha [of "Suc k" n] v by simp
  then have "\<forall>x\<in>set cs. isDigit x = isDigit c"
    by (auto simp: list_all_iff dest: isAlpha_nonDigit)
  then show ?thesis unfolding v by (simp add: Let_def takeWhile_eq_all_conv [THEN iffD2] dropWhile_eq_Nil_conv [THEN iffD2])
qed

lemma fillVersion_atoi: "atoi (fillVersion (Suc k) n []) = None"
proof -
  obtain c cs where v: "fillVersion (Suc k) n [] = c # cs"
    using length_fillVersion [of "Suc k" n] by (cases "fillVersion (Suc k) n []") auto
  have "isAlpha c" using fillVersion_alpha [of "Suc k" n] v by simp
  then show ?thesis unfolding v by (auto simp: atoi_def atoiUnsigned_def isAlpha_def isDigit_def)
qed

text \<open>
  C25. Versions given to sideloaded packages compare like the times they were made at, as long
  as the times lie in one period of $2^{60}$ nanoseconds (36 years, the present one ends in
  2043); across the end of a period a later version compares as older.
\<close>

theorem NewSideloadVersion_order:
  "VersionCompare (NewSideloadVersion a) (NewSideloadVersion b) = cmpInt (a mod 2 ^ 60) (b mod 2 ^ 60)"
proof -
  note v = NewSideloadVersion_valid
  have "VersionCompare (NewSideloadVersion a) (NewSideloadVersion b) =
      (let r = compareSubversion (NewSideloadVersion a) (NewSideloadVersion b)
       in if r \<noteq> 0 then r else compareSubversion ''0'' ''0'')"
    by (simp only: VersionCompare_parts halves_noDash [OF v])
  also have "compareSubversion ''0'' ''0'' = 0" by (rule subv.cmp_refl)
  also have "compareSubversion (NewSideloadVersion a) (NewSideloadVersion b) = cmpInt (a mod 2 ^ 60) (b mod 2 ^ 60)"
    using fillVersion_fragments [of 11] fillVersion_atoi [of 11] fillVersion_cmp [of 12 a b]
    by (simp add: NewSideloadVersion_def compareSubversion_def cmpFragment_def)
  finally show ?thesis by simp
qed

section \<open>Device numbers and modes\<close>

definition ModeSymlink :: "32 word" where "ModeSymlink = push_bit 27 1"
definition ModeDevice :: "32 word" where "ModeDevice = push_bit 26 1"
definition ModeCharDevice :: "32 word" where "ModeCharDevice = push_bit 21 1"

definition IsSymlink :: "32 word \<Rightarrow> bool" where
  "IsSymlink mode \<longleftrightarrow> mode AND ModeSymlink = ModeSymlink"

definition IsDevice :: "32 word \<Rightarrow> bool" where
  "IsDevice mode \<longleftrightarrow> mode AND (ModeDevice OR ModeCharDevice) \<noteq> 0"

definition MajorMinor :: "string \<Rightarrow> 32 word \<Rightarrow> 64 word \<Rightarrow> (string, 32 word \<times> 32 word) res" where
  "MajorMinor fname mode dev =
     (if \<not> IsDevice mode then Inl (''No device '' @ fname)
      else Inr ((ucast (drop_bit 8 dev AND 0xfff) :: 32 word) OR (ucast (drop_bit 32 dev) AND NOT 0xfff),
                (ucast (dev AND 0xff) :: 32 word) OR (ucast (drop_bit 12 dev) AND NOT 0xff)))"

definition Makedev :: "32 word \<Rightarrow> 32 word \<Rightarrow> 32 word" where
  "Makedev major minor = (minor AND 0xff) OR push_bit 8 (major AND 0xfff)"

lemma mask_words:
  "(0xff :: 'a::len word) = mask 8" "(0xfff :: 'a::len word) = mask 12"
  by (simp_all add: mask_eq_exp_minus_1)

text \<open>
  \<^verbatim>\<open>Makedev\<close> and \<^verbatim>\<open>MajorMinor\<close> agree on major numbers of 12 bits and minor numbers of 8
  bits; of larger ones \<^verbatim>\<open>Makedev\<close> drops the rest, although its comment says that it
  implements makedev(3), which keeps them.
\<close>

lemma Makedev_MajorMinor:
  assumes "IsDevice mode"
  shows "MajorMinor f mode (ucast (Makedev major minor)) = Inr (major AND 0xfff, minor AND 0xff)"
proof -
  let ?d = "ucast (Makedev major minor) :: 64 word"
  have "(ucast (drop_bit 8 ?d AND 0xfff) :: 32 word) OR (ucast (drop_bit 32 ?d) AND NOT 0xfff) = major AND 0xfff"
    unfolding Makedev_def mask_words
    by (rule bit_word_eqI) (auto simp: bit_simps)
  moreover have "(ucast (?d AND 0xff) :: 32 word) OR (ucast (drop_bit 12 ?d) AND NOT 0xff) = minor AND 0xff"
    unfolding Makedev_def mask_words
    by (rule bit_word_eqI) (auto simp: bit_simps)
  ultimately show ?thesis using assms by (simp add: MajorMinor_def)
qed

lemma Makedev_MajorMinor_example:
  "MajorMinor ''ttyUSB0'' ModeDevice (ucast (Makedev 188 300)) = Inr (188, 44)"
proof -
  have "IsDevice ModeDevice" by code_simp
  from Makedev_MajorMinor [OF this, of "''ttyUSB0''" 188 300] show ?thesis by simp
qed

section \<open>Environment lists\<close>

text \<open>\<^verbatim>\<open>MakeMapFromEnvList\<close>: \<open>None\<close> is the nil map of an entry without an equals sign.\<close>

fun envMap :: "(string \<rightharpoonup> string) \<Rightarrow> string list \<Rightarrow> (string \<rightharpoonup> string) option" where
  "envMap m [] = Some m"
| "envMap m (l # ls) =
     (case splitN2 (CHR ''='') l of
        [k, v] \<Rightarrow> envMap (m(k \<mapsto> v)) ls
      | _ \<Rightarrow> None)"

definition MakeMapFromEnvList :: "string list \<Rightarrow> (string \<rightharpoonup> string) option" where
  "MakeMapFromEnvList env = envMap Map.empty env"

section \<open>Replacing a file atomically\<close>

text \<open>
  The system calls of \<^verbatim>\<open>AtomicWriteFile\<close>. Each may fail by itself. A crash of the machine
  is a run in which every later call fails, the cleanup included, so that a property of all
  runs is one of all crashes too.
\<close>

definition openDir :: "string \<Rightarrow> ('m world_scheme, serr, unit) io" where
  "openDir d =
     andThen (fallible (OsErr KIO (ECall (''open '' @ d))) (ECall (''open '' @ d)))
       (bind (gets fs) (\<lambda>f.
          case stat f d of Inl k \<Rightarrow> throw (OsErr k (ECall (''open '' @ d))) | Inr _ \<Rightarrow> ret ()))"

text \<open>\<^verbatim>\<open>O_CREATE|O_EXCL\<close>: nothing may have the name, not even a dangling link.\<close>

definition createExcl :: "string \<Rightarrow> ('m world_scheme, serr, unit) io" where
  "createExcl p =
     andThen (fallible (OsErr KIO (EWrite p)) (EWrite p))
       (bind (gets fs) (\<lambda>f.
          if \<not> isDirectory f (pathDir p) then throw (OsErr KNotExist (EWrite p))
          else if nodeAt f p \<noteq> None then throw (OsErr KExist (EWrite p))
          else setNode p (FFile '''')))"

text \<open>A write that fails has stored the first \<open>n\<close> bytes.\<close>

definition writeFd :: "nat \<Rightarrow> string \<Rightarrow> string \<Rightarrow> ('m world_scheme, serr, unit) io" where
  "writeFd n p data =
     bind (attempt (fallible (OsErr KIO (EWrite p)) (EWrite p))) (\<lambda>r.
       case r of
         Inl e \<Rightarrow> andThen (setNode p (FFile (take n data))) (throw e)
       | Inr _ \<Rightarrow> setNode p (FFile data))"

definition syncFd :: "string \<Rightarrow> ('m world_scheme, serr, unit) io" where
  "syncFd p = fallible (OsErr KIO (ECall (''sync '' @ p))) (ECall (''sync '' @ p))"

definition closeFd :: "string \<Rightarrow> ('m world_scheme, serr, unit) io" where
  "closeFd p = fallible (OsErr KIO (ECall (''close '' @ p))) (ECall (''close '' @ p))"

text \<open>\<^verbatim>\<open>rename(2)\<close> of a file: the target is replaced, unless it is a directory.\<close>

definition ioRename :: "string \<Rightarrow> string \<Rightarrow> ('m world_scheme, serr, unit) io" where
  "ioRename a b =
     andThen (fallible (OsErr KIO (ECopy a b)) (ECopy a b))
       (bind (gets fs) (\<lambda>f.
          case fget f a of
            None \<Rightarrow> throw (OsErr KNotExist (ECopy a b))
          | Some n \<Rightarrow>
              (if nodeAt f b = Some FDir then throw (OsErr KExist (ECopy a b))
               else modifies (\<lambda>w. w\<lparr>fs := fput (fdrop (\<lambda>q. q = a) (fs w)) b n\<rparr>))))"

text \<open>\<^verbatim>\<open>os.Readlink\<close> with \<^verbatim>\<open>AtomicWriteFollow\<close>: one link is followed.\<close>

definition followOnce :: "fsys \<Rightarrow> string \<Rightarrow> string" where
  "followOnce f p =
     (case fget f p of
        Some (FLink t) \<Rightarrow> (if isAbs t then t else pathJoin [pathDir p, t])
      | _ \<Rightarrow> p)"

text \<open>
  The deferred function closes the file, keeps the first error and removes the temporary
  file if there is one.
\<close>

definition finishTmp :: "string \<Rightarrow> (serr, unit) res \<Rightarrow> ('m world_scheme, serr, unit) io" where
  "finishTmp tmp r =
     bind (attempt (closeFd tmp)) (\<lambda>c.
       let err = (case r of Inr _ \<Rightarrow> c | Inl e \<Rightarrow> Inl e)
       in case err of
            Inl e \<Rightarrow> andThen (ignoring (ioRemove tmp)) (throw e)
          | Inr _ \<Rightarrow> ret ())"

definition AtomicWriteFile ::
    "nat \<Rightarrow> string \<Rightarrow> string \<Rightarrow> string \<Rightarrow> bool \<Rightarrow> ('m world_scheme, serr, unit) io" where
  "AtomicWriteFile n rnd filename data follow =
     bind (gets (\<lambda>w. if follow then followOnce (fs w) filename else filename)) (\<lambda>filename.
     let tmp = filename @ ''.'' @ rnd; dir = pathDir filename
     in andThen (openDir dir)
       (andThen (createExcl tmp)
         (deferIO
           (andThen (writeFd n tmp data)
             (andThen (syncFd tmp)
               (andThen (ioRename tmp filename) (syncFd dir))))
           (finishTmp tmp))))"

subsection \<open>Old or new, never anything else\<close>

definition onlyChanges :: "string set \<Rightarrow> 'm world_scheme \<Rightarrow> 'm world_scheme \<Rightarrow> bool" where
  "onlyChanges A w w' \<longleftrightarrow> (\<forall>q. q \<notin> A \<longrightarrow> fget (fs w') q = fget (fs w) q)"

lemma onlyChangesD: "onlyChanges A w w' \<Longrightarrow> q \<notin> A \<Longrightarrow> fget (fs w') q = fget (fs w) q"
  by (simp add: onlyChanges_def)

lemma finishTmp_changes: "onlyChanges {tmp} w (snd (finishTmp tmp r w))"
  by (cases r) (auto simp: finishTmp_def closeFd_def ioRemove_def bind_def andThen_def ignoring_def attempt_def
      fallible_def Let_def onlyChanges_def modifies_def throw_def split: sum.splits prod.splits)

lemma finishTmp_ok: "fst (finishTmp tmp r w) = Inr () \<Longrightarrow> r = Inr () \<and> fs (snd (finishTmp tmp r w)) = fs w"
  by (cases r) (auto simp: finishTmp_def closeFd_def bind_def andThen_def ignoring_def attempt_def
      fallible_def Let_def throw_def split: sum.splits prod.splits)

lemma createExcl_cases:
  "createExcl p w = (r, w') \<Longrightarrow>
     (r = Inr () \<and> fget (fs w) p = None \<and> fget (fs w') p = Some (FFile '''') \<and> onlyChanges {p} w w')
     \<or> ((\<exists>e. r = Inl e) \<and> fs w' = fs w)"
  by (auto simp: createExcl_def andThen_def bind_def fallible_def setNode_def Let_def onlyChanges_def throw_def
      nodeAt_def split: if_splits)

lemma openDir_fs: "fs (snd (openDir d w)) = fs w"
  by (auto simp: openDir_def andThen_def bind_def fallible_def Let_def throw_def split: sum.splits)

text \<open>The calls between the creation and the end of the temporary file.\<close>

lemma atomicBody_cases:
  assumes "fget (fs w) tmp = Some (FFile c)" and "tmp \<noteq> p"
    and "andThen (writeFd n tmp data) (andThen (syncFd tmp) (andThen (ioRename tmp p) (syncFd d))) w = (r, w')"
  shows "onlyChanges {tmp, p} w w' \<and>
     ((fget (fs w') p = fget (fs w) p \<and> (\<exists>e. r = Inl e))
      \<or> (fget (fs w') p = Some (FFile data) \<and> fget (fs w') tmp = None))"
  using assms
  by (auto simp: writeFd_def syncFd_def ioRename_def andThen_def bind_def attempt_def fallible_def setNode_def
      Let_def onlyChanges_def throw_def split: if_splits)

lemma AtomicWriteFile_cases:
  fixes w w' :: "'m world_scheme"
  assumes "AtomicWriteFile n rnd p data False w = (r, w')"
  shows "fget (fs w') p \<in> {fget (fs w) p, Some (FFile data)}
    \<and> (\<forall>q. q \<noteq> p \<and> q \<noteq> p @ ''.'' @ rnd \<longrightarrow> fget (fs w') q = fget (fs w) q)
    \<and> (r = Inr () \<longrightarrow> fget (fs w') p = Some (FFile data) \<and> fget (fs w') (p @ ''.'' @ rnd) = fget (fs w) (p @ ''.'' @ rnd))"
proof -
  let ?tmp = "p @ ''.'' @ rnd"
  define w1 where "w1 = snd (openDir (pathDir p) w)"
  have w1: "fs w1 = fs w" by (simp add: w1_def openDir_fs)
  show ?thesis
  proof (cases "fst (openDir (pathDir p) w)")
    case (Inl e)
    then have "openDir (pathDir p) w = (Inl e, w1)" by (simp add: w1_def prod_eq_iff)
    then have "r = Inl e" "w' = w1" using assms by (auto simp: AtomicWriteFile_def Let_def andThen_err)
    then show ?thesis using w1 by simp
  next
    case (Inr u)
    then have "openDir (pathDir p) w = (Inr u, w1)" by (simp add: w1_def prod_eq_iff)
    then have run: "andThen (createExcl ?tmp)
         (deferIO (andThen (writeFd n ?tmp data) (andThen (syncFd ?tmp)
            (andThen (ioRename ?tmp p) (syncFd (pathDir p))))) (finishTmp ?tmp)) w1 = (r, w')"
      using assms by (simp add: AtomicWriteFile_def Let_def andThen_ok)
    obtain rc w2 where c: "createExcl ?tmp w1 = (rc, w2)" by fastforce
    from createExcl_cases [OF c] show ?thesis
    proof (elim disjE conjE exE)
      fix e assume "rc = Inl e" "fs w2 = fs w1"
      then have "r = Inl e" "w' = w2" using run c by (auto simp: andThen_err)
      then show ?thesis using \<open>fs w2 = fs w1\<close> w1 by simp
    next
      assume rc: "rc = Inr ()" and fresh: "fget (fs w1) ?tmp = None"
        and t: "fget (fs w2) ?tmp = Some (FFile '''')" and o2: "onlyChanges {?tmp} w1 w2"
      obtain rb w3 where b: "andThen (writeFd n ?tmp data) (andThen (syncFd ?tmp)
            (andThen (ioRename ?tmp p) (syncFd (pathDir p)))) w2 = (rb, w3)" by fastforce
      have fin: "finishTmp ?tmp rb w3 = (r, w')" using run c rc b by (simp add: andThen_ok)
      have ne: "?tmp \<noteq> p" by simp
      note body = atomicBody_cases [OF t ne b]
      have o4: "onlyChanges {?tmp} w3 w'" using finishTmp_changes [of ?tmp w3 rb] fin by simp
      have p2: "fget (fs w2) p = fget (fs w) p" using onlyChangesD [OF o2, of p] w1 by simp
      have p4: "fget (fs w') p = fget (fs w3) p" using onlyChangesD [OF o4, of p] by simp
      have rest: "fget (fs w') q = fget (fs w) q" if "q \<noteq> p" "q \<noteq> ?tmp" for q
        using that onlyChangesD [OF o2, of q] onlyChangesD [OF conjunct1 [OF body], of q]
          onlyChangesD [OF o4, of q] w1 by simp
      have ok: "rb = Inr () \<and> fs w' = fs w3" if "r = Inr ()"
        using finishTmp_ok [of ?tmp rb w3] that fin by simp
      show ?thesis using body p2 p4 rest ok fresh w1 by auto
    qed
  qed
qed

text \<open>
  The rest of the model writes a file atomically in one step, \<open>ioAtomicWrite\<close>: where both
  succeed, they leave the same file system.
\<close>

lemma AtomicWriteFile_refines:
  assumes "AtomicWriteFile n rnd p data False w = (Inr (), w1)" and "ioAtomicWrite p data w = (Inr (), w2)"
  shows "fget (fs w1) = fget (fs w2)"
proof
  fix q
  have "fget (fs w2) q = (if q = p then Some (FFile data) else fget (fs w) q)"
    using assms(2) by (auto simp: ioAtomicWrite_def andThen_def bind_def fallible_def setNode_def Let_def
        throw_def split: if_splits)
  then show "fget (fs w1) q = fget (fs w2) q"
    using AtomicWriteFile_cases [OF assms(1)] by (cases "q = p @ ''.'' @ rnd") auto
qed

text \<open>
  C5. \<^verbatim>\<open>AtomicWriteFile\<close> is atomic. Whichever of its system calls fail, also all after some
  point as in a crash, the file holds afterwards either what it held before or the new
  contents; nothing but the file and the temporary file changes, and on success not even
  the latter.
\<close>

theorem AtomicWriteFile_atomic:
  fixes w w' :: "'m world_scheme"
  assumes "AtomicWriteFile n rnd p data False w = (r, w')"
  shows "fget (fs w') p \<in> {fget (fs w) p, Some (FFile data)}
    \<and> (\<forall>q. q \<noteq> p \<and> q \<noteq> p @ ''.'' @ rnd \<longrightarrow> fget (fs w') q = fget (fs w) q)
    \<and> (r = Inr () \<longrightarrow> fget (fs w') p = Some (FFile data) \<and> fget (fs w') (p @ ''.'' @ rnd) = fget (fs w) (p @ ''.'' @ rnd))"
  by (rule AtomicWriteFile_cases [OF assms])

definition tmpWorld :: world where
  "tmpWorld = \<lparr>fs = [(''/etc'', FDir), (''/etc/conf'', FFile ''old'')], hist = [],
     faults = (\<lambda>h ev. ev = ECall ''sync /etc/conf.Xy'')\<rparr>"

definition tmpRun :: "(serr, unit) res \<times> world" where
  "tmpRun = AtomicWriteFile 2 ''Xy'' ''/etc/conf'' ''new'' False tmpWorld"

theorem AtomicWriteFile_atomic_witness:
  "fget (fs (snd tmpRun)) ''/etc/conf'' = Some (FFile ''old'') \<and>
   fget (fs (snd tmpRun)) ''/etc'' = Some FDir"
proof -
  have run: "AtomicWriteFile 2 ''Xy'' ''/etc/conf'' ''new'' False tmpWorld = (fst tmpRun, snd tmpRun)"
    by (simp add: tmpRun_def)
  have "fget (fs (snd tmpRun)) ''/etc/conf'' \<noteq> Some (FFile ''new'')" by code_simp
  then show ?thesis using AtomicWriteFile_atomic [OF run] by (auto simp: tmpWorld_def fget_def)
qed

end
