(* ===== verification/Systemd.thy ===== *)
theory Systemd
  imports Os
begin

text \<open>
  Managing services, \<^verbatim>\<open>systemd/systemd.go\<close>: the calls of \<^verbatim>\<open>systemctl\<close>, waiting for a
  service to stop, reading the status of a service, and the unit files; with the environment
  variables of a snap from \<^verbatim>\<open>helpers/helpers.go\<close>, which the unit files contain.
\<close>

section \<open>systemctl\<close>

definition SystemctlCmd :: "string list \<Rightarrow> ('m sworld_scheme, serr, string) io" where
  "SystemctlCmd args =
     mapErr (\<lambda>(code, out). SystemdError args (case code of None \<Rightarrow> 0 | Some c \<Rightarrow> c) out)
       (execCmd (''systemctl'' # args))"

definition IsTimeout :: "serr \<Rightarrow> bool" where
  "IsTimeout e = (case e of SystemdTimeout _ _ \<Rightarrow> True | _ \<Rightarrow> False)"

definition servicesSystemdTarget :: string where "servicesSystemdTarget = ''multi-user.target''"
definition socketsSystemdTarget :: string where "socketsSystemdTarget = ''sockets.target''"
definition snapServicesDir :: string where "snapServicesDir = ''/etc/systemd/system''"

definition DaemonReload :: "('m sworld_scheme, serr, unit) io" where
  "DaemonReload = andThen (SystemctlCmd [''daemon-reload'']) (ret ())"

definition Enable :: "string \<Rightarrow> string \<Rightarrow> ('m sworld_scheme, serr, unit) io" where
  "Enable rootDir serviceName =
     (let enableSymlink = pathJoin [rootDir, snapServicesDir, servicesSystemdTarget @ ''.wants'', serviceName];
          serviceFilename = pathJoin [rootDir, snapServicesDir, serviceName]
      in bind (gets (\<lambda>w. fget (fs w) enableSymlink)) (\<lambda>n.
           if n \<noteq> None then ret ()
           else ioSymlink (drop (length rootDir) serviceFilename) enableSymlink))"

definition Disable :: "string \<Rightarrow> string \<Rightarrow> ('m sworld_scheme, serr, unit) io" where
  "Disable rootDir serviceName =
     andThen (SystemctlCmd [''--root'', rootDir, ''disable'', serviceName]) (ret ())"

definition Start :: "string \<Rightarrow> ('m sworld_scheme, serr, unit) io" where
  "Start serviceName = andThen (SystemctlCmd [''start'', serviceName]) (ret ())"

definition Kill :: "string \<Rightarrow> string \<Rightarrow> ('m sworld_scheme, serr, unit) io" where
  "Kill serviceName signal = andThen (SystemctlCmd [''kill'', serviceName, ''-s'', signal]) (ret ())"

section \<open>Waiting for a service to stop\<close>

text \<open>
  The regular expression is \<^verbatim>\<open>(?m)\AActiveState=(?:failed|inactive)$\<close>: the text starts with
  one of the two values, followed by the end of the line.
\<close>

definition atLineEnd :: "string \<Rightarrow> bool" where
  "atLineEnd s \<longleftrightarrow> s = [] \<or> hd s = nl"

definition isStopDone :: "string \<Rightarrow> bool" where
  "isStopDone bs \<longleftrightarrow>
     list_ex (\<lambda>v. hasPrefix bs (''ActiveState='' @ v) \<and> atLineEnd (drop (length (''ActiveState='' @ v)) bs))
       [''failed'', ''inactive'']"

definition stopSteps :: int where "stopSteps = 4 * 30"

text \<open>Durations are in nanoseconds, as in Go.\<close>

definition second :: int where "second = 1000000000"
definition stopDelay :: int where "stopDelay = 250 * 1000000"

function pollStop :: "int \<Rightarrow> string \<Rightarrow> ('m sworld_scheme, serr, bool) io" where
  "pollStop i svc =
     (if i \<le> 0 then ret False
      else bind (SystemctlCmd [''show'', ''--property=ActiveState'', svc]) (\<lambda>bs.
             if isStopDone bs then ret True
             else andThen (sleep stopDelay) (pollStop (i - 1) svc)))"
  by pat_completeness auto
termination
  by (relation "measure (\<lambda>(i, svc). nat i)") auto

declare pollStop.simps [simp del]

lemma SystemctlCmd_clock: "clock w \<le> clock (snd (SystemctlCmd args w))"
  by (simp add: SystemctlCmd_def execCmd_def Let_def)

lemma pollStop_clock:
  "pollStop i svc w = (Inr False, w') \<Longrightarrow> clock w + max 0 i * stopDelay \<le> clock w'"
proof (induction i svc arbitrary: w rule: pollStop.induct)
  case (1 i svc)
  show ?case
  proof (cases "i \<le> 0")
    case True
    then show ?thesis using 1 by (simp add: pollStop.simps [of i])
  next
    case False
    obtain bs w1 where c: "SystemctlCmd [''show'', ''--property=ActiveState'', svc] w = (Inr bs, w1)"
      and n: "\<not> isStopDone bs"
      and r: "pollStop (i - 1) svc (w1\<lparr>clock := clock w1 + stopDelay\<rparr>) = (Inr False, w')"
      using 1(2) False by (auto simp: pollStop.simps [of i] bind_Inr sleep_def split: if_splits)
    have "clock w \<le> clock w1" using SystemctlCmd_clock [of w] c by (metis snd_conv)
    moreover have "clock w1 + stopDelay + max 0 (i - 1) * stopDelay \<le> clock w'"
      using 1(1) [OF False n r] by simp
    moreover have "max 0 i * stopDelay = stopDelay + max 0 (i - 1) * stopDelay"
      using False by (simp add: algebra_simps)
    ultimately show ?thesis by simp
  qed
qed

text \<open>
  The loop until the deadline. Every round that does not end sleeps for
  \<^verbatim>\<open>stopSteps * stopDelay\<close>, so that the deadline is reached.
\<close>

function stopLoop ::
    "int \<Rightarrow> string \<Rightarrow> 'm sworld_scheme \<Rightarrow> (serr + unit) \<times> 'm sworld_scheme" where
  "stopLoop deadline svc w =
     (if clock w < deadline then
        (case pollStop stopSteps svc w of
           (Inl e, w') \<Rightarrow> (Inl e, w')
         | (Inr d, w') \<Rightarrow> if d then (Inr (), w') else stopLoop deadline svc w')
      else (Inl (SystemdTimeout ''stop'' svc), w))"
  by pat_completeness auto
termination
proof (relation "measure (\<lambda>(deadline, svc, w). nat (deadline - clock w))")
  fix deadline :: int and svc and w :: "'m sworld_scheme" and p r w' d
  assume "clock w < deadline" "(r, w') = pollStop stopSteps svc w" "r = Inr d" "\<not> d"
  then have "clock w + max 0 stopSteps * stopDelay \<le> clock w'"
    using pollStop_clock [of stopSteps svc w w'] by simp
  then show "((deadline, svc, w'), (deadline, svc, w)) \<in> measure (\<lambda>(deadline, svc, w). nat (deadline - clock w))"
    using \<open>clock w < deadline\<close> by (simp add: stopSteps_def stopDelay_def)
qed simp

declare stopLoop.simps [simp del]

definition Stop :: "string \<Rightarrow> int \<Rightarrow> ('m sworld_scheme, serr, unit) io" where
  "Stop svc timeout =
     andThen (SystemctlCmd [''stop'', svc])
       (bind timeNow (\<lambda>t. stopLoop (t + timeout) svc))"

definition Restart :: "string \<Rightarrow> int \<Rightarrow> ('m sworld_scheme, serr, unit) io" where
  "Restart svc timeout = andThen (Stop svc timeout) (Start svc)"

section \<open>Status\<close>

record ServiceStatus =
  stFileName :: string
  LoadState :: string
  ActiveState :: string
  SubState :: string
  UnitFileState :: string

definition statusLine :: "string \<Rightarrow> ServiceStatus \<Rightarrow> ServiceStatus" where
  "statusLine l st =
     (case splitN2 (CHR ''='') l of
        [k, v] \<Rightarrow>
          (if k = ''LoadState'' then st\<lparr>LoadState := v\<rparr>
           else if k = ''ActiveState'' then st\<lparr>ActiveState := v\<rparr>
           else if k = ''SubState'' then st\<lparr>SubState := v\<rparr>
           else if k = ''UnitFileState'' then st\<lparr>UnitFileState := v\<rparr>
           else st)
      | _ \<Rightarrow> st)"

definition serviceStatus :: "string \<Rightarrow> ('m sworld_scheme, serr, ServiceStatus) io" where
  "serviceStatus svc =
     bind (SystemctlCmd [''show'', ''--property=Id,LoadState,ActiveState,SubState,UnitFileState'', svc])
       (\<lambda>bs. ret (fold statusLine (splitChar nl bs)
          \<lparr>stFileName = svc, LoadState = '''', ActiveState = '''', SubState = '''', UnitFileState = ''''\<rparr>))"

definition Status :: "string \<Rightarrow> ('m sworld_scheme, serr, string) io" where
  "Status svc =
     bind (serviceStatus svc) (\<lambda>st.
       ret (UnitFileState st @ ''; '' @ LoadState st @ ''; '' @ ActiveState st
            @ '' ('' @ SubState st @ '')''))"

section \<open>The environment of a snap\<close>

definition UbuntuArchitecture :: "string \<Rightarrow> string" where
  "UbuntuArchitecture goarch =
     (if goarch = ''386'' then ''i386'' else if goarch = ''arm'' then ''armhf'' else goarch)"

definition IsSupportedArchitecture :: "string \<Rightarrow> string list \<Rightarrow> bool" where
  "IsSupportedArchitecture goarch archs =
     list_ex (\<lambda>a. a = ''all'' \<or> a = UbuntuArchitecture goarch) archs"

record snapDesc =
  eAppName :: string
  eAppArch :: string
  eAppPath :: string
  eVersion :: string
  eUdevAppName :: string
  eOrigin :: string
  eHome :: string

definition GetBasicSnapEnvVars :: "snapDesc \<Rightarrow> string list" where
  "GetBasicSnapEnvVars d =
     (let tmp = ''/tmp/snaps/'' @ eUdevAppName d @ ''/'' @ eVersion d @ ''/tmp''
      in [''TMPDIR='' @ tmp, ''TEMPDIR='' @ tmp,
          ''SNAP_APP_PATH='' @ eAppPath d,
          ''SNAP_APP_DATA_PATH=/var/lib'' @ eAppPath d,
          ''SNAP_APP_TMPDIR='' @ tmp,
          ''SNAP_NAME='' @ eAppName d,
          ''SNAP_VERSION='' @ eVersion d,
          ''SNAP_ORIGIN='' @ eOrigin d,
          ''SNAP_FULLNAME='' @ eUdevAppName d,
          ''SNAP_ARCH='' @ eAppArch d])"

definition GetUserSnapEnvVars :: "snapDesc \<Rightarrow> string list" where
  "GetUserSnapEnvVars d = [''SNAP_APP_USER_DATA_PATH='' @ eHome d @ eAppPath d]"

definition GetDeprecatedBasicSnapEnvVars :: "snapDesc \<Rightarrow> string list" where
  "GetDeprecatedBasicSnapEnvVars d =
     [''SNAPP_APP_PATH='' @ eAppPath d,
      ''SNAPP_APP_DATA_PATH=/var/lib'' @ eAppPath d,
      ''SNAPP_APP_TMPDIR=/tmp/snaps/'' @ eUdevAppName d @ ''/'' @ eVersion d @ ''/tmp'',
      ''SNAPPY_APP_ARCH='' @ eAppArch d]"

definition GetDeprecatedUserSnapEnvVars :: "snapDesc \<Rightarrow> string list" where
  "GetDeprecatedUserSnapEnvVars d = [''SNAPP_APP_USER_DATA_PATH='' @ eHome d @ eAppPath d]"

section \<open>Unit files\<close>

record ServiceDescription =
  dAppName :: string
  dServiceName :: string
  dVersion :: string
  dDescription :: string
  dAppPath :: string
  dStart :: string
  dStop :: string
  dPostStop :: string
  dStopTimeout :: int
  dAaProfile :: string
  dIsFramework :: bool
  dIsNetworked :: bool
  dBusName :: string
  dUdevAppName :: string
  dForking :: bool
  dSocket :: bool
  dSocketFileName :: string
  dListenStream :: string
  dSocketMode :: string
  dSocketUser :: string
  dSocketGroup :: string
  dServiceFileName :: string

text \<open>
  \<^verbatim>\<open>Duration.Seconds()\<close> printed with \<^verbatim>\<open>%v\<close>: the decimal number, with an exponent below
  a tenth of a millisecond. The division is taken to be exact, which it is for whole seconds.
\<close>

definition dropZeros :: "string \<Rightarrow> string" where
  "dropZeros s = rev (dropWhile (\<lambda>c. c = CHR ''0'') (rev s))"

definition fmtSecondsU :: "int \<Rightarrow> string" where
  "fmtSecondsU ns =
     (let s = ns div second; r = ns mod second
      in if r = 0 then itoa s
         else if s = 0 \<and> r < 100000 then
           (let ds = itoa r; m = dropZeros ds; e = 10 - length ds
            in hd m # (if tl m = [] then [] else CHR ''.'' # tl m) @ ''e-0'' @ itoa (int e))
         else itoa s @ ''.'' @ dropZeros (tl (itoa (second + r))))"

definition fmtSeconds :: "int \<Rightarrow> string" where
  "fmtSeconds ns = (if ns < 0 then CHR ''-'' # fmtSecondsU (- ns) else fmtSecondsU ns)"

definition launcher :: "ServiceDescription \<Rightarrow> string \<Rightarrow> string" where
  "launcher d cmd =
     ''/usr/bin/ubuntu-core-launcher '' @ dUdevAppName d @ '' '' @ dAaProfile d @ '' ''
     @ pathJoin [dAppPath d, cmd]"

definition descOrigin :: "ServiceDescription \<Rightarrow> string" where
  "descOrigin d =
     (if length (dAppName d) < length (dUdevAppName d)
      then drop (length (dAppName d) + 1) (dUdevAppName d) else '''')"

definition serviceEnv :: "string \<Rightarrow> ServiceDescription \<Rightarrow> string" where
  "serviceEnv goarch d =
     (let e = \<lparr>eAppName = dAppName d, eAppArch = UbuntuArchitecture goarch, eAppPath = dAppPath d,
               eVersion = dVersion d, eUdevAppName = dUdevAppName d, eOrigin = descOrigin d,
               eHome = ''%h''\<rparr>;
          vars = GetBasicSnapEnvVars e @ GetUserSnapEnvVars e
                 @ GetDeprecatedBasicSnapEnvVars e @ GetDeprecatedUserSnapEnvVars e
      in CHR 0x22 # join vars [CHR 0x22, CHR '' '', CHR 0x22] @ [CHR 0x22])"

text \<open>
  The template of a service unit, as the list of its lines.
\<close>

definition serviceLines :: "string \<Rightarrow> ServiceDescription \<Rightarrow> string list" where
  "serviceLines goarch d =
     (let sock = (if dSocket d then CHR '' '' # dSocketFileName d else '''')
      in [''[Unit]'', ''Description='' @ dDescription d]
         @ (if dIsFramework d
            then [''Before=ubuntu-snappy.frameworks.target'',
                  ''After=ubuntu-snappy.frameworks-pre.target'' @ sock,
                  ''Requires=ubuntu-snappy.frameworks-pre.target'' @ sock]
            else [''After=ubuntu-snappy.frameworks.target'' @ sock,
                  ''Requires=ubuntu-snappy.frameworks.target'' @ sock])
         @ (if dIsNetworked d
            then [''After=snappy-wait4network.service'', ''Requires=snappy-wait4network.service'']
            else [])
         @ [''X-Snappy=yes'', '''', ''[Service]'',
            ''ExecStart='' @ launcher d (dStart d),
            ''Restart=on-failure'',
            ''WorkingDirectory='' @ dAppPath d,
            ''Environment='' @ CHR 0x22 # ''SNAP_APP='' @ dAppName d @ ''_'' @ dServiceName d @ ''_''
              @ dVersion d @ CHR 0x22 # '' '' @ serviceEnv goarch d,
            (if dStop d \<noteq> '''' then ''ExecStop='' @ launcher d (dStop d) else ''''),
            (if dPostStop d \<noteq> '''' then ''ExecStopPost='' @ launcher d (dPostStop d) else ''''),
            (if dStopTimeout d \<noteq> 0 then ''TimeoutStopSec='' @ fmtSeconds (dStopTimeout d) else '''')]
         @ (if dBusName d \<noteq> '''' then [''BusName='' @ dBusName d, ''Type=dbus'']
            else [if dForking d then ''Type=forking'' else '''', ''''])
         @ ['''', ''[Install]'', ''WantedBy='' @ servicesSystemdTarget, ''''])"

definition GenServiceFile :: "string \<Rightarrow> ServiceDescription \<Rightarrow> string" where
  "GenServiceFile goarch d = join (serviceLines goarch d) [nl]"

definition socketLines :: "ServiceDescription \<Rightarrow> string list" where
  "socketLines d =
     [''[Unit]'',
      ''Description='' @ dDescription d @ '' Socket Unit File'',
      ''PartOf='' @ dServiceFileName d,
      ''X-Snappy=yes'',
      '''',
      ''[Socket]'',
      ''ListenStream='' @ dListenStream d,
      (if dSocketMode d \<noteq> '''' then ''SocketMode='' @ dSocketMode d else ''''),
      (if dSocketUser d \<noteq> '''' then ''SocketUser='' @ dSocketUser d else ''''),
      (if dSocketGroup d \<noteq> '''' then ''SocketGroup='' @ dSocketGroup d else ''''),
      '''',
      ''[Install]'',
      ''WantedBy='' @ socketsSystemdTarget,
      '''']"

definition GenSocketFile :: "ServiceDescription \<Rightarrow> string" where
  "GenSocketFile d = join (socketLines d) [nl]"

section \<open>What Stop tells its caller\<close>

definition showCmd :: "string \<Rightarrow> event" where
  "showCmd svc = ECmd [''systemctl'', ''show'', ''--property=ActiveState'', svc]"

lemma SystemctlCmd_run:
  "SystemctlCmd args w =
     (let ev = ECmd (''systemctl'' # args);
          w' = w\<lparr>hist := ev # hist w, clock := clock w + int (lapse w (hist w) ev)\<rparr>
      in if faults w (hist w) ev
         then (Inl (SystemdError args (case exits w (hist w) ev of None \<Rightarrow> 0 | Some c \<Rightarrow> c)
                 (outs w (hist w) ev)), w')
         else (Inr (outs w (hist w) ev), w'))"
  by (simp add: SystemctlCmd_def execCmd_def mapErr_def Let_def)

text \<open>What one run of the polling loop can end with.\<close>

definition sameOracles :: "'m sworld_scheme \<Rightarrow> 'm sworld_scheme \<Rightarrow> bool" where
  "sameOracles w w' \<longleftrightarrow> outs w' = outs w \<and> faults w' = faults w \<and> exits w' = exits w \<and> fs w' = fs w"

lemma sameOracles_refl [simp]: "sameOracles w w"
  by (simp add: sameOracles_def)

lemma sameOracles_trans: "sameOracles a b \<Longrightarrow> sameOracles b c \<Longrightarrow> sameOracles a c"
  by (simp add: sameOracles_def)

lemma SystemctlCmd_same: "SystemctlCmd args w = (r, w') \<Longrightarrow> sameOracles w w'"
  by (auto simp: SystemctlCmd_run Let_def sameOracles_def split: if_splits)

lemma sleep_same: "sameOracles w (w\<lparr>clock := c\<rparr>)"
  by (simp add: sameOracles_def)

lemma pollStop_result:
  "pollStop i svc w = (r, w') \<Longrightarrow>
     sameOracles w w' \<and>
     (r = Inr True \<longrightarrow> (\<exists>h. hist w' = showCmd svc # h \<and> isStopDone (outs w h (showCmd svc)))) \<and>
     (\<forall>e. r = Inl e \<longrightarrow> \<not> IsTimeout e \<and> (\<exists>h. faults w h (showCmd svc)))"
proof (induction i svc arbitrary: w rule: pollStop.induct)
  case (1 i svc)
  let ?cmd = "SystemctlCmd [''show'', ''--property=ActiveState'', svc] w"
  show ?case
  proof (cases "i \<le> 0")
    case True
    then show ?thesis using 1 by (auto simp: pollStop.simps [of i])
  next
    case False
    note unroll = pollStop.simps [of i svc]
    obtain q w1 where c: "?cmd = (q, w1)" by (cases ?cmd)
    have s1: "sameOracles w w1" using SystemctlCmd_same [OF c] .
    show ?thesis
    proof (cases q)
      case (Inl e)
      then have "r = Inl e" and "w' = w1" using 1(2) False c by (simp_all add: unroll bind_def)
      moreover have "faults w (hist w) (showCmd svc)" and "\<not> IsTimeout e"
        using c Inl by (auto simp: SystemctlCmd_run Let_def showCmd_def IsTimeout_def split: if_splits)
      ultimately show ?thesis using s1 by auto
    next
      case (Inr bs)
      have h: "hist w1 = showCmd svc # hist w" and b: "bs = outs w (hist w) (showCmd svc)"
        using c Inr by (auto simp: SystemctlCmd_run Let_def showCmd_def split: if_splits)
      show ?thesis
      proof (cases "isStopDone bs")
        case True
        then have "r = Inr True" and "w' = w1"
          using 1(2) False c Inr by (simp_all add: unroll bind_def)
        then show ?thesis using s1 h b True by auto
      next
        case more: False
        let ?w = "w1\<lparr>clock := clock w1 + stopDelay\<rparr>"
        have "pollStop (i - 1) svc ?w = (r, w')"
          using 1(2) False more c Inr by (simp add: unroll sleep_def bind_def)
        note IH = 1(1) [OF False more this]
        have s: "sameOracles w ?w" using s1 sleep_same sameOracles_trans by blast
        then show ?thesis using IH sameOracles_trans [OF s] by (auto simp: sameOracles_def)
      qed
    qed
  qed
qed

lemma stopLoop_result:
  "stopLoop dl svc w = (r, w') \<Longrightarrow>
     (r = Inr () \<longrightarrow> (\<exists>h. hist w' = showCmd svc # h \<and> isStopDone (outs w h (showCmd svc)))) \<and>
     (\<forall>e. r = Inl e \<longrightarrow> (if IsTimeout e then dl \<le> clock w' else (\<exists>h. faults w h (showCmd svc))))"
proof (induction dl svc w rule: stopLoop.induct)
  case (1 dl svc w)
  show ?case
  proof (cases "clock w < dl")
    case False
    then show ?thesis using 1(2) by (auto simp: stopLoop.simps [of dl] IsTimeout_def)
  next
    case True
    obtain q w1 where p: "pollStop stopSteps svc w = (q, w1)" by (cases "pollStop stopSteps svc w")
    note res = pollStop_result [OF p]
    show ?thesis
    proof (cases "q = Inr False")
      case True
      have "stopLoop dl svc w1 = (r, w')"
        using 1(2) \<open>clock w < dl\<close> p True by (simp add: stopLoop.simps [of dl svc w])
      then show ?thesis
        using 1(1) [OF \<open>clock w < dl\<close> p [symmetric], of False] True res by (auto simp: sameOracles_def)
    next
      case False
      then show ?thesis
        using 1(2) \<open>clock w < dl\<close> p res
        by (auto simp: stopLoop.simps [of dl svc w] split: sum.splits)
    qed
  qed
qed

text \<open>
  C21. \<^verbatim>\<open>Stop\<close> always returns. When it returns without an error, the last command was a
  \<^verbatim>\<open>systemctl show\<close> that reported the service as inactive or failed; a timeout is only
  reported once the whole timeout has passed since the stop command ended; any other error
  comes from a \<^verbatim>\<open>systemctl\<close> call that failed.
\<close>

theorem Stop_outcome:
  fixes w :: "'m sworld_scheme"
  assumes "Stop svc timeout w = (r, w')"
  shows "(r = Inr () \<longrightarrow> (\<exists>h. hist w' = showCmd svc # h \<and> isStopDone (outs w h (showCmd svc)))) \<and>
         (\<forall>e. r = Inl e \<longrightarrow>
            (if IsTimeout e
             then clock w + int (lapse w (hist w) (ECmd [''systemctl'', ''stop'', svc])) + timeout \<le> clock w'
             else (\<exists>h. faults w h (showCmd svc) \<or> faults w h (ECmd [''systemctl'', ''stop'', svc]))))"
proof -
  let ?ev = "ECmd [''systemctl'', ''stop'', svc]"
  let ?w = "w\<lparr>hist := ?ev # hist w, clock := clock w + int (lapse w (hist w) ?ev)\<rparr>"
  show ?thesis
  proof (cases "faults w (hist w) ?ev")
    case True
    then have "\<exists>c out. r = Inl (SystemdError [''stop'', svc] c out)"
      using assms by (auto simp: Stop_def andThen_def bind_def SystemctlCmd_run Let_def)
    then show ?thesis using True by (auto simp: IsTimeout_def)
  next
    case False
    then have "stopLoop (clock ?w + timeout) svc ?w = (r, w')"
      using assms
      by (simp add: Stop_def andThen_def bind_def SystemctlCmd_run Let_def timeNow_def)
    note res = stopLoop_result [OF this]
    show ?thesis
    proof (intro conjI allI impI)
      assume "r = Inr ()"
      then show "\<exists>h. hist w' = showCmd svc # h \<and> isStopDone (outs w h (showCmd svc))"
        using res by simp
    next
      fix e assume "r = Inl e"
      then show "if IsTimeout e then clock w + int (lapse w (hist w) ?ev) + timeout \<le> clock w'
        else \<exists>h. faults w h (showCmd svc) \<or> faults w h ?ev"
        using res by auto
    qed
  qed
qed

text \<open>A world without faults, whose commands print what \<open>o1\<close> says.\<close>

definition quietWorld :: "(event list \<Rightarrow> event \<Rightarrow> string) \<Rightarrow> fsys \<Rightarrow> sworld" where
  "quietWorld o1 f =
     \<lparr>fs = f, hist = [], faults = (\<lambda>_ _. False), mounts = [], outs = o1, exits = (\<lambda>_ _. None),
      lapse = (\<lambda>_ _. 0), clock = 0, agrees = (\<lambda>_ _. True)\<rparr>"

text \<open>The service reports that it is stopping at the first look, and inactive at the second.\<close>

definition slowStop :: "event list \<Rightarrow> event \<Rightarrow> string" where
  "slowStop h e = (if length h \<le> 1 then ''ActiveState=deactivating'' else ''ActiveState=inactive'' @ [nl])"

definition stopRun :: "(serr + unit) \<times> sworld" where
  "stopRun = Stop ''foo.service'' second (quietWorld slowStop [])"

lemma stopRun_ok: "fst stopRun = Inr ()"
  by code_simp

theorem Stop_outcome_witness:
  "\<exists>h. hist (snd stopRun) = showCmd ''foo.service'' # h
     \<and> isStopDone (slowStop h (showCmd ''foo.service''))"
proof -
  have "Stop ''foo.service'' second (quietWorld slowStop []) = (Inr (), snd stopRun)"
    using stopRun_ok by (metis prod.collapse stopRun_def)
  from Stop_outcome [OF this] show ?thesis by (simp add: quietWorld_def)
qed

section \<open>Lines of a unit file\<close>

lemma splitChar_join_lines:
  "ls \<noteq> [] \<Longrightarrow> list_all (\<lambda>l. c \<notin> set l) ls \<Longrightarrow> splitChar c (join ls [c]) = ls"
  by (rule splitChar_join)

lemma set_join: "set (join ls sep) \<subseteq> \<Union> (set ` set ls) \<union> set sep"
  by (induction ls sep rule: join.induct) auto

text \<open>The characters of a formatted number.\<close>

lemma nl_not_digit: "isDigit c \<Longrightarrow> c \<noteq> nl"
  by (auto simp: isDigit_def)

lemma nl_itoaU: "0 \<le> n \<Longrightarrow> nl \<notin> set (itoaU n)"
  using itoaU_digits [of n] nl_not_digit by (auto simp: list_all_iff)

lemma nl_itoa [simp]: "nl \<notin> set (itoa n)"
  by (auto simp: itoa_def nl_itoaU)

lemma set_dropZeros: "set (dropZeros s) \<subseteq> set s"
  by (auto simp: dropZeros_def dest: set_dropWhileD)

end
