(* ===== verification/PackageYaml.thy ===== *)
theory PackageYaml
  imports Systemd
begin

text \<open>
  The package description, first part of \<^verbatim>\<open>snappy/snapp.go\<close> with the verification of
  services and binaries from \<^verbatim>\<open>snappy/click.go\<close> and the oem data of \<^verbatim>\<open>snappy/oem.go\<close>:
  the types behind \<^verbatim>\<open>package.yaml\<close>, reading and validating it, the legacy click hooks
  derived from it, and the checks before an installation that look at the description only.
  The yaml decoder is the parameter \<open>yamltools\<close>.
\<close>

section \<open>Go maps\<close>

text \<open>
  A Go map is an association list with distinct keys; its order is the order in which a
  \<^verbatim>\<open>range\<close> loop happens to visit it.
\<close>

type_synonym ('k, 'v) gomap = "('k \<times> 'v) list"

definition mget :: "('k, 'v) gomap \<Rightarrow> 'k \<Rightarrow> 'v option" where
  "mget m k = map_of m k"

fun mput :: "('k, 'v) gomap \<Rightarrow> 'k \<Rightarrow> 'v \<Rightarrow> ('k, 'v) gomap" where
  "mput [] k v = [(k, v)]"
| "mput ((k', v') # m) k v = (if k' = k then (k, v) # m else (k', v') # mput m k v)"

lemma mget_mput [simp]: "mget (mput m k v) q = (if q = k then Some v else mget m q)"
  by (induction m k v rule: mput.induct) (auto simp: mget_def)

lemma keys_mput [simp]: "set (map fst (mput m k v)) = insert k (set (map fst m))"
  by (induction m k v rule: mput.induct) auto

lemma distinct_mput: "distinct (map fst m) \<Longrightarrow> distinct (map fst (mput m k v))"
  by (induction m k v rule: mput.induct) (auto simp del: set_map simp: keys_mput)

lemma mget_in_keys: "mget m k \<noteq> None \<longleftrightarrow> k \<in> set (map fst m)"
  by (simp add: mget_def map_of_eq_None_iff)

section \<open>The description of a package\<close>

record Port =
  PortName :: string
  Negotiable :: bool

record Ports =
  Internal :: "(string, Port) gomap"
  External :: "(string, Port) gomap"

record SecurityOverrideDefinition =
  ovApparmor :: string
  ovSeccomp :: string

record SecurityPolicyDefinition =
  polApparmor :: string
  polSeccomp :: string

record SecurityDefinitions =
  SecurityTemplate :: string
  SecurityOverride :: "SecurityOverrideDefinition option"
  SecurityPolicy :: "SecurityPolicyDefinition option"
  SecurityCaps :: "string list option"

record ServiceYaml =
  svcName :: string
  svcDescription :: string
  svcStart :: string
  svcStop :: string
  svcPostStop :: string
  svcStopTimeout :: int
  svcBusName :: string
  svcForking :: bool
  svcSocket :: bool
  svcListenStream :: string
  svcSocketMode :: string
  svcSocketUser :: string
  svcSocketGroup :: string
  svcPorts :: "Ports option"
  svcSec :: SecurityDefinitions

record Binary =
  binName :: string
  binExec :: string
  binSec :: SecurityDefinitions

record HardwareRule =
  ruKernel :: string
  ruSubsystem :: string
  ruWithSubsystems :: string
  ruWithDriver :: string
  ruWithAttrs :: "string list"
  ruWithProps :: "string list"

record HardwareAssign =
  PartID :: string
  Rules :: "HardwareRule list"

record BootAssetFiles =
  bafPath :: string
  bafTarget :: string

record BootAssetRawFiles =
  barPath :: string
  barOffset :: string

record BootAssets =
  baFiles :: "BootAssetFiles list"
  baRawFiles :: "BootAssetRawFiles list"

record OEM =
  StoreIDField :: string
  hwAssign :: "HardwareAssign list"
  hwBootAssets :: "BootAssets option"
  BuiltIn :: "string list"

text \<open>Values of a yaml document.\<close>

datatype yval =
    YNull
  | YBool bool
  | YInt int
  | YStr string
  | YList "yval list"
  | YMap "(string \<times> yval) list"

type_synonym clickAppHook = "(string, string) gomap"

record packageYaml =
  yName :: string
  yVersion :: string
  yVendor :: string
  yIcon :: string
  yType :: string
  yDeprecatedArchitecture :: "string list option"
  yArchitectures :: "string list option"
  yDeprecatedFramework :: string
  yFrameworks :: "string list"
  yServiceYamls :: "ServiceYaml list"
  yBinaries :: "Binary list"
  yOEM :: OEM
  yConfig :: "(string, yval) gomap"
  yIntegration :: "(string, clickAppHook) gomap option"
  yExplicitLicenseAgreement :: bool
  yLicenseVersion :: string

abbreviation TypeApp :: string where "TypeApp \<equiv> ''app''"
abbreviation TypeCore :: string where "TypeCore \<equiv> ''core''"
abbreviation TypeFramework :: string where "TypeFramework \<equiv> ''framework''"
abbreviation TypeOem :: string where "TypeOem \<equiv> ''oem''"

definition DefaultTimeout :: int where "DefaultTimeout = 30 * second"

text \<open>\<^verbatim>\<open>deprecarch.UnmarshalYAML\<close>, with the two decodings of the node.\<close>

definition deprecarch ::
    "(string, string list) res \<Rightarrow> (string, string) res \<Rightarrow> (string, string list) res" where
  "deprecarch asList asString =
     (case asList of
        Inr l \<Rightarrow> Inr l
      | Inl _ \<Rightarrow> (case asString of Inl e \<Rightarrow> Inl e | Inr s \<Rightarrow> Inr [s]))"

section \<open>The white list\<close>

text \<open>
  \<^verbatim>\<open>verifyStructStringsAgainstWhitelist\<close> walks over a struct by reflection. \<open>rval\<close> is what it
  sees of a value; the first field that holds a struct, or a pointer to one, ends the loop
  with the result of the nested struct.
\<close>

datatype rval =
    RString string
  | RStruct "(string \<times> rval) list"
  | RPtr "rval option"
  | ROther

definition whiteChar :: "char \<Rightarrow> bool" where
  "whiteChar c \<longleftrightarrow> isAlpha c \<or> isDigit c \<or> c \<in> set ''/. _#:-''"

definition whitelisted :: "string \<Rightarrow> bool" where
  "whitelisted s \<longleftrightarrow> list_all whiteChar s"

definition whitelistText :: string where
  "whitelistText = ''^[A-Za-z0-9/. _#:-]*$''"

fun verifyStructStringsAgainstWhitelist :: "(string \<times> rval) list \<Rightarrow> (serr, unit) res" where
  "verifyStructStringsAgainstWhitelist [] = Inr ()"
| "verifyStructStringsAgainstWhitelist ((k, RPtr (Some (RStruct fields1))) # rest) =
     verifyStructStringsAgainstWhitelist fields1"
| "verifyStructStringsAgainstWhitelist ((k, RStruct fields1) # rest) =
     verifyStructStringsAgainstWhitelist fields1"
| "verifyStructStringsAgainstWhitelist ((k, RString s) # rest) =
     (if whitelisted s then verifyStructStringsAgainstWhitelist rest
      else Inl (ErrStructIllegalContent k s whitelistText))"
| "verifyStructStringsAgainstWhitelist ((k, v) # rest) = verifyStructStringsAgainstWhitelist rest"

definition reflectSec :: "SecurityDefinitions \<Rightarrow> (string \<times> rval) list" where
  "reflectSec sd =
     [(''SecurityTemplate'', RString (SecurityTemplate sd)),
      (''SecurityOverride'', RPtr (map_option (\<lambda>o1.
         RStruct [(''Apparmor'', RString (ovApparmor o1)), (''Seccomp'', RString (ovSeccomp o1))])
         (SecurityOverride sd))),
      (''SecurityPolicy'', RPtr (map_option (\<lambda>p1.
         RStruct [(''Apparmor'', RString (polApparmor p1)), (''Seccomp'', RString (polSeccomp p1))])
         (SecurityPolicy sd))),
      (''SecurityCaps'', ROther)]"

definition reflectBinary :: "Binary \<Rightarrow> (string \<times> rval) list" where
  "reflectBinary b =
     [(''Name'', RString (binName b)), (''Exec'', RString (binExec b)),
      (''SecurityDefinitions'', RStruct (reflectSec (binSec b)))]"

definition reflectService :: "ServiceYaml \<Rightarrow> (string \<times> rval) list" where
  "reflectService s =
     [(''Name'', RString (svcName s)), (''Description'', RString (svcDescription s)),
      (''Start'', RString (svcStart s)), (''Stop'', RString (svcStop s)),
      (''PostStop'', RString (svcPostStop s)), (''StopTimeout'', ROther),
      (''BusName'', RString (svcBusName s)), (''Forking'', ROther), (''Socket'', ROther),
      (''ListenStream'', RString (svcListenStream s)), (''SocketMode'', RString (svcSocketMode s)),
      (''SocketUser'', RString (svcSocketUser s)), (''SocketGroup'', RString (svcSocketGroup s)),
      (''Ports'', RPtr (map_option (\<lambda>_. RStruct [(''Internal'', ROther), (''External'', ROther)]) (svcPorts s))),
      (''SecurityDefinitions'', RStruct (reflectSec (svcSec s)))]"

definition verifyBinariesYaml :: "Binary \<Rightarrow> (serr, unit) res" where
  "verifyBinariesYaml b = verifyStructStringsAgainstWhitelist (reflectBinary b)"

definition verifyServiceYaml :: "ServiceYaml \<Rightarrow> (serr, unit) res" where
  "verifyServiceYaml s = verifyStructStringsAgainstWhitelist (reflectService s)"

section \<open>Reading package.yaml\<close>

text \<open>The yaml decoder, for the documents the code reads.\<close>

record hashesYaml =
  ArchiveSha512 :: string

record remoteSnap =
  rsName :: string
  rsVersion :: string
  rsOrigin :: string
  rsType :: string
  rsChannel :: string
  rsDescription :: string
  rsTitle :: string
  rsPublisher :: string
  rsAlias :: string
  rsDownloadSize :: int
  rsDownloadSha512 :: string
  rsIconURL :: string
  rsAnonDownloadURL :: string
  rsDownloadURL :: string
  rsLastUpdated :: string
  rsSupportURL :: string

text \<open>
  A float is only compared with zero and printed with \<^verbatim>\<open>%.2f\<close>: \<open>None\<close> is zero, \<open>Some\<close> the
  printed form of another value.
\<close>

record securitySeccompOverride =
  scTemplate :: string
  scPolicyGroups :: "string list"
  scSyscalls :: "string list"
  scPolicyVendor :: string
  scPolicyVersion :: "string option"

record yamltools =
  yamlPkg :: "string \<Rightarrow> (string, packageYaml) res"
  yamlHashes :: "string \<Rightarrow> (string, hashesYaml) res"
  yamlRemote :: "string \<Rightarrow> (string, remoteSnap) res"
  yamlSeccomp :: "string \<Rightarrow> (string, securitySeccompOverride) res"

definition missingFields :: "packageYaml \<Rightarrow> string list" where
  "missingFields m =
     map fst (filter (\<lambda>p. snd p = '''')
       [(''name'', yName m), (''version'', yVersion m), (''vendor'', yVendor m)])"

text \<open>The first error of a check over a list.\<close>

fun firstErr :: "('a \<Rightarrow> ('e, unit) res) \<Rightarrow> 'a list \<Rightarrow> ('e, unit) res" where
  "firstErr f [] = Inr ()"
| "firstErr f (x # xs) = (case f x of Inl e \<Rightarrow> Inl e | Inr _ \<Rightarrow> firstErr f xs)"

lemma firstErr_ok: "firstErr f xs = Inr () \<longleftrightarrow> (\<forall>x\<in>set xs. f x = Inr ())"
  by (induction xs) (auto split: sum.splits)

definition validatePackageYamlData :: "string \<Rightarrow> string \<Rightarrow> packageYaml \<Rightarrow> (serr, unit) res" where
  "validatePackageYamlData file yamlData m =
     (if missingFields m \<noteq> []
      then Inl (ErrInvalidYaml file (''missing required fields '' @ [CHR 0x27]
             @ join (missingFields m) '', '' @ [CHR 0x27]) yamlData)
      else if CHR ''.'' \<in> set (yName m) then Inl (SErr ErrPackageNameNotSupported)
      else rbind (firstErr verifyBinariesYaml (yBinaries m)) (\<lambda>_.
             firstErr verifyServiceYaml (yServiceYamls m)))"

text \<open>The split at \<^verbatim>\<open>\s*,\s*\<close>.\<close>

definition reWhite :: "char \<Rightarrow> bool" where
  "reWhite c \<longleftrightarrow> byte c \<in> {9, 10, 12, 13, 32}"

definition stripLeft :: "string \<Rightarrow> string" where
  "stripLeft s = dropWhile reWhite s"

definition stripRight :: "string \<Rightarrow> string" where
  "stripRight s = rev (dropWhile reWhite (rev s))"

definition commasplitter :: "string \<Rightarrow> string list" where
  "commasplitter s =
     (let ps = splitChar (CHR '','') s
      in if length ps = 1 then ps
         else stripRight (hd ps) # map (\<lambda>p. stripRight (stripLeft p)) (butlast (tl ps))
              @ [stripLeft (last ps)])"

definition fillExec :: "Binary \<Rightarrow> Binary" where
  "fillExec b =
     (if binExec b = '''' then b\<lparr>binExec := binName b, binName := pathBase (binName b)\<rparr> else b)"

definition fillTimeout :: "ServiceYaml \<Rightarrow> ServiceYaml" where
  "fillTimeout s = (if svcStopTimeout s = 0 then s\<lparr>svcStopTimeout := DefaultTimeout\<rparr> else s)"

subsection \<open>Legacy click hooks\<close>

definition setHook ::
    "string \<Rightarrow> string \<Rightarrow> string \<Rightarrow> (string, clickAppHook) gomap \<Rightarrow> (string, clickAppHook) gomap" where
  "setHook hookName k v im =
     mput im hookName (mput (case mget im hookName of None \<Rightarrow> [] | Some h \<Rightarrow> h) k v)"

definition legacyIntegrateSecDef ::
    "string \<Rightarrow> SecurityDefinitions \<Rightarrow> (string, clickAppHook) gomap \<Rightarrow> (string, clickAppHook) gomap" where
  "legacyIntegrateSecDef hookName s im =
     (case SecurityPolicy s of
        Some p1 \<Rightarrow>
          (if polApparmor p1 \<noteq> '''' then setHook hookName ''apparmor-profile'' (polApparmor p1) im
           else (case SecurityOverride s of
                   Some o1 \<Rightarrow>
                     (if ovApparmor o1 \<noteq> '''' then setHook hookName ''apparmor'' (ovApparmor o1) im
                      else setHook hookName ''apparmor'' (pathJoin [''meta'', hookName @ ''.apparmor'']) im)
                 | None \<Rightarrow> setHook hookName ''apparmor'' (pathJoin [''meta'', hookName @ ''.apparmor'']) im))
      | None \<Rightarrow>
          (case SecurityOverride s of
             Some o1 \<Rightarrow>
               (if ovApparmor o1 \<noteq> '''' then setHook hookName ''apparmor'' (ovApparmor o1) im
                else setHook hookName ''apparmor'' (pathJoin [''meta'', hookName @ ''.apparmor'']) im)
           | None \<Rightarrow> setHook hookName ''apparmor'' (pathJoin [''meta'', hookName @ ''.apparmor'']) im))"

definition ensureHook :: "string \<Rightarrow> (string, clickAppHook) gomap \<Rightarrow> (string, clickAppHook) gomap" where
  "ensureHook hookName im = (if mget im hookName = None then mput im hookName [] else im)"

definition legacyBinary :: "Binary \<Rightarrow> (string, clickAppHook) gomap \<Rightarrow> (string, clickAppHook) gomap" where
  "legacyBinary v im =
     (let hookName = pathBase (binName v)
      in legacyIntegrateSecDef hookName (binSec v)
           (setHook hookName ''bin-path'' (binExec v) (ensureHook hookName im)))"

definition legacyService :: "ServiceYaml \<Rightarrow> (string, clickAppHook) gomap \<Rightarrow> (string, clickAppHook) gomap" where
  "legacyService v im =
     (let hookName = pathBase (svcName v)
      in legacyIntegrateSecDef hookName (svcSec v) (ensureHook hookName im))"

definition legacyIntegration :: "bool \<Rightarrow> packageYaml \<Rightarrow> packageYaml" where
  "legacyIntegration hasConfig m =
     (let im = (case yIntegration m of None \<Rightarrow> [] | Some i \<Rightarrow> i);
          im = fold legacyBinary (yBinaries m) im;
          im = fold legacyService (yServiceYamls m) im;
          im = (if hasConfig then mput im ''snappy-config'' [(''apparmor'', ''meta/snappy-config.apparmor'')] else im)
      in m\<lparr>yIntegration := Some im\<rparr>)"

subsection \<open>The whole of it\<close>

definition fillArchitectures :: "packageYaml \<Rightarrow> packageYaml" where
  "fillArchitectures m =
     (if yArchitectures m = None
      then m\<lparr>yArchitectures := Some (case yDeprecatedArchitecture m of None \<Rightarrow> [''all''] | Some a \<Rightarrow> a)\<rparr>
      else m)"

definition fillFrameworks :: "packageYaml \<Rightarrow> (serr, packageYaml) res" where
  "fillFrameworks m =
     (if yDeprecatedFramework m \<noteq> '''' then
        (if yFrameworks m \<noteq> [] then Inl (SErr ErrInvalidFrameworkSpecInYaml)
         else Inr (m\<lparr>yFrameworks := commasplitter (yDeprecatedFramework m), yDeprecatedFramework := ''''\<rparr>))
      else Inr m)"

definition parsePackageYamlData :: "yamltools \<Rightarrow> string \<Rightarrow> bool \<Rightarrow> (serr, packageYaml) res" where
  "parsePackageYamlData yt yamlData hasConfig =
     (case yamlPkg yt yamlData of
        Inl e \<Rightarrow> Inl (ErrInvalidYaml ''package.yaml'' e yamlData)
      | Inr m \<Rightarrow>
          rbind (validatePackageYamlData ''package.yaml'' yamlData m) (\<lambda>_.
          rbind (fillFrameworks (fillArchitectures m)) (\<lambda>m.
            Inr (legacyIntegration hasConfig
                  (m\<lparr>yBinaries := map fillExec (yBinaries m),
                     yServiceYamls := map fillTimeout (yServiceYamls m)\<rparr>)))))"

definition parsePackageYamlFile :: "yamltools \<Rightarrow> string \<Rightarrow> ('m world_scheme, serr, packageYaml) io" where
  "parsePackageYamlFile yt yamlPath =
     bind (ioReadFile yamlPath) (\<lambda>yamlData.
     bind (gets (\<lambda>w. exists (fs w) (pathJoin [pathDir yamlPath, ''hooks'', ''config'']))) (\<lambda>hasConfig.
       fromRes (parsePackageYamlData yt yamlData hasConfig)))"

definition qualifiedName :: "packageYaml \<Rightarrow> string \<Rightarrow> string" where
  "qualifiedName m origin =
     (if yType m = TypeFramework \<or> yType m = TypeOem then yName m else yName m @ ''.'' @ origin)"

section \<open>Checks\<close>

definition NeedsAppArmorUpdate ::
    "SecurityDefinitions \<Rightarrow> (string \<Rightarrow> bool) \<Rightarrow> (string \<Rightarrow> bool) \<Rightarrow> bool" where
  "NeedsAppArmorUpdate sd policies templates =
     (if SecurityPolicy sd \<noteq> None then False
      else if SecurityOverride sd \<noteq> None then True
      else if templates (SecurityTemplate sd) then True
      else list_ex policies (case SecurityCaps sd of None \<Rightarrow> [] | Some cs \<Rightarrow> cs))"

definition checkForNameClashes :: "packageYaml \<Rightarrow> (serr, unit) res" where
  "checkForNameClashes m =
     (let d = map binName (yBinaries m)
      in firstErr (\<lambda>svc. if svcName svc \<in> set d then Inl (ErrNameClash (svcName svc)) else Inr ())
           (yServiceYamls m))"

definition coreFmk :: string where "coreFmk = ''ubuntu-core-15.04-dev1''"

definition addCoreFmk :: "string list \<Rightarrow> string list" where
  "addCoreFmk fmks = (if coreFmk \<in> set fmks then fmks else fmks @ [coreFmk])"

definition FrameworksForClick :: "packageYaml \<Rightarrow> string" where
  "FrameworksForClick m = join (addCoreFmk (yFrameworks m)) '',''"

text \<open>\<^verbatim>\<open>sort.Search\<close>: the binary search for the first index where the predicate holds.\<close>

function search :: "int \<Rightarrow> int \<Rightarrow> (int \<Rightarrow> bool) \<Rightarrow> int" where
  "search i j f =
     (if i < j then
        (let h = i + (j - i) div 2
         in if f h then search i h f else search (h + 1) j f)
      else i)"
  by pat_completeness auto
termination
  by (relation "measure (\<lambda>(i, j, f). nat (j - i))") (auto simp: Let_def)

declare search.simps [simp del]

definition searchStrings :: "string list \<Rightarrow> string \<Rightarrow> int" where
  "searchStrings a x = search 0 (int (length a)) (\<lambda>h. x \<le> a ! nat h)"

text \<open>\<^verbatim>\<open>checkForFrameworks\<close>, given the names of the active frameworks.\<close>

definition missingFrameworks :: "string list \<Rightarrow> packageYaml \<Rightarrow> string list" where
  "missingFrameworks active m =
     (let installed = sort active
      in filter (\<lambda>f. let i = searchStrings installed f
                     in int (length installed) \<le> i \<or> installed ! nat i \<noteq> f) (yFrameworks m))"

section \<open>What the checks guarantee\<close>

subsection \<open>The white list\<close>

text \<open>The security strings that are looked at: the template, then the first of the two structs.\<close>

definition secVerified :: "SecurityDefinitions \<Rightarrow> bool" where
  "secVerified sd \<longleftrightarrow>
     whitelisted (SecurityTemplate sd) \<and>
     (case SecurityOverride sd of
        Some o1 \<Rightarrow> whitelisted (ovApparmor o1) \<and> whitelisted (ovSeccomp o1)
      | None \<Rightarrow> (case SecurityPolicy sd of
                   Some p1 \<Rightarrow> whitelisted (polApparmor p1) \<and> whitelisted (polSeccomp p1)
                 | None \<Rightarrow> True))"

definition serviceStrings :: "ServiceYaml \<Rightarrow> string list" where
  "serviceStrings s =
     [svcName s, svcDescription s, svcStart s, svcStop s, svcPostStop s, svcBusName s,
      svcListenStream s, svcSocketMode s, svcSocketUser s, svcSocketGroup s]"

lemma verify_string [simp]:
  "verifyStructStringsAgainstWhitelist ((k, RString s) # rest) = Inr () \<longleftrightarrow>
     whitelisted s \<and> verifyStructStringsAgainstWhitelist rest = Inr ()"
  by simp

declare verifyStructStringsAgainstWhitelist.simps(4) [simp del]

lemma verify_sec:
  "verifyStructStringsAgainstWhitelist (reflectSec sd) = Inr () \<longleftrightarrow> secVerified sd"
  by (cases "SecurityOverride sd"; cases "SecurityPolicy sd") (auto simp: reflectSec_def secVerified_def)

lemma verifyBinariesYaml_iff:
  "verifyBinariesYaml b = Inr () \<longleftrightarrow>
     whitelisted (binName b) \<and> whitelisted (binExec b) \<and> secVerified (binSec b)"
  by (simp add: verifyBinariesYaml_def reflectBinary_def verify_sec)

lemma verifyServiceYaml_iff:
  "verifyServiceYaml s = Inr () \<longleftrightarrow>
     list_all whitelisted (serviceStrings s) \<and> (svcPorts s = None \<longrightarrow> secVerified (svcSec s))"
  by (cases "svcPorts s")
     (auto simp: verifyServiceYaml_def reflectService_def serviceStrings_def verify_sec)

lemma whitelisted_no_nl: "whitelisted s \<Longrightarrow> nl \<notin> set s"
  by (auto simp: whitelisted_def list_all_iff whiteChar_def isAlpha_def isDigit_def)

lemma whitelisted_subset: "set t \<subseteq> set s \<Longrightarrow> whitelisted s \<Longrightarrow> whitelisted t"
  by (auto simp: whitelisted_def list_all_iff)

lemma set_pathBase: "set (pathBase s) \<subseteq> set s \<union> {CHR ''.'', slash}"
  by (auto simp: pathBase_def Let_def dest!: set_takeWhileD set_dropWhileD)

lemma whitelisted_pathBase: "whitelisted s \<Longrightarrow> whitelisted (pathBase s)"
  using set_pathBase [of s] by (fastforce simp: whitelisted_def list_all_iff whiteChar_def)

text \<open>
  C23. A service of a package description is accepted exactly when each of its own strings
  is white-listed and, only if it declares no ports, its security strings are: the loop over the
  fields ends at the first struct, which is the one of the ports when there is one.
\<close>

theorem verifyServiceYaml_spec:
  "verifyServiceYaml s = Inr () \<longleftrightarrow>
     list_all whitelisted (serviceStrings s) \<and> (svcPorts s = None \<longrightarrow> secVerified (svcSec s))"
  by (rule verifyServiceYaml_iff)

definition plainSec :: SecurityDefinitions where
  "plainSec = \<lparr>SecurityTemplate = '''', SecurityOverride = None, SecurityPolicy = None, SecurityCaps = None\<rparr>"

definition plainService :: "string \<Rightarrow> ServiceYaml" where
  "plainService n =
     \<lparr>svcName = n, svcDescription = '''', svcStart = ''bin/start'', svcStop = '''', svcPostStop = '''',
      svcStopTimeout = 0, svcBusName = '''', svcForking = False, svcSocket = False,
      svcListenStream = '''', svcSocketMode = '''', svcSocketUser = '''', svcSocketGroup = '''',
      svcPorts = None, svcSec = plainSec\<rparr>"

theorem verifyServiceYaml_spec_witness:
  "verifyServiceYaml ((plainService ''web'')\<lparr>svcPorts := Some \<lparr>Internal = [], External = []\<rparr>,
       svcSec := plainSec\<lparr>SecurityTemplate := ''a'' @ [nl] @ ''b''\<rparr>\<rparr>) = Inr () \<and>
   verifyServiceYaml ((plainService ''web'')\<lparr>svcSec := plainSec\<lparr>SecurityTemplate := ''a'' @ [nl] @ ''b''\<rparr>\<rparr>) \<noteq> Inr ()"
  unfolding verifyServiceYaml_spec by code_simp

subsection \<open>Frameworks\<close>

lemma search_bounds:
  "i \<le> j \<Longrightarrow> i \<le> search i j f \<and> search i j f \<le> j"
proof (induction i j f rule: search.induct)
  case (1 i j f)
  show ?case
  proof (cases "i < j")
    case True
    define h where "h = i + (j - i) div 2"
    have "i \<le> h" "h < j" using True by (simp_all add: h_def)
    then show ?thesis
      using 1(1) [OF True h_def] 1(2) [OF True h_def] True search.simps [of i j f]
      by (cases "f h") (auto simp: h_def Let_def)
  next
    case False
    then show ?thesis using 1(3) search.simps [of i j f] by simp
  qed
qed

text \<open>On a predicate that stays true once it is, the search finds the first index.\<close>

lemma search_first:
  assumes "i \<le> j" and mono: "\<And>a b. i \<le> a \<Longrightarrow> a \<le> b \<Longrightarrow> b < j \<Longrightarrow> f a \<Longrightarrow> f b"
  shows "(\<forall>k. i \<le> k \<longrightarrow> k < search i j f \<longrightarrow> \<not> f k) \<and> (\<forall>k. search i j f \<le> k \<longrightarrow> k < j \<longrightarrow> f k)"
  using assms
proof (induction i j f rule: search.induct)
  case (1 i j f)
  show ?case
  proof (cases "i < j")
    case True
    define h where "h = i + (j - i) div 2"
    have h: "i \<le> h" "h < j" using True by (simp_all add: h_def)
    show ?thesis
    proof (cases "f h")
      case fh: True
      have eq: "search i j f = search i h f"
        using True fh by (simp add: search.simps [of i j f] h_def Let_def)
      have up: "f k" if "h \<le> k" "k < j" for k using 1(4) [of h k] h that fh by simp
      have IH: "(\<forall>k. i \<le> k \<longrightarrow> k < search i h f \<longrightarrow> \<not> f k) \<and> (\<forall>k. search i h f \<le> k \<longrightarrow> k < h \<longrightarrow> f k)"
      proof (rule 1(1) [OF True h_def fh h(1)])
        fix a b assume "i \<le> a" "a \<le> b" "b < h" "f a"
        then show "f b" using 1(4) [of a b] h(2) by simp
      qed
      have "f k" if "search i h f \<le> k" "k < j" for k using IH up that by (cases "k < h") auto
      with IH show ?thesis unfolding eq by blast
    next
      case fh: False
      have eq: "search i j f = search (h + 1) j f"
        using True fh by (simp add: search.simps [of i j f] h_def Let_def)
      have low: "\<not> f k" if "i \<le> k" "k \<le> h" for k using 1(4) [of k h] h that fh by auto
      have IH: "(\<forall>k. h + 1 \<le> k \<longrightarrow> k < search (h + 1) j f \<longrightarrow> \<not> f k)
          \<and> (\<forall>k. search (h + 1) j f \<le> k \<longrightarrow> k < j \<longrightarrow> f k)"
      proof (rule 1(2) [OF True h_def fh])
        show "h + 1 \<le> j" using h(2) by simp
      next
        fix a b assume "h + 1 \<le> a" "a \<le> b" "b < j" "f a"
        then show "f b" using 1(4) [of a b] h(1) by simp
      qed
      have "\<not> f k" if "i \<le> k" "k < search (h + 1) j f" for k using IH low that by (cases "k \<le> h") auto
      with IH show ?thesis unfolding eq by blast
    qed
  next
    case False
    then show ?thesis using 1(3) search.simps [of i j f] by auto
  qed
qed

lemma searchStrings_found:
  assumes "sorted a"
  shows "searchStrings a x < int (length a) \<and> a ! nat (searchStrings a x) = x \<longleftrightarrow> x \<in> set a"
proof -
  let ?f = "\<lambda>h. x \<le> a ! nat h"
  let ?i = "search 0 (int (length a)) ?f"
  have b: "0 \<le> ?i" "?i \<le> int (length a)" using search_bounds [of 0 "int (length a)" ?f] by simp_all
  have mono: "?f p \<Longrightarrow> ?f q" if "0 \<le> p" "p \<le> q" "q < int (length a)" for p q
    using sorted_nth_mono [OF assms, of "nat p" "nat q"] that by (auto simp: nat_less_iff nat_mono)
  note first = search_first [of 0 "int (length a)" ?f]
  have low: "\<not> ?f k" if "0 \<le> k" "k < ?i" for k using first mono that by (meson of_nat_0_le_iff)
  have up: "?f k" if "?i \<le> k" "k < int (length a)" for k using first mono that by (meson of_nat_0_le_iff)
  have "\<exists>j. ?i \<le> j \<and> j < int (length a) \<and> a ! nat j = x" if "x \<in> set a"
  proof -
    from that obtain j where j: "j < length a" "a ! j = x" by (auto simp: in_set_conv_nth)
    moreover have "?i \<le> int j" using low [of "int j"] j by force
    ultimately show ?thesis by (intro exI [of _ "int j"]) auto
  qed
  then have "?i < int (length a) \<and> a ! nat ?i = x" if "x \<in> set a"
  proof -
    from that \<open>x \<in> set a \<Longrightarrow> \<exists>j. _ j\<close> obtain j where j: "?i \<le> j" "j < int (length a)" "a ! nat j = x" by blast
    then have "a ! nat ?i \<le> x"
      using sorted_nth_mono [OF assms, of "nat ?i" "nat j"] b by (simp add: nat_less_iff nat_mono)
    moreover have "x \<le> a ! nat ?i" using up [of ?i] j by simp
    ultimately show ?thesis using j by simp
  qed
  moreover have "x \<in> set a" if "?i < int (length a) \<and> a ! nat ?i = x"
    using that b nth_mem [of "nat ?i" a] by (simp add: nat_less_iff)
  ultimately show ?thesis unfolding searchStrings_def by blast
qed

text \<open>
  The binary search over the sorted names of the active frameworks reports exactly the
  frameworks that the package names and that are not active.
\<close>

lemma missingFrameworks_spec:
  "missingFrameworks active m = filter (\<lambda>f. f \<notin> set active) (yFrameworks m)"
proof -
  have "int (length (sort active)) \<le> searchStrings (sort active) f
        \<or> sort active ! nat (searchStrings (sort active) f) \<noteq> f \<longleftrightarrow> f \<notin> set active" for f
    using searchStrings_found [of "sort active" f] by auto
  then show ?thesis by (simp add: missingFrameworks_def Let_def)
qed

subsection \<open>Descriptions that were accepted\<close>

definition secured :: "(string, clickAppHook) gomap \<Rightarrow> string \<Rightarrow> bool" where
  "secured im h \<longleftrightarrow>
     (\<exists>hk. mget im h = Some hk \<and> (mget hk ''apparmor'' \<noteq> None \<or> mget hk ''apparmor-profile'' \<noteq> None))"

lemma setHook_keeps: "secured im h \<Longrightarrow> secured (setHook g k v im) h"
  by (auto simp: secured_def setHook_def)

lemma setHook_secures: "k = ''apparmor'' \<or> k = ''apparmor-profile'' \<Longrightarrow> secured (setHook g k v im) g"
  by (auto simp: secured_def setHook_def)

lemma ensureHook_keeps: "secured im h \<Longrightarrow> secured (ensureHook g im) h"
  by (auto simp: secured_def ensureHook_def)

lemmas hook_lemmas = setHook_keeps setHook_secures ensureHook_keeps

lemma legacyIntegrateSecDef_secures: "secured (legacyIntegrateSecDef g s im) g"
  by (simp add: legacyIntegrateSecDef_def hook_lemmas split: option.splits)

lemma legacyIntegrateSecDef_keeps: "secured im h \<Longrightarrow> secured (legacyIntegrateSecDef g s im) h"
  by (simp add: legacyIntegrateSecDef_def hook_lemmas split: option.splits)

lemma legacyBinary_secured: "h = pathBase (binName b) \<or> secured im h \<Longrightarrow> secured (legacyBinary b im) h"
  by (auto simp: legacyBinary_def Let_def legacyIntegrateSecDef_secures
      intro: legacyIntegrateSecDef_keeps hook_lemmas)

lemma legacyService_secured: "h = pathBase (svcName s) \<or> secured im h \<Longrightarrow> secured (legacyService s im) h"
  by (auto simp: legacyService_def Let_def legacyIntegrateSecDef_secures
      intro: legacyIntegrateSecDef_keeps hook_lemmas)

lemma legacy_binaries:
  "h \<in> pathBase ` binName ` set bs \<or> secured im h \<Longrightarrow> secured (fold legacyBinary bs im) h"
  by (induction bs arbitrary: im) (auto simp: legacyBinary_secured)

lemma legacy_services:
  "h \<in> pathBase ` svcName ` set ss \<or> secured im h \<Longrightarrow> secured (fold legacyService ss im) h"
  by (induction ss arbitrary: im) (auto simp: legacyService_secured)

lemma secured_config: "secured im h \<Longrightarrow> secured (mput im ''snappy-config'' [(''apparmor'', v)]) h"
  by (auto simp: secured_def mget_def [of "[_]"])

lemma legacyIntegration_secures:
  assumes "n \<in> binName ` set (yBinaries m) \<or> n \<in> svcName ` set (yServiceYamls m)"
  shows "\<exists>im. yIntegration (legacyIntegration c m) = Some im \<and> secured im (pathBase n)"
proof -
  let ?i0 = "case yIntegration m of None \<Rightarrow> [] | Some i \<Rightarrow> i"
  have "secured (fold legacyService (yServiceYamls m) (fold legacyBinary (yBinaries m) ?i0)) (pathBase n)"
    using assms by (intro legacy_services) (auto intro!: legacy_binaries)
  then show ?thesis by (simp add: legacyIntegration_def Let_def secured_config)
qed

lemma missingFields_Nil: "missingFields m = [] \<longleftrightarrow> yName m \<noteq> [] \<and> yVersion m \<noteq> [] \<and> yVendor m \<noteq> []"
  by (auto simp: missingFields_def)

lemma fillTimeout_facts:
  "svcStopTimeout (fillTimeout s) \<noteq> 0"
  "verifyServiceYaml (fillTimeout s) = verifyServiceYaml s"
  by (simp_all add: fillTimeout_def DefaultTimeout_def second_def verifyServiceYaml_def reflectService_def)

lemma fillExec_verified: "verifyBinariesYaml b = Inr () \<Longrightarrow> verifyBinariesYaml (fillExec b) = Inr ()"
  by (simp add: verifyBinariesYaml_iff fillExec_def whitelisted_pathBase)

text \<open>The conditions that every description handed to the rest of the program satisfies.\<close>

definition goodYaml :: "packageYaml \<Rightarrow> bool" where
  "goodYaml m \<longleftrightarrow>
     yName m \<noteq> [] \<and> CHR ''.'' \<notin> set (yName m) \<and> yVersion m \<noteq> [] \<and> yVendor m \<noteq> [] \<and>
     yArchitectures m \<noteq> None \<and> yDeprecatedFramework m = [] \<and>
     (\<forall>b\<in>set (yBinaries m). verifyBinariesYaml b = Inr ()) \<and>
     (\<forall>s\<in>set (yServiceYamls m). verifyServiceYaml s = Inr () \<and> svcStopTimeout s \<noteq> 0) \<and>
     (\<exists>im. yIntegration m = Some im \<and>
        (\<forall>n\<in>set (map binName (yBinaries m) @ map svcName (yServiceYamls m)). secured im (pathBase n)))"

lemma parsePackageYamlData_good:
  assumes "parsePackageYamlData yt d c = Inr m"
  shows "goodYaml m"
proof -
  from assms obtain m0 m1 where y: "yamlPkg yt d = Inr m0"
    and v: "validatePackageYamlData ''package.yaml'' d m0 = Inr ()"
    and f: "fillFrameworks (fillArchitectures m0) = Inr m1"
    and m: "m = legacyIntegration c (m1\<lparr>yBinaries := map fillExec (yBinaries m1),
                 yServiceYamls := map fillTimeout (yServiceYamls m1)\<rparr>)"
    by (auto simp: parsePackageYamlData_def res_simps split: sum.splits)
  have 1: "missingFields m0 = []" "CHR ''.'' \<notin> set (yName m0)"
    "\<forall>b\<in>set (yBinaries m0). verifyBinariesYaml b = Inr ()"
    "\<forall>s\<in>set (yServiceYamls m0). verifyServiceYaml s = Inr ()"
    using v by (auto simp: validatePackageYamlData_def res_simps firstErr_ok split: if_splits)
  have 2: "yName m1 = yName m0" "yVersion m1 = yVersion m0" "yVendor m1 = yVendor m0"
    "yBinaries m1 = yBinaries m0" "yServiceYamls m1 = yServiceYamls m0"
    "yArchitectures m1 \<noteq> None" "yDeprecatedFramework m1 = []"
    using f by (auto simp: fillFrameworks_def fillArchitectures_def split: if_splits)
  have 3: "\<exists>im. yIntegration m = Some im"
    "\<And>n im. n \<in> set (map binName (yBinaries m) @ map svcName (yServiceYamls m)) \<Longrightarrow>
       yIntegration m = Some im \<Longrightarrow> secured im (pathBase n)"
    using legacyIntegration_secures
      [of _ "m1\<lparr>yBinaries := map fillExec (yBinaries m1), yServiceYamls := map fillTimeout (yServiceYamls m1)\<rparr>" c]
    by (auto simp: m legacyIntegration_def Let_def image_image)
  show ?thesis
    using 1 2 3 unfolding goodYaml_def missingFields_Nil
    by (auto simp: m legacyIntegration_def Let_def fillTimeout_facts fillExec_verified)
qed

end
