(* ===== verification/Env.thy ===== *)
theory Env
  imports PackageYaml BootEnv
begin

text \<open>
  The static environment of the \<^verbatim>\<open>snappy\<close> package: the directories of \<^verbatim>\<open>dirs/dirs.go\<close>, the
  types of the documents that are decoded by code outside the repository, and that code as
  the fields of \<open>genv\<close>.
\<close>

section \<open>The environment\<close>

record clickHook =
  hkName :: string
  hkExec :: string
  hkUser :: string
  hkPattern :: string

record clickManifest =
  cmName :: string
  cmVersion :: string
  cmType :: string
  cmHooks :: "(string, clickAppHook) gomap"

text \<open>The contents of \<^verbatim>\<open>install.yaml\<close> that the code looks at, \<^verbatim>\<open>provisioning\<close>.\<close>

record InstallOptions =
  ioSize :: int
  ioSizeUnit :: string
  ioOutput :: string
  ioChannel :: string
  ioDevicePart :: string
  ioOem :: string
  ioDeveloperMode :: bool

text \<open>A progress message of \<^verbatim>\<open>system-image-cli\<close>; the numbers only drive the progress bar.\<close>

record genericJSON =
  gjType :: string
  gjMessage :: string

text \<open>
  The interface \<^verbatim>\<open>PackageFile\<close>: the members of a package file, and what unpacking it and
  extracting its hashes do to the file system.
\<close>

record PackageFile =
  pfVerify :: "bool \<Rightarrow> (serr, unit) res"
  pfControlMember :: "string \<Rightarrow> (serr, string) res"
  pfMetaMember :: "string \<Rightarrow> (serr, string) res"
  pfUnpack :: "string \<Rightarrow> fsys \<Rightarrow> (serr, unit) res \<times> fsys"
  pfExtractHashes :: "string \<Rightarrow> fsys \<Rightarrow> (serr, unit) res \<times> fsys"

text \<open>The answer of the store to a request for one package.\<close>

datatype storeAnswer = StoreDown string | StoreStatus int | StoreBad string | StoreSnap remoteSnap

text \<open>
  The root directory and the architecture, and the code outside the repository: the yaml
  decoder, the ini parser on hook files and on the system-image configuration, the codec of
  the click manifest, \<^verbatim>\<open>lsblk\<close> and the boot tools, the decoder of \<^verbatim>\<open>install.yaml\<close>, the
  messages of \<^verbatim>\<open>system-image-cli\<close> and what it does to the file system, the two kinds of
  package files, and the store.
\<close>

record genv =
  GlobalRootDir :: string
  goarch :: string
  ytools :: yamltools
  hookIni :: "string \<Rightarrow> (string, string \<Rightarrow> string) res"
  manifestDec :: "string \<Rightarrow> (string, clickManifest) res"
  manifestEnc :: "clickManifest \<Rightarrow> string"
  lsblkOut :: "(perr, string list) res"
  btools :: boottools
  siIni :: "string \<Rightarrow> (string, string \<Rightarrow> (string, string) res) res"
  installDec :: "string \<Rightarrow> (string, InstallOptions) res"
  siLine :: "string \<Rightarrow> genericJSON option"
  siApply :: "fsys \<Rightarrow> fsys"
  clickdebOpen :: "string \<Rightarrow> (serr, PackageFile) res"
  snapfsNew :: "string \<Rightarrow> PackageFile"
  storeDetails :: "string \<Rightarrow> storeAnswer"

definition SnappyDir :: string where "SnappyDir = ''var/lib/snappy''"

definition SnapAppsDir :: "genv \<Rightarrow> string" where
  "SnapAppsDir E = pathJoin [GlobalRootDir E, ''/apps'']"
definition SnapOemDir :: "genv \<Rightarrow> string" where
  "SnapOemDir E = pathJoin [GlobalRootDir E, ''/oem'']"
definition SnapDataDir :: "genv \<Rightarrow> string" where
  "SnapDataDir E = pathJoin [GlobalRootDir E, ''/var/lib/apps'']"
definition SnapDataHomeGlob :: "genv \<Rightarrow> string" where
  "SnapDataHomeGlob E = pathJoin [GlobalRootDir E, ''/home/*/apps/'']"
definition SnapAppArmorDir :: "genv \<Rightarrow> string" where
  "SnapAppArmorDir E = pathJoin [GlobalRootDir E, ''/var/lib/apparmor/clicks'']"
definition SnapSeccompDir :: "genv \<Rightarrow> string" where
  "SnapSeccompDir E = pathJoin [GlobalRootDir E, SnappyDir, ''seccomp'', ''profiles'']"
definition SnapIconsDir :: "genv \<Rightarrow> string" where
  "SnapIconsDir E = pathJoin [GlobalRootDir E, SnappyDir, ''icons'']"
definition SnapMetaDir :: "genv \<Rightarrow> string" where
  "SnapMetaDir E = pathJoin [GlobalRootDir E, SnappyDir, ''meta'']"
definition SnapBinariesDir :: "genv \<Rightarrow> string" where
  "SnapBinariesDir E = pathJoin [SnapAppsDir E, ''bin'']"
definition SnapServicesDir :: "genv \<Rightarrow> string" where
  "SnapServicesDir E = pathJoin [GlobalRootDir E, ''/etc/systemd/system'']"
definition SnapBusPolicyDir :: "genv \<Rightarrow> string" where
  "SnapBusPolicyDir E = pathJoin [GlobalRootDir E, ''/etc/dbus-1/system.d'']"
definition ClickSystemHooksDir :: "genv \<Rightarrow> string" where
  "ClickSystemHooksDir E = pathJoin [GlobalRootDir E, ''/usr/share/click/hooks'']"
definition SnapUdevRulesDir :: "genv \<Rightarrow> string" where
  "SnapUdevRulesDir E = pathJoin [GlobalRootDir E, ''/etc/udev/rules.d'']"

definition stripGlobalRootDir :: "genv \<Rightarrow> string \<Rightarrow> string" where
  "stripGlobalRootDir E dir =
     (if GlobalRootDir E = ''/'' then dir else drop (length (GlobalRootDir E)) dir)"


section \<open>An environment for examples\<close>

definition emptyPackage :: PackageFile where
  "emptyPackage =
     \<lparr>pfVerify = (\<lambda>_. Inr ()), pfControlMember = (\<lambda>_. Inl (Errorf ''no member'')),
      pfMetaMember = (\<lambda>_. Inl (Errorf ''no member'')), pfUnpack = (\<lambda>_ f. (Inr (), f)),
      pfExtractHashes = (\<lambda>_ f. (Inr (), f))\<rparr>"

definition demoEnv :: "packageYaml \<Rightarrow> genv" where
  "demoEnv m =
     \<lparr>GlobalRootDir = ''/'', goarch = ''amd64'',
      ytools = \<lparr>yamlPkg = (\<lambda>_. Inr m), yamlHashes = (\<lambda>_. Inr \<lparr>ArchiveSha512 = ''''\<rparr>),
                yamlRemote = (\<lambda>_. Inl ''no manifest''), yamlSeccomp = (\<lambda>_. Inl ''no override'')\<rparr>,
      hookIni = (\<lambda>_. Inl ''no hooks''), manifestDec = (\<lambda>_. Inl ''no manifest''), manifestEnc = (\<lambda>_. ''''),
      lsblkOut = Inr [], btools = lineTools, siIni = (\<lambda>_. Inl ''no configuration''),
      installDec = (\<lambda>_. Inl ''no install data''), siLine = (\<lambda>_. None), siApply = (\<lambda>f. f),
      clickdebOpen = (\<lambda>_. Inl (Errorf ''no package'')), snapfsNew = (\<lambda>_. emptyPackage), storeDetails = (\<lambda>_. StoreDown ''offline'')\<rparr>"

end
