(* ===== verification/Click.thy ===== *)
theory Click
  imports Env
begin

text \<open>
  What an active package has in the system, \<^verbatim>\<open>snappy/click.go\<close> with \<^verbatim>\<open>snappy/security.go\<close>,
  \<^verbatim>\<open>snappy/dbus.go\<close>: click hooks, security
  profiles, wrappers of binaries, service units, and the data directories of a version.
\<close>

section \<open>Strings and paths\<close>

text \<open>\<^verbatim>\<open>strings.Replace(s, old, new, -1)\<close> for a non-empty old string.\<close>

function replaceAll :: "string \<Rightarrow> string \<Rightarrow> string \<Rightarrow> string" where
  "replaceAll old new s =
     (if old = [] then s
      else (case s of
              [] \<Rightarrow> []
            | c # cs \<Rightarrow>
                (if hasPrefix s old then new @ replaceAll old new (drop (length old) s)
                 else c # replaceAll old new cs)))"
  by pat_completeness auto
termination
  by (relation "measure (\<lambda>(old, new, s). length s)") auto

declare replaceAll.simps [simp del]

text \<open>\<^verbatim>\<open>filepath.Ext\<close>: from the last dot of the last name.\<close>

definition pathExt :: "string \<Rightarrow> string" where
  "pathExt p =
     (let b = rev (takeWhile (\<lambda>c. c \<noteq> slash) (rev p))
      in if CHR ''.'' \<in> set b then CHR ''.'' # rev (takeWhile (\<lambda>c. c \<noteq> CHR ''.'') (rev b)) else '''')"

definition originFromBasedir :: "string \<Rightarrow> string" where
  "originFromBasedir basedir =
     (let ext = pathExt (pathDir (pathClean basedir))
      in if length ext < 2 then '''' else tl ext)"

definition originFromYamlPath :: "string \<Rightarrow> (serr, string) res" where
  "originFromYamlPath path =
     (let origin = originFromBasedir (pathJoin [path, ''..'', ''..''])
      in if origin = '''' then Inl (SErr ErrInvalidPart) else Inr origin)"

section \<open>Click hooks\<close>

definition ignoreHooks :: "string \<Rightarrow> bool" where
  "ignoreHooks n \<longleftrightarrow> n \<in> {''bin-path'', ''snappy-systemd''}"

definition execHook :: "string \<Rightarrow> ('m sworld_scheme, serr, unit) io" where
  "execHook cmd =
     andThen
       (mapErr (\<lambda>(code, out). case code of
            Some c \<Rightarrow> ErrHookFailed cmd out c
          | None \<Rightarrow> OsErr KIO (ECmd [''sh'', ''-c'', cmd]))
         (execCmd [''sh'', ''-c'', cmd]))
       (ret ())"

definition readClickHookFile :: "genv \<Rightarrow> string \<Rightarrow> ('m world_scheme, serr, clickHook) io" where
  "readClickHookFile E hookFile =
     bind (ioReadFile hookFile) (\<lambda>content.
       (case hookIni E (''[hook]'' @ [nl] @ content) of
          Inl e \<Rightarrow> throw (Errorf e)
        | Inr get \<Rightarrow>
            ret \<lparr>hkName = (if get ''Hook-Name'' = '''' then hd (splitChar (CHR ''.'') (pathBase hookFile))
                           else get ''Hook-Name''),
                 hkExec = get ''Exec'', hkUser = get ''User'', hkPattern = get ''Pattern''\<rparr>))"

fun readHooks :: "genv \<Rightarrow> string list \<Rightarrow> (string, clickHook) gomap
    \<Rightarrow> ('m world_scheme, serr, (string, clickHook) gomap) io" where
  "readHooks E [] hooks = ret hooks"
| "readHooks E (f # files) hooks =
     bind (attempt (readClickHookFile E f)) (\<lambda>r.
       (case r of
          Inl _ \<Rightarrow> readHooks E files hooks
        | Inr hook \<Rightarrow> readHooks E files (mput hooks (hkName hook) hook)))"

definition systemClickHooks :: "genv \<Rightarrow> ('m world_scheme, serr, (string, clickHook) gomap) io" where
  "systemClickHooks E =
     bind (gets (\<lambda>w. glob (fs w) (pathJoin [ClickSystemHooksDir E, ''*.hook'']))) (\<lambda>hookFiles.
       readHooks E hookFiles [])"

definition expandHookPattern :: "string \<Rightarrow> string \<Rightarrow> string \<Rightarrow> string \<Rightarrow> string" where
  "expandHookPattern name1 app version pattern =
     replaceAll ''${id}'' (name1 @ ''_'' @ app @ ''_'' @ version) pattern"

text \<open>One hook of one app: the old file goes, the callback runs, then the hook command.\<close>

definition runHook ::
    "bool \<Rightarrow> (string \<Rightarrow> string \<Rightarrow> clickHook \<Rightarrow> ('m sworld_scheme, serr, unit) io)
     \<Rightarrow> clickHook \<Rightarrow> string \<Rightarrow> string \<Rightarrow> ('m sworld_scheme, serr, unit) io" where
  "runHook inhibitHooks f systemHook dst src =
     bind (gets (\<lambda>w. exists (fs w) dst)) (\<lambda>ex.
     andThen (whenIO ex (ignoring (ioRemove dst)))
    (andThen (f src dst systemHook)
       (whenIO (hkExec systemHook \<noteq> '''' \<and> \<not> inhibitHooks)
          (bind (attempt (execHook (hkExec systemHook))) (\<lambda>r.
             (case r of
                Inr _ \<Rightarrow> ret ()
              | Inl e \<Rightarrow> andThen (ignoring (ioRemove dst)) (throw e)))))))"

definition iterHooks ::
    "genv \<Rightarrow> packageYaml \<Rightarrow> string \<Rightarrow> bool
     \<Rightarrow> (string \<Rightarrow> string \<Rightarrow> clickHook \<Rightarrow> ('m sworld_scheme, serr, unit) io)
     \<Rightarrow> ('m sworld_scheme, serr, unit) io" where
  "iterHooks E m origin inhibitHooks f =
     bind (systemClickHooks E) (\<lambda>systemHooks.
       forEach (case yIntegration m of None \<Rightarrow> [] | Some i \<Rightarrow> i) (\<lambda>(app, hook).
         forEach hook (\<lambda>(hookName, src).
           if ignoreHooks hookName then ret ()
           else (case mget systemHooks hookName of
                   None \<Rightarrow> ret ()
                 | Some systemHook \<Rightarrow>
                     runHook inhibitHooks f systemHook
                       (pathJoin [GlobalRootDir E, expandHookPattern (qualifiedName m origin) app (yVersion m)
                          (hkPattern systemHook)])
                       src))))"

definition installClickHooks ::
    "genv \<Rightarrow> string \<Rightarrow> packageYaml \<Rightarrow> string \<Rightarrow> bool \<Rightarrow> ('m sworld_scheme, serr, unit) io" where
  "installClickHooks E targetDir m origin inhibitHooks =
     iterHooks E m origin inhibitHooks (\<lambda>src dst systemHook.
       ioSymlink (stripGlobalRootDir E (pathJoin [targetDir, src])) dst)"

definition removeClickHooks ::
    "genv \<Rightarrow> packageYaml \<Rightarrow> string \<Rightarrow> bool \<Rightarrow> ('m sworld_scheme, serr, unit) io" where
  "removeClickHooks E m origin inhibitHooks =
     iterHooks E m origin inhibitHooks (\<lambda>src dst systemHook. ret ())"

definition RunHooks :: "genv \<Rightarrow> ('m sworld_scheme, serr, unit) io" where
  "RunHooks E =
     bind (systemClickHooks E) (\<lambda>systemHooks.
       forEach systemHooks (\<lambda>(n, hook). whenIO (hkExec hook \<noteq> '''') (execHook (hkExec hook))))"

section \<open>Security profiles\<close>

definition getSecurityProfile :: "packageYaml \<Rightarrow> string \<Rightarrow> string \<Rightarrow> (serr, string) res" where
  "getSecurityProfile m appName baseDir =
     (let cleanedName = map (\<lambda>c. if c = slash then CHR ''-'' else c) appName
      in if yType m = TypeFramework \<or> yType m = TypeOem
         then Inr (yName m @ ''_'' @ cleanedName @ ''_'' @ yVersion m)
         else rbind (originFromYamlPath (pathJoin [baseDir, ''meta'', ''package.yaml''])) (\<lambda>origin.
                Inr (yName m @ ''.'' @ origin @ ''_'' @ cleanedName @ ''_'' @ yVersion m)))"

definition defaultTemplate :: string where "defaultTemplate = ''default''"
definition defaultPolicyGroups :: "string list" where "defaultPolicyGroups = [''network-client'']"
definition defaultPolicyVendor :: string where "defaultPolicyVendor = ''ubuntu-core''"
definition defaultPolicyVersion :: string where "defaultPolicyVersion = ''15.04''"

record apparmorJSONTemplate =
  aaTemplate :: string
  aaPolicyGroups :: "string list"
  aaPolicyVendor :: string
  aaPolicyVersion :: string

text \<open>The value that \<^verbatim>\<open>generateApparmorJSONContent\<close> encodes.\<close>

definition generateApparmorJSONContent :: "SecurityDefinitions \<Rightarrow> apparmorJSONTemplate" where
  "generateApparmorJSONContent s =
     \<lparr>aaTemplate = (if SecurityTemplate s = '''' then defaultTemplate else SecurityTemplate s),
      aaPolicyGroups =
        (case SecurityCaps s of
           Some cs \<Rightarrow> cs
         | None \<Rightarrow> if SecurityTemplate s = '''' then defaultPolicyGroups else []),
      aaPolicyVendor = defaultPolicyVendor,
      aaPolicyVersion = defaultPolicyVersion\<rparr>"

definition readSeccompOverride ::
    "genv \<Rightarrow> string \<Rightarrow> ('m world_scheme, serr, securitySeccompOverride) io" where
  "readSeccompOverride E yamlPath =
     bind (ioReadFile yamlPath) (\<lambda>yamlData.
       (case yamlSeccomp (ytools E) yamlData of
          Inl e \<Rightarrow> throw (ErrInvalidYaml ''package.yaml[seccomp override]'' e yamlData)
        | Inr s \<Rightarrow>
            (if (scPolicyVersion s = None) \<noteq> (scPolicyVendor s = '''')
             then throw (SErr ErrInvalidSeccompPolicy) else ret s)))"

definition runScFilterGen :: "string list \<Rightarrow> ('m sworld_scheme, serr, string) io" where
  "runScFilterGen argv = mapErr (\<lambda>_. OsErr KIO (ECmd argv)) (execCmd argv)"

definition scFilterArgs ::
    "genv \<Rightarrow> string \<Rightarrow> string \<Rightarrow> string \<Rightarrow> string list \<Rightarrow> string list \<Rightarrow> string list" where
  "scFilterArgs E vendor version template caps syscalls =
     [''sc-filtergen'',
      ''--include-policy-dir='' @ pathDir (SnapSeccompDir E),
      ''--policy-vendor='' @ vendor,
      ''--policy-version='' @ version,
      ''--template='' @ template]
     @ (if caps \<noteq> [] then [''--policy-groups='' @ join caps '',''] else [])
     @ (if syscalls \<noteq> [] then [''--syscalls='' @ join syscalls '',''] else [])"

definition orDefault :: "string \<Rightarrow> string \<Rightarrow> string" where
  "orDefault s d = (if s \<noteq> '''' then s else d)"

definition seccompFromOverride ::
    "genv \<Rightarrow> string \<Rightarrow> SecurityOverrideDefinition \<Rightarrow> ('m sworld_scheme, serr, string) io" where
  "seccompFromOverride E baseDir o1 =
     (if ovSeccomp o1 = '''' then throw (SErr ErrNoSeccompPolicy)
      else bind (readSeccompOverride E (pathJoin [baseDir, ovSeccomp o1])) (\<lambda>s.
             runScFilterGen (scFilterArgs E
               (orDefault (scPolicyVendor s) defaultPolicyVendor)
               (case scPolicyVersion s of None \<Rightarrow> defaultPolicyVersion | Some v \<Rightarrow> v)
               (orDefault (scTemplate s) defaultTemplate)
               (scPolicyGroups s) (scSyscalls s))))"

definition generateSeccompPolicy ::
    "genv \<Rightarrow> string \<Rightarrow> string \<Rightarrow> SecurityDefinitions \<Rightarrow> ('m sworld_scheme, serr, string) io" where
  "generateSeccompPolicy E baseDir appName sd =
     (let handcrafted = (case SecurityPolicy sd of None \<Rightarrow> '''' | Some p1 \<Rightarrow> polSeccomp p1)
      in if handcrafted \<noteq> '''' then ioReadFile (pathJoin [baseDir, handcrafted])
         else andThen (ignoring (ioMkdirAll (SnapSeccompDir E)))
           (case SecurityOverride sd of
              Some o1 \<Rightarrow> seccompFromOverride E baseDir o1
            | None \<Rightarrow>
                runScFilterGen (scFilterArgs E defaultPolicyVendor defaultPolicyVersion
                  (orDefault (SecurityTemplate sd) defaultTemplate)
                  (case SecurityCaps sd of None \<Rightarrow> defaultPolicyGroups | Some cs \<Rightarrow> cs) [])))"

definition addOneSecurityPolicy ::
    "genv \<Rightarrow> packageYaml \<Rightarrow> string \<Rightarrow> SecurityDefinitions \<Rightarrow> string \<Rightarrow> ('m sworld_scheme, serr, unit) io" where
  "addOneSecurityPolicy E m n sd baseDir =
     bind (fromRes (getSecurityProfile m (pathBase n) baseDir)) (\<lambda>profileName.
     bind (generateSeccompPolicy E baseDir n sd) (\<lambda>content.
       ioWriteFile (pathJoin [SnapSeccompDir E, profileName]) content))"

definition addSecurityPolicy :: "genv \<Rightarrow> packageYaml \<Rightarrow> string \<Rightarrow> ('m sworld_scheme, serr, unit) io" where
  "addSecurityPolicy E m baseDir =
     andThen
       (forEach (yServiceYamls m) (\<lambda>svc. addOneSecurityPolicy E m (svcName svc) (svcSec svc) baseDir))
       (forEach (yBinaries m) (\<lambda>bin. addOneSecurityPolicy E m (binName bin) (binSec bin) baseDir))"

definition removeOneSecurityPolicy ::
    "genv \<Rightarrow> packageYaml \<Rightarrow> string \<Rightarrow> string \<Rightarrow> ('m sworld_scheme, serr, unit) io" where
  "removeOneSecurityPolicy E m n baseDir =
     bind (fromRes (getSecurityProfile m (pathBase n) baseDir)) (\<lambda>profileName.
       tolerating IsNotExist (ioRemove (pathJoin [SnapSeccompDir E, profileName])))"

definition removeSecurityPolicy :: "genv \<Rightarrow> packageYaml \<Rightarrow> string \<Rightarrow> ('m sworld_scheme, serr, unit) io" where
  "removeSecurityPolicy E m baseDir =
     andThen
       (forEach (yServiceYamls m) (\<lambda>svc. removeOneSecurityPolicy E m (svcName svc) baseDir))
       (forEach (yBinaries m) (\<lambda>bin. removeOneSecurityPolicy E m (binName bin) baseDir))"

section \<open>Binaries\<close>

definition generateBinaryName :: "genv \<Rightarrow> packageYaml \<Rightarrow> Binary \<Rightarrow> string" where
  "generateBinaryName E m binary =
     pathJoin [SnapBinariesDir E,
       if yType m = TypeFramework then pathBase (binName binary)
       else yName m @ ''.'' @ pathBase (binName binary)]"

definition binPathForBinary :: "string \<Rightarrow> Binary \<Rightarrow> string" where
  "binPathForBinary pkgPath binary = pathJoin [pkgPath, binExec binary]"

definition quoteEnvVar :: "string \<Rightarrow> string" where
  "quoteEnvVar envVar =
     ''export '' @
     (if CHR ''='' \<in> set envVar
      then takeWhile (\<lambda>c. c \<noteq> CHR ''='') envVar @ [CHR ''='', CHR 0x22]
           @ tl (dropWhile (\<lambda>c. c \<noteq> CHR ''='') envVar)
      else envVar) @ [CHR 0x22]"

definition wrapperLines ::
    "string list \<Rightarrow> string list \<Rightarrow> string \<Rightarrow> string \<Rightarrow> string \<Rightarrow> string \<Rightarrow> string list" where
  "wrapperLines oldVars newVars appPath udevAppName aaProfile target1 =
     [''#!/bin/sh'', ''set -e'', '''', ''# app info (deprecated)''] @ oldVars
     @ [''export SNAPP_OLD_PWD='' @ CHR 0x22 # ''$(pwd)'' @ [CHR 0x22], '''', ''# app info''] @ newVars
     @ ['''',
        ''if [ ! -d '' @ CHR 0x22 # ''$SNAP_APP_USER_DATA_PATH'' @ CHR 0x22 # '' ]; then'',
        ''   mkdir -p '' @ CHR 0x22 # ''$SNAP_APP_USER_DATA_PATH'' @ [CHR 0x22],
        ''fi'',
        ''export HOME='' @ CHR 0x22 # ''$SNAP_APP_USER_DATA_PATH'' @ [CHR 0x22],
        '''',
        ''# export old pwd'',
        ''export SNAP_OLD_PWD='' @ CHR 0x22 # ''$(pwd)'' @ [CHR 0x22],
        ''cd '' @ appPath,
        ''ubuntu-core-launcher '' @ udevAppName @ '' '' @ aaProfile @ '' '' @ target1 @ '' '' @ CHR 0x22 # ''$@'' @ [CHR 0x22],
        '''']"

definition generateSnapBinaryWrapper ::
    "genv \<Rightarrow> Binary \<Rightarrow> string \<Rightarrow> string \<Rightarrow> packageYaml \<Rightarrow> (serr, string) res" where
  "generateSnapBinaryWrapper E binary pkgPath aaProfile m =
     (let origin = originFromBasedir pkgPath
      in rbind (verifyBinariesYaml binary) (\<lambda>_.
           let udevPartName = qualifiedName m origin;
               d = \<lparr>eAppName = yName m, eAppArch = UbuntuArchitecture (goarch E), eAppPath = pkgPath,
                    eVersion = yVersion m, eUdevAppName = udevPartName, eOrigin = origin, eHome = ''$HOME''\<rparr>;
               oldVars = map quoteEnvVar (GetDeprecatedBasicSnapEnvVars d @ GetDeprecatedUserSnapEnvVars d);
               newVars = map quoteEnvVar (GetBasicSnapEnvVars d @ GetUserSnapEnvVars d)
           in Inr (join (wrapperLines oldVars newVars pkgPath udevPartName aaProfile
                 (binPathForBinary pkgPath binary)) [nl])))"

definition addPackageBinaries :: "genv \<Rightarrow> packageYaml \<Rightarrow> string \<Rightarrow> ('m sworld_scheme, serr, unit) io" where
  "addPackageBinaries E m baseDir =
     andThen (ioMkdirAll (SnapBinariesDir E))
       (forEach (yBinaries m) (\<lambda>binary.
          bind (fromRes (getSecurityProfile m (binName binary) baseDir)) (\<lambda>aaProfile.
          bind (fromRes (generateSnapBinaryWrapper E binary (stripGlobalRootDir E baseDir) aaProfile m)) (\<lambda>content.
            ioWriteFile (generateBinaryName E m binary) content))))"

definition removePackageBinaries :: "genv \<Rightarrow> packageYaml \<Rightarrow> string \<Rightarrow> ('m sworld_scheme, serr, unit) io" where
  "removePackageBinaries E m baseDir =
     forEach (yBinaries m) (\<lambda>binary. ignoring (ioRemove (generateBinaryName E m binary)))"

section \<open>Services\<close>

definition unitName :: "packageYaml \<Rightarrow> ServiceYaml \<Rightarrow> string \<Rightarrow> string" where
  "unitName m service suffix = yName m @ ''_'' @ svcName service @ ''_'' @ yVersion m @ suffix"

definition generateServiceFileName :: "genv \<Rightarrow> packageYaml \<Rightarrow> ServiceYaml \<Rightarrow> string" where
  "generateServiceFileName E m service = pathJoin [SnapServicesDir E, unitName m service ''.service'']"

definition generateSocketFileName :: "genv \<Rightarrow> packageYaml \<Rightarrow> ServiceYaml \<Rightarrow> string" where
  "generateSocketFileName E m service = pathJoin [SnapServicesDir E, unitName m service ''.socket'']"

definition generateBusPolicyFileName :: "genv \<Rightarrow> packageYaml \<Rightarrow> ServiceYaml \<Rightarrow> string" where
  "generateBusPolicyFileName E m service = pathJoin [SnapBusPolicyDir E, unitName m service ''.conf'']"

definition emptyDesc :: ServiceDescription where
  "emptyDesc =
     \<lparr>dAppName = '''', dServiceName = '''', dVersion = '''', dDescription = '''', dAppPath = '''',
      dStart = '''', dStop = '''', dPostStop = '''', dStopTimeout = 0, dAaProfile = '''',
      dIsFramework = False, dIsNetworked = False, dBusName = '''', dUdevAppName = '''',
      dForking = False, dSocket = False, dSocketFileName = '''', dListenStream = '''',
      dSocketMode = '''', dSocketUser = '''', dSocketGroup = '''', dServiceFileName = ''''\<rparr>"

definition serviceDesc :: "genv \<Rightarrow> ServiceYaml \<Rightarrow> string \<Rightarrow> string \<Rightarrow> packageYaml \<Rightarrow> ServiceDescription" where
  "serviceDesc E service baseDir aaProfile m =
     emptyDesc\<lparr>
       dAppName := yName m,
       dServiceName := svcName service,
       dVersion := yVersion m,
       dDescription :=
         (if svcDescription service = ''''
          then ''service '' @ svcName service @ '' for package '' @ yName m else svcDescription service),
       dAppPath := baseDir,
       dStart := svcStart service,
       dStop := svcStop service,
       dPostStop := svcPostStop service,
       dStopTimeout := svcStopTimeout service,
       dAaProfile := aaProfile,
       dIsFramework := (yType m = TypeFramework),
       dIsNetworked := (case svcPorts service of None \<Rightarrow> False | Some p1 \<Rightarrow> External p1 \<noteq> []),
       dBusName := svcBusName service,
       dForking := svcForking service,
       dUdevAppName := qualifiedName m (originFromBasedir baseDir),
       dSocket := svcSocket service,
       dSocketFileName := (if svcSocket service then pathBase (generateSocketFileName E m service) else '''')\<rparr>"

definition generateSnapServicesFile ::
    "genv \<Rightarrow> ServiceYaml \<Rightarrow> string \<Rightarrow> string \<Rightarrow> packageYaml \<Rightarrow> (serr, string) res" where
  "generateSnapServicesFile E service baseDir aaProfile m =
     rbind (verifyServiceYaml service) (\<lambda>_.
       Inr (GenServiceFile (goarch E) (serviceDesc E service baseDir aaProfile m)))"

definition generateSnapSocketFile ::
    "genv \<Rightarrow> ServiceYaml \<Rightarrow> string \<Rightarrow> string \<Rightarrow> packageYaml \<Rightarrow> (serr, string) res" where
  "generateSnapSocketFile E service baseDir aaProfile m =
     rbind (verifyServiceYaml service) (\<lambda>_.
       Inr (GenSocketFile (emptyDesc\<lparr>
         dServiceFileName := pathBase (generateServiceFileName E m service),
         dListenStream := svcListenStream service,
         dSocketMode := svcSocketMode service,
         dSocketUser := svcSocketUser service,
         dSocketGroup := svcSocketGroup service\<rparr>)))"

subsection \<open>Bus policy\<close>

definition busHead :: "char \<Rightarrow> bool" where
  "busHead c \<longleftrightarrow> isAlpha c \<or> isDigit c"

definition busElement :: "string \<Rightarrow> bool" where
  "busElement e \<longleftrightarrow> e \<noteq> [] \<and> busHead (hd e) \<and> list_all (\<lambda>c. busHead c \<or> c = CHR ''_'' \<or> c = CHR ''-'') (tl e)"

text \<open>\<^verbatim>\<open>^[A-Za-z0-9][A-Za-z0-9_-]*(\.[A-Za-z0-9][A-Za-z0-9_-]*)+$\<close>.\<close>

definition verifyBusName :: "string \<Rightarrow> (serr, unit) res" where
  "verifyBusName busName =
     (let es = splitChar (CHR ''.'') busName
      in if 2 \<le> length es \<and> list_all busElement es then Inr ()
         else Inl (ErrStructIllegalContent ''bus-name'' busName
                (''^[A-Za-z0-9][A-Za-z0-9_-]*('' @ [CHR 0x5C] @ ''.[A-Za-z0-9][A-Za-z0-9_-]*)+$'')))"

definition xmlAttr :: "string \<Rightarrow> string \<Rightarrow> string" where
  "xmlAttr k v = k @ CHR ''='' # CHR 0x22 # v @ [CHR 0x22]"

definition busPolicyLines :: "string \<Rightarrow> string list" where
  "busPolicyLines busName =
     [''<?xml '' @ xmlAttr ''version'' ''1.0'' @ ''?> <!--*-nxml-*-->'',
      ''<!DOCTYPE busconfig PUBLIC '' @ [CHR 0x22] @ ''-//freedesktop//DTD D-BUS Bus Configuration 1.0//EN'' @ [CHR 0x22],
      ''        '' @ [CHR 0x22] @ ''http://www.freedesktop.org/standards/dbus/1.0/busconfig.dtd'' @ [CHR 0x22] @ ''>'',
      '''', ''<!--'', ''  This file is autogenerated by snappy'', ''-->'', '''', ''<busconfig>'',
      ''        <policy '' @ xmlAttr ''user'' ''root'' @ ''>'',
      ''                <allow '' @ xmlAttr ''own'' busName @ ''/>'',
      ''                <allow '' @ xmlAttr ''send_destination'' busName @ ''/>'',
      ''        </policy>'', '''',
      ''        <policy '' @ xmlAttr ''context'' ''default'' @ ''>'',
      ''                <allow '' @ xmlAttr ''send_destination'' busName @ ''/>'',
      ''        </policy>'', ''</busconfig>'', '''']"

definition genBusPolicyFile :: "string \<Rightarrow> (serr, string) res" where
  "genBusPolicyFile busName =
     rbind (verifyBusName busName) (\<lambda>_. Inr (join (busPolicyLines busName) [nl]))"

subsection \<open>Adding and removing services\<close>

definition writeUnit :: "string \<Rightarrow> string \<Rightarrow> ('m sworld_scheme, serr, unit) io" where
  "writeUnit filename content = andThen (ignoring (ioMkdirAll (pathDir filename))) (ioWriteFile filename content)"

definition addPackageService ::
    "genv \<Rightarrow> packageYaml \<Rightarrow> string \<Rightarrow> bool \<Rightarrow> ServiceYaml \<Rightarrow> ('m sworld_scheme, serr, unit) io" where
  "addPackageService E m baseDir inhibitHooks service =
     (let realBaseDir = stripGlobalRootDir E baseDir;
          serviceName = pathBase (generateServiceFileName E m service);
          socketName = pathBase (generateSocketFileName E m service)
      in bind (fromRes (getSecurityProfile m (svcName service) baseDir)) (\<lambda>aaProfile.
         bind (fromRes (generateSnapServicesFile E service realBaseDir aaProfile m)) (\<lambda>content.
         andThen (writeUnit (generateServiceFileName E m service) content)
        (andThen (whenIO (svcSocket service)
           (bind (fromRes (generateSnapSocketFile E service realBaseDir aaProfile m)) (\<lambda>content.
              writeUnit (generateSocketFileName E m service) content)))
        (andThen (whenIO (yType m = TypeFramework \<and> svcBusName service \<noteq> '''')
           (bind (fromRes (genBusPolicyFile (svcBusName service))) (\<lambda>content.
              writeUnit (generateBusPolicyFileName E m service) content)))
        (andThen (whenIO (\<not> inhibitHooks) DaemonReload)
        (andThen (Enable (GlobalRootDir E) serviceName)
        (andThen (whenIO (\<not> inhibitHooks) (Start serviceName))
           (whenIO (svcSocket service)
             (andThen (Enable (GlobalRootDir E) socketName)
                (whenIO (\<not> inhibitHooks) (Start socketName))))))))))))"

definition addPackageServices ::
    "genv \<Rightarrow> packageYaml \<Rightarrow> string \<Rightarrow> bool \<Rightarrow> ('m sworld_scheme, serr, unit) io" where
  "addPackageServices E m baseDir inhibitHooks =
     forEach (yServiceYamls m) (addPackageService E m baseDir inhibitHooks)"

definition killWait :: int where "killWait = 5 * second"

definition stopOrKill :: "string \<Rightarrow> int \<Rightarrow> ('m sworld_scheme, serr, unit) io" where
  "stopOrKill serviceName timeout =
     bind (attempt (Stop serviceName timeout)) (\<lambda>r.
       (case r of
          Inr _ \<Rightarrow> ret ()
        | Inl e \<Rightarrow>
            (if \<not> IsTimeout e then throw e
             else andThen (ignoring (Kill serviceName ''TERM''))
                 (andThen (sleep killWait) (ignoring (Kill serviceName ''KILL''))))))"

definition removePackageService :: "genv \<Rightarrow> packageYaml \<Rightarrow> ServiceYaml \<Rightarrow> ('m sworld_scheme, serr, unit) io" where
  "removePackageService E m service =
     (let serviceName = pathBase (generateServiceFileName E m service)
      in andThen (Disable (GlobalRootDir E) serviceName)
        (andThen (stopOrKill serviceName (svcStopTimeout service))
        (andThen (ignoring (ioRemove (generateServiceFileName E m service)))
        (andThen (ignoring (ioRemove (generateSocketFileName E m service)))
                 (ignoring (ioRemove (generateBusPolicyFileName E m service)))))))"

definition removePackageServices :: "genv \<Rightarrow> packageYaml \<Rightarrow> string \<Rightarrow> ('m sworld_scheme, serr, unit) io" where
  "removePackageServices E m baseDir =
     andThen (forEach (yServiceYamls m) (removePackageService E m))
       (whenIO (yServiceYamls m \<noteq> []) DaemonReload)"

section \<open>The manifest and the data of a version\<close>

definition SideloadedOrigin :: string where "SideloadedOrigin = ''sideload''"

definition writeCompatManifestJSON ::
    "genv \<Rightarrow> string \<Rightarrow> string \<Rightarrow> string \<Rightarrow> ('m world_scheme, serr, unit) io" where
  "writeCompatManifestJSON E clickMetaDir manifestData origin =
     (case manifestDec E manifestData of
        Inl e \<Rightarrow> throw (Errorf e)
      | Inr cm \<Rightarrow>
          (let cm = (if cmType cm \<noteq> TypeFramework \<and> cmType cm \<noteq> TypeOem
                     then cm\<lparr>cmName := cmName cm @ ''.'' @ origin\<rparr> else cm);
               cm = (if origin = SideloadedOrigin
                     then cm\<lparr>cmVersion := pathBase (pathJoin [clickMetaDir, ''..'', ''..''])\<rparr> else cm)
           in ioAtomicWrite (pathJoin [clickMetaDir, cmName cm @ ''.manifest'']) (manifestEnc E cm)))"

definition snapDataDirs :: "genv \<Rightarrow> string \<Rightarrow> string \<Rightarrow> fsys \<Rightarrow> string list" where
  "snapDataDirs E fullName version f =
     glob f (pathJoin [SnapDataHomeGlob E, fullName, version])
     @ [pathJoin [SnapDataDir E, fullName, version]]"

definition removeSnapData :: "genv \<Rightarrow> string \<Rightarrow> string \<Rightarrow> ('m world_scheme, serr, unit) io" where
  "removeSnapData E fullName version =
     bind (gets (\<lambda>w. snapDataDirs E fullName version (fs w))) (\<lambda>ds.
       forEach ds (\<lambda>dir.
         andThen (tolerating IsNotExist (ioRemoveAll dir)) (ignoring (ioRemove (pathDir dir)))))"

text \<open>\<^verbatim>\<open>cp -a\<close> onto a path that does not exist.\<close>

definition copyTree :: "string \<Rightarrow> string \<Rightarrow> fsys \<Rightarrow> fsys" where
  "copyTree old new f =
     foldr (\<lambda>(p, n) g. fput g (new @ drop (length old) p) n) (filter (\<lambda>e. inTree old (fst e)) f) f"

definition copySnapDataDirectory :: "string \<Rightarrow> string \<Rightarrow> ('m sworld_scheme, serr, unit) io" where
  "copySnapDataDirectory oldPath newPath =
     bind (gets (\<lambda>w. exists (fs w) oldPath \<and> \<not> exists (fs w) newPath)) (\<lambda>needed.
       whenIO needed
         (andThen
           (mapErr (\<lambda>(code, out). case code of
                Some c \<Rightarrow> ErrDataCopyFailed oldPath newPath c
              | None \<Rightarrow> OsErr KIO (ECmd [''cp'', ''-a'', oldPath, newPath]))
             (execCmd [''cp'', ''-a'', oldPath, newPath]))
           (modifies (\<lambda>w. w\<lparr>fs := copyTree oldPath newPath (fs w)\<rparr>))))"

definition copySnapData :: "genv \<Rightarrow> string \<Rightarrow> string \<Rightarrow> string \<Rightarrow> ('m sworld_scheme, serr, unit) io" where
  "copySnapData E fullName oldVersion newVersion =
     bind (gets (\<lambda>w. snapDataDirs E fullName oldVersion (fs w))) (\<lambda>ds.
       forEach ds (\<lambda>oldDir. copySnapDataDirectory oldDir (pathJoin [pathDir oldDir, newVersion])))"

section \<open>Unit files have the lines of the template\<close>

lemma cleanComps_subset: "set (cleanComps r acc cs) \<subseteq> set acc \<union> set cs"
proof (induction r acc cs rule: cleanComps.induct)
  case (2 r acc c cs)
  then show ?case by (cases acc) (auto split: if_splits)
qed simp

lemma splitChar_chars: "x \<in> set (splitChar c s) \<Longrightarrow> set x \<subseteq> set s"
  by (induction s arbitrary: x) (fastforce split: if_splits list.splits)+

lemma set_pathClean: "set (pathClean p) \<subseteq> set p \<union> {CHR ''.'', slash}"
proof -
  have "set (join (cleanComps r [] (splitChar slash p)) ''/'') \<subseteq> set p \<union> {slash}" for r
    using set_join [of "cleanComps r [] (splitChar slash p)" "''/''"]
      cleanComps_subset [of r "[]" "splitChar slash p"] splitChar_chars [of _ slash p] by fastforce
  then show ?thesis by (auto simp: pathClean_def Let_def)
qed

lemma set_pathJoin: "set (pathJoin es) \<subseteq> \<Union> (set ` set es) \<union> {CHR ''.'', slash}"
proof (cases "dropWhile (\<lambda>e. e = '''') es")
  case (Cons d ds)
  have "set (pathJoin es) \<subseteq> set (join (d # ds) ''/'') \<union> {CHR ''.'', slash}"
    using set_pathClean [of "join (d # ds) ''/''"] Cons by (simp add: pathJoin_def)
  moreover have "set (join (d # ds) ''/'') \<subseteq> \<Union> (set ` set (d # ds)) \<union> {slash}"
    using set_join [of "d # ds" "''/''"] by simp
  moreover have "set (d # ds) \<subseteq> set es"
    using Cons set_dropWhileD [of _ "\<lambda>e. e = ''''" es] by (metis subsetI)
  ultimately show ?thesis by blast
next
  case Nil
  then have "pathJoin es = []" by (simp only: pathJoin_def list.case)
  then show ?thesis by simp
qed

lemma nl_pathJoin: "(\<And>e. e \<in> set es \<Longrightarrow> nl \<notin> set e) \<Longrightarrow> nl \<notin> set (pathJoin es)"
  using set_pathJoin [of es] by auto

lemma nl_pathBase: "nl \<notin> set p \<Longrightarrow> nl \<notin> set (pathBase p)"
  using set_pathBase [of p] by auto

lemma nl_pathDir: "nl \<notin> set p \<Longrightarrow> nl \<notin> set (pathDir p)"
  using set_pathClean [of "rev (dropWhile (\<lambda>c. c \<noteq> slash) (rev p))"] set_dropWhileD
  by (fastforce simp: pathDir_def)

lemma nl_originFromBasedir: "nl \<notin> set p \<Longrightarrow> nl \<notin> set (originFromBasedir p)"
proof -
  assume "nl \<notin> set p"
  then have "nl \<notin> set (pathDir (pathClean p))" using set_pathClean [of p] by (intro nl_pathDir) auto
  then have "nl \<notin> set (pathExt (pathDir (pathClean p)))"
    by (auto simp: pathExt_def Let_def dest!: set_takeWhileD)
  then show ?thesis
    by (cases "pathExt (pathDir (pathClean p))") (auto simp: originFromBasedir_def Let_def)
qed

lemma nl_qualifiedName: "nl \<notin> set (yName m) \<Longrightarrow> nl \<notin> set origin \<Longrightarrow> nl \<notin> set (qualifiedName m origin)"
  by (simp add: qualifiedName_def)

lemma nl_join: "(\<And>e. e \<in> set es \<Longrightarrow> nl \<notin> set e) \<Longrightarrow> nl \<notin> set sep \<Longrightarrow> nl \<notin> set (join es sep)"
  using set_join [of es sep] by auto

lemma digitsVal_zeros: "list_all (\<lambda>c. c = CHR ''0'') s \<Longrightarrow> digitsVal 0 s = 0"
  by (induction s) auto

lemma dropZeros_itoa: "0 < r \<Longrightarrow> dropZeros (itoa r) \<noteq> []"
  using digitsVal_zeros [of "itoaU r"] digitsVal_itoaU [of r]
  by (auto simp: dropZeros_def itoa_def list_all_iff)

lemma nl_fmtSeconds: "nl \<notin> set (fmtSeconds n)"
proof -
  have dz: "nl \<notin> set s \<Longrightarrow> nl \<notin> set (dropZeros s)" for s using set_dropZeros [of s] by auto
  have tl: "nl \<notin> set s \<Longrightarrow> nl \<notin> set (tl s)" for s :: string by (cases s) auto
  have hd: "nl \<notin> set s \<Longrightarrow> nl \<noteq> hd s" if "s \<noteq> []" for s :: string using that by (cases s) auto
  have r: "0 < n mod second" if "n mod second \<noteq> 0" for n
    using that pos_mod_sign [of second n] by (simp add: second_def)
  have "nl \<notin> set (fmtSecondsU n)" for n
    using hd [OF dropZeros_itoa] r dz tl by (auto simp: fmtSecondsU_def Let_def)
  then show ?thesis by (simp add: fmtSeconds_def)
qed

lemma nl_descOrigin: "nl \<notin> set (dUdevAppName d) \<Longrightarrow> nl \<notin> set (descOrigin d)"
  by (auto simp: descOrigin_def dest: in_set_dropD)

text \<open>The strings of a description that a unit file contains.\<close>

definition descStrings :: "ServiceDescription \<Rightarrow> string list" where
  "descStrings d =
     [dAppName d, dServiceName d, dVersion d, dDescription d, dAppPath d, dStart d, dStop d,
      dPostStop d, dAaProfile d, dBusName d, dUdevAppName d, dSocketFileName d]"

lemma nl_serviceEnv:
  assumes "list_all (\<lambda>s. nl \<notin> set s) (descStrings d)" and "nl \<notin> set arch"
  shows "nl \<notin> set (serviceEnv arch d)"
proof -
  have "nl \<notin> set (descOrigin d)" using assms nl_descOrigin by (simp add: descStrings_def)
  then show ?thesis
    using assms unfolding serviceEnv_def Let_def
    by (auto simp: descStrings_def UbuntuArchitecture_def GetBasicSnapEnvVars_def GetUserSnapEnvVars_def
        GetDeprecatedBasicSnapEnvVars_def GetDeprecatedUserSnapEnvVars_def Let_def)
qed

lemma nl_launcher:
  "list_all (\<lambda>s. nl \<notin> set s) (descStrings d) \<Longrightarrow> nl \<notin> set cmd \<Longrightarrow> nl \<notin> set (launcher d cmd)"
  using nl_pathJoin [of "[dAppPath d, cmd]"] by (auto simp: launcher_def descStrings_def)

lemma nl_serviceLines:
  assumes "list_all (\<lambda>s. nl \<notin> set s) (descStrings d)" and "nl \<notin> set arch"
  shows "list_all (\<lambda>l. nl \<notin> set l) (serviceLines arch d)"
  using assms nl_serviceEnv [OF assms] nl_launcher [OF assms(1)] nl_fmtSeconds [of "dStopTimeout d"]
  by (simp add: serviceLines_def Let_def descStrings_def servicesSystemdTarget_def)

lemma GenServiceFile_lines:
  assumes "list_all (\<lambda>s. nl \<notin> set s) (descStrings d)" and "nl \<notin> set arch"
  shows "splitChar nl (GenServiceFile arch d) = serviceLines arch d"
proof -
  have "serviceLines arch d \<noteq> []" by (simp add: serviceLines_def Let_def)
  with nl_serviceLines [OF assms] show ?thesis
    unfolding GenServiceFile_def by (rule splitChar_join_lines [rotated])
qed

lemma serviceLines_ExecStart:
  "filter (\<lambda>l. hasPrefix l ''ExecStart='') (serviceLines arch d) = [''ExecStart='' @ launcher d (dStart d)]"
  by (simp add: serviceLines_def Let_def servicesSystemdTarget_def)

lemma serviceLines_sections:
  "filter (\<lambda>l. hasPrefix l ''['') (serviceLines arch d) = [''[Unit]'', ''[Service]'', ''[Install]'']"
  by (simp add: serviceLines_def Let_def servicesSystemdTarget_def)

lemma serviceDesc_clean:
  assumes "verifyServiceYaml service = Inr ()"
    and "list_all (\<lambda>s. nl \<notin> set s) [yName m, yVersion m, baseDir, aaProfile, GlobalRootDir E]"
  shows "list_all (\<lambda>s. nl \<notin> set s) (descStrings (serviceDesc E service baseDir aaProfile m))"
proof -
  have w: "list_all (\<lambda>s. nl \<notin> set s) (serviceStrings service)"
    using assms(1) by (auto simp: verifyServiceYaml_iff list_all_iff whitelisted_no_nl)
  have "nl \<notin> set (SnapServicesDir E)"
    unfolding SnapServicesDir_def using assms(2) by (intro nl_pathJoin) auto
  then have "nl \<notin> set (generateSocketFileName E m service)"
    unfolding generateSocketFileName_def using assms(2) w
    by (intro nl_pathJoin) (auto simp: unitName_def serviceStrings_def)
  then have "nl \<notin> set (pathBase (generateSocketFileName E m service))" by (rule nl_pathBase)
  then show ?thesis
    using assms(2) w nl_qualifiedName [of m "originFromBasedir baseDir"] nl_originFromBasedir [of baseDir]
    by (auto simp: descStrings_def serviceDesc_def serviceStrings_def)
qed


definition noOem :: OEM where
  "noOem = \<lparr>StoreIDField = '''', hwAssign = [], hwBootAssets = None, BuiltIn = []\<rparr>"

definition demoYaml :: "string \<Rightarrow> packageYaml" where
  "demoYaml n =
     \<lparr>yName = n, yVersion = ''1.0'', yVendor = ''me'', yIcon = '''', yType = '''',
      yDeprecatedArchitecture = None, yArchitectures = None, yDeprecatedFramework = '''',
      yFrameworks = [], yServiceYamls = [plainService ''web''], yBinaries = [],
      yOEM = noOem, yConfig = [], yIntegration = None, yExplicitLicenseAgreement = False,
      yLicenseVersion = ''''\<rparr>"


text \<open>
  A description that was accepted satisfies the conditions the rest of the program
  relies on: a name without a dot, a version and a vendor, architectures, no deprecated framework key,
  binaries and services that passed the white list, timeouts, and a click hook with an
  apparmor entry for every binary and every service.
\<close>

lemma parsePackageYamlData_accepts:
  assumes "parsePackageYamlData yt yamlData hasConfig = Inr m"
  shows "goodYaml m"
  by (rule parsePackageYamlData_good [OF assms])

end
