(* ===== verification/Policy.thy ===== *)
theory Policy
  imports Click
begin

text \<open>
  Comparing and copying files and the security policies of frameworks: \<^verbatim>\<open>helpers/cmp.go\<close>,
  \<^verbatim>\<open>helpers/cp.go\<close> and \<^verbatim>\<open>policy/policy.go\<close>.
\<close>

section \<open>Comparing files\<close>

text \<open>
  \<^verbatim>\<open>io.ReadAtLeast(r, buf, len(buf))\<close> on a reader with the given rest: what was read, the
  remaining rest, and whether the read was full, ended early or found the end.
\<close>

datatype readEnd = ReadFull | ReadShort | ReadEOF

definition readAtLeast :: "int \<Rightarrow> string \<Rightarrow> string \<times> string \<times> readEnd" where
  "readAtLeast bufsz s =
     (if s = [] then ([], [], ReadEOF)
      else if int (length s) < bufsz then (s, [], ReadShort)
      else (take (nat bufsz) s, drop (nat bufsz) s, ReadFull))"

definition defaultBufsz :: int where "defaultBufsz = 16 * 1024"

lemma readAtLeast_parts: "readAtLeast n s = (b, r, e) \<Longrightarrow> s = b @ r"
  by (auto simp: readAtLeast_def split: if_splits)

lemma readAtLeast_shorter:
  "0 < n \<Longrightarrow> readAtLeast n s = (b, r, e) \<Longrightarrow> e \<noteq> ReadEOF \<Longrightarrow> length r < length s"
  by (auto simp: readAtLeast_def split: if_splits)

text \<open>The loop of \<^verbatim>\<open>streamsEqual\<close>.\<close>

function streamsEqual :: "int \<Rightarrow> string \<Rightarrow> string \<Rightarrow> bool" where
  "streamsEqual bufsz fa fb =
     (if bufsz \<le> 0 then False
      else
        (case (readAtLeast bufsz fa, readAtLeast bufsz fb) of
           ((bufa, ra, ea), (bufb, rb, eb)) \<Rightarrow>
             (if ea = ReadEOF \<and> eb = ReadEOF then True
              else if (ea \<noteq> ReadFull \<or> eb \<noteq> ReadFull) \<and> \<not> (ea = ReadShort \<and> eb = ReadShort) then False
              else if bufa \<noteq> bufb then False
              else streamsEqual bufsz ra rb)))"
  by pat_completeness auto
termination
  by (relation "measure (\<lambda>(n, fa, fb). length fa)") (auto simp: readAtLeast_def split: if_splits)

declare streamsEqual.simps [simp del]

lemma readAtLeast_empty: "readAtLeast n s = (b, r, ReadEOF) \<longleftrightarrow> s = [] \<and> b = [] \<and> r = []"
  by (auto simp: readAtLeast_def)

lemma streamsEqual_iff: "0 < n \<Longrightarrow> streamsEqual n fa fb \<longleftrightarrow> fa = fb"
proof (induction n fa fb rule: streamsEqual.induct)
  case (1 n fa fb)
  obtain ba ra ea bb rb eb where r: "readAtLeast n fa = (ba, ra, ea)" "readAtLeast n fb = (bb, rb, eb)"
    by (cases "readAtLeast n fa", cases "readAtLeast n fb") auto
  note u = streamsEqual.simps [of n fa fb]
  have parts: "fa = ba @ ra" "fb = bb @ rb" using r readAtLeast_parts by blast+
  show ?case
  proof (cases "ea = ReadEOF \<and> eb = ReadEOF")
    case True
    then have "fa = [] \<and> fb = []" using r readAtLeast_empty by metis
    moreover have "streamsEqual n fa fb" using True r 1(2) by (simp add: u)
    ultimately show ?thesis by simp
  next
    case more: False
    show ?thesis
    proof (cases "(ea \<noteq> ReadFull \<or> eb \<noteq> ReadFull) \<and> \<not> (ea = ReadShort \<and> eb = ReadShort)")
      case True
      then have "fa \<noteq> fb" using r more by (cases ea) auto
      moreover have "\<not> streamsEqual n fa fb" using True more r 1(2) by (auto simp: u)
      ultimately show ?thesis by simp
    next
      case False
      have "ba = bb \<Longrightarrow> streamsEqual n ra rb \<longleftrightarrow> ra = rb"
        using 1(1) [of "(ba, ra, ea)" "(bb, rb, eb)" ba "(ra, ea)" ra ea bb "(rb, eb)" rb eb] r more False 1(2) by auto
      moreover have "fa = fb \<Longrightarrow> ba = bb" using r by auto
      moreover have "streamsEqual n fa fb \<longleftrightarrow> ba = bb \<and> streamsEqual n ra rb"
        unfolding u using r more False 1(2) by (cases ea; cases eb) simp_all
      ultimately show ?thesis using parts by blast
    qed
  qed
qed

text \<open>\<^verbatim>\<open>FilesAreEqual\<close>: both can be opened as files, have the same size and the same contents.\<close>

definition fileContent :: "fsys \<Rightarrow> string \<Rightarrow> string option" where
  "fileContent f p = (case stat f p of Inr n \<Rightarrow> (case n of FFile c \<Rightarrow> Some c | _ \<Rightarrow> None) | Inl _ \<Rightarrow> None)"

lemma fileContent_Some: "fileContent f p = Some c \<longleftrightarrow> stat f p = Inr (FFile c)"
  by (auto simp: fileContent_def split: sum.splits fnode.splits)

definition FilesAreEqual :: "fsys \<Rightarrow> string \<Rightarrow> string \<Rightarrow> bool" where
  "FilesAreEqual f a b =
     (case fileContent f a of
        None \<Rightarrow> False
      | Some ca \<Rightarrow>
          (case fileContent f b of
             None \<Rightarrow> False
           | Some cb \<Rightarrow> if length ca \<noteq> length cb then False else streamsEqual defaultBufsz ca cb))"

text \<open>
  C24. The buffered comparison of two files, whatever they contain and however long they
  are, says equal exactly when both are files with the same contents.
\<close>

theorem FilesAreEqual_spec:
  "FilesAreEqual f a b \<longleftrightarrow> (\<exists>c. stat f a = Inr (FFile c) \<and> stat f b = Inr (FFile c))"
  by (auto simp: FilesAreEqual_def streamsEqual_iff defaultBufsz_def fileContent_Some [symmetric]
      split: option.splits)

definition DirUpdated :: "fsys \<Rightarrow> string \<Rightarrow> string \<Rightarrow> string \<Rightarrow> string list" where
  "DirUpdated f dirA dirB pfx =
     map (\<lambda>a. pfx @ pathBase a)
       (filter (\<lambda>a. \<not> isDirectory f a \<and>
            (let b = pathJoin [dirB, pathBase a] in exists f b \<and> \<not> FilesAreEqual f a b))
         (glob f (pathJoin [dirA, ''*''])))"

section \<open>Copying files\<close>

definition CopyFile :: "string \<Rightarrow> string \<Rightarrow> bool \<Rightarrow> ('m world_scheme, serr, unit) io" where
  "CopyFile src dst overwrite =
     bind (attempt (ioReadFile src)) (\<lambda>r.
       (case r of
          Inl e \<Rightarrow> throw (Errorf (''unable to open '' @ src @ '': '' @ errorText [] e))
        | Inr c \<Rightarrow>
            bind (gets (\<lambda>w. fget (fs w) dst)) (\<lambda>n.
              if n \<noteq> None \<and> \<not> overwrite then throw (Errorf (''unable to create '' @ dst @ '': file exists''))
              else mapErr (\<lambda>e. Errorf (''unable to create '' @ dst @ '': '' @ errorText [] e)) (ioWriteFile dst c))))"

section \<open>Policies of frameworks\<close>

definition SecBase :: string where "SecBase = ''/var/lib/snappy''"

datatype policyOp = PolicyInstall | PolicyRemove

definition policyOpName :: "policyOp \<Rightarrow> string" where
  "policyOpName op1 = (case op1 of PolicyRemove \<Rightarrow> ''Remove'' | PolicyInstall \<Rightarrow> ''Install'')"

definition iterOne :: "policyOp \<Rightarrow> string \<Rightarrow> string \<Rightarrow> string \<Rightarrow> ('m world_scheme, serr, unit) io" where
  "iterOne op1 targetDir prefix file =
     bind (gets (\<lambda>w. fget (fs w) file)) (\<lambda>n.
       (case n of
          None \<Rightarrow> throw (Errorf (''unable to stat '' @ file @ '': '' @ kindText KNotExist))
        | Some (FFile _) \<Rightarrow>
            (let targetFile = pathJoin [targetDir, prefix @ pathBase file]
             in (case op1 of
                   PolicyRemove \<Rightarrow> mapErr (\<lambda>e. Errorf (''unable to remove '' @ targetFile @ '': '' @ errorText [] e)) (ioRemove targetFile)
                 | PolicyInstall \<Rightarrow> CopyFile file targetFile False))
        | Some _ \<Rightarrow> throw (Errorf (''unable to do '' @ policyOpName op1 @ '' for '' @ file @ '': not a regular file''))))"

definition iterOp :: "policyOp \<Rightarrow> string \<Rightarrow> string \<Rightarrow> string \<Rightarrow> ('m world_scheme, serr, unit) io" where
  "iterOp op1 pat targetDir prefix =
     andThen (mapErr (\<lambda>e. Errorf (''unable to make '' @ targetDir @ '' directory: '' @ errorText [] e)) (ioMkdirAll targetDir))
       (bind (gets (\<lambda>w. glob (fs w) pat)) (\<lambda>files. forEach files (iterOne op1 targetDir prefix)))"

definition frameworkOp :: "policyOp \<Rightarrow> string \<Rightarrow> string \<Rightarrow> string \<Rightarrow> ('m world_scheme, serr, unit) io" where
  "frameworkOp op1 pkgName instPath rootDir =
     (let pol = pathJoin [instPath, ''meta'', ''framework-policy'']
      in forEach [''apparmor'', ''seccomp''] (\<lambda>i.
           forEach [''policygroups'', ''templates''] (\<lambda>j.
             iterOp op1 (pathJoin [pol, i, j, ''*'']) (pathJoin [rootDir, SecBase, i, j]) (pkgName @ ''_''))))"

definition policyInstall :: "string \<Rightarrow> string \<Rightarrow> string \<Rightarrow> ('m world_scheme, serr, unit) io" where
  "policyInstall pkgName instPath rootDir = frameworkOp PolicyInstall pkgName instPath rootDir"

definition policyRemove :: "string \<Rightarrow> string \<Rightarrow> string \<Rightarrow> ('m world_scheme, serr, unit) io" where
  "policyRemove pkgName instPath rootDir = frameworkOp PolicyRemove pkgName instPath rootDir"

definition aaUp :: "fsys \<Rightarrow> string \<Rightarrow> string \<Rightarrow> string \<Rightarrow> string \<Rightarrow> string list" where
  "aaUp f old new dir pfx = DirUpdated f (pathJoin [old, dir]) (pathJoin [new, dir]) pfx"

definition AppArmorDelta :: "fsys \<Rightarrow> string \<Rightarrow> string \<Rightarrow> string \<Rightarrow> string list \<times> string list" where
  "AppArmorDelta f oldPath newPath prefix =
     (let newaa = pathJoin [newPath, ''meta'', ''framework-policy'', ''apparmor''];
          oldaa = pathJoin [oldPath, ''meta'', ''framework-policy'', ''apparmor'']
      in (aaUp f oldaa newaa ''policygroups'' prefix, aaUp f oldaa newaa ''templates'' prefix))"

end
