(* ===== verification/HwAccess.thy ===== *)
theory HwAccess
  imports Policy
begin

text \<open>
  Access to hardware, \<^verbatim>\<open>snappy/hwaccess.go\<close> and the udev part of \<^verbatim>\<open>snappy/oem.go\<close>: the list of
  devices a snap may write to, kept in a json file next to its apparmor profiles, and the
  udev rules that put the devices into the cgroup of the snap. The json codec of the list is
  the parameter \<open>hwcodec\<close>.
\<close>

section \<open>Devices and files\<close>

record appArmorAdditionalJSON =
  WritePath :: "string list"
  ReadPath :: "string list"

record hwcodec =
  hwDec :: "string \<Rightarrow> (string, appArmorAdditionalJSON) res"
  hwEnc :: "appArmorAdditionalJSON \<Rightarrow> string"

definition udevDataGlob :: string where "udevDataGlob = ''/run/udev/data/*''"

definition aaClickHookCmd :: string where "aaClickHookCmd = ''aa-clickhook''"

definition getHWAccessJSONFile :: "genv \<Rightarrow> string \<Rightarrow> string" where
  "getHWAccessJSONFile E snapname = pathJoin [SnapAppArmorDir E, snapname @ ''.json.additional'']"

definition validDevice :: "string \<Rightarrow> bool" where
  "validDevice dev = list_ex (hasPrefix dev) [''/dev'', ''/sys/devices'', ''/sys/class/gpio'']"

definition readHWAccessJSONFile ::
    "genv \<Rightarrow> hwcodec \<Rightarrow> string \<Rightarrow> ('m world_scheme, serr, appArmorAdditionalJSON) io" where
  "readHWAccessJSONFile E J snapname =
     bind (ioReadFile (getHWAccessJSONFile E snapname)) (\<lambda>c.
       (case hwDec J c of Inl e \<Rightarrow> throw (Errorf e) | Inr a \<Rightarrow> ret a))"

definition hwFileContent :: "hwcodec \<Rightarrow> appArmorAdditionalJSON \<Rightarrow> string" where
  "hwFileContent J a =
     hwEnc J (a\<lparr>ReadPath := (if WritePath a = [] then [] else [udevDataGlob])\<rparr>) @ [nl]"

definition writeHWAccessJSONFile ::
    "genv \<Rightarrow> hwcodec \<Rightarrow> string \<Rightarrow> appArmorAdditionalJSON \<Rightarrow> ('m world_scheme, serr, unit) io" where
  "writeHWAccessJSONFile E J snapname a =
     ioAtomicWrite (getHWAccessJSONFile E snapname) (hwFileContent J a)"

definition regenerateAppArmorRules :: "('m sworld_scheme, serr, unit) io" where
  "regenerateAppArmorRules =
     andThen
       (mapErr (\<lambda>(code, out). case code of
            Some c \<Rightarrow> ErrApparmorGenerate c out
          | None \<Rightarrow> OsErr KIO (ECmd [aaClickHookCmd, ''-f'']))
         (execCmd [aaClickHookCmd, ''-f'']))
       (ret ())"

definition udevRulesPathForPart :: "genv \<Rightarrow> string \<Rightarrow> string" where
  "udevRulesPathForPart E partid =
     pathJoin [SnapUdevRulesDir E, ''70-snappy_hwassign_'' @ partid @ ''.rules'']"

text \<open>Reading a file that may be missing.\<close>

definition readOrEmpty :: "'a \<Rightarrow> ('w, serr, 'a) io \<Rightarrow> ('w, serr, 'a) io" where
  "readOrEmpty d m =
     bind (attempt m) (\<lambda>r.
       (case r of
          Inr x \<Rightarrow> ret x
        | Inl e \<Rightarrow> if IsNotExist e then ret d else throw e))"

section \<open>udev\<close>

definition runUdevAdm :: "string list \<Rightarrow> ('m sworld_scheme, serr, unit) io" where
  "runUdevAdm args = andThen (mapErr (\<lambda>_. OsErr KIO (ECmd args)) (execCmd args)) (ret ())"

definition activateOemHardwareUdevRules :: "('m sworld_scheme, serr, unit) io" where
  "activateOemHardwareUdevRules =
     andThen (runUdevAdm [''udevadm'', ''control'', ''--reload-rules''])
       (runUdevAdm [''udevadm'', ''trigger''])"

definition addUdevRuleForSnap :: "genv \<Rightarrow> string \<Rightarrow> string \<Rightarrow> ('m world_scheme, serr, unit) io" where
  "addUdevRuleForSnap E snapname newRule =
     (let udevRulesFile = udevRulesPathForPart E snapname
      in bind (readOrEmpty '''' (ioReadFile udevRulesFile)) (\<lambda>rules.
           ioAtomicWrite udevRulesFile (rules @ newRule)))"

definition deviceRule :: "string \<Rightarrow> string \<Rightarrow> string" where
  "deviceRule snapname dev =
     ''KERNEL=='' @ [CHR 0x22] @ pathBase dev @ [CHR 0x22] @ '', TAG:='' @ [CHR 0x22] @ ''snappy-assign''
     @ [CHR 0x22] @ '', ENV{SNAPPY_APP}:='' @ [CHR 0x22] @ snapname @ [CHR 0x22]"

definition appLevelName :: "string \<Rightarrow> string" where
  "appLevelName snapname = hd (splitChar (CHR ''_'') snapname)"

definition writeUdevRuleForDeviceCgroup :: "genv \<Rightarrow> string \<Rightarrow> string \<Rightarrow> ('m sworld_scheme, serr, unit) io" where
  "writeUdevRuleForDeviceCgroup E snapname dev =
     andThen (ignoring (ioMkdirAll (SnapUdevRulesDir E)))
    (andThen (addUdevRuleForSnap E (appLevelName snapname)
               ([nl] @ deviceRule (appLevelName snapname) dev @ [nl]))
       activateOemHardwareUdevRules)"

definition keptRules :: "string \<Rightarrow> string \<Rightarrow> string list" where
  "keptRules dev content =
     filter (\<lambda>rule. rule \<noteq> '''' \<and> \<not> containsSub rule ([CHR 0x22] @ pathBase dev @ [CHR 0x22]))
       (scanLines content)"

definition removeUdevRuleForSnap :: "genv \<Rightarrow> string \<Rightarrow> string \<Rightarrow> ('m world_scheme, serr, unit) io" where
  "removeUdevRuleForSnap E snapname dev =
     (let udevRulesFile = udevRulesPathForPart E snapname
      in bind (readOrEmpty '''' (ioReadFile udevRulesFile)) (\<lambda>content.
           if keptRules dev content \<noteq> []
           then ioAtomicWrite udevRulesFile (printLines (keptRules dev content))
           else ioRemove udevRulesFile))"

section \<open>Granting and revoking\<close>

definition AddHWAccess :: "genv \<Rightarrow> hwcodec \<Rightarrow> string \<Rightarrow> string \<Rightarrow> ('m sworld_scheme, serr, unit) io" where
  "AddHWAccess E J snapname dev =
     (if \<not> validDevice dev then throw (SErr ErrInvalidHWDevice)
      else
        bind (gets (\<lambda>w. glob (fs w) (pathJoin [SnapAppArmorDir E, snapname @ ''_*.json'']))) (\<lambda>matches.
        if matches = [] then throw (SErr ErrPackageNotFound)
        else
          bind (readOrEmpty \<lparr>WritePath = [], ReadPath = []\<rparr> (readHWAccessJSONFile E J snapname)) (\<lambda>a.
          if dev \<in> set (WritePath a) then throw (SErr ErrHWAccessAlreadyAdded)
          else
            andThen (writeHWAccessJSONFile E J snapname (a\<lparr>WritePath := WritePath a @ [dev]\<rparr>))
           (andThen (writeUdevRuleForDeviceCgroup E snapname dev)
              regenerateAppArmorRules))))"

definition ListHWAccess :: "genv \<Rightarrow> hwcodec \<Rightarrow> string \<Rightarrow> ('m world_scheme, serr, string list) io" where
  "ListHWAccess E J snapname =
     bind (readOrEmpty \<lparr>WritePath = [], ReadPath = []\<rparr> (readHWAccessJSONFile E J snapname)) (\<lambda>a.
       ret (WritePath a))"

definition RemoveHWAccess :: "genv \<Rightarrow> hwcodec \<Rightarrow> string \<Rightarrow> string \<Rightarrow> ('m sworld_scheme, serr, unit) io" where
  "RemoveHWAccess E J snapname dev =
     (if \<not> validDevice dev then throw (SErr ErrInvalidHWDevice)
      else
        bind (readHWAccessJSONFile E J snapname) (\<lambda>a.
        let newWritePath = filter (\<lambda>p. p \<noteq> dev) (WritePath a)
        in if length newWritePath = length (WritePath a) then throw (SErr ErrHWAccessRemoveNotFound)
           else
             andThen (writeHWAccessJSONFile E J snapname (a\<lparr>WritePath := newWritePath\<rparr>))
            (andThen (removeUdevRuleForSnap E snapname dev)
            (andThen activateOemHardwareUdevRules regenerateAppArmorRules))))"

definition RemoveAllHWAccess :: "genv \<Rightarrow> string \<Rightarrow> ('m sworld_scheme, serr, unit) io" where
  "RemoveAllHWAccess E snapname =
     andThen
       (forEach [udevRulesPathForPart E snapname, getHWAccessJSONFile E snapname] (\<lambda>fn.
          tolerating IsNotExist (ioRemove fn)))
       regenerateAppArmorRules"

section \<open>Rules of the oem snap\<close>

definition quoted :: "string \<Rightarrow> string" where
  "quoted s = CHR 0x22 # s @ [CHR 0x22]"

definition clause :: "string \<Rightarrow> string \<Rightarrow> string" where
  "clause k v = (if v \<noteq> '''' then k @ ''=='' @ quoted v @ '', '' else '''')"

text \<open>An attribute or a property without an equal sign makes the index \<open>l[1]\<close> panic.\<close>

definition keyValue :: "string \<Rightarrow> string list \<Rightarrow> (serr, string) res" where
  "keyValue k l =
     (if length l < 2 then Inl (GoPanic ''index out of range'')
      else Inr (k @ ''{'' @ l ! 0 @ ''}=='' @ quoted (l ! 1) @ '', ''))"

fun collect :: "('a \<Rightarrow> ('e, string) res) \<Rightarrow> 'a list \<Rightarrow> ('e, string) res" where
  "collect f [] = Inr ''''"
| "collect f (x # xs) = rbind (f x) (\<lambda>s. rbind (collect f xs) (\<lambda>t. Inr (s @ t)))"

definition udevRule :: "string \<Rightarrow> HardwareRule \<Rightarrow> (serr, string) res" where
  "udevRule partID r =
     rbind (collect (\<lambda>a. keyValue ''ATTRS'' (splitChar (CHR ''='') a)) (ruWithAttrs r)) (\<lambda>attrs.
     rbind (collect (\<lambda>a. keyValue ''ENV'' (splitN2 (CHR ''='') a)) (ruWithProps r)) (\<lambda>props.
       Inr (clause ''KERNEL'' (ruKernel r) @ clause ''SUBSYSTEM'' (ruSubsystem r)
            @ clause ''SUBSYSTEMS'' (ruWithSubsystems r) @ clause ''DRIVER'' (ruWithDriver r)
            @ attrs @ props
            @ ''TAG:='' @ quoted ''snappy-assign'' @ '', ENV{SNAPPY_APP}:='' @ quoted partID @ [nl, nl])))"

definition generateUdevRuleContent :: "HardwareAssign \<Rightarrow> (serr, string) res" where
  "generateUdevRuleContent hw = collect (udevRule (PartID hw)) (Rules hw)"

definition additionalFile :: "genv \<Rightarrow> HardwareAssign \<Rightarrow> string" where
  "additionalFile E h = pathJoin [SnapAppArmorDir E, PartID h @ ''.json.additional'']"

definition cleanupOemHardwareUdevRules :: "genv \<Rightarrow> packageYaml \<Rightarrow> ('m sworld_scheme, serr, unit) io" where
  "cleanupOemHardwareUdevRules E m =
     bind (gets (\<lambda>w. glob (fs w) (pathJoin [SnapUdevRulesDir E, ''80-snappy_'' @ yName m @ ''_*.rules'']))) (\<lambda>oldFiles.
     andThen (forEach oldFiles (\<lambda>f. ignoring (ioRemove f)))
       (forEach (hwAssign (yOEM m)) (\<lambda>h. ignoring (ioRemove (additionalFile E h)))))"

definition writeOemHardwareUdevRules :: "genv \<Rightarrow> packageYaml \<Rightarrow> ('m sworld_scheme, serr, unit) io" where
  "writeOemHardwareUdevRules E m =
     andThen (ignoring (ioMkdirAll (SnapUdevRulesDir E)))
    (andThen (cleanupOemHardwareUdevRules E m)
       (forEach (hwAssign (yOEM m)) (\<lambda>h.
          bind (fromRes (generateUdevRuleContent h)) (\<lambda>rulesContent.
            ioWriteFile (pathJoin [SnapUdevRulesDir E, ''80-snappy_'' @ yName m @ ''_'' @ PartID h @ ''.rules''])
              rulesContent))))"

definition apparmorAdditionalContent :: string where
  "apparmorAdditionalContent =
     join [''{'', '' '' @ quoted ''write_path'' @ '': ['', ''   '' @ quoted ''/dev/**'', '' ],'',
           '' '' @ quoted ''read_path'' @ '': ['', ''   '' @ quoted ''/run/udev/data/*'', '' ]'', ''}''] [nl]"

definition writeApparmorAdditionalFile :: "genv \<Rightarrow> packageYaml \<Rightarrow> ('m sworld_scheme, serr, unit) io" where
  "writeApparmorAdditionalFile E m =
     andThen (ioMkdirAll (SnapAppArmorDir E))
       (forEach (hwAssign (yOEM m)) (\<lambda>h. ioWriteFile (additionalFile E h) apparmorAdditionalContent))"

definition installOemHardwareUdevRules :: "genv \<Rightarrow> packageYaml \<Rightarrow> ('m sworld_scheme, serr, unit) io" where
  "installOemHardwareUdevRules E m =
     andThen (writeOemHardwareUdevRules E m)
    (andThen (writeApparmorAdditionalFile E m) activateOemHardwareUdevRules)"

section \<open>Names of files\<close>

lemma cleanComps_snoc:
  "plainName n \<Longrightarrow> cleanComps r acc (cs @ [n]) = cleanComps r acc cs @ [n]"
proof (induction r acc cs rule: cleanComps.induct)
  case (1 r acc)
  then show ?case by (auto simp: plainName_def)
next
  case (2 r acc c cs)
  then show ?case by auto
qed

lemma join_snoc: "\<exists>p. join (xs @ [n]) sep = p @ n"
proof (induction xs sep rule: join.induct)
  case (3 a b as sep)
  then obtain p where "join (b # as @ [n]) sep = p @ n" by auto
  then show ?case by (intro exI [of _ "a @ sep @ p"]) simp
next
  case (2 a sep)
  show ?case by (intro exI [of _ "a @ sep"]) simp
qed simp

lemma splitChar_snoc: "x \<notin> set n \<Longrightarrow> splitChar x (s @ x # n) = splitChar x s @ [n]"
proof (induction s)
  case Nil
  then show ?case by (simp add: splitChar_absent)
next
  case (Cons a s)
  then show ?case by (auto split: list.splits)
qed

text \<open>A joined path ends in its last element when that is a plain name.\<close>

lemma pathJoin_last:
  assumes "plainName n"
  shows "\<exists>p. pathJoin [d, n] = p @ n"
proof (cases "d = ''''")
  case True
  have "slash \<notin> set n" "n \<noteq> ''''" "hd n \<noteq> slash"
    using assms by (cases n; auto simp: plainName_def)+
  then have "pathJoin [d, n] = n"
    using True cleanComps_snoc [OF assms, of False "[]" "[]"] assms
    by (simp add: pathJoin_def pathClean_def splitChar_absent plainName_def Let_def)
  then show ?thesis by (intro exI [of _ "[]"]) simp
next
  case False
  let ?s = "d @ slash # n"
  have sl: "slash \<notin> set n" and ne: "n \<noteq> ''''" using assms by (auto simp: plainName_def)
  have "pathJoin [d, n] = pathClean ?s" using False by (simp add: pathJoin_def)
  moreover have "cleanComps r [] (splitChar slash ?s) = cleanComps r [] (splitChar slash d) @ [n]" for r
    using cleanComps_snoc [OF assms] splitChar_snoc [OF sl, of d] by simp
  moreover obtain p where "join (cleanComps (hd ?s = slash) [] (splitChar slash d) @ [n]) ''/'' = p @ n"
    using join_snoc by blast
  ultimately show ?thesis
    using ne by (auto simp: pathClean_def Let_def intro: exI [of _ "slash # p"] exI [of _ p])
qed

lemma hw_files_differ:
  assumes "slash \<notin> set s" and "slash \<notin> set t"
  shows "getHWAccessJSONFile E s \<noteq> udevRulesPathForPart E t"
proof -
  have "plainName (s @ ''.json.additional'')" and "plainName (''70-snappy_hwassign_'' @ t @ ''.rules'')"
    using assms by (auto simp: plainName_def append_eq_Cons_conv)
  then obtain p q where "getHWAccessJSONFile E s = p @ s @ ''.json.additional''"
    and "udevRulesPathForPart E t = q @ ''70-snappy_hwassign_'' @ t @ ''.rules''"
    using pathJoin_last unfolding getHWAccessJSONFile_def udevRulesPathForPart_def by metis
  then have "last (getHWAccessJSONFile E s) = CHR ''l''" and "last (udevRulesPathForPart E t) = CHR ''s''"
    by simp_all
  then show ?thesis by force
qed

lemma hw_file_not_root: "slash \<notin> set s \<Longrightarrow> getHWAccessJSONFile E s \<noteq> ''/''"
proof
  assume "slash \<notin> set s" and r: "getHWAccessJSONFile E s = ''/''"
  then have "plainName (s @ ''.json.additional'')" by (auto simp: plainName_def append_eq_Cons_conv)
  then obtain p where "getHWAccessJSONFile E s = p @ s @ ''.json.additional''"
    using pathJoin_last unfolding getHWAccessJSONFile_def by metis
  then have "length (getHWAccessJSONFile E s) > 1" by simp
  then show False using r by simp
qed

lemma appLevelName_plain: "slash \<notin> set s \<Longrightarrow> slash \<notin> set (appLevelName s)"
  using splitChar_chars [of "appLevelName s" "CHR ''_''" s] hd_in_set [OF splitChar_not_Nil]
  by (auto simp: appLevelName_def)

section \<open>The list of devices\<close>

text \<open>The law of the codec: the decoder reads back what was encoded, a newline follows it.\<close>

definition hwcodec_ok :: "hwcodec \<Rightarrow> bool" where
  "hwcodec_ok J \<longleftrightarrow> (\<forall>a. hwDec J (hwEnc J a @ [nl]) = Inr a)"

lemma ioAtomicWrite_ok: "ioAtomicWrite p c w = (Inr u, w') \<Longrightarrow> fget (fs w') p = Some (FFile c)"
  by (auto simp: ioAtomicWrite_def andThen_def bind_def fallible_def setNode_def Let_def
      split: if_splits)

lemma keeps_other_atomicWrite: "p \<noteq> q \<Longrightarrow> keeps (nodeIs p n) (ioAtomicWrite q c)"
  unfolding ioAtomicWrite_def by (intro keeps_intros keeps_nodeIs_set) simp_all

lemma readOrEmpty_world: "snd (m w) = w \<Longrightarrow> snd (readOrEmpty d m w) = w"
  by (auto simp: readOrEmpty_def bind_def split: sum.splits)

lemma keeps_readOrEmpty [keeps_intros]: "keeps P m \<Longrightarrow> keeps P (readOrEmpty d m)"
  unfolding readOrEmpty_def
  by (intro keeps_intros) (auto simp: keeps_def split: sum.splits)

lemma readHWAccessJSONFile_world [simp]: "snd (readHWAccessJSONFile E J s w) = w"
  by (auto simp: readHWAccessJSONFile_def bind_def ioReadFile_def
      split: sum.splits prod.splits fnode.splits)

lemma readHW_same: "readHWAccessJSONFile E J s w = (r, w1) \<Longrightarrow> w1 = w \<and> readHWAccessJSONFile E J s w = (r, w)"
  using readHWAccessJSONFile_world [of E J s w] by auto

lemma keeps_readHWAccess [keeps_intros]: "keeps P (readHWAccessJSONFile E J s)"
  by (simp add: keeps_def)

lemma readHW_after:
  assumes "hwcodec_ok J" and "slash \<notin> set s"
    and "fget (fs w) (getHWAccessJSONFile E s) = Some (FFile (hwFileContent J a))"
  shows "\<exists>b. readHWAccessJSONFile E J s w = (Inr b, w) \<and> WritePath b = WritePath a"
  using assms stat_file [OF assms(3) hw_file_not_root [OF assms(2)]]
  by (simp add: readHWAccessJSONFile_def bind_def ioReadFile_def hwFileContent_def hwcodec_ok_def)

lemma ListHW_after:
  assumes "hwcodec_ok J" and "slash \<notin> set s"
    and "fget (fs w) (getHWAccessJSONFile E s) = Some (FFile (hwFileContent J a))"
  shows "ListHWAccess E J s w = (Inr (WritePath a), w)"
  using readHW_after [OF assms] by (auto simp: ListHWAccess_def readOrEmpty_def bind_def)

lemma ListHW_read:
  "ListHWAccess E J s w = (Inr devs, w1) \<Longrightarrow>
     \<exists>a. readOrEmpty \<lparr>WritePath = [], ReadPath = []\<rparr> (readHWAccessJSONFile E J s) w = (Inr a, w) \<and> WritePath a = devs"
  using readOrEmpty_world [of "readHWAccessJSONFile E J s" w "\<lparr>WritePath = [], ReadPath = []\<rparr>"]
  by (auto simp: ListHWAccess_def bind_Inr)

text \<open>The effects that follow the write of the list leave it alone.\<close>

lemma keeps_regenerate [keeps_intros]: "keeps (nodeIs p n) regenerateAppArmorRules"
  unfolding regenerateAppArmorRules_def by (intro keeps_intros)

lemma keeps_udevAdm [keeps_intros]: "keeps (nodeIs p n) activateOemHardwareUdevRules"
  unfolding activateOemHardwareUdevRules_def runUdevAdm_def by (intro keeps_intros)

lemma keeps_writeUdev:
  assumes "slash \<notin> set s"
  shows "keeps (nodeIs (getHWAccessJSONFile E s) (Some n)) (writeUdevRuleForDeviceCgroup E s dev)"
  unfolding writeUdevRuleForDeviceCgroup_def addUdevRuleForSnap_def Let_def
  by (intro keeps_intros keeps_mkdirAll keeps_other_atomicWrite hw_files_differ assms
      appLevelName_plain [OF assms])

lemma keeps_removeUdev:
  assumes "slash \<notin> set s"
  shows "keeps (nodeIs (getHWAccessJSONFile E s) n) (removeUdevRuleForSnap E s dev)"
  unfolding removeUdevRuleForSnap_def Let_def
  by (intro keeps_intros keeps_other_atomicWrite keeps_other_remove hw_files_differ assms)

text \<open>Reading an effect sequence that starts with the write of the list.\<close>

lemma after_write:
  assumes "andThen (writeHWAccessJSONFile E J s a) k w = (Inr u, w')"
    and "keeps (nodeIs (getHWAccessJSONFile E s) (Some (FFile (hwFileContent J a)))) k"
  shows "fget (fs w') (getHWAccessJSONFile E s) = Some (FFile (hwFileContent J a))"
proof -
  from assms(1) obtain x w1 where "writeHWAccessJSONFile E J s a w = (Inr x, w1)" and k: "k w1 = (Inr u, w')"
    by (auto simp: andThen_Inr)
  then have "nodeIs (getHWAccessJSONFile E s) (Some (FFile (hwFileContent J a))) w1"
    by (auto simp: writeHWAccessJSONFile_def nodeIs_def dest: ioAtomicWrite_ok)
  from keepsD [OF assms(2) this] k show ?thesis by (simp add: nodeIs_def)
qed


text \<open>
  Revoking a device: it was in the list, and afterwards the list is the old one without
  it, the order of the others kept.
\<close>

lemma RemoveHWAccess_revoked:
  fixes w :: "'m sworld_scheme"
  assumes "hwcodec_ok J" and "slash \<notin> set s"
    and "ListHWAccess E J s w = (Inr devs, w)"
    and "RemoveHWAccess E J s dev w = (Inr (), w')"
  shows "fst (ListHWAccess E J s w') = Inr (filter (\<lambda>p. p \<noteq> dev) devs) \<and> dev \<in> set devs"
proof -
  obtain a where r: "readHWAccessJSONFile E J s w = (Inr a, w)"
    and l: "length (filter (\<lambda>p. p \<noteq> dev) (WritePath a)) \<noteq> length (WritePath a)"
    and k: "andThen (writeHWAccessJSONFile E J s (a\<lparr>WritePath := filter (\<lambda>p. p \<noteq> dev) (WritePath a)\<rparr>))
      (andThen (removeUdevRuleForSnap E s dev)
        (andThen activateOemHardwareUdevRules regenerateAppArmorRules)) w = (Inr (), w')"
    using assms(4) by (auto simp: RemoveHWAccess_def bind_Inr Let_def dest: readHW_same split: if_splits)
  have d: "WritePath a = devs"
    using assms(3) r by (auto simp: ListHWAccess_def readOrEmpty_def bind_def)
  have "fget (fs w') (getHWAccessJSONFile E s)
      = Some (FFile (hwFileContent J (a\<lparr>WritePath := filter (\<lambda>p. p \<noteq> dev) (WritePath a)\<rparr>)))"
    by (rule after_write [OF k]) (intro keeps_intros keeps_removeUdev assms(2))
  note list = ListHW_after [OF assms(1,2) this]
  have "dev \<in> set devs"
    using l d by (metis (mono_tags, lifting) filter_True)
  then show ?thesis using list d by simp
qed

section \<open>An example\<close>

text \<open>A codec that satisfies the law: each character marked, an end mark for strings and lists.\<close>

definition encStr :: "string \<Rightarrow> string" where
  "encStr s = concat (map (\<lambda>c. [CHR ''c'', c]) s) @ ''e''"

definition encStrs :: "string list \<Rightarrow> string" where
  "encStrs l = concat (map encStr l) @ ''.''"

fun decStrs :: "string \<Rightarrow> string \<Rightarrow> string list \<times> string" where
  "decStrs acc (t # c # r) =
     (if t = CHR ''c'' then decStrs (acc @ [c]) r
      else if t = CHR ''e'' then (let (l, r') = decStrs [] (c # r) in (acc # l, r'))
      else ([], c # r))"
| "decStrs acc r = ([], [])"

definition markCodec :: hwcodec where
  "markCodec =
     \<lparr>hwDec = (\<lambda>c. let (wr, r) = decStrs [] c; (rd, r') = decStrs [] r
                   in Inr \<lparr>WritePath = wr, ReadPath = rd\<rparr>),
      hwEnc = (\<lambda>a. encStrs (WritePath a) @ encStrs (ReadPath a))\<rparr>"

lemma decStrs_marked:
  "decStrs acc (concat (map (\<lambda>c. [CHR ''c'', c]) s) @ CHR ''e'' # c # r) =
     (let (l, r') = decStrs [] (c # r) in ((acc @ s) # l, r'))"
  by (induction s arbitrary: acc) (auto split: prod.splits)

lemma decStrs_encStrs: "decStrs [] (encStrs l @ c # r) = (l, c # r)"
proof (induction l)
  case (Cons s l)
  obtain d e where "encStrs l @ c # r = d # e" by (cases "encStrs l @ c # r") (auto simp: encStrs_def)
  then show ?case using Cons decStrs_marked [of "[]" s d e] by (simp add: encStrs_def encStr_def)
qed (simp add: encStrs_def)

lemma markCodec_ok: "hwcodec_ok markCodec"
proof -
  have "decStrs [] (encStrs l @ encStrs r @ [nl]) = (l, encStrs r @ [nl])" for l r
    using decStrs_encStrs [of l] by (cases "encStrs r @ [nl]") auto
  moreover have "decStrs [] (encStrs r @ [nl]) = (r, [nl])" for r using decStrs_encStrs [of r nl "[]"] by simp
  ultimately show ?thesis by (simp add: hwcodec_ok_def markCodec_def)
qed

definition hwFs :: fsys where
  "hwFs =
     [(''/var'', FDir), (''/var/lib'', FDir), (''/var/lib/apparmor'', FDir), (''/var/lib/apparmor/clicks'', FDir),
      (''/var/lib/apparmor/clicks/foo.me_web_1.0.json'', FFile ''{}''),
      (''/etc'', FDir), (''/etc/udev'', FDir), (''/etc/udev/rules.d'', FDir)]"

definition hwE :: genv where "hwE = demoEnv (demoYaml ''foo'')"

definition hwWorld :: sworld where "hwWorld = quietWorld (\<lambda>_ _. '''') hwFs"

definition hwAdded :: "(serr + unit) \<times> sworld" where
  "hwAdded = AddHWAccess hwE markCodec ''foo.me'' ''/dev/ttyUSB0'' hwWorld"

definition hwRemoved :: "(serr + unit) \<times> sworld" where
  "hwRemoved = RemoveHWAccess hwE markCodec ''foo.me'' ''/dev/ttyUSB0'' (snd hwAdded)"

lemma hw_runs:
  "fst hwAdded = Inr ()" "fst hwRemoved = Inr ()"
  "fst (ListHWAccess hwE markCodec ''foo.me'' hwWorld) = Inr []"
  by code_simp+

lemma ListHW_world [simp]: "snd (ListHWAccess E J s w) = w"
  using readOrEmpty_world [of "readHWAccessJSONFile E J s" w "\<lparr>WritePath = [], ReadPath = []\<rparr>"]
  by (auto simp: ListHWAccess_def bind_def split: sum.splits prod.splits)

lemma ListHW_pair:
  "fst (ListHWAccess E J s w) = Inr devs \<Longrightarrow> ListHWAccess E J s w = (Inr devs, w)"
  by (simp add: prod_eq_iff)


lemma hw_added_list: "fst (ListHWAccess hwE markCodec ''foo.me'' (snd hwAdded)) = Inr [''/dev/ttyUSB0'']"
  by code_simp

lemma RemoveHWAccess_revoked_example:
  "fst (ListHWAccess hwE markCodec ''foo.me'' (snd hwRemoved)) = Inr []"
proof -
  have "RemoveHWAccess hwE markCodec ''foo.me'' ''/dev/ttyUSB0'' (snd hwAdded) = (Inr (), snd hwRemoved)"
    using hw_runs(2) by (metis hwRemoved_def prod.collapse)
  from RemoveHWAccess_revoked [OF markCodec_ok _ ListHW_pair [OF hw_added_list] this] show ?thesis by simp
qed

text \<open>
  A device granted to one service of a snap cannot be revoked: the rule is written to the
  file of the snap, while revoking looks for a file named after the service and fails after
  it has changed the list, so that the rule stays.
\<close>

lemma RemoveHWAccess_service_name:
  "let added = AddHWAccess hwE markCodec ''foo.me_web'' ''/dev/ttyUSB0'' hwWorld;
       removed = RemoveHWAccess hwE markCodec ''foo.me_web'' ''/dev/ttyUSB0'' (snd added);
       rules = udevRulesPathForPart hwE ''foo.me''
   in fst added = Inr () \<and>
      fst removed = Inl (OsErr KNotExist (ERemove (udevRulesPathForPart hwE ''foo.me_web''))) \<and>
      fst (ListHWAccess hwE markCodec ''foo.me_web'' (snd removed)) = Inr [] \<and>
      fget (fs (snd removed)) rules = Some (FFile ([nl] @ deviceRule ''foo.me'' ''/dev/ttyUSB0'' @ [nl]))"
  by code_simp

end
