(* ===== verification/SystemImage.thy ===== *)
theory SystemImage
  imports Click Version
begin

text \<open>
  The system image, \<^verbatim>\<open>snappy/systemimage.go\<close>, the download in
  \<^verbatim>\<open>snappy/systemimage_native.go\<close> and \<^verbatim>\<open>provisioning/provisioning.go\<close>: the part for the
  running root file system and the one for the other, activating one of them, and updating
  the other. An error of a function that runs with the other root mounted crosses the
  partition package as its text.
\<close>

section \<open>Provisioning\<close>

definition InstallYamlFile :: string where "InstallYamlFile = ''install.yaml''"

definition parseInstallYaml :: "genv \<Rightarrow> string \<Rightarrow> ('m world_scheme, serr, InstallOptions) io" where
  "parseInstallYaml E path =
     bind (mapErr (\<lambda>e. Errorf (''failed to read provisioning data: '' @ errorText [] e)) (ioReadFile path)) (\<lambda>data.
       (case installDec E data of Inl e \<Rightarrow> throw (Errorf e) | Inr i \<Rightarrow> ret i))"

definition IsSideLoaded :: "genv \<Rightarrow> string \<Rightarrow> ('m world_scheme, serr, bool) io" where
  "IsSideLoaded E bootDir =
     (let file = pathJoin [bootDir, InstallYamlFile]
      in bind (gets (\<lambda>w. exists (fs w) file)) (\<lambda>ex.
           if \<not> ex then ret False
           else bind (attempt (parseInstallYaml E file)) (\<lambda>r.
                  (case r of Inl _ \<Rightarrow> ret True | Inr i \<Rightarrow> ret (ioDevicePart i \<noteq> '''')))))"

definition InDeveloperMode :: "genv \<Rightarrow> string \<Rightarrow> ('m world_scheme, serr, bool) io" where
  "InDeveloperMode E bootDir =
     (let file = pathJoin [bootDir, InstallYamlFile]
      in bind (gets (\<lambda>w. exists (fs w) file)) (\<lambda>ex.
           if \<not> ex then ret False
           else bind (attempt (parseInstallYaml E file)) (\<lambda>r.
                  (case r of Inl _ \<Rightarrow> ret False | Inr i \<Rightarrow> ret (ioDeveloperMode i)))))"

section \<open>Parts\<close>

definition SystemImagePartName :: string where "SystemImagePartName = ''ubuntu-core''"
definition SystemImagePartOrigin :: string where "SystemImagePartOrigin = ''ubuntu''"
definition SystemImagePartVendor :: string where "SystemImagePartVendor = ''Canonical Ltd.''"

definition systemImageChannelConfig :: string where
  "systemImageChannelConfig = ''/etc/system-image/config.d/01_channel.ini''"
definition systemImageClientConfig :: string where
  "systemImageClientConfig = ''/etc/system-image/config.d/00_default.ini''"
definition systemImageCli :: string where "systemImageCli = ''system-image-cli''"

record SystemImagePart =
  siVersion :: string
  siVersionDetails :: string
  siChannelName :: string
  siIsInstalled :: bool
  siIsActive :: bool
  siUpdateSize :: int
  siPartition :: Partition

text \<open>
  The part described by a channel configuration file. A missing option reads as the empty
  string; only a missing channel is an error in the end.
\<close>

definition makePartFromSystemImageConfigFile ::
    "genv \<Rightarrow> Partition \<Rightarrow> string \<Rightarrow> bool \<Rightarrow> ('m world_scheme, serr, SystemImagePart) io" where
  "makePartFromSystemImageConfigFile E p channelIniPath active =
     bind (ioReadFile channelIniPath) (\<lambda>content.
       (case siIni E content of
          Inl e \<Rightarrow> throw (Errorf e)
        | Inr get \<Rightarrow>
            (let val = (\<lambda>k. case get k of Inl _ \<Rightarrow> '''' | Inr v \<Rightarrow> v)
             in (case get ''channel'' of
                   Inl e \<Rightarrow> throw (Errorf e)
                 | Inr ch \<Rightarrow>
                     ret \<lparr>siVersion = val ''build_number'', siVersionDetails = val ''version_detail'',
                          siChannelName = ch, siIsInstalled = True, siIsActive = active,
                          siUpdateSize = 0, siPartition = p\<rparr>))))"

definition orNil :: "('w, 'e, 'a) io \<Rightarrow> ('w, 'e, 'a option) io" where
  "orNil m = bind (attempt m) (\<lambda>r. ret (case r of Inl _ \<Rightarrow> None | Inr x \<Rightarrow> Some x))"

definition makeCurrentPart :: "genv \<Rightarrow> Partition \<Rightarrow> ('m world_scheme, serr, SystemImagePart option) io" where
  "makeCurrentPart E p =
     orNil (makePartFromSystemImageConfigFile E p (pathJoin [GlobalRootDir E, systemImageChannelConfig]) True)"

definition otherIsEmpty :: "genv \<Rightarrow> string \<Rightarrow> fsys \<Rightarrow> bool" where
  "otherIsEmpty E root f =
     (case stat f (pathJoin [GlobalRootDir E, root, systemImageChannelConfig]) of
        Inr (FFile c) \<Rightarrow> c = ''''
      | Inr _ \<Rightarrow> False
      | Inl _ \<Rightarrow> True)"

definition toPerr :: "('w, serr, 'a) io \<Rightarrow> ('w, perr, 'a) io" where
  "toPerr m = mapErr (\<lambda>e. ErrText (errorText [] e)) m"

definition readOtherPart :: "genv \<Rightarrow> Partition \<Rightarrow> string \<Rightarrow> ('m world_scheme, serr, SystemImagePart option) io" where
  "readOtherPart E p otherRoot =
     bind (gets (\<lambda>w. otherIsEmpty E otherRoot (fs w))) (\<lambda>empty.
       if empty then ret None
       else bind (makePartFromSystemImageConfigFile E p
                    (pathJoin [GlobalRootDir E, otherRoot, systemImageChannelConfig]) False)
              (\<lambda>part. ret (Some part)))"

text \<open>
  The closure only reads, so that the part it leaves in the captured variable is the one
  that can be read afterwards.
\<close>

definition makeOtherPart :: "genv \<Rightarrow> Partition \<Rightarrow> ('m pworld_scheme, serr, SystemImagePart option) io" where
  "makeOtherPart E p =
     bind (attempt (liftP (RunWithOther p RO (\<lambda>otherRoot.
             andThen (toPerr (readOtherPart E p otherRoot)) (ret ()))))) (\<lambda>r.
       if r = Inl (PartErr ErrNoDualPartition) then ret None
       else bind (orNil (readOtherPart E p mountTarget)) (\<lambda>x. ret (case x of None \<Rightarrow> None | Some y \<Rightarrow> y)))"

definition siNeedsReboot :: "genv \<Rightarrow> SystemImagePart \<Rightarrow> ('m world_scheme, serr, bool) io" where
  "siNeedsReboot E s =
     (if siIsActive s then ret False
      else liftP (IsNextBootOther (btools E) (siPartition s)))"

definition siMarkBootSuccessful :: "genv \<Rightarrow> SystemImagePart \<Rightarrow> ('m world_scheme, serr, unit) io" where
  "siMarkBootSuccessful E s = liftP (MarkBootSuccessful (btools E) (siPartition s))"

text \<open>\<^verbatim>\<open>active != isActive != isNextBootOther\<close>.\<close>

definition siSetActive :: "genv \<Rightarrow> SystemImagePart \<Rightarrow> bool \<Rightarrow> ('m world_scheme, serr, unit) io" where
  "siSetActive E s active =
     bind (liftP (IsNextBootOther (btools E) (siPartition s))) (\<lambda>isNextBootOther.
       if (active \<noteq> siIsActive s) \<noteq> isNextBootOther
       then liftP (ToggleNextBoot (btools E) (siPartition s))
       else ret ())"

section \<open>The repository\<close>

definition siInstalled :: "genv \<Rightarrow> Partition \<Rightarrow> ('m pworld_scheme, serr, SystemImagePart list) io" where
  "siInstalled E p =
     bind (makeCurrentPart E p) (\<lambda>curr.
     bind (makeOtherPart E p) (\<lambda>other.
       ret ((case curr of None \<Rightarrow> [] | Some c \<Rightarrow> [c]) @ (case other of None \<Rightarrow> [] | Some d \<Rightarrow> [d]))))"

text \<open>A missing current part is a nil part in the result.\<close>

definition siDetails ::
    "genv \<Rightarrow> Partition \<Rightarrow> string \<Rightarrow> string \<Rightarrow> ('m pworld_scheme, serr, SystemImagePart option list) io" where
  "siDetails E p n origin =
     (if n = SystemImagePartName \<and> origin = SystemImagePartOrigin
      then bind (makeCurrentPart E p) (\<lambda>c. ret [c])
      else throw (SErr ErrPackageNotFound))"

section \<open>Updating\<close>

definition needsBootAssetSync :: "genv \<Rightarrow> SystemImagePart \<Rightarrow> ('m pworld_scheme, serr, bool) io" where
  "needsBootAssetSync E s =
     bind (makeCurrentPart E (siPartition s)) (\<lambda>curr.
       (case curr of
          None \<Rightarrow> throw (GoPanic ''current part does not exist'')
        | Some c \<Rightarrow>
            bind (makeOtherPart E (siPartition s)) (\<lambda>other.
              (case other of
                 None \<Rightarrow> ret True
               | Some d \<Rightarrow>
                   (if siChannelName c \<noteq> siChannelName d then ret False
                    else ret (0 < VersionCompare (siVersion c) (siVersion d)))))))"

text \<open>The first error message among the lines that \<^verbatim>\<open>system-image-cli\<close> printed.\<close>

fun parseSIProgress :: "genv \<Rightarrow> string list \<Rightarrow> (serr, unit) res" where
  "parseSIProgress E [] = Inr ()"
| "parseSIProgress E (l # ls) =
     (case siLine E l of
        None \<Rightarrow> parseSIProgress E ls
      | Some g \<Rightarrow>
          (if gjType g = ''error'' then Inl (Errorf (''error from '' @ systemImageCli @ '': '' @ gjMessage g))
           else parseSIProgress E ls))"

definition systemImageDownloadUpdate :: "genv \<Rightarrow> string \<Rightarrow> ('m sworld_scheme, serr, unit) io" where
  "systemImageDownloadUpdate E configDir = (\<lambda>w.
     (case execCmd [systemImageCli, ''--progress'', ''json'', ''-C'', configDir] w of
        (Inl (None, out), w') \<Rightarrow> (Inl (OsErr KIO (ECall systemImageCli)), w')
      | (Inl (Some code, out), w') \<Rightarrow>
          (case parseSIProgress E (scanLines out) of
             Inl e \<Rightarrow> (Inl e, w')
           | Inr _ \<Rightarrow> (Inl (Errorf (systemImageCli @ '' failed with return code '' @ itoa code @ '': '' @ out)), w'))
      | (Inr out, w') \<Rightarrow>
          (let w2 = w'\<lparr>fs := siApply E (fs w')\<rparr>
           in (case parseSIProgress E (scanLines out) of
                 Inl e \<Rightarrow> (Inl e, w2)
               | Inr _ \<Rightarrow> (Inr (), w2)))))"

definition verifyUpgradeWasApplied :: "genv \<Rightarrow> SystemImagePart \<Rightarrow> ('m pworld_scheme, serr, unit) io" where
  "verifyUpgradeWasApplied E s =
     bind (makeOtherPart E (siPartition s)) (\<lambda>other.
     bind (case other of Some d \<Rightarrow> ret (Some d) | None \<Rightarrow> makeCurrentPart E (siPartition s)) (\<lambda>latest.
       (case latest of
          None \<Rightarrow> throw (ErrUpgradeVerificationFailed ''could not find latest installed partition'')
        | Some l \<Rightarrow>
            (if siVersion s \<noteq> siVersion l
             then throw (ErrUpgradeVerificationFailed
                    (''found '' @ goQuote (siVersion l) @ '' but expected '' @ goQuote (siVersion s)))
             else ret ()))))"

definition updateConfigFile :: "genv \<Rightarrow> string \<Rightarrow> fsys \<Rightarrow> string" where
  "updateConfigFile E otherRoot f =
     (let otherConfigFile = pathJoin [GlobalRootDir E, otherRoot, systemImageClientConfig]
      in if \<not> otherIsEmpty E otherRoot f \<and> exists f otherConfigFile then otherConfigFile
         else systemImageClientConfig)"

text \<open>
  \<^verbatim>\<open>Install\<close>; the second argument is the map of \<^verbatim>\<open>bootAssetFilePaths\<close>.
\<close>

definition siInstall ::
    "genv \<Rightarrow> ('m sworld_scheme, serr, (string \<times> string) list) io \<Rightarrow> SystemImagePart
     \<Rightarrow> ('m sworld_scheme, serr, string) io" where
  "siInstall E assetPaths s =
     bind (gets BootloaderDir) (\<lambda>dir.
     bind (IsSideLoaded E dir) (\<lambda>side.
       if side then throw (SErr ErrSideLoaded)
       else
         bind (needsBootAssetSync E s) (\<lambda>sync.
         andThen (whenIO sync (bind assetPaths (\<lambda>assets.
                    liftP (SyncBootloaderFiles (siPartition s) assets))))
        (andThen (liftP (RunWithOther (siPartition s) RO (\<lambda>otherRoot.
                    bind (gets (\<lambda>w. updateConfigFile E otherRoot (fs w))) (\<lambda>configFile.
                      toPerr (systemImageDownloadUpdate E (pathDir configFile))))))
        (andThen (verifyUpgradeWasApplied E s)
        (andThen (liftP (ToggleNextBoot (btools E) (siPartition s)))
           (ret SystemImagePartName)))))))"

section \<open>Choosing the next root\<close>

text \<open>Asking for the next boot changes nothing but the history.\<close>

definition fsFaults :: "fsys \<Rightarrow> (event list \<Rightarrow> event \<Rightarrow> bool) \<Rightarrow> 'm world_scheme \<Rightarrow> bool" where
  "fsFaults f g w \<longleftrightarrow> fs w = f \<and> faults w = g"

lemma keeps_fsFaults_cmd [keeps_intros]: "keeps (fsFaults f g) (runCommand args)"
  unfolding runCommand_def by (intro keeps_intros keeps_fallible) (simp add: fsFaults_def)

lemma keeps_readFile [keeps_intros]: "keeps P (readFile p)"
  by (auto simp: keeps_def readFile_def split: option.splits fnode.splits)

lemma keeps_GetBootVar [keeps_intros]: "keeps (fsFaults f g) (GetBootVar bt b n)"
proof (cases "kind b")
  case (Uboot e)
  have "keeps (fsFaults f g) (getBootVarFwEnv bt n)"
    unfolding getBootVarFwEnv_def uenvOpenIO_def
    by (intro keeps_intros) (auto simp: keeps_def split: option.splits)
  moreover have "keeps (fsFaults f g) (getBootVarLegacy bt n)"
    unfolding getBootVarLegacy_def
    by (intro keeps_intros) (auto simp: keeps_def split: option.splits sum.splits)
  ultimately show ?thesis using Uboot by (cases e) (simp_all add: GetBootVar_def)
next
  case Grub
  have "keeps (fsFaults f g) (grubGetBootVar bt n)"
    unfolding grubGetBootVar_def
    by (intro keeps_intros) (auto simp: keeps_def split: option.splits sum.splits)
  then show ?thesis using Grub by (simp add: GetBootVar_def)
qed

lemma keeps_bootloader [keeps_intros]: "keeps P (bootloader p)"
  by (auto simp: keeps_def bootloader_def split: sum.splits option.splits)

lemma keeps_IsNextBootOther: "keeps (fsFaults f g) (IsNextBootOther bt p)"
  unfolding IsNextBootOther_def orFalse_def GetNextBootRootFSName_def
  by (intro keeps_intros) (auto simp: keeps_def nilDeref_def split: option.splits sum.splits perr.splits)

lemma IsNextBootOther_fs:
  "fs (snd (IsNextBootOther bt p w)) = fs w \<and> faults (snd (IsNextBootOther bt p w)) = faults w"
  using keepsD [OF keeps_IsNextBootOther, of "fs w" "faults w" w] by (simp add: fsFaults_def)

lemma env_same_fs:
  fixes w w' :: "'m world_scheme"
  assumes "fs w' = fs w"
  shows "envGood bt b w' = envGood bt b w" and "envView bt b w' n = envView bt b w n"
    and "bootloader p w = (Inr b, w) \<Longrightarrow> bootloader p w' = (Inr b, w')"
proof -
  have c: "contentOf q w' = contentOf q w" for q using assms by (simp add: contentOf_def)
  show "envGood bt b w' = envGood bt b w"
    using assms c by (simp add: envGood_def grubGood_def fwGood_def legacyGood_def split: bootKind.splits ubootEnv.splits)
  show "envView bt b w' n = envView bt b w n"
    using assms c
    by (simp add: envView_def grubView_def fwView_def legacyView_def split: bootKind.splits ubootEnv.splits)
  show "bootloader p w = (Inr b, w) \<Longrightarrow> bootloader p w' = (Inr b, w')"
    by (rule bootloader_sameNodes [of w]) (simp_all add: sameNodes_def assms)
qed

lemma HandleAssets_none:
  "fget (fs w) hardwareSpecFile = None \<Longrightarrow> HandleAssets bt p b w = (Inr (), w)"
  by (simp add: HandleAssets_def readHardwareSpec_def bind_def)

text \<open>
  A system with two roots, a boot loader with readable variables, no pending hardware
  assets and no faults.
\<close>

definition steadySystem :: "boottools \<Rightarrow> Partition \<Rightarrow> bootLoader \<Rightarrow> 'm world_scheme \<Rightarrow> bool" where
  "steadySystem bt p b w \<longleftrightarrow>
     bootloader p w = (Inr b, w) \<and> envGood bt b w \<and> noFaults w \<and>
     list_all wfDevice (partitions p) \<and> dualRootPartitions p \<and>
     fget (fs w) hardwareSpecFile = None \<and>
     (\<exists>m r. envView bt b w bootloaderBootmodeVar = Inr m \<and> envView bt b w bootloaderRootfsVar = Inr r)"

lemma steadySystem_same:
  fixes w w' :: "'m world_scheme"
  shows "steadySystem bt p b w \<Longrightarrow> fs w' = fs w \<Longrightarrow> faults w' = faults w \<Longrightarrow> steadySystem bt p b w'"
  using env_same_fs(1) [of w' w bt b] env_same_fs(2) [of w' w bt b] env_same_fs(3) [of w' w p b]
  by (simp add: steadySystem_def noFaults_def)

lemma steady_other: "steadySystem bt p b w \<Longrightarrow> \<exists>d. otherRootPartition p = Some d"
  by (auto simp: steadySystem_def bootloader_def newUboot_def newGrub_def newBootLoader_def
      split: if_splits option.splits)

lemma steady_next_bool: "steadySystem bt p b w \<Longrightarrow> \<exists>n. fst (IsNextBootOther bt p w) = Inr n"
  using steady_other [of bt p b w] IsNextBootOther_run [of p w b bt] by (fastforce simp: steadySystem_def)

lemma steady_toggle:
  assumes "steadySystem bt p b w"
  shows "\<exists>w'. ToggleNextBoot bt p w = (Inr (), w') \<and> fst (IsNextBootOther bt p w') = Inr True"
  using assms ToggleNextBoot_run [of p w b bt w] HandleAssets_none [of w bt p b]
  by (auto simp: steadySystem_def)

text \<open>
  What \<^verbatim>\<open>SetActive\<close> of a system-image part does to the next boot: the other root is next
  when the request asks for it (deactivating the running part, or activating the other one),
  and it also stays next when the request asks for the running part: \<^verbatim>\<open>ToggleNextBoot\<close>
  never takes the choice back, although the comment of \<^verbatim>\<open>SetActive\<close> counts it as a toggle.
\<close>

lemma siSetActive_next_boot:
  fixes w :: "'m world_scheme"
  assumes "steadySystem (btools E) (siPartition s) b w"
    and "fst (IsNextBootOther (btools E) (siPartition s) w) = Inr n"
  shows "\<exists>w'. siSetActive E s active w = (Inr (), w') \<and>
     fst (IsNextBootOther (btools E) (siPartition s) w') = Inr (active \<noteq> siIsActive s \<or> n)"
proof -
  let ?bt = "btools E" and ?p = "siPartition s"
  let ?w = "snd (IsNextBootOther ?bt ?p w)"
  have run: "liftP (IsNextBootOther ?bt ?p) w = (Inr n, ?w)"
    using assms(2) by (intro liftP_run) (metis prod.collapse)
  have st: "steadySystem ?bt ?p b ?w"
    using IsNextBootOther_fs [of ?bt ?p w] by (intro steadySystem_same [OF assms(1)]) simp_all
  show ?thesis
  proof (cases "(active \<noteq> siIsActive s) \<noteq> n")
    case True
    from steady_toggle [OF st] obtain w' where
      t: "ToggleNextBoot ?bt ?p ?w = (Inr (), w')" "fst (IsNextBootOther ?bt ?p w') = Inr True" by blast
    have "siSetActive E s active w = (Inr (), w')"
      using True run liftP_run(1) [of "ToggleNextBoot ?bt ?p" ?w "()" w', OF t(1)] by (simp add: siSetActive_def bind_ok)
    then show ?thesis using t(2) True by auto
  next
    case False
    have "siSetActive E s active w = (Inr (), ?w)"
      using False run by (simp add: siSetActive_def bind_ok)
    moreover have "fst (IsNextBootOther ?bt ?p ?w) = Inr n"
    proof -
      from st obtain m r where v: "envView ?bt b ?w bootloaderBootmodeVar = Inr m"
        "envView ?bt b ?w bootloaderRootfsVar = Inr r" by (auto simp: steadySystem_def)
      from steady_other [OF st] obtain d where d: "otherRootPartition ?p = Some d" by blast
      have "fst (IsNextBootOther ?bt ?p ?w) = Inr (m = bootloaderBootmodeTry \<and> r = shortName d)"
        using st v d by (intro IsNextBootOther_run [of _ _ b]) (auto simp: steadySystem_def)
      moreover have "fst (IsNextBootOther ?bt ?p w) = Inr (m = bootloaderBootmodeTry \<and> r = shortName d)"
        using assms(1) v d env_same_fs(2) [of ?w w ?bt b] IsNextBootOther_fs [of ?bt ?p w]
        by (intro IsNextBootOther_run [of _ _ b]) (auto simp: steadySystem_def)
      ultimately show ?thesis using assms(2) by simp
    qed
    ultimately show ?thesis using False by auto
  qed
qed

definition siDemoWorld :: world where
  "siDemoWorld =
     \<lparr>fs = [(''/boot/grub/grub.cfg'', FFile ''''),
            (''/boot/grub/grubenv'', FFile (''snappy_mode=try'' @ nl # ''snappy_ab=b'' @ [nl]))],
      hist = [], faults = (\<lambda>_ _. False)\<rparr>"

definition siDemoPart :: SystemImagePart where
  "siDemoPart =
     \<lparr>siVersion = ''7'', siVersionDetails = '''', siChannelName = ''ubuntu-core/15.04/edge'',
      siIsInstalled = True, siIsActive = True, siUpdateSize = 0, siPartition = demoPartition\<rparr>"

definition siDemoEnv :: genv where "siDemoEnv = demoEnv (demoYaml ''foo'')"

lemma siDemo_bootloader: "bootloader demoPartition siDemoWorld = (Inr demoLoader, siDemoWorld)"
proof -
  have "fst (bootloader demoPartition siDemoWorld) = Inr demoLoader" by code_simp
  moreover have "snd (bootloader demoPartition siDemoWorld) = siDemoWorld"
    by (simp add: bootloader_def split: sum.splits option.splits)
  ultimately show ?thesis by (simp add: prod_eq_iff)
qed

lemma siDemo_steady: "steadySystem lineTools demoPartition demoLoader siDemoWorld"
proof -
  have v: "envView lineTools demoLoader siDemoWorld bootloaderBootmodeVar = Inr ''try''"
    "envView lineTools demoLoader siDemoWorld bootloaderRootfsVar = Inr ''b''"
    by code_simp+
  have "envGood lineTools demoLoader siDemoWorld"
    using lineTools_editenv
    by (simp add: envGood_def grubGood_def demoLoader_def siDemoWorld_def fget_def go_defs)
       (simp add: lineTools_def)
  moreover have "fget (fs siDemoWorld) hardwareSpecFile = None" by code_simp
  ultimately show ?thesis
    using v siDemo_bootloader demo_partition(3,4)
    by (simp add: steadySystem_def noFaults_def siDemoWorld_def)
qed

section \<open>Updates\<close>


text \<open>A system whose other root is empty, and an update to version 8.\<close>

definition siFs :: fsys where
  "siFs =
     [(''/boot'', FDir), (''/boot/grub'', FDir), (''/boot/grub/grub.cfg'', FFile []),
      (''/boot/grub/grubenv'', FFile (''snappy_mode=regular'' @ nl # ''snappy_ab=a'' @ [nl])),
      (''/etc/system-image/config.d/01_channel.ini'', FFile ''7'')]"

definition siRunEnv :: genv where
  "siRunEnv = siDemoEnv\<lparr>
     siIni := (\<lambda>c. Inr (\<lambda>k. if k = ''build_number'' then Inr c else Inr ''edge'')),
     siApply := (\<lambda>f. fput f ''/writable/cache/system/etc/system-image/config.d/01_channel.ini'' (FFile ''8''))\<rparr>"

definition siRun :: "(serr + string) \<times> sworld" where
  "siRun = siInstall siRunEnv (ret []) (siDemoPart\<lparr>siVersion := ''8''\<rparr>) (quietWorld (\<lambda>_ _. []) siFs)"

lemma siRun_ok: "fst siRun = Inr ''ubuntu-core''"
  by code_simp


end
