(* ===== verification/SnapPart.thy ===== *)
theory SnapPart
  imports Helpers Policy HwAccess SystemImage
begin

text \<open>
  Parts and repositories, \<^verbatim>\<open>snappy/parts.go\<close>, the middle of \<^verbatim>\<open>snappy/snapp.go\<close>,
  \<^verbatim>\<open>snappy/pkgformat.go\<close> and the readers of \<^verbatim>\<open>snappy/oem.go\<close>: installed packages read back
  from the file system, the repositories that list them, and the questions the rest of the
  program asks them. An interface value of Go is a datatype with one constructor per
  implementation.
\<close>

section \<open>Reading an installed package\<close>

record SnapPart =
  sm :: packageYaml
  sremoteM :: "remoteSnap option"
  sorigin :: string
  shash :: string
  sisActive :: bool
  sisInstalled :: bool
  sdescription :: string
  sdeb :: "PackageFile option"
  sbasedir :: string

datatype Part = SnapP SnapPart | SysP SystemImagePart | RemoteP remoteSnap

definition snapType :: "SnapPart \<Rightarrow> string" where
  "snapType s = (if yType (sm s) \<noteq> '''' then yType (sm s) else ''app'')"

definition snapVersion :: "SnapPart \<Rightarrow> string" where
  "snapVersion s = (if sbasedir s \<noteq> '''' then pathBase (sbasedir s) else yVersion (sm s))"

definition snapOrigin :: "SnapPart \<Rightarrow> string" where
  "snapOrigin s =
     (case sremoteM s of
        Some r \<Rightarrow> rsOrigin r
      | None \<Rightarrow> if sorigin s = '''' then SideloadedOrigin else sorigin s)"

definition snapDescription :: "SnapPart \<Rightarrow> string" where
  "snapDescription s = (case sremoteM s of Some r \<Rightarrow> rsDescription r | None \<Rightarrow> sdescription s)"

definition snapChannel :: "SnapPart \<Rightarrow> string" where
  "snapChannel s = (case sremoteM s of Some r \<Rightarrow> rsChannel r | None \<Rightarrow> ''stable'')"

definition snapDownloadSize :: "SnapPart \<Rightarrow> int" where
  "snapDownloadSize s = (case sremoteM s of Some r \<Rightarrow> rsDownloadSize r | None \<Rightarrow> -1)"

subsection \<open>The methods of the interface\<close>

fun Type :: "Part \<Rightarrow> string" where
  "Type (SnapP s) = snapType s"
| "Type (SysP s) = TypeCore"
| "Type (RemoteP r) = rsType r"

fun PartName :: "Part \<Rightarrow> string" where
  "PartName (SnapP s) = yName (sm s)"
| "PartName (SysP s) = SystemImagePartName"
| "PartName (RemoteP r) = rsName r"

fun PartVersion :: "Part \<Rightarrow> string" where
  "PartVersion (SnapP s) = snapVersion s"
| "PartVersion (SysP s) = siVersion s"
| "PartVersion (RemoteP r) = rsVersion r"

fun Origin :: "Part \<Rightarrow> string" where
  "Origin (SnapP s) = snapOrigin s"
| "Origin (SysP s) = SystemImagePartOrigin"
| "Origin (RemoteP r) = rsOrigin r"

fun Vendor :: "Part \<Rightarrow> string" where
  "Vendor (SnapP s) = yVendor (sm s)"
| "Vendor (SysP s) = SystemImagePartVendor"
| "Vendor (RemoteP r) = rsPublisher r"

fun Description :: "Part \<Rightarrow> string" where
  "Description (SnapP s) = snapDescription s"
| "Description (SysP s) = ''A secure, minimal transactional OS for devices and containers.''"
| "Description (RemoteP r) = rsTitle r"

fun Channel :: "Part \<Rightarrow> string" where
  "Channel (SnapP s) = snapChannel s"
| "Channel (SysP s) = siChannelName s"
| "Channel (RemoteP r) = rsChannel r"

fun IsActive :: "Part \<Rightarrow> bool" where
  "IsActive (SnapP s) = sisActive s"
| "IsActive (SysP s) = siIsActive s"
| "IsActive (RemoteP r) = False"

fun IsInstalled :: "Part \<Rightarrow> bool" where
  "IsInstalled (SnapP s) = sisInstalled s"
| "IsInstalled (SysP s) = siIsInstalled s"
| "IsInstalled (RemoteP r) = False"

fun DownloadSize :: "Part \<Rightarrow> int" where
  "DownloadSize (SnapP s) = snapDownloadSize s"
| "DownloadSize (SysP s) = siUpdateSize s"
| "DownloadSize (RemoteP r) = rsDownloadSize r"

fun Frameworks :: "Part \<Rightarrow> (serr, string list) res" where
  "Frameworks (SnapP s) = Inr (yFrameworks (sm s))"
| "Frameworks (SysP s) = Inr []"
| "Frameworks (RemoteP r) = Inl (SErr ErrNotImplemented)"

fun NeedsReboot :: "genv \<Rightarrow> Part \<Rightarrow> ('m world_scheme, serr, bool) io" where
  "NeedsReboot E (SysP s) = siNeedsReboot E s"
| "NeedsReboot E _ = ret False"

subsection \<open>Names\<close>

definition QualifiedName :: "Part \<Rightarrow> string" where
  "QualifiedName p =
     (if Type p = TypeFramework \<or> Type p = TypeOem then PartName p else PartName p @ ''.'' @ Origin p)"

definition FullName :: "Part \<Rightarrow> string" where
  "FullName p = PartName p @ ''.'' @ Origin p"

definition fullNameWithChannel :: "Part \<Rightarrow> string" where
  "fullNameWithChannel p = (if Channel p = '''' then FullName p else FullName p @ ''/'' @ Channel p)"

definition iconPath :: "genv \<Rightarrow> Part \<Rightarrow> string" where
  "iconPath E s = pathJoin [SnapIconsDir E, QualifiedName s @ ''_'' @ PartVersion s @ ''.png'']"

definition RemoteManifestPath :: "genv \<Rightarrow> Part \<Rightarrow> string" where
  "RemoteManifestPath E s = pathJoin [SnapMetaDir E, QualifiedName s @ ''_'' @ PartVersion s @ ''.manifest'']"

fun Icon :: "genv \<Rightarrow> fsys \<Rightarrow> Part \<Rightarrow> string" where
  "Icon E f (SnapP s) =
     (if exists f (iconPath E (SnapP s)) then iconPath E (SnapP s) else pathJoin [sbasedir s, yIcon (sm s)])"
| "Icon E f (SysP s) = ''''"
| "Icon E f (RemoteP r) = rsIconURL r"

text \<open>\<^verbatim>\<open>SplitOrigin\<close>: at the last dot.\<close>

definition SplitOrigin :: "string \<Rightarrow> string \<times> string" where
  "SplitOrigin n =
     (if CHR ''.'' \<in> set n
      then (rev (tl (dropWhile (\<lambda>c. c \<noteq> CHR ''.'') (rev n))), rev (takeWhile (\<lambda>c. c \<noteq> CHR ''.'') (rev n)))
      else (n, ''''))"

subsection \<open>From files\<close>

text \<open>The loop of \<^verbatim>\<open>parseReadme\<close> over the lines.\<close>

fun readmeLoop :: "string list \<Rightarrow> string \<Rightarrow> string \<Rightarrow> string \<times> string" where
  "readmeLoop [] title description = (title, description)"
| "readmeLoop (l # ls) title description =
     (if title = '''' then readmeLoop ls l description
      else if description \<noteq> '''' \<and> l = '''' then (title, description)
      else readmeLoop ls title (description @ l))"

definition parseReadme :: "string \<Rightarrow> ('m world_scheme, serr, string \<times> string) io" where
  "parseReadme readme =
     bind (ioReadFile readme) (\<lambda>content.
       let (title, description) = readmeLoop (scanLines content) '''' ''''
       in if title = '''' then throw (SErr ErrReadmeInvalid)
          else ret (title, if isBlank description then ''no description'' else description))"

definition evalOrEmpty :: "fsys \<Rightarrow> string \<Rightarrow> string" where
  "evalOrEmpty f p = (case evalSymlinks f p of Inl _ \<Rightarrow> '''' | Inr q \<Rightarrow> q)"

text \<open>What the files of the package add to a part: title, hash and the manifest of the store.\<close>

definition readPartFiles :: "genv \<Rightarrow> SnapPart \<Rightarrow> ('m world_scheme, serr, SnapPart) io" where
  "readPartFiles E part =
     bind (attempt (parseReadme (pathJoin [sbasedir part, ''meta'', ''readme.md'']))) (\<lambda>readme.
     let part = (case readme of Inl _ \<Rightarrow> part | Inr (title, _) \<Rightarrow> part\<lparr>sdescription := title\<rparr>)
     in bind (ioReadFile (pathJoin [sbasedir part, ''meta'', ''hashes.yaml''])) (\<lambda>hashesData.
       case yamlHashes (ytools E) hashesData of
         Inl e \<Rightarrow> throw (ErrInvalidYaml ''hashes.yaml'' e hashesData)
       | Inr h \<Rightarrow>
           (let part = part\<lparr>shash := ArchiveSha512 h\<rparr>;
                manifest = RemoteManifestPath E (SnapP part)
            in bind (gets (\<lambda>w. exists (fs w) manifest)) (\<lambda>ex.
                 if \<not> ex then ret part
                 else bind (ioReadFile manifest) (\<lambda>content.
                   case yamlRemote (ytools E) content of
                     Inl e \<Rightarrow> throw (ErrInvalidYaml manifest e content)
                   | Inr r \<Rightarrow> ret (part\<lparr>sremoteM := Some r\<rparr>))))))"

definition NewSnapPartFromYaml ::
    "genv \<Rightarrow> string \<Rightarrow> string \<Rightarrow> packageYaml \<Rightarrow> ('m world_scheme, serr, SnapPart) io" where
  "NewSnapPartFromYaml E yamlPath origin m =
     bind (gets fs) (\<lambda>f.
       case stat f yamlPath of
         Inl k \<Rightarrow> throw (OsErr k (ECall (''stat '' @ yamlPath)))
       | Inr _ \<Rightarrow>
           (let basedir = pathDir (pathDir yamlPath);
                link = pathJoin [pathDir basedir, ''current''];
                p = evalSymlinks f link
            in if isl p \<and> p \<noteq> Inl KNotExist
               then throw (OsErr (projl p) (ECall (''lstat '' @ link)))
               else readPartFiles E
                      \<lparr>sm = m\<lparr>yVersion := pathBase basedir\<rparr>, sremoteM = None, sorigin = origin, shash = '''',
                       sisActive = (p = Inr basedir), sisInstalled = False, sdescription = '''',
                       sdeb = None, sbasedir = basedir\<rparr>))"

definition NewInstalledSnapPart :: "genv \<Rightarrow> string \<Rightarrow> string \<Rightarrow> ('m world_scheme, serr, SnapPart) io" where
  "NewInstalledSnapPart E yamlPath origin =
     bind (parsePackageYamlFile (ytools E) yamlPath) (\<lambda>m.
     bind (NewSnapPartFromYaml E yamlPath origin m) (\<lambda>part.
       ret (part\<lparr>sisInstalled := True\<rparr>)))"

subsection \<open>From package files\<close>

text \<open>The first twenty bytes of the file, zero where it is shorter, choose the format.\<close>

definition OpenPackageFile :: "genv \<Rightarrow> string \<Rightarrow> ('m world_scheme, serr, PackageFile) io" where
  "OpenPackageFile E path =
     bind (ioReadFile path) (\<lambda>content.
       let header = take 20 (content @ replicate 20 (CHR 0x00))
       in if content = '''' then throw (Errorf ''EOF'')
          else if hasPrefix header ''hsqs'' then ret (snapfsNew E path)
          else if hasPrefix header (''!<arch>'' @ [nl] @ ''debian'') then fromRes (clickdebOpen E path)
          else throw (Errorf (''unknown header ['' @ join (map (\<lambda>c. itoa (byte c)) header) '' '' @ '']'')))"

definition NewSnapPartFromSnapFile ::
    "genv \<Rightarrow> string \<Rightarrow> string \<Rightarrow> bool \<Rightarrow> ('m sworld_scheme, serr, SnapPart) io" where
  "NewSnapPartFromSnapFile E snapFile origin unauthOk =
     bind (OpenPackageFile E snapFile) (\<lambda>d.
     andThen (fromRes (pfVerify d unauthOk))
    (bind (fromRes (pfMetaMember d ''package.yaml'')) (\<lambda>yamlData.
     let hasConfig = (case pfMetaMember d ''hooks/config'' of Inl _ \<Rightarrow> False | Inr _ \<Rightarrow> True)
     in bind (fromRes (parsePackageYamlData (ytools E) yamlData hasConfig)) (\<lambda>m.
        bind timeNow (\<lambda>now.
        let targetDir = (if yType m = TypeOem then SnapOemDir E else SnapAppsDir E);
            m = (if origin = SideloadedOrigin then m\<lparr>yVersion := NewSideloadVersion now\<rparr> else m);
            instDir = pathJoin [targetDir, qualifiedName m origin, yVersion m]
        in ret \<lparr>sm = m, sremoteM = None, sorigin = origin, shash = '''', sisActive = False,
                sisInstalled = False, sdescription = '''', sdeb = Some d, sbasedir = instDir\<rparr>)))))"

section \<open>Repositories\<close>

datatype Repository = SystemImageRepository Partition | SnapLocalRepository string | SnapUbuntuStoreRepository

definition NewLocalSnapRepository :: "fsys \<Rightarrow> string \<Rightarrow> Repository option" where
  "NewLocalSnapRepository f path = (if isDirectory f path then Some (SnapLocalRepository path) else None)"

definition NewMetaLocalRepository :: "genv \<Rightarrow> ('m pworld_scheme, serr, Repository list) io" where
  "NewMetaLocalRepository E =
     bind (liftP (New (lsblkOut E))) (\<lambda>p.
     bind (gets fs) (\<lambda>f.
       ret (SystemImageRepository p
            # List.map_filter (NewLocalSnapRepository f) [SnapAppsDir E, SnapOemDir E])))"

definition NewMetaRepository :: "genv \<Rightarrow> ('m pworld_scheme, serr, Repository list) io" where
  "NewMetaRepository E =
     bind (NewMetaLocalRepository E) (\<lambda>rs. ret (rs @ [SnapUbuntuStoreRepository]))"

definition NewMetaStoreRepository :: "Repository list" where
  "NewMetaStoreRepository = [SnapUbuntuStoreRepository]"

text \<open>Links like \<^verbatim>\<open>current\<close> are skipped.\<close>

fun partsFor :: "genv \<Rightarrow> string list \<Rightarrow> ('m world_scheme, serr, Part list) io" where
  "partsFor E [] = ret []"
| "partsFor E (yamlfile # files) =
     bind (gets fs) (\<lambda>f.
       case evalSymlinks f yamlfile of
         Inl k \<Rightarrow> throw (OsErr k (ECall (''lstat '' @ yamlfile)))
       | Inr realpath \<Rightarrow>
           (if realpath \<noteq> yamlfile then partsFor E files
            else
              (let origin = (case originFromYamlPath realpath of Inl _ \<Rightarrow> '''' | Inr s \<Rightarrow> s)
               in bind (NewInstalledSnapPart E realpath origin) (\<lambda>snap.
                  bind (partsFor E files) (\<lambda>parts. ret (SnapP snap # parts))))))"

definition partsForGlobExpr :: "genv \<Rightarrow> string \<Rightarrow> ('m world_scheme, serr, Part list) io" where
  "partsForGlobExpr E globExpr = bind (gets (\<lambda>w. glob (fs w) globExpr)) (partsFor E)"

fun repoInstalled :: "genv \<Rightarrow> Repository \<Rightarrow> ('m pworld_scheme, serr, Part list) io" where
  "repoInstalled E (SystemImageRepository p) = bind (siInstalled E p) (\<lambda>ps. ret (map SysP ps))"
| "repoInstalled E (SnapLocalRepository path) = partsForGlobExpr E (pathJoin [path, ''*'', ''*'', ''meta'', ''package.yaml''])"
| "repoInstalled E SnapUbuntuStoreRepository = ret []"

text \<open>\<^verbatim>\<open>xs, _ := m\<close> and \<^verbatim>\<open>if err != nil { return nil }\<close>; a panic is no error.\<close>

definition isPanicErr :: "serr \<Rightarrow> bool" where
  "isPanicErr e = (case e of GoPanic _ \<Rightarrow> True | PartErr (Panic _) \<Rightarrow> True | _ \<Rightarrow> False)"

definition orNone :: "('w, serr, 'a list) io \<Rightarrow> ('w, serr, 'a list) io" where
  "orNone m =
     bind (attempt m) (\<lambda>r.
       case r of Inr xs \<Rightarrow> ret xs | Inl e \<Rightarrow> if isPanicErr e then throw e else ret [])"

text \<open>
  The details of one name. A local repository drops the errors of both searches; a nil part
  of the system image stays in the list.
\<close>

definition localDetails :: "genv \<Rightarrow> string \<Rightarrow> string \<Rightarrow> string \<Rightarrow> ('m world_scheme, serr, Part option list) io" where
  "localDetails E path n origin =
     (let origin = (if origin = '''' \<or> origin = SideloadedOrigin then ''*'' else origin)
      in bind (orNone (partsForGlobExpr E (pathJoin [path, n @ ''.'' @ origin, ''*'', ''meta'', ''package.yaml'']))) (\<lambda>appParts.
         bind (orNone (partsForGlobExpr E (pathJoin [path, n, ''*'', ''meta'', ''package.yaml'']))) (\<lambda>fmkParts.
           case appParts @ fmkParts of [] \<Rightarrow> throw (SErr ErrPackageNotFound)
           | parts \<Rightarrow> ret (map Some parts))))"

text \<open>The request to the store; an answer that never comes is a network error.\<close>

datatype netErr = NetErr string | NotNet serr

definition storeDetailsOf :: "genv \<Rightarrow> string \<Rightarrow> string \<Rightarrow> (netErr, Part option list) res" where
  "storeDetailsOf E n origin =
     (let snapName = (if origin \<noteq> '''' then n @ ''.'' @ origin else n)
      in case storeDetails E snapName of
           StoreDown e \<Rightarrow> Inl (NetErr e)
         | StoreStatus c \<Rightarrow>
             (if c = 404 then Inl (NotNet (SErr ErrPackageNotFound))
              else Inl (NotNet (Errorf (''SnapUbuntuStoreRepository: unexpected http statusCode ''
                     @ itoa c @ '' for '' @ snapName))))
         | StoreBad e \<Rightarrow> Inl (NotNet (Errorf e))
         | StoreSnap r \<Rightarrow> Inr [Some (RemoteP r)])"

fun repoDetails :: "genv \<Rightarrow> Repository \<Rightarrow> string \<Rightarrow> string \<Rightarrow> ('m pworld_scheme, serr, Part option list) io" where
  "repoDetails E (SystemImageRepository p) n origin =
     bind (siDetails E p n origin) (\<lambda>ps. ret (map (map_option SysP) ps))"
| "repoDetails E (SnapLocalRepository path) n origin = localDetails E path n origin"
| "repoDetails E SnapUbuntuStoreRepository n origin =
     (case storeDetailsOf E n origin of
        Inl (NetErr e) \<Rightarrow> throw (SErr ErrPackageNotFound)
      | Inl (NotNet e) \<Rightarrow> throw e
      | Inr ps \<Rightarrow> ret ps)"

fun metaInstalled :: "genv \<Rightarrow> Repository list \<Rightarrow> ('m pworld_scheme, serr, Part list) io" where
  "metaInstalled E [] = ret []"
| "metaInstalled E (r # rs) =
     bind (repoInstalled E r) (\<lambda>installed.
     bind (metaInstalled E rs) (\<lambda>parts. ret (installed @ parts)))"

text \<open>
  \<^verbatim>\<open>MetaRepository.Details\<close> skips a repository that does not know the name or cannot be
  reached; \<open>repoDetails\<close> gives a network error as a missing package, which is skipped too.
\<close>

fun metaDetails :: "genv \<Rightarrow> Repository list \<Rightarrow> string \<Rightarrow> string \<Rightarrow> ('m pworld_scheme, serr, Part option list) io" where
  "metaDetails E [] n origin = ret []"
| "metaDetails E (r # rs) n origin =
     bind (attempt (repoDetails E r n origin)) (\<lambda>res.
       case res of
         Inl e \<Rightarrow> (if e = SErr ErrPackageNotFound then metaDetails E rs n origin else throw e)
       | Inr ps \<Rightarrow> bind (metaDetails E rs n origin) (\<lambda>parts. ret (ps @ parts)))"

section \<open>Questions about what is installed\<close>

definition allInstalled :: "genv \<Rightarrow> ('m pworld_scheme, serr, Part list) io" where
  "allInstalled E = bind (NewMetaRepository E) (metaInstalled E)"

definition ActiveSnapsByType :: "genv \<Rightarrow> string list \<Rightarrow> ('m pworld_scheme, serr, Part list) io" where
  "ActiveSnapsByType E snapTs =
     bind (allInstalled E) (\<lambda>installed.
       ret (concat (map (\<lambda>part. replicate (count_list snapTs (Type part)) part) (filter IsActive installed))))"

definition ActiveSnapIterByType :: "genv \<Rightarrow> (Part \<Rightarrow> string) \<Rightarrow> string list \<Rightarrow> ('m pworld_scheme, serr, string list) io" where
  "ActiveSnapIterByType E f snapTs = bind (ActiveSnapsByType E snapTs) (\<lambda>installed. ret (map f installed))"

definition ActiveSnapByName :: "genv \<Rightarrow> string \<Rightarrow> ('m pworld_scheme, serr, Part option) io" where
  "ActiveSnapByName E needle =
     bind (orNone (allInstalled E)) (\<lambda>installed.
       ret (find (\<lambda>part. IsActive part \<and> PartName part = needle) installed))"

definition PackageNameActive :: "genv \<Rightarrow> string \<Rightarrow> ('m pworld_scheme, serr, bool) io" where
  "PackageNameActive E n = bind (ActiveSnapByName E n) (\<lambda>p. ret (case p of None \<Rightarrow> False | Some _ \<Rightarrow> True))"

definition FindSnapsByName :: "string \<Rightarrow> Part list \<Rightarrow> Part list" where
  "FindSnapsByName needle haystack =
     (let (n, origin) = SplitOrigin needle
      in filter (\<lambda>part. PartName part = n \<and> (origin = '''' \<or> Origin part = origin)) haystack)"

definition FindSnapsByNameAndVersion :: "string \<Rightarrow> string \<Rightarrow> Part list \<Rightarrow> Part list" where
  "FindSnapsByNameAndVersion needle version haystack =
     (let (n, origin) = SplitOrigin needle
      in filter (\<lambda>part. PartName part = n \<and> PartVersion part = version
                        \<and> (origin = '''' \<or> Origin part = origin)) haystack)"

subsection \<open>The oem package\<close>

definition getOem :: "genv \<Rightarrow> ('m pworld_scheme, serr, packageYaml) io" where
  "getOem E =
     bind (orNone (ActiveSnapsByType E [TypeOem])) (\<lambda>oems.
       case oems of
         [SnapP s] \<Rightarrow> ret (sm s)
       | [_] \<Rightarrow> throw (GoPanic ''interface conversion'')
       | _ \<Rightarrow> throw (Errorf ''no oem snap''))"

text \<open>The oem package, or nothing when there is none; a panic is no such answer.\<close>

definition oemOrNone :: "genv \<Rightarrow> ('m pworld_scheme, serr, packageYaml option) io" where
  "oemOrNone E =
     bind (attempt (getOem E)) (\<lambda>r.
       case r of Inr m \<Rightarrow> ret (Some m) | Inl e \<Rightarrow> if isPanicErr e then throw e else ret None)"

definition bootAssetFilePaths :: "genv \<Rightarrow> ('m pworld_scheme, serr, (string, string) gomap) io" where
  "bootAssetFilePaths E =
     bind (oemOrNone E) (\<lambda>r.
       case r of
         None \<Rightarrow> ret []
       | Some oem \<Rightarrow>
           (case hwBootAssets (yOEM oem) of
              None \<Rightarrow> throw (GoPanic ''nil pointer dereference'')
            | Some assets \<Rightarrow>
                (let oemPath = pathJoin [SnapOemDir E, yName oem, yVersion oem]
                 in ret (fold (\<lambda>asset fileList.
                       let orig = pathJoin [oemPath, bafPath asset]
                       in mput fileList orig (if bafTarget asset = '''' then pathBase orig else bafTarget asset))
                      (baFiles assets) []))))"

definition StoreID :: "genv \<Rightarrow> ('m pworld_scheme, serr, string) io" where
  "StoreID E = bind (oemOrNone E) (\<lambda>r. ret (case r of None \<Rightarrow> '''' | Some oem \<Rightarrow> StoreIDField (yOEM oem)))"

definition IsBuiltInSoftware :: "genv \<Rightarrow> string \<Rightarrow> ('m pworld_scheme, serr, bool) io" where
  "IsBuiltInSoftware E n =
     bind (oemOrNone E) (\<lambda>r. ret (case r of None \<Rightarrow> False | Some oem \<Rightarrow> n \<in> set (BuiltIn (yOEM oem))))"

section \<open>Facts\<close>

subsection \<open>Names\<close>

lemma SplitOrigin_dot: "CHR ''.'' \<notin> set origin \<Longrightarrow> SplitOrigin (n @ ''.'' @ origin) = (n, origin)"
  by (simp add: SplitOrigin_def takeWhile_append dropWhile_append)

lemma SplitOrigin_plain: "CHR ''.'' \<notin> set n \<Longrightarrow> SplitOrigin n = (n, '''')"
  by (simp add: SplitOrigin_def)

text \<open>
  C22. A package is found under its qualified name: every part of the list whose name and
  origin contain no dot (descriptions with a dot in the name are refused) is among the
  parts that \<^verbatim>\<open>FindSnapsByName\<close> returns for \<^verbatim>\<open>QualifiedName\<close>, and so is it with its version;
  for an application nothing of another name or another origin is found.
\<close>

theorem FindSnapsByName_QualifiedName:
  assumes "p \<in> set haystack" and "CHR ''.'' \<notin> set (PartName p)"
    and "CHR ''.'' \<notin> set (Origin p)" and "Origin p \<noteq> ''''"
  shows "p \<in> set (FindSnapsByName (QualifiedName p) haystack)
    \<and> p \<in> set (FindSnapsByNameAndVersion (QualifiedName p) (PartVersion p) haystack)
    \<and> (\<forall>q \<in> set (FindSnapsByName (QualifiedName p) haystack). PartName q = PartName p \<and>
         (Type p \<notin> {TypeFramework, TypeOem} \<longrightarrow> Origin q = Origin p))"
  using assms SplitOrigin_dot [OF assms(3), of "PartName p"] SplitOrigin_plain [OF assms(2)]
  by (auto simp: QualifiedName_def FindSnapsByName_def FindSnapsByNameAndVersion_def)

subsection \<open>Installed packages\<close>

text \<open>Reading a package keeps everything.\<close>

lemma keeps_case_sum: "(\<And>x. keeps P (f x)) \<Longrightarrow> (\<And>y. keeps P (g y)) \<Longrightarrow> keeps P (case r of Inl x \<Rightarrow> f x | Inr y \<Rightarrow> g y)"
  by (cases r) simp_all

lemma keeps_case_option: "keeps P m \<Longrightarrow> (\<And>y. keeps P (g y)) \<Longrightarrow> keeps P (case r of None \<Rightarrow> m | Some y \<Rightarrow> g y)"
  by (cases r) simp_all

lemma keeps_case_prod: "(\<And>x y. keeps P (f x y)) \<Longrightarrow> keeps P (case r of (x, y) \<Rightarrow> f x y)"
  by (cases r) simp

lemma keeps_world: "(\<And>P. keeps P m) \<Longrightarrow> snd (m w) = w"
  using keepsD [of "\<lambda>v. v = w" m w] by simp

text \<open>\<open>returns Q m\<close>: whenever \<open>m\<close> returns a value, it satisfies \<open>Q\<close>.\<close>

definition returns :: "('a \<Rightarrow> bool) \<Rightarrow> ('w, 'e, 'a) io \<Rightarrow> bool" where
  "returns Q m \<longleftrightarrow> (\<forall>w x w'. m w = (Inr x, w') \<longrightarrow> Q x)"

named_theorems returns_intros \<open>properties of returned values\<close>

lemma returnsD: "returns Q m \<Longrightarrow> m w = (Inr x, w') \<Longrightarrow> Q x"
  by (auto simp: returns_def)

lemma returns_ret [returns_intros]: "Q x \<Longrightarrow> returns Q (ret x)"
  and returns_throw [returns_intros]: "returns Q (throw e)"
  and returns_if [returns_intros]: "returns Q m \<Longrightarrow> returns Q n \<Longrightarrow> returns Q (if b then m else n)"
  by (auto simp: returns_def)

lemma returns_bind [returns_intros]: "(\<And>x. returns Q (f x)) \<Longrightarrow> returns Q (bind m f)"
  by (auto simp: returns_def bind_Inr)

lemma returns_case_sum [returns_intros]:
  "(\<And>x. returns Q (f x)) \<Longrightarrow> (\<And>y. returns Q (g y)) \<Longrightarrow> returns Q (case r of Inl x \<Rightarrow> f x | Inr y \<Rightarrow> g y)"
  by (cases r) simp_all

lemmas keeps_splits = keeps_case_sum keeps_case_option keeps_case_prod

lemma keeps_parseReadme [keeps_intros]: "keeps P (parseReadme p)"
  unfolding parseReadme_def Let_def by (intro keeps_intros keeps_splits)

lemma keeps_parsePackageYamlFile [keeps_intros]: "keeps P (parsePackageYamlFile yt p)"
  unfolding parsePackageYamlFile_def by (intro keeps_intros)

lemma keeps_readPartFiles [keeps_intros]: "keeps P (readPartFiles E part)"
  unfolding readPartFiles_def Let_def by (intro keeps_intros keeps_splits)

lemma keeps_NewSnapPartFromYaml [keeps_intros]: "keeps P (NewSnapPartFromYaml E y orig m)"
  unfolding NewSnapPartFromYaml_def Let_def by (intro keeps_intros keeps_splits)

lemma keeps_NewInstalledSnapPart [keeps_intros]: "keeps P (NewInstalledSnapPart E y orig)"
  unfolding NewInstalledSnapPart_def by (intro keeps_intros)

lemma keeps_partsFor [keeps_intros]: "keeps P (partsFor E ys)"
proof (induction ys)
  case (Cons y ys)
  show ?case
    unfolding partsFor.simps Let_def by (intro keeps_intros keeps_splits Cons)
qed (simp only: partsFor.simps keeps_ret)

text \<open>A package read back is active when the link says so, and is where its description is.\<close>

definition activeAt :: "fsys \<Rightarrow> SnapPart \<Rightarrow> bool" where
  "activeAt f s \<longleftrightarrow> evalSymlinks f (pathJoin [pathDir (sbasedir s), ''current'']) = Inr (sbasedir s)"

lemma returns_readPartFiles:
  "returns (\<lambda>s. sbasedir s = sbasedir part \<and> sisActive s = sisActive part \<and> sm s = sm part
      \<and> sorigin s = sorigin part) (readPartFiles E part)"
  unfolding readPartFiles_def Let_def
  by (intro returns_intros) (auto split: sum.splits)

lemmas readPartFiles_keepsFields = returnsD [OF returns_readPartFiles]

lemma NewInstalledSnapPart_fields:
  assumes "NewInstalledSnapPart E y orig w = (Inr s, w')"
  shows "sbasedir s = pathDir (pathDir y) \<and> sisInstalled s \<and> (sisActive s \<longleftrightarrow> activeAt (fs w) s)
     \<and> sorigin s = orig"
proof -
  obtain m w1 t where m: "parsePackageYamlFile (ytools E) y w = (Inr m, w1)"
    and t: "NewSnapPartFromYaml E y orig m w1 = (Inr t, w')" and s: "s = t\<lparr>sisInstalled := True\<rparr>"
    using assms by (auto simp: NewInstalledSnapPart_def bind_Inr)
  have "w1 = w" using keeps_world [OF keeps_parsePackageYamlFile, of "ytools E" y w] m by simp
  with t show ?thesis unfolding s
    by (auto simp: NewSnapPartFromYaml_def Let_def activeAt_def throw_def split: sum.splits if_splits
        dest!: readPartFiles_keepsFields)
qed

lemma partsFor_fields:
  "partsFor E ys w = (Inr parts, w') \<Longrightarrow>
     \<forall>p \<in> set parts. \<exists>s. p = SnapP s \<and> sisInstalled s \<and> (sisActive s \<longleftrightarrow> activeAt (fs w) s)"
proof (induction ys arbitrary: parts w')
  case (Cons y ys)
  show ?case
  proof (cases "evalSymlinks (fs w) y = Inr y")
    case True
    then obtain s w1 rest where n: "NewInstalledSnapPart E y
          (case originFromYamlPath y of Inl _ \<Rightarrow> '''' | Inr s \<Rightarrow> s) w = (Inr s, w1)"
      and r: "partsFor E ys w1 = (Inr rest, w')" and p: "parts = SnapP s # rest"
      using Cons(2) by (auto simp: bind_Inr Let_def)
    have "w1 = w" using keeps_world [OF keeps_NewInstalledSnapPart, of E y _ w] n by (metis snd_conv)
    then show ?thesis using p NewInstalledSnapPart_fields [OF n] Cons(1) [of rest w'] r by auto
  next
    case False
    then show ?thesis using Cons by (auto simp: throw_def split: sum.splits if_splits)
  qed
qed simp

text \<open>
  C8. At most one version of a package is active: among the packages that a local repository
  lists, two active ones below the same directory have the same base directory. Listing
  them changes nothing, and all of them count as installed.
\<close>

theorem installed_one_active:
  assumes "repoInstalled E (SnapLocalRepository path) w = (Inr parts, w')"
    and "SnapP s \<in> set parts" and "SnapP t \<in> set parts" and "sisActive s" and "sisActive t"
    and "pathDir (sbasedir s) = pathDir (sbasedir t)"
  shows "sbasedir s = sbasedir t \<and> sisInstalled s \<and> sisInstalled t \<and> w' = w"
proof -
  from assms(1) obtain ys where r: "partsFor E ys w = (Inr parts, w')"
    by (auto simp: partsForGlobExpr_def)
  have "w' = w" using keeps_world [OF keeps_partsFor, of E ys w] r by simp
  moreover from partsFor_fields [OF r] assms(2-5) have "activeAt (fs w) s" "activeAt (fs w) t"
    "sisInstalled s" "sisInstalled t" by auto
  ultimately show ?thesis using assms(6) by (simp add: activeAt_def)
qed

definition appsFs :: fsys where
  "appsFs = [(''/apps'', FDir), (''/apps/foo.me'', FDir),
     (''/apps/foo.me/1.0'', FDir), (''/apps/foo.me/1.0/meta'', FDir),
     (''/apps/foo.me/1.0/meta/package.yaml'', FFile ''name: foo''),
     (''/apps/foo.me/1.0/meta/hashes.yaml'', FFile ''''),
     (''/apps/foo.me/1.1'', FDir), (''/apps/foo.me/1.1/meta'', FDir),
     (''/apps/foo.me/1.1/meta/package.yaml'', FFile ''name: foo''),
     (''/apps/foo.me/1.1/meta/hashes.yaml'', FFile ''''),
     (''/apps/foo.me/current'', FLink ''1.1'')]"

definition appsWorld :: sworld where
  "appsWorld = quietWorld (\<lambda>_ _. ''ActiveState=inactive'') appsFs"

definition appsListed :: "(serr, Part list) res \<times> sworld" where
  "appsListed = repoInstalled (demoEnv (demoYaml ''foo'')) (SnapLocalRepository ''/apps'')
     appsWorld"

definition snapView :: "Part \<Rightarrow> (string \<times> bool) option" where
  "snapView p = (case p of SnapP s \<Rightarrow> Some (sbasedir s, sisActive s) | _ \<Rightarrow> None)"

lemma snapView_Some: "snapView p = Some (d, a) \<longleftrightarrow> (\<exists>s. p = SnapP s \<and> sbasedir s = d \<and> sisActive s = a)"
  by (auto simp: snapView_def split: Part.splits)

lemma appsListed_run:
  "case fst appsListed of
     Inr parts \<Rightarrow> map snapView parts = [Some (''/apps/foo.me/1.0'', False), Some (''/apps/foo.me/1.1'', True)]
       \<and> list_all (\<lambda>p. PartName p = ''foo'' \<and> Origin p = ''me'' \<and> QualifiedName p = ''foo.me'') parts
   | _ \<Rightarrow> False"
  by code_simp

lemma appsListed_two:
  obtains a b where "fst appsListed = Inr [SnapP a, SnapP b]" "sisActive b"
    "PartName (SnapP b) = ''foo''" "Origin (SnapP b) = ''me''" "QualifiedName (SnapP b) = ''foo.me''"
proof -
  obtain parts where "fst appsListed = Inr parts"
    "map snapView parts = [Some (''/apps/foo.me/1.0'', False), Some (''/apps/foo.me/1.1'', True)]"
    "list_all (\<lambda>p. PartName p = ''foo'' \<and> Origin p = ''me'' \<and> QualifiedName p = ''foo.me'') parts"
    using appsListed_run by (cases "fst appsListed") auto
  then show ?thesis using that by (auto simp: map_eq_Cons_conv snapView_Some)
qed

theorem installed_one_active_witness:
  "\<exists>parts s. fst appsListed = Inr parts \<and> SnapP s \<in> set parts \<and> sisActive s \<and> sisInstalled s
     \<and> snd appsListed = appsWorld"
proof -
  obtain a b where r: "fst appsListed = Inr [SnapP a, SnapP b]" and act: "sisActive b"
    by (rule appsListed_two)
  have "repoInstalled (demoEnv (demoYaml ''foo'')) (SnapLocalRepository ''/apps'') appsWorld
      = (Inr [SnapP a, SnapP b], snd appsListed)"
    using r by (metis appsListed_def prod.collapse)
  from installed_one_active [OF this _ _ act act] r act show ?thesis by auto
qed

theorem FindSnapsByName_QualifiedName_witness:
  "\<exists>parts s. fst appsListed = Inr parts \<and> QualifiedName (SnapP s) = ''foo.me'' \<and>
     SnapP s \<in> set (FindSnapsByName ''foo.me'' parts)"
proof -
  obtain a b where r: "fst appsListed = Inr [SnapP a, SnapP b]"
    and n: "PartName (SnapP b) = ''foo''" "Origin (SnapP b) = ''me''" "QualifiedName (SnapP b) = ''foo.me''"
    by (rule appsListed_two)
  have "SnapP b \<in> set [SnapP a, SnapP b]" by simp
  from FindSnapsByName_QualifiedName [OF this, unfolded n] r n show ?thesis by auto
qed

end
