(* ===== verification/Paths.thy ===== *)
theory Paths
  imports Os
begin

text \<open>
  Paths as lists of names: how the functions of \<^verbatim>\<open>filepath\<close> and the resolution of links act
  on an absolute path \<open>absPath cs\<close> whose names are plain.
\<close>

section \<open>Names\<close>

abbreviation plainNames :: "string list \<Rightarrow> bool" where
  "plainNames cs \<equiv> list_all plainName cs"

lemma plain_noSlash: "plainNames cs \<Longrightarrow> list_all (\<lambda>c. slash \<notin> set c) cs"
  by (auto simp: list_all_iff plainName_def)

lemma join_snoc_sep: "cs \<noteq> [] \<Longrightarrow> join (cs @ [c]) sep = join cs sep @ sep @ c"
  by (induction cs rule: induct_list012) auto

lemma absPath_snoc: "cs \<noteq> [] \<Longrightarrow> absPath (cs @ [c]) = absPath cs @ slash # c"
  by (simp add: absPath_def join_snoc_sep)

lemma splitChar_absPath:
  "cs \<noteq> [] \<Longrightarrow> list_all (\<lambda>c. slash \<notin> set c) cs \<Longrightarrow> splitChar slash (absPath cs) = [] # cs"
  by (simp add: absPath_def splitChar_join)

lemma absPath_inj:
  assumes "plainNames cs" and "plainNames ds" and "absPath cs = absPath ds"
  shows "cs = ds"
proof -
  have empty: "xs = []" if "plainNames xs" "join xs ''/'' = ''''" for xs
    using that by (induction xs rule: induct_list012) (auto simp: plainName_def)
  show ?thesis
  proof (cases "cs = [] \<or> ds = []")
    case True
    then show ?thesis using assms empty [of cs] empty [of ds] by (auto simp: absPath_def)
  next
    case False
    then have "[] # cs = [] # ds"
      using splitChar_absPath [of cs] splitChar_absPath [of ds] plain_noSlash assms by metis
    then show ?thesis by simp
  qed
qed

lemma absPath_root [simp]: "plainNames cs \<Longrightarrow> absPath cs = ''/'' \<longleftrightarrow> cs = []"
  using absPath_inj [of cs "[]"] by (auto simp: absPath_def)

lemma child_absPath: "plainNames cs \<Longrightarrow> child (absPath cs) c = absPath (cs @ [c])"
  by (cases "cs = []") (auto simp: child_def absPath_snoc, simp add: absPath_def)

section \<open>The functions of filepath\<close>

lemma pathClean_abs:
  assumes "cs \<noteq> []" and "list_all (\<lambda>c. slash \<notin> set c) cs"
  shows "pathClean (absPath cs) = absPath (cleanComps True [] cs)"
proof -
  have "absPath cs \<noteq> ''''" "hd (absPath cs) = slash" by (simp_all add: absPath_def)
  then show ?thesis
    using splitChar_absPath [OF assms] by (simp add: pathClean_def absPath_def)
qed

lemma pathJoin_abs:
  assumes "plainNames cs" and "cs \<noteq> []" and "plainNames ds"
  shows "pathJoin (absPath cs # ds) = absPath (cs @ ds)"
proof -
  have j: "join (absPath cs # ds) ''/'' = absPath (cs @ ds)" for ds
  proof (induction ds rule: rev_induct)
    case (snoc d ds)
    have "join ((absPath cs # ds) @ [d]) ''/'' = join (absPath cs # ds) ''/'' @ slash # d"
      by (subst join_snoc_sep) simp_all
    then show ?case using snoc absPath_snoc [of "cs @ ds" d] assms(2) by simp
  qed simp
  have "absPath cs \<noteq> ''''" by (simp add: absPath_def)
  then show ?thesis using j [of ds] assms by (simp add: pathJoin_def)
qed

lemma pathDir_abs:
  assumes "plainNames cs" and "plainName c"
  shows "pathDir (absPath (cs @ [c])) = absPath cs"
proof -
  have sl: "slash \<notin> set c" using assms(2) by (simp add: plainName_def)
  show ?thesis
  proof (cases "cs = []")
    case True
    have "dropWhile (\<lambda>x. x \<noteq> slash) (rev (slash # c)) = [slash]"
      using sl by (auto simp: dropWhile_append)
    then show ?thesis using True by (simp add: pathDir_def absPath_def pathClean_def)
  next
    case False
    have d: "dropWhile (\<lambda>x. x \<noteq> slash) (rev (absPath (cs @ [c]))) = slash # rev (absPath cs)"
      using sl by (auto simp: absPath_snoc [OF False] dropWhile_append)
    have "splitChar slash (absPath cs @ [slash]) = [] # cs @ [[]]"
      using splitChar_absPath [of "cs @ [[]]"] plain_noSlash [OF assms(1)] absPath_snoc [OF False, of "[]"] by simp
    moreover have "cleanComps True [] (cs @ [[]]) = cs"
    proof -
      have "cleanComps True acc (xs @ [[]]) = cleanComps True acc xs" if "plainNames xs" for acc xs
        using that by (induction xs arbitrary: acc) (auto simp: plainName_def)
      then show ?thesis using assms(1) cleanComps_plain [of cs True "[]"] by simp
    qed
    moreover have "absPath cs @ [slash] \<noteq> ''''" "hd (absPath cs @ [slash]) = slash" by (simp_all add: absPath_def)
    ultimately have "pathClean (absPath cs @ [slash]) = absPath cs"
      by (simp add: pathClean_def absPath_def)
    then show ?thesis using d by (simp add: pathDir_def)
  qed
qed

lemma pathBase_abs:
  assumes "plainName c"
  shows "pathBase (absPath (cs @ [c])) = c"
proof -
  have sl: "slash \<notin> set c" and ne: "c \<noteq> ''''" using assms by (auto simp: plainName_def)
  obtain p where p: "absPath (cs @ [c]) = p @ slash # c"
    by (cases "cs = []") (auto simp: absPath_snoc, auto simp: absPath_def)
  have r: "dropWhile (\<lambda>x. x = slash) (rev (absPath (cs @ [c]))) = rev (absPath (cs @ [c]))"
    using sl ne unfolding p by (cases c rule: rev_cases) auto
  have "takeWhile (\<lambda>x. x \<noteq> slash) (rev (absPath (cs @ [c]))) = rev c"
    using sl unfolding p by (auto simp: takeWhile_append)
  then show ?thesis using r by (simp add: pathBase_def absPath_def Let_def)
qed

lemma sibling_abs:
  assumes "plainNames cs" and "plainName v" and "plainName n"
  shows "pathJoin [absPath (cs @ [v]), ''..'', n] = absPath (cs @ [n])"
proof -
  have cl: "cleanComps True acc (xs @ [v, ''..'', n]) = rev acc @ xs @ [n]" if "plainNames xs" for acc xs
    using that assms(2,3) by (induction xs arbitrary: acc) (auto simp: plainName_def)
  have "join [absPath (cs @ [v]), ''..'', n] ''/'' = absPath (cs @ [v, ''..'', n])"
    using absPath_snoc [of "cs @ [v]" "''..''"] absPath_snoc [of "cs @ [v, ''..'']" n] by simp
  moreover have "list_all (\<lambda>c. slash \<notin> set c) (cs @ [v, ''..'', n])"
    using plain_noSlash [OF assms(1)] assms(2,3) by (auto simp: plainName_def)
  moreover have "absPath (cs @ [v]) \<noteq> ''''" by (simp add: absPath_def)
  ultimately show ?thesis
    using cl [OF assms(1), of "[]"] by (simp add: pathJoin_def pathClean_abs)
qed

section \<open>Resolution\<close>

text \<open>Every directory on the way is a directory, not a link.\<close>

definition dirsTo :: "fsys \<Rightarrow> string list \<Rightarrow> bool" where
  "dirsTo f cs \<longleftrightarrow> list_all (\<lambda>i. fget f (absPath (take (Suc i) cs)) = Some FDir) [0..<length cs]"

lemma dirsTo_prefix:
  assumes "dirsTo f (cs @ ds)"
  shows "dirsTo f cs"
proof -
  have "fget f (absPath (take (Suc i) cs)) = Some FDir" if "i < length cs" for i
  proof -
    have "take (Suc i) (cs @ ds) = take (Suc i) cs" using that by simp
    moreover have "i \<in> set [0..<length (cs @ ds)]" using that by simp
    ultimately show ?thesis using assms unfolding dirsTo_def list_all_iff by metis
  qed
  then show ?thesis by (simp add: dirsTo_def list_all_iff)
qed

lemma dirsTo_last: "dirsTo f (cs @ [c]) \<Longrightarrow> fget f (absPath (cs @ [c])) = Some FDir"
  by (auto simp: dirsTo_def list_all_iff dest!: bspec [of _ _ "length cs"])

lemma walk_dirs:
  assumes "plainNames cs" and "dirsTo f cs"
  shows "walk n f ''/'' (cs @ rest) = walk n f (absPath cs) rest"
  using assms
proof (induction cs arbitrary: rest rule: rev_induct)
  case Nil
  show ?case by (simp add: absPath_def)
next
  case (snoc c cs)
  have pl: "plainNames cs" "plainName c" using snoc.prems by simp_all
  have "walk n f ''/'' (cs @ c # rest) = walk n f (absPath cs) (c # rest)"
    using snoc.IH [OF pl(1) dirsTo_prefix [OF snoc.prems(2)], of "c # rest"] by simp
  also have "\<dots> = walk n f (absPath (cs @ [c])) rest"
    using dirsTo_last [OF snoc.prems(2)] pl by (auto simp: child_absPath plainName_def)
  finally show ?case by simp
qed

lemma evalSymlinks_dir:
  assumes "plainNames cs" and "dirsTo f cs" and "cs \<noteq> []"
  shows "evalSymlinks f (absPath cs) = Inr (absPath cs)"
  using assms walk_dirs [OF assms(1,2), of 255 "[]"]
  by (simp add: evalSymlinks_def splitChar_absPath plain_noSlash)

text \<open>A link to a plain name leads to the directory beside it.\<close>

lemma evalSymlinks_sibling:
  assumes "plainNames cs" and "plainName v" and "plainName l" and "dirsTo f (cs @ [v])"
    and "fget f (absPath (cs @ [l])) = Some (FLink v)"
  shows "evalSymlinks f (absPath (cs @ [l])) = Inr (absPath (cs @ [v]))"
proof -
  have v: "v \<noteq> ''''" "slash \<notin> set v" "v \<noteq> ''.''" "v \<noteq> ''..''" using assms(2) by (auto simp: plainName_def)
  then have "\<not> isAbs v" by (cases v) (auto simp: isAbs_def)
  then have "walk 255 f (absPath cs) [l] = walk 254 f (absPath cs) [v]"
    using assms(1,3,5) v
    by (auto simp: child_absPath plainName_def splitChar_absent numeral_eq_Suc)
  also have "\<dots> = Inr (absPath (cs @ [v]))"
    using assms(1,2) dirsTo_last [OF assms(4)] by (auto simp: child_absPath plainName_def)
  finally show ?thesis
    using assms(1,3) walk_dirs [OF assms(1) dirsTo_prefix [OF assms(4)], of 255 "[l]"]
    by (simp add: evalSymlinks_def splitChar_absPath plain_noSlash plainName_def)
qed

end
