(* ===== verification/Lifecycle.thy ===== *)
theory Lifecycle
  imports SnapPart Paths
begin

unbundle bit_operations_syntax

text \<open>
  The life of a package, the methods of \<^verbatim>\<open>SnapPart\<close> in \<^verbatim>\<open>snappy/snapp.go\<close> that change the
  system: the checks before an installation, activating and deactivating a version,
  installing with all its deferred clean-ups, refreshing the security of dependents, and
  removing. \<open>ag\<close> says whether there is somebody to ask for an agreement.
\<close>

section \<open>Checks\<close>

definition checkForPackageInstalled :: "genv \<Rightarrow> packageYaml \<Rightarrow> string \<Rightarrow> ('m pworld_scheme, serr, unit) io" where
  "checkForPackageInstalled E m origin =
     bind (ActiveSnapByName E (yName m)) (\<lambda>part.
       case part of
         None \<Rightarrow> ret ()
       | Some p \<Rightarrow> if Origin p \<noteq> origin then throw (SErr ErrPackageNameAlreadyInstalled) else ret ())"

definition checkForFrameworks :: "genv \<Rightarrow> packageYaml \<Rightarrow> ('m pworld_scheme, serr, unit) io" where
  "checkForFrameworks E m =
     bind (ActiveSnapIterByType E PartName [TypeFramework]) (\<lambda>installed.
       let missing = missingFrameworks installed m
       in if missing \<noteq> [] then throw (ErrMissingFrameworks missing) else ret ())"

definition debOf :: "PackageFile option \<Rightarrow> ('w, serr, PackageFile) io" where
  "debOf deb = (case deb of None \<Rightarrow> throw (GoPanic ''nil pointer dereference'') | Some d \<Rightarrow> ret d)"

definition askLicense :: "packageYaml \<Rightarrow> string \<Rightarrow> ('m sworld_scheme, serr, unit) io" where
  "askLicense m license =
     bind (gets (\<lambda>w. agrees w (yName m @ '' requires that you accept the following license before continuing'') license))
       (\<lambda>yes. if yes then ret () else throw (SErr ErrLicenseNotAccepted))"

definition checkLicenseAgreement ::
    "genv \<Rightarrow> bool \<Rightarrow> packageYaml \<Rightarrow> PackageFile option \<Rightarrow> string \<Rightarrow> ('m sworld_scheme, serr, unit) io" where
  "checkLicenseAgreement E ag m d currentActiveDir =
     (if \<not> yExplicitLicenseAgreement m then ret ()
      else if \<not> ag then throw (SErr ErrLicenseNotAccepted)
      else bind (debOf d) (\<lambda>d. case pfMetaMember d ''license.txt'' of
              Inl _ \<Rightarrow> throw (SErr ErrLicenseNotProvided)
            | Inr license \<Rightarrow>
                if license = '''' then throw (SErr ErrLicenseNotProvided)
                else bind (attempt (parsePackageYamlFile (ytools E)
                            (pathJoin [currentActiveDir, ''meta'', ''package.yaml'']))) (\<lambda>old.
                  case old of
                    Inl e \<Rightarrow> if IsNotExist e then askLicense m license else throw e
                  | Inr oldM \<Rightarrow>
                      if yExplicitLicenseAgreement oldM \<and> yLicenseVersion oldM = yLicenseVersion m then ret ()
                      else askLicense m license)))"

text \<open>The installed packages that name a framework, once for every time they name it.\<close>

fun dependentsIn :: "string \<Rightarrow> Part list \<Rightarrow> (serr, SnapPart list) res" where
  "dependentsIn n [] = Inr []"
| "dependentsIn n (part # parts) =
     rbind (Frameworks part) (\<lambda>fmks.
       if n \<in> set fmks \<and> (case part of SnapP _ \<Rightarrow> False | _ \<Rightarrow> True) then Inl (SErr ErrInstalledNonSnapPart)
       else rbind (dependentsIn n parts) (\<lambda>needed.
         Inr ((case part of SnapP s \<Rightarrow> replicate (count_list fmks n) s | _ \<Rightarrow> []) @ needed)))"

definition Dependents :: "genv \<Rightarrow> SnapPart \<Rightarrow> ('m pworld_scheme, serr, SnapPart list) io" where
  "Dependents E s =
     (if snapType s \<noteq> TypeFramework then ret []
      else bind (allInstalled E) (\<lambda>installed. fromRes (dependentsIn (yName (sm s)) installed)))"

definition DependentNames :: "genv \<Rightarrow> SnapPart \<Rightarrow> ('m pworld_scheme, serr, string list) io" where
  "DependentNames E s = bind (Dependents E s) (\<lambda>deps. ret (map (\<lambda>d. yName (sm d)) deps))"

definition currentLink :: "SnapPart \<Rightarrow> string" where
  "currentLink s = pathJoin [sbasedir s, ''..'', ''current'']"

definition oemAllowed :: "genv \<Rightarrow> bool \<Rightarrow> SnapPart \<Rightarrow> ('m pworld_scheme, serr, unit) io" where
  "oemAllowed E allowOEM s =
     (if snapType s = TypeOem \<and> \<not> allowOEM then
        bind (oemOrNone E) (\<lambda>oem.
          case oem of
            Some currentOEM \<Rightarrow>
              if yName currentOEM \<noteq> yName (sm s) then throw (SErr ErrOEMPackageInstall) else ret ()
          | None \<Rightarrow> throw (SErr ErrOEMPackageInstall))
      else ret ())"

definition CanInstall :: "genv \<Rightarrow> bool \<Rightarrow> bool \<Rightarrow> SnapPart \<Rightarrow> ('m sworld_scheme, serr, unit) io" where
  "CanInstall E allowOEM ag s =
     (if sisInstalled s then throw (SErr ErrAlreadyInstalled)
      else
        andThen (checkForPackageInstalled E (sm s) (snapOrigin s))
       (if \<not> IsSupportedArchitecture (goarch E) (case yArchitectures (sm s) of None \<Rightarrow> [] | Some a \<Rightarrow> a)
        then throw (ErrArchitectureNotSupported (case yArchitectures (sm s) of None \<Rightarrow> [] | Some a \<Rightarrow> a))
        else
          andThen (fromRes (checkForNameClashes (sm s)))
         (andThen (checkForFrameworks E (sm s))
         (andThen (oemAllowed E allowOEM s)
         (bind (gets (\<lambda>w. evalOrEmpty (fs w) (currentLink s))) (\<lambda>curr.
            checkLicenseAgreement E ag (sm s) (sdeb s) curr))))))"

section \<open>Activating and deactivating\<close>

definition deactivate :: "genv \<Rightarrow> bool \<Rightarrow> SnapPart \<Rightarrow> ('m sworld_scheme, serr, unit) io" where
  "deactivate E inhibitHooks s =
     bind (gets (\<lambda>w. evalSymlinks (fs w) (currentLink s))) (\<lambda>cur.
       case cur of
         Inl k \<Rightarrow> if k = KNotExist then throw (SErr ErrSnapNotActive)
                  else throw (OsErr k (ECall (''lstat '' @ currentLink s)))
       | Inr currentActiveDir \<Rightarrow>
           if sbasedir s \<noteq> currentActiveDir then throw (SErr ErrSnapNotActive)
           else
             andThen (removePackageBinaries E (sm s) (sbasedir s))
            (andThen (removePackageServices E (sm s) (sbasedir s))
            (andThen (removeSecurityPolicy E (sm s) (sbasedir s))
            (andThen (whenIO (snapType s = TypeFramework)
                       (policyRemove (yName (sm s)) (sbasedir s) (GlobalRootDir E)))
            (andThen (removeClickHooks E (sm s) (sorigin s) inhibitHooks)
            (andThen (ignoring (ioRemove (currentLink s)))
              (ignoring (ioRemove (pathJoin [SnapDataDir E, QualifiedName (SnapP s), ''current'']))))))))) "

definition activate :: "genv \<Rightarrow> bool \<Rightarrow> SnapPart \<Rightarrow> ('m sworld_scheme, serr, unit) io" where
  "activate E inhibitHooks s =
     bind (gets (\<lambda>w. evalOrEmpty (fs w) (currentLink s))) (\<lambda>currentActiveDir.
     let dbase = pathJoin [SnapDataDir E, QualifiedName (SnapP s)];
         currentDataSymlink = pathJoin [dbase, ''current'']
     in if sbasedir s = currentActiveDir then ret ()
        else
          andThen (whenIO (currentActiveDir \<noteq> '''')
                    (bind (NewInstalledSnapPart E (pathJoin [currentActiveDir, ''meta'', ''package.yaml'']) (sorigin s))
                       (deactivate E inhibitHooks)))
         (andThen (whenIO (snapType s = TypeFramework)
                    (policyInstall (yName (sm s)) (sbasedir s) (GlobalRootDir E)))
         (andThen (bind (attempt (installClickHooks E (sbasedir s) (sm s) (sorigin s) inhibitHooks)) (\<lambda>r.
                     case r of
                       Inr _ \<Rightarrow> ret ()
                     | Inl e \<Rightarrow> andThen (ignoring (removeClickHooks E (sm s) (sorigin s) inhibitHooks)) (throw e)))
         (andThen (addSecurityPolicy E (sm s) (sbasedir s))
         (andThen (addPackageBinaries E (sm s) (sbasedir s))
         (andThen (addPackageServices E (sm s) (sbasedir s) inhibitHooks)
         (andThen (ignoring (ioRemove (currentLink s)))
         (andThen (ignoring (ioRemove currentDataSymlink))
         (andThen (ioSymlink (pathBase (sbasedir s)) (currentLink s))
         (andThen (ioMkdirAll (pathJoin [dbase, snapVersion s]))
           (ioSymlink (pathBase (sbasedir s)) currentDataSymlink)))))))))))"

definition snapSetActive :: "genv \<Rightarrow> SnapPart \<Rightarrow> bool \<Rightarrow> ('m sworld_scheme, serr, unit) io" where
  "snapSetActive E s active = (if active then activate E False s else deactivate E False s)"

section \<open>The security of dependents\<close>

definition UpdateTimestamp :: "string \<Rightarrow> ('m world_scheme, serr, unit) io" where
  "UpdateTimestamp p =
     (if \<not> isAbs p then throw (Errorf ''not an absolute path'')
      else andThen (fallible (OsErr KIO (ECall (''touch '' @ p))) (ECall (''touch '' @ p)))
             (bind (gets fs) (\<lambda>f.
                if nodeAt f p = None then throw (OsErr KNotExist (ECall (''touch '' @ p))) else ret ())))"

definition updateAppArmorJSONTimestamp :: "genv \<Rightarrow> string \<Rightarrow> string \<Rightarrow> string \<Rightarrow> ('m world_scheme, serr, unit) io" where
  "updateAppArmorJSONTimestamp E fullName thing version =
     UpdateTimestamp (pathJoin [SnapAppArmorDir E, fullName @ ''_'' @ thing @ ''_'' @ version @ ''.json''])"

definition RequestAppArmorUpdate ::
    "genv \<Rightarrow> SnapPart \<Rightarrow> (string \<Rightarrow> bool) \<Rightarrow> (string \<Rightarrow> bool) \<Rightarrow> ('m world_scheme, serr, unit) io" where
  "RequestAppArmorUpdate E s policies templates =
     andThen
       (forEach (yServiceYamls (sm s)) (\<lambda>svc.
          whenIO (NeedsAppArmorUpdate (svcSec svc) policies templates)
            (updateAppArmorJSONTimestamp E (QualifiedName (SnapP s)) (svcName svc) (snapVersion s))))
       (forEach (yBinaries (sm s)) (\<lambda>bin.
          whenIO (NeedsAppArmorUpdate (binSec bin) policies templates)
            (updateAppArmorJSONTimestamp E (QualifiedName (SnapP s)) (binName bin) (snapVersion s))))"

definition RefreshDependentsSecurity :: "genv \<Rightarrow> SnapPart \<Rightarrow> SnapPart option \<Rightarrow> ('m sworld_scheme, serr, unit) io" where
  "RefreshDependentsSecurity E s oldPart =
     bind (gets (\<lambda>w. AppArmorDelta (fs w) (case oldPart of None \<Rightarrow> '''' | Some old \<Rightarrow> sbasedir old)
                       (sbasedir s) (yName (sm s) @ ''_''))) (\<lambda>(upPol, upTpl).
     bind (Dependents E s) (\<lambda>deps.
       andThen (forEach deps (\<lambda>dep. RequestAppArmorUpdate E dep (\<lambda>n. n \<in> set upPol) (\<lambda>n. n \<in> set upTpl)))
      (andThen (mapErr (\<lambda>(code, out). case code of
                  Some c \<Rightarrow> ErrApparmorGenerate c out
                | None \<Rightarrow> OsErr KIO (ECmd [aaClickHookCmd]))
               (execCmd [aaClickHookCmd]))
         (ret ()))))"

section \<open>Installing\<close>

definition AllowUnauthenticated :: int where "AllowUnauthenticated = 1"
definition InhibitHooks :: int where "InhibitHooks = 2"
definition DoInstallGC :: int where "DoInstallGC = 4"
definition AllowOEM :: int where "AllowOEM = 8"

definition hasFlag :: "int \<Rightarrow> int \<Rightarrow> bool" where
  "hasFlag flags flag \<longleftrightarrow> flags AND flag \<noteq> 0"

text \<open>
  \<^verbatim>\<open>defer func() { if err != nil { cleanup } }()\<close> around the rest of a function; a panic
  passes with the named result still nil.
\<close>

definition onError :: "('w, serr, 'a) io \<Rightarrow> ('w, serr, 'b) io \<Rightarrow> ('w, serr, 'a) io" where
  "onError m cleanup =
     deferIO m (\<lambda>r. case r of
       Inr x \<Rightarrow> ret x
     | Inl e \<Rightarrow> if isPanicErr e then throw e else andThen (ignoring cleanup) (throw e))"

text \<open>
  The services of the active dependents are stopped. When one cannot be stopped, those
  stopped before it are started again.
\<close>

definition startAll :: "(string, int) gomap \<Rightarrow> ('m sworld_scheme, serr, unit) io" where
  "startAll stopped = forEach stopped (\<lambda>(n, t). ignoring (Start n))"

fun stopServices :: "(string \<times> int) list \<Rightarrow> (string, int) gomap \<Rightarrow> ('m sworld_scheme, serr, (string, int) gomap) io" where
  "stopServices [] stopped = ret stopped"
| "stopServices ((n, t) # svcs) stopped =
     bind (attempt (Stop n t)) (\<lambda>r.
       case r of
         Inl e \<Rightarrow> andThen (startAll stopped) (throw e)
       | Inr _ \<Rightarrow> stopServices svcs (mput stopped n t))"

text \<open>
  They are started after the refresh. When one does not start, those already started are
  stopped and then all of them are started again.
\<close>

fun restartServices ::
    "(string, int) gomap \<Rightarrow> (string \<times> int) list \<Rightarrow> (string, int) gomap \<Rightarrow> ('m sworld_scheme, serr, unit) io" where
  "restartServices stopped [] started = ret ()"
| "restartServices stopped ((n, t) # svcs) started =
     bind (attempt (Start n)) (\<lambda>r.
       case r of
         Inl e \<Rightarrow> andThen (forEach started (\<lambda>(m, u). ignoring (Stop m u)))
                   (andThen (startAll stopped) (throw e))
       | Inr _ \<Rightarrow> restartServices stopped svcs (mput started n t))"

definition dependentServices :: "genv \<Rightarrow> SnapPart list \<Rightarrow> (string \<times> int) list" where
  "dependentServices E deps =
     concat (map (\<lambda>dep. map (\<lambda>svc. (pathBase (generateServiceFileName E (sm dep) svc), svcStopTimeout svc))
                          (yServiceYamls (sm dep)))
       (filter sisActive deps))"

text \<open>
  An error of the refresh is assigned to a variable of its own: the deferred function that
  restarts the services does not see it.
\<close>

definition refreshSecurity :: "genv \<Rightarrow> SnapPart \<Rightarrow> SnapPart option \<Rightarrow> ('m sworld_scheme, serr, unit) io" where
  "refreshSecurity E s oldPart =
     bind (Dependents E s) (\<lambda>deps.
     bind (stopServices (dependentServices E deps) []) (\<lambda>stopped.
       andThen (RefreshDependentsSecurity E s oldPart)
         (restartServices stopped stopped [])))"

definition runPkg :: "(fsys \<Rightarrow> (serr, unit) res \<times> fsys) \<Rightarrow> ('m world_scheme, serr, unit) io" where
  "runPkg g = (\<lambda>w. case g (fs w) of (r, f) \<Rightarrow> (r, w\<lparr>fs := f\<rparr>))"

text \<open>Making the new version active, and the old one again if that fails.\<close>

definition activateNew :: "genv \<Rightarrow> bool \<Rightarrow> SnapPart \<Rightarrow> SnapPart option \<Rightarrow> ('m sworld_scheme, serr, string) io" where
  "activateNew E inhibitHooks s oldPart =
     onError
       (andThen (activate E inhibitHooks s)
       (andThen (whenIO (\<not> inhibitHooks) (refreshSecurity E s oldPart))
         (ret (yName (sm s)))))
       (case oldPart of None \<Rightarrow> ret () | Some old \<Rightarrow> activate E inhibitHooks old)"

text \<open>The data of the new version: a copy of the old one, or an empty directory.\<close>

definition installData :: "genv \<Rightarrow> bool \<Rightarrow> SnapPart \<Rightarrow> SnapPart option \<Rightarrow> ('m sworld_scheme, serr, string) io" where
  "installData E inhibitHooks s oldPart =
     (let fullName = QualifiedName (SnapP s);
          dataDir = pathJoin [SnapDataDir E, fullName, snapVersion s]
      in case oldPart of
           Some old \<Rightarrow>
             onError
               (andThen (deactivate E inhibitHooks old)
                 (onError
                   (andThen (copySnapData E fullName (snapVersion old) (snapVersion s))
                     (activateNew E inhibitHooks s oldPart))
                   (removeSnapData E fullName (snapVersion s))))
               (activate E inhibitHooks old)
         | None \<Rightarrow>
             onError
               (andThen (ioMkdirAll dataDir) (activateNew E inhibitHooks s oldPart))
               (removeSnapData E fullName (snapVersion s)))"

text \<open>Unpacking and everything after it; the base directory is removed on any error.\<close>

definition installFiles ::
    "genv \<Rightarrow> bool \<Rightarrow> SnapPart \<Rightarrow> PackageFile \<Rightarrow> string \<Rightarrow> SnapPart option \<Rightarrow> ('m sworld_scheme, serr, string) io" where
  "installFiles E inhibitHooks s d manifestData oldPart =
     (let clickMetaDir = pathJoin [sbasedir s, ''.click'', ''info'']
      in onError
           (andThen (runPkg (pfUnpack d (sbasedir s)))
           (andThen (ioMkdirAll clickMetaDir)
           (andThen (writeCompatManifestJSON E clickMetaDir manifestData (sorigin s))
           (andThen (runPkg (pfExtractHashes d (pathJoin [sbasedir s, ''meta''])))
             (installData E inhibitHooks s oldPart)))))
           (ioRemoveAll (sbasedir s)))"

definition oldPartOf :: "genv \<Rightarrow> SnapPart \<Rightarrow> ('m sworld_scheme, serr, SnapPart option) io" where
  "oldPartOf E s =
     bind (gets (\<lambda>w. evalOrEmpty (fs w) (currentLink s))) (\<lambda>dir.
       if dir = '''' then ret None
       else bind (NewInstalledSnapPart E (pathJoin [dir, ''meta'', ''package.yaml'']) (sorigin s)) (\<lambda>old.
              ret (Some old)))"

definition snapInstall :: "genv \<Rightarrow> bool \<Rightarrow> int \<Rightarrow> SnapPart \<Rightarrow> ('m sworld_scheme, serr, string) io" where
  "snapInstall E ag flags s =
     (let allowOEM = hasFlag flags AllowOEM; inhibitHooks = hasFlag flags InhibitHooks
      in if sisInstalled s then throw (SErr ErrAlreadyInstalled)
         else
           andThen (CanInstall E allowOEM ag s)
          (bind (debOf (sdeb s)) (\<lambda>d.
           bind (fromRes (pfControlMember d ''manifest'')) (\<lambda>manifestData.
           andThen (whenIO (snapType s = TypeOem) (installOemHardwareUdevRules E (sm s)))
          (bind (oldPartOf E s) (\<lambda>oldPart.
           andThen (ioMkdirAll (sbasedir s))
             (installFiles E inhibitHooks s d manifestData oldPart))))))) "

definition installClick :: "genv \<Rightarrow> bool \<Rightarrow> string \<Rightarrow> int \<Rightarrow> string \<Rightarrow> ('m sworld_scheme, serr, string) io" where
  "installClick E ag snapFile flags origin =
     bind (NewSnapPartFromSnapFile E snapFile origin (hasFlag flags AllowUnauthenticated))
       (snapInstall E ag flags)"

section \<open>Removing\<close>

definition snapRemove :: "genv \<Rightarrow> SnapPart \<Rightarrow> ('m sworld_scheme, serr, unit) io" where
  "snapRemove E s =
     andThen (removeClickHooks E (sm s) (sorigin s) False)
    (andThen (tolerating (\<lambda>e. e = SErr ErrSnapNotActive) (deactivate E False s))
    (andThen (ioRemoveAll (sbasedir s))
    (andThen (ignoring (ioRemove (pathDir (sbasedir s))))
      (bind (gets (\<lambda>w. exists (fs w) (iconPath E (SnapP s)))) (\<lambda>ex.
         whenIO ex (ignoring (ioRemove (iconPath E (SnapP s)))))))))"

definition snapUninstall :: "genv \<Rightarrow> SnapPart \<Rightarrow> ('m sworld_scheme, serr, unit) io" where
  "snapUninstall E s =
     (if yType (sm s) = TypeOem \<and> sisActive s then throw (SErr ErrPackageNotRemovable)
      else
        bind (IsBuiltInSoftware E (yName (sm s))) (\<lambda>builtin.
        if builtin \<and> sisActive s then throw (SErr ErrPackageNotRemovable)
        else
          bind (DependentNames E s) (\<lambda>deps.
          if deps \<noteq> [] then throw (ErrFrameworkInUse deps)
          else
            andThen (snapRemove E s) (RemoveAllHWAccess E (QualifiedName (SnapP s))))))"

section \<open>Activation\<close>

text \<open>The link of an active version, and that only removals and replacements of it change it.\<close>

lemma activate_end:
  assumes "andThen (ioSymlink b link) (andThen (ioMkdirAll d) (ioSymlink b dlink)) w = (Inr u, w')"
  shows "fget (fs w') link = Some (FLink b) \<and> fget (fs w') dlink = Some (FLink b)"
proof -
  obtain u1 w1 u2 w2 where l: "ioSymlink b link w = (Inr u1, w1)" and m: "ioMkdirAll d w1 = (Inr u2, w2)"
    and dl: "ioSymlink b dlink w2 = (Inr u, w')"
    using assms by (auto simp: andThen_Inr)
  have "nodeIs link (Some (FLink b)) w1" using ioSymlink_ok [OF l] by (simp add: nodeIs_def)
  then have "nodeIs link (Some (FLink b)) w2" using keepsD [OF keeps_mkdirAll, of link "FLink b" w1 d] m by simp
  then have "nodeIs link (Some (FLink b)) w'" using keepsD [OF keeps_symlink, of link "FLink b" w2 b dlink] dl by simp
  then show ?thesis using ioSymlink_ok [OF dl] by (simp add: nodeIs_def)
qed

lemma activate_links:
  assumes "activate E inh s w = (Inr u, w')"
  shows "(evalSymlinks (fs w) (currentLink s) = Inr (sbasedir s) \<and> w' = w) \<or> sbasedir s = '''' \<and> w' = w \<or>
     (fget (fs w') (currentLink s) = Some (FLink (pathBase (sbasedir s))) \<and>
      fget (fs w') (pathJoin [pathJoin [SnapDataDir E, QualifiedName (SnapP s)], ''current'']) =
        Some (FLink (pathBase (sbasedir s))))"
proof (cases "sbasedir s = evalOrEmpty (fs w) (currentLink s)")
  case True
  then have "w' = w" using assms by (simp add: activate_def)
  then show ?thesis using True by (auto simp: evalOrEmpty_def split: sum.splits)
next
  case False
  then obtain w1 where
    "andThen (ioSymlink (pathBase (sbasedir s)) (currentLink s))
       (andThen (ioMkdirAll (pathJoin [pathJoin [SnapDataDir E, QualifiedName (SnapP s)], snapVersion s]))
         (ioSymlink (pathBase (sbasedir s))
           (pathJoin [pathJoin [SnapDataDir E, QualifiedName (SnapP s)], ''current'']))) w1 = (Inr u, w')"
    using assms by (auto simp: activate_def Let_def andThen_Inr)
  from activate_end [OF this] show ?thesis by blast
qed

lemma currentLink_abs:
  "sbasedir s = absPath (cs @ [v]) \<Longrightarrow> plainNames cs \<Longrightarrow> plainName v \<Longrightarrow> currentLink s = absPath (cs @ [''current''])"
  by (simp add: currentLink_def sibling_abs plainName_def)

lemma activeAt_link:
  assumes "sbasedir s = absPath (cs @ [v])" and "plainNames cs" and "cs \<noteq> []" and "plainName v"
  shows "activeAt f s \<longleftrightarrow> evalSymlinks f (currentLink s) = Inr (sbasedir s)"
proof -
  have "pathJoin [pathDir (sbasedir s), ''current''] = currentLink s"
    using assms currentLink_abs [OF assms(1,2,4)] pathJoin_abs [of cs "[''current'']"]
    by (simp add: pathDir_abs plainName_def)
  then show ?thesis by (simp add: activeAt_def)
qed

text \<open>
  C9. Activating a version that succeeds makes it the active one: if the base directory is
  there afterwards, reached through directories only, the link \<^verbatim>\<open>current\<close> resolves to it, so
  that every repository lists this version as active; and unless it was active before, the
  link in the data directory names the version too.
\<close>

theorem activate_makes_active:
  assumes "activate E inh s w = (Inr (), w')"
    and "sbasedir s = absPath (cs @ [v])" and "plainNames cs" and "cs \<noteq> []" and "plainName v"
    and "dirsTo (fs w') (cs @ [v])"
  shows "activeAt (fs w') s \<and>
    (w' = w \<or> fget (fs w') (pathJoin [pathJoin [SnapDataDir E, QualifiedName (SnapP s)], ''current'']) = Some (FLink v))"
proof -
  note link = currentLink_abs [OF assms(2,3,5)] and act = activeAt_link [OF assms(2-5)]
  have base: "pathBase (sbasedir s) = v" using assms(2,5) by (simp add: pathBase_abs)
  have ne: "sbasedir s \<noteq> ''''" using assms(2) by (simp add: absPath_def)
  have "plainName ''current''" by (simp add: plainName_def)
  from evalSymlinks_sibling [OF assms(3,5) this assms(6)] activate_links [OF assms(1)] ne show ?thesis
    unfolding act base link using assms(2) by auto
qed

section \<open>Deactivation and removal\<close>

lemma ioRemove_result:
  "ioRemove p w = (r, w') \<Longrightarrow> \<not> faults w (hist w) (ERemove p) \<Longrightarrow> fget (fs w') p \<in> {None, Some FDir}"
  by (auto simp: ioRemove_def andThen_def bind_def fallible_def Let_def throw_def modifies_def split: if_splits)

lemma ioRemove_hist: "hist (snd (ioRemove p w)) = ERemove p # hist w \<and> faults (snd (ioRemove p w)) = faults w"
  by (auto simp: ioRemove_def andThen_def bind_def fallible_def Let_def throw_def modifies_def)

lemma keeps_noLink_remove: "keeps (\<lambda>w. fget (fs w) p \<in> {None, Some FDir}) (ioRemove q)"
  by (auto simp: keeps_def ioRemove_def andThen_def bind_def fallible_def Let_def throw_def modifies_def)

text \<open>
  Deactivating a version that succeeds ends with the removal of the two links, and
  unless removing \<^verbatim>\<open>current\<close> fails there is no such link any more; a version that is not the
  active one is refused and nothing changes.
\<close>

lemma deactivate_unlinks:
  fixes w w' :: "'m sworld_scheme"
  assumes "deactivate E inh s w = (r, w')"
  shows "(r = Inr () \<longrightarrow> evalSymlinks (fs w) (currentLink s) = Inr (sbasedir s) \<and>
      (\<exists>h. hist w' = ERemove (pathJoin [SnapDataDir E, QualifiedName (SnapP s), ''current'']) # ERemove (currentLink s) # h
        \<and> (\<not> faults w' h (ERemove (currentLink s)) \<longrightarrow> (\<nexists>t. fget (fs w') (currentLink s) = Some (FLink t)))))
    \<and> (evalSymlinks (fs w) (currentLink s) \<noteq> Inr (sbasedir s) \<longrightarrow> (\<exists>e. r = Inl e) \<and> w' = w)"
proof (cases "evalSymlinks (fs w) (currentLink s) = Inr (sbasedir s)")
  case False
  then show ?thesis using assms by (auto simp: deactivate_def throw_def split: sum.splits if_splits)
next
  case True
  let ?d = "pathJoin [SnapDataDir E, QualifiedName (SnapP s), ''current'']"
  have "\<exists>h. hist w' = ERemove ?d # ERemove (currentLink s) # h
      \<and> (\<not> faults w' h (ERemove (currentLink s)) \<longrightarrow> (\<nexists>t. fget (fs w') (currentLink s) = Some (FLink t)))"
    if ok: "r = Inr ()"
  proof -
    obtain w1 where w': "w' = snd (ioRemove ?d (snd (ioRemove (currentLink s) w1)))"
      using assms True ok by (auto simp: deactivate_def andThen_Inr)
    let ?w2 = "snd (ioRemove (currentLink s) w1)"
    have h: "hist w' = ERemove ?d # ERemove (currentLink s) # hist w1" "faults w' = faults w1"
      using w' ioRemove_hist [of "currentLink s" w1] ioRemove_hist [of ?d ?w2] by simp_all
    have "fget (fs w') (currentLink s) \<in> {None, Some FDir}" if "\<not> faults w1 (hist w1) (ERemove (currentLink s))"
      using keepsD [OF keeps_noLink_remove [of "currentLink s" ?d], of ?w2]
        ioRemove_result [OF prod.collapse [symmetric] that] w' by simp
    then show ?thesis using h by auto
  qed
  then show ?thesis using True by auto
qed

section \<open>Installation\<close>

lemma onError_Inr: "onError m c w = (Inr x, w') \<longleftrightarrow> m w = (Inr x, w')"
  by (cases "m w"; cases "fst (m w)") (auto simp: onError_def andThen_def bind_def throw_def)

lemma onError_Inl:
  assumes "onError m c w = (Inl e, w')" and "\<not> isPanicErr e"
  shows "\<exists>w1. m w = (Inl e, w1) \<and> w' = snd (c w1)"
  using assms by (cases "m w"; cases "fst (m w)") (auto simp: onError_def andThen_def bind_def throw_def split: if_splits)

lemma ioRemoveAll_result:
  "hist (snd (ioRemoveAll p w)) = ERemoveAll p # hist w
   \<and> faults (snd (ioRemoveAll p w)) = faults w
   \<and> (\<not> faults w (hist w) (ERemoveAll p) \<longrightarrow> inTree p q \<longrightarrow> fget (fs (snd (ioRemoveAll p w))) q = None)"
  by (auto simp: ioRemoveAll_def andThen_def bind_def fallible_def Let_def modifies_def)

text \<open>Nothing of what follows the activation touches a link.\<close>

lemma keeps_SystemctlCmd [keeps_intros]: "keeps (nodeIs p n) (SystemctlCmd args)"
  unfolding SystemctlCmd_def by (intro keeps_intros)

lemma keeps_Start [keeps_intros]: "keeps (nodeIs p n) (Start svc)"
  unfolding Start_def by (intro keeps_intros)

lemma keeps_pollStop [keeps_intros]: "keeps (nodeIs p n) (pollStop k svc)"
proof (induction "nat k" arbitrary: k)
  case 0
  then show ?case by (subst pollStop.simps) (simp add: keeps_ret)
next
  case (Suc j)
  then have "j = nat (k - 1)" by simp
  from Suc(1) [OF this] show ?case by (subst pollStop.simps) (intro keeps_intros)
qed

lemma keeps_stopLoop [keeps_intros]: "keeps (nodeIs p n) (stopLoop deadline svc)"
proof -
  have "nodeIs p n w \<Longrightarrow> nodeIs p n (snd (stopLoop deadline svc w))" for w :: "'a sworld_scheme"
  proof (induction deadline svc w rule: stopLoop.induct)
    case (1 deadline svc w)
    have step: "nodeIs p n (snd (pollStop stopSteps svc w))" using keepsD [OF keeps_pollStop 1(2)] .
    show ?case
      using 1 step by (subst stopLoop.simps) (auto split: prod.splits sum.splits)
  qed
  then show ?thesis by (simp add: keeps_def)
qed

lemma keeps_Stop [keeps_intros]: "keeps (nodeIs p n) (Stop svc t)"
  unfolding Stop_def by (intro keeps_intros)

lemma keeps_New: 
  assumes "p \<noteq> mountTarget"
  shows "keeps (nodeIs p n) (New lsblk)"
proof -
  have mk: "keeps (nodeIs p n) (osMkdirAll mountTarget)"
    unfolding osMkdirAll_def using assms by (intro keeps_intros) (simp add: nodeIs_def)
  have cmd: "keeps (nodeIs p n) (runCommand args)" for args
    unfolding runCommand_def by (intro keeps_intros)
  have mt: "keeps (nodeIs p n) (mountOtherRootfs q True)" for q :: Partition
    unfolding mountOtherRootfs_def fsck_def mountAndAddToGlobalMountList_def mount_def Let_def nilDeref_def
    by (intro keeps_intros keeps_splits mk cmd) (simp_all add: nodeIs_def)
  have "keeps (nodeIs p n) (fst (getPartitionDetails lsblk q))" for q
    by (auto simp: getPartitionDetails_def Let_def ensureOtherMountedRO_def split: sum.splits
        intro!: keeps_intros keeps_splits mt cmd)
  then have d: "keeps (nodeIs p n) m" if "getPartitionDetails lsblk q = (m, q')" for m q q'
    using that by (metis fst_conv)
  have r: "keeps (nodeIs p n) (case x of Inl (Panic s) \<Rightarrow> throw (Panic s) | _ \<Rightarrow> ret q)" for x q
    by (auto split: sum.splits perr.splits intro!: keeps_intros)
  have pr: "(\<And>m q'. x = (m, q') \<Longrightarrow> keeps P (h m q')) \<Longrightarrow> keeps P (case x of (m, q') \<Rightarrow> h m q')"
    for P :: "'c \<Rightarrow> bool" and x :: "'d \<times> 'e" and h :: "'d \<Rightarrow> 'e \<Rightarrow> ('c, 'f, 'g) io"
    by (cases x) simp
  show ?thesis unfolding New_def by (rule pr) (intro keeps_intros d r; assumption)
qed

lemma keeps_siInstalled [keeps_intros]: "keeps (nodeIs p n) (siInstalled E q)"
proof -
  have mp: "keeps (nodeIs p n) (makePartFromSystemImageConfigFile E q x b)" for x b
    unfolding makePartFromSystemImageConfigFile_def Let_def by (intro keeps_intros keeps_splits)
  have rd: "keeps (nodeIs p n) (readOtherPart E q x)" for x
    unfolding readOtherPart_def by (intro keeps_intros mp)
  have "keeps (nodeIs p n) (RunWithOther q RO (\<lambda>r. andThen (toPerr (readOtherPart E q r)) (ret ())))"
    by (cases "dualRootPartitions q")
       (simp_all add: RunWithOther_def toPerr_def keeps_throw keeps_andThen keeps_mapErr keeps_ret rd)
  then show ?thesis
    unfolding siInstalled_def makeCurrentPart_def makeOtherPart_def orNil_def
    by (intro keeps_intros mp rd)
qed

lemma keeps_allInstalled:
  assumes "p \<noteq> mountTarget"
  shows "keeps (nodeIs p n) (allInstalled E)"
proof -
  have "keeps (nodeIs p n) (repoInstalled E r)" for r
    by (cases r) (auto simp: partsForGlobExpr_def intro!: keeps_intros)
  then have "keeps (nodeIs p n) (metaInstalled E rs)" for rs
    by (induction rs) (auto intro!: keeps_intros)
  then show ?thesis
    unfolding allInstalled_def NewMetaRepository_def NewMetaLocalRepository_def
    by (intro keeps_intros keeps_New [OF assms])
qed

lemma keeps_Dependents: "p \<noteq> mountTarget \<Longrightarrow> keeps (nodeIs p n) (Dependents E s)"
  unfolding Dependents_def by (intro keeps_intros keeps_allInstalled)

lemma keeps_refreshSecurity:
  assumes "p \<noteq> mountTarget"
  shows "keeps (nodeIs p n) (refreshSecurity E s oldPart)"
proof -
  have start: "keeps (nodeIs p n) (startAll xs)" for xs
    unfolding startAll_def by (intro keeps_intros keeps_splits)
  have stop: "keeps (nodeIs p n) (stopServices svcs xs)" for svcs xs
  proof (induction svcs arbitrary: xs)
    case (Cons a svcs)
    show ?case by (cases a) (auto intro!: keeps_intros keeps_splits start Cons)
  qed (simp only: stopServices.simps keeps_ret)
  have restart: "keeps (nodeIs p n) (restartServices xs svcs ys)" for xs svcs ys
  proof (induction svcs arbitrary: ys)
    case (Cons a svcs)
    show ?case by (cases a) (auto intro!: keeps_intros keeps_splits start Cons)
  qed (simp only: restartServices.simps keeps_ret)
  have upd: "keeps (nodeIs p n) (RequestAppArmorUpdate E d a b)" for d a b
    unfolding RequestAppArmorUpdate_def updateAppArmorJSONTimestamp_def UpdateTimestamp_def
    by (intro keeps_intros)
  show ?thesis
    unfolding refreshSecurity_def RefreshDependentsSecurity_def
    by (intro keeps_intros keeps_splits keeps_Dependents [OF assms] stop restart upd)
qed

lemma activateNew_ok:
  assumes "activateNew E inh s oldPart w = (Inr n, w')" and "currentLink s \<noteq> mountTarget" and "sbasedir s \<noteq> ''''"
  shows "n = yName (sm s) \<and>
    (fget (fs w') (currentLink s) = Some (FLink (pathBase (sbasedir s)))
     \<or> evalSymlinks (fs w) (currentLink s) = Inr (sbasedir s) \<and> activate E inh s w = (Inr (), w))"
proof -
  obtain w1 where a: "activate E inh s w = (Inr (), w1)" and n: "n = yName (sm s)"
    and rest: "whenIO (\<not> inh) (refreshSecurity E s oldPart) w1 = (Inr (), w')"
    using assms(1) by (auto simp: activateNew_def onError_Inr andThen_Inr)
  have k: "keeps (nodeIs (currentLink s) (Some m)) (whenIO (\<not> inh) (refreshSecurity E s oldPart))" for m
    by (intro keeps_whenIO keeps_refreshSecurity assms(2))
  from activate_links [OF a] show ?thesis
  proof (elim disjE conjE)
    assume "fget (fs w1) (currentLink s) = Some (FLink (pathBase (sbasedir s)))"
    then show ?thesis using n keepsD [OF k, of "FLink (pathBase (sbasedir s))" w1] rest by (simp add: nodeIs_def)
  qed (use n a assms(3) in auto)
qed

lemma installFiles_ok:
  assumes "installFiles E inh s d md oldPart w = (Inr n, w')"
  shows "\<exists>w1. activateNew E inh s oldPart w1 = (Inr n, w')"
  using assms
  by (cases oldPart) (auto simp: installFiles_def installData_def Let_def onError_Inr andThen_Inr)


text \<open>
  C10. An installation that fails once unpacking has begun ends by removing the base
  directory of the new version: it is the last call of all, and unless it fails nothing is
  left below that directory.
\<close>

theorem installFiles_cleans_up:
  assumes "installFiles E inh s d md oldPart w = (Inl e, w')" and "\<not> isPanicErr e"
  shows "\<exists>h. hist w' = ERemoveAll (sbasedir s) # h \<and>
     (\<not> faults w' h (ERemoveAll (sbasedir s)) \<longrightarrow> (\<forall>q. inTree (sbasedir s) q \<longrightarrow> fget (fs w') q = None))"
proof -
  obtain w1 where "w' = snd (ioRemoveAll (sbasedir s) w1)"
    using onError_Inl [OF assms(1) [unfolded installFiles_def Let_def] assms(2)] by blast
  then show ?thesis using ioRemoveAll_result [of "sbasedir s" w1] by auto
qed

section \<open>Removal\<close>

lemma keeps_None_RemoveAllHW: "keeps (nodeIs p None) (RemoveAllHWAccess E n)"
  unfolding RemoveAllHWAccess_def by (intro keeps_intros)

lemma snapRemove_gone:
  assumes "snapRemove E s w = (Inr (), w')" and "inTree (sbasedir s) q"
  shows "nodeIs q None w'"
proof -
  obtain w1 w2 where ra: "ioRemoveAll (sbasedir s) w1 = (Inr (), w2)"
    and rest: "andThen (ignoring (ioRemove (pathDir (sbasedir s))))
      (bind (gets (\<lambda>w. exists (fs w) (iconPath E (SnapP s)))) (\<lambda>ex.
         whenIO ex (ignoring (ioRemove (iconPath E (SnapP s)))))) w2 = (Inr (), w')"
    using assms(1) by (auto simp: snapRemove_def andThen_Inr)
  have "nodeIs q None w2"
    using ra assms(2)
    by (auto simp: ioRemoveAll_def andThen_def bind_def fallible_def Let_def nodeIs_def modifies_def split: if_splits)
  moreover have "keeps (nodeIs q None) (andThen (ignoring (ioRemove (pathDir (sbasedir s))))
      (bind (gets (\<lambda>w. exists (fs w) (iconPath E (SnapP s)))) (\<lambda>ex.
         whenIO ex (ignoring (ioRemove (iconPath E (SnapP s)))))))"
    by (intro keeps_intros)
  ultimately show ?thesis using rest keepsD [of "nodeIs q None" _ w2] by (metis snd_conv)
qed

text \<open>
  C11. A package that was uninstalled is gone: nothing is left below its base directory. It
  was not an active oem package, not active built-in software, and no installed package
  named it as a framework.
\<close>

theorem snapUninstall_gone:
  assumes "snapUninstall E s w = (Inr (), w')"
  shows "(\<forall>q. inTree (sbasedir s) q \<longrightarrow> fget (fs w') q = None)
    \<and> \<not> (yType (sm s) = TypeOem \<and> sisActive s)
    \<and> (sisActive s \<longrightarrow> fst (IsBuiltInSoftware E (yName (sm s)) w) = Inr False)
    \<and> fst (DependentNames E s (snd (IsBuiltInSoftware E (yName (sm s)) w))) = Inr []"
proof -
  obtain b w1 w2 w3 where t: "\<not> (yType (sm s) = TypeOem \<and> sisActive s)"
    and b: "IsBuiltInSoftware E (yName (sm s)) w = (Inr b, w1)" "\<not> (b \<and> sisActive s)"
    and deps: "DependentNames E s w1 = (Inr [], w2)" and r: "snapRemove E s w2 = (Inr (), w3)"
    and h: "RemoveAllHWAccess E (QualifiedName (SnapP s)) w3 = (Inr (), w')"
    using assms by (auto simp: snapUninstall_def bind_Inr andThen_Inr split: if_splits)
  have "fget (fs w') q = None" if "inTree (sbasedir s) q" for q
    using keepsD [OF keeps_None_RemoveAllHW snapRemove_gone [OF r that], of E "QualifiedName (SnapP s)"] h
    by (simp add: nodeIs_def)
  then show ?thesis using t b deps by auto
qed

section \<open>A small package\<close>

definition fooPackage :: PackageFile where
  "fooPackage = emptyPackage\<lparr>pfControlMember := (\<lambda>_. Inr '''')\<rparr>"

definition fooEnv :: genv where
  "fooEnv = (demoEnv (demoYaml ''f''))
     \<lparr>manifestDec := (\<lambda>_. Inr \<lparr>cmName = ''f'', cmVersion = ''1'', cmType = ''app'', cmHooks = []\<rparr>)\<rparr>"

definition fooSnap :: SnapPart where
  "fooSnap = \<lparr>sm = (demoYaml ''f'')\<lparr>yServiceYamls := [], yIntegration := Some [], yArchitectures := Some [''all'']\<rparr>,
     sremoteM = None, sorigin = ''m'', shash = '''', sisActive = False, sisInstalled = False,
     sdescription = '''', sdeb = Some fooPackage, sbasedir = ''/apps/f.m/1''\<rparr>"

definition fooWorld :: "fsys \<Rightarrow> sworld" where
  "fooWorld f = quietWorld (\<lambda>_ _. '''') f"

lemma fooSnap_base: "sbasedir fooSnap = absPath ([''apps'', ''f.m''] @ [''1''])"
  by code_simp

lemma foo_names: "plainNames [''apps'', ''f.m'']" "plainName ''1''" "[''apps'', ''f.m''] \<noteq> []"
  by (simp_all add: plainName_def)

definition fooInstalled :: "(serr, string) res \<times> sworld" where
  "fooInstalled = snapInstall fooEnv True 2 fooSnap (fooWorld [])"

lemma fooInstalled_run: "fst fooInstalled = Inr ''f''"
  by code_simp


definition fooUnpacked :: sworld where
  "fooUnpacked = fooWorld [(''/apps'', FDir), (''/apps/f.m'', FDir), (''/apps/f.m/1'', FDir)]"

definition fooActive :: "(serr, unit) res \<times> sworld" where
  "fooActive = activate fooEnv False fooSnap fooUnpacked"

lemma fooActive_run:
  "fst fooActive = Inr ()"
  "dirsTo (fs (snd fooActive)) ([''apps'', ''f.m''] @ [''1''])"
  by code_simp+

theorem activate_makes_active_witness:
  "fst fooActive = Inr () \<and> activeAt (fs (snd fooActive)) fooSnap"
proof -
  have run: "activate fooEnv False fooSnap fooUnpacked = (Inr (), snd fooActive)"
    using fooActive_run(1) by (metis fooActive_def prod.collapse)
  from activate_makes_active [OF run fooSnap_base foo_names(1,3,2) fooActive_run(2)] fooActive_run(1)
  show ?thesis by simp
qed

definition fooRemoved :: "(serr, unit) res \<times> sworld" where
  "fooRemoved = snapUninstall fooEnv (fooSnap\<lparr>sisInstalled := True, sisActive := True\<rparr>) (snd fooActive)"

lemma fooRemoved_run: "fst fooRemoved = Inr ()"
  by code_simp

theorem snapUninstall_gone_witness:
  "fst fooRemoved = Inr () \<and> fget (fs (snd fooRemoved)) ''/apps/f.m/1'' = None"
proof -
  have run: "snapUninstall fooEnv (fooSnap\<lparr>sisInstalled := True, sisActive := True\<rparr>) (snd fooActive) = (Inr (), snd fooRemoved)"
    using fooRemoved_run by (metis fooRemoved_def prod.collapse)
  have "inTree (sbasedir (fooSnap\<lparr>sisInstalled := True, sisActive := True\<rparr>)) ''/apps/f.m/1''" by code_simp
  then show ?thesis using snapUninstall_gone [OF run] fooRemoved_run by blast
qed

section \<open>When the refresh fails\<close>

definition fooBroken :: sworld where
  "fooBroken = fooUnpacked\<lparr>faults := (\<lambda>h e. e = ECmd [''aa-clickhook''])\<rparr>"

definition fooFailed :: "(serr, string) res \<times> sworld" where
  "fooFailed = installFiles fooEnv False fooSnap fooPackage '''' None fooBroken"

lemma fooFailed_run: "fst fooFailed = Inl (OsErr KIO (ECmd [''aa-clickhook'']))"
  by code_simp

theorem installFiles_cleans_up_witness:
  "\<exists>h. hist (snd fooFailed) = ERemoveAll ''/apps/f.m/1'' # h"
proof -
  have run: "installFiles fooEnv False fooSnap fooPackage '''' None fooBroken
      = (Inl (OsErr KIO (ECmd [''aa-clickhook''])), snd fooFailed)"
    using fooFailed_run by (metis fooFailed_def prod.collapse)
  have "\<not> isPanicErr (OsErr KIO (ECmd [''aa-clickhook'']))" by (simp add: isPanicErr_def)
  from installFiles_cleans_up [OF run this] show ?thesis by (auto simp: fooSnap_def)
qed


definition userEnv :: genv where
  "userEnv = demoEnv ((demoYaml ''f'')\<lparr>yFrameworks := [''w'']\<rparr>)"

definition userWorld :: sworld where
  "userWorld = (quietWorld (\<lambda>_ _. ''ActiveState=failed'')
      [(''/apps'', FDir), (''/apps/f'', FDir), (''/apps/f/1'', FDir), (''/apps/f/1/meta'', FDir),
       (''/apps/f/1/meta/package.yaml'', FFile ''''), (''/apps/f/1/meta/hashes.yaml'', FFile ''''),
       (''/apps/f/current'', FLink ''1'')])
     \<lparr>faults := (\<lambda>h e. e = ECmd [''aa-clickhook''])\<rparr>"

definition userRefresh :: "(serr, unit) res \<times> sworld" where
  "userRefresh = refreshSecurity userEnv
     (fooSnap\<lparr>sm := (demoYaml ''w'')\<lparr>yType := TypeFramework\<rparr>, sbasedir := ''/apps/w/2''\<rparr>) None userWorld"

text \<open>
  When refreshing the security of the dependents of a framework fails, the services of
  the dependents that were stopped for it are not started again: here the service of the
  one dependent was stopped, and no start command follows.
\<close>

lemma failed_refresh_leaves_stopped:
  "fst userRefresh = Inl (OsErr KIO (ECmd [''aa-clickhook''])) \<and>
   hist (snd userRefresh) =
     [ECmd [''aa-clickhook''], ECmd [''systemctl'', ''show'', ''--property=ActiveState'', ''f_web_1.service''],
      ECmd [''systemctl'', ''stop'', ''f_web_1.service'']]"
  by code_simp

end
