(* ===== verification/Store.thy ===== *)
theory Store
  imports Lifecycle
begin

text \<open>
  Packages and updates from the network: \<^verbatim>\<open>RemoteSnapPart\<close> and the updates of the store in
  \<^verbatim>\<open>snappy/snapp.go\<close>, the check for a new system image in \<^verbatim>\<open>snappy/systemimage_native.go\<close>,
  the methods of the interface \<^verbatim>\<open>Part\<close> that change the system, and searching. What the
  servers answer, the decoders of their answers, the parser of addresses and the names of
  temporary files are the fields of \<open>netenv\<close>.
\<close>

section \<open>The network\<close>

text \<open>
  No connection, a status other than 200, a body, or a body that is cut off by an error.
\<close>

datatype httpAnswer = HttpErr string | HttpStatus int | HttpBody string | HttpCut string string

record channelImage =
  ciVersion :: int
  ciVersionDetails :: string
  ciSizes :: "int list"

record netenv =
  newRequest :: "string \<Rightarrow> string option"
  httpGet :: "string \<Rightarrow> httpAnswer"
  bulkPost :: "string list \<Rightarrow> (serr, remoteSnap list) res"
  searchGet :: "string \<Rightarrow> (serr, remoteSnap list) res"
  channelDec :: "string \<Rightarrow> (string, channelImage list) res"
  remoteEnc :: "remoteSnap \<Rightarrow> string"
  tempFile :: "fsys \<Rightarrow> string \<Rightarrow> string"
  systemImageServer :: string

section \<open>New system images\<close>

record updateStatus =
  targetVersion :: string
  targetVersionDetails :: string
  updateSize :: int

text \<open>The last image of the index; an index without images is read out of range.\<close>

definition systemImageClientCheckForUpdates ::
    "genv \<Rightarrow> netenv \<Rightarrow> string \<Rightarrow> ('m world_scheme, serr, updateStatus) io" where
  "systemImageClientCheckForUpdates E N configFile =
     bind (ioReadFile configFile) (\<lambda>content.
       case siIni E content of
         Inl e \<Rightarrow> throw (Errorf e)
       | Inr get \<Rightarrow>
           (let val = (\<lambda>k. case get k of Inl _ \<Rightarrow> '''' | Inr v \<Rightarrow> v);
                indexURL = systemImageServer N @ ''/'' @ pathJoin [val ''channel'', val ''device'', ''index.json'']
            in case httpGet N indexURL of
                 HttpErr e \<Rightarrow> throw (Errorf e)
               | HttpStatus c \<Rightarrow>
                   throw (Errorf (''systemImageDbusProxy: unexpected http statusCode '' @ itoa c @ '' for '' @ indexURL))
               | HttpCut body e \<Rightarrow> throw (Errorf e)
               | HttpBody body \<Rightarrow>
                   (case channelDec N body of
                      Inl e \<Rightarrow> throw (Errorf e)
                    | Inr images \<Rightarrow>
                        if images = [] then throw (GoPanic ''index out of range'')
                        else
                          (let latest = last images
                           in ret \<lparr>targetVersion = itoa (ciVersion latest),
                                   targetVersionDetails = ciVersionDetails latest,
                                   updateSize = sum_list (ciSizes latest)\<rparr>))))"

definition siUpdates :: "genv \<Rightarrow> netenv \<Rightarrow> Partition \<Rightarrow> ('m pworld_scheme, serr, Part list) io" where
  "siUpdates E N p =
     bind (systemImageClientCheckForUpdates E N (pathJoin [GlobalRootDir E, systemImageChannelConfig])) (\<lambda>us.
     bind (makeCurrentPart E p) (\<lambda>current.
       case current of
         None \<Rightarrow> throw (GoPanic ''nil pointer dereference'')
       | Some c \<Rightarrow>
           (if siVersion c \<noteq> targetVersion us
            then ret [SysP \<lparr>siVersion = targetVersion us, siVersionDetails = targetVersionDetails us,
                            siChannelName = siChannelName c, siIsInstalled = False, siIsActive = False,
                            siUpdateSize = updateSize us, siPartition = p\<rparr>]
            else ret [])))"

definition siSearch :: "genv \<Rightarrow> Partition \<Rightarrow> string \<Rightarrow> ('m world_scheme, serr, SystemImagePart option list) io" where
  "siSearch E p terms =
     (if containsSub terms SystemImagePartName then bind (makeCurrentPart E p) (\<lambda>c. ret [c]) else ret [])"

section \<open>The store\<close>

text \<open>
  \<^verbatim>\<open>SnapUbuntuStoreRepository.Updates\<close>: the store is told the active packages and answers
  with what it has of them; those with another version than the active one are updates.
\<close>

fun newerParts :: "genv \<Rightarrow> remoteSnap list \<Rightarrow> ('m pworld_scheme, serr, Part list) io" where
  "newerParts E [] = ret []"
| "newerParts E (r # rs) =
     bind (ActiveSnapByName E (rsName r)) (\<lambda>current.
     bind (newerParts E rs) (\<lambda>parts.
       ret (if (case current of None \<Rightarrow> True | Some c \<Rightarrow> PartVersion c \<noteq> rsVersion r)
            then RemoteP r # parts else parts)))"

definition storeUpdates :: "genv \<Rightarrow> netenv \<Rightarrow> ('m pworld_scheme, serr, Part list) io" where
  "storeUpdates E N =
     bind (ActiveSnapIterByType E fullNameWithChannel [TypeApp, TypeFramework, TypeOem]) (\<lambda>installed.
       if installed = [] then ret []
       else bind (fromRes (bulkPost N installed)) (newerParts E))"

fun repoUpdates :: "genv \<Rightarrow> netenv \<Rightarrow> Repository \<Rightarrow> ('m pworld_scheme, serr, Part list) io" where
  "repoUpdates E N (SystemImageRepository p) = siUpdates E N p"
| "repoUpdates E N (SnapLocalRepository path) = ret []"
| "repoUpdates E N SnapUbuntuStoreRepository = storeUpdates E N"

fun metaUpdates :: "genv \<Rightarrow> netenv \<Rightarrow> Repository list \<Rightarrow> ('m pworld_scheme, serr, Part list) io" where
  "metaUpdates E N [] = ret []"
| "metaUpdates E N (r # rs) =
     bind (repoUpdates E N r) (\<lambda>updates.
     bind (metaUpdates E N rs) (\<lambda>parts. ret (updates @ parts)))"

definition ListInstalled :: "genv \<Rightarrow> ('m pworld_scheme, serr, Part list) io" where
  "ListInstalled E = bind (NewMetaRepository E) (metaInstalled E)"

definition ListUpdates :: "genv \<Rightarrow> netenv \<Rightarrow> ('m pworld_scheme, serr, Part list) io" where
  "ListUpdates E N = bind (NewMetaRepository E) (metaUpdates E N)"

subsection \<open>Searching\<close>

record SharedName =
  snAlias :: "remoteSnap option"
  snParts :: "remoteSnap list"

definition IsAlias :: "SharedName \<Rightarrow> string \<Rightarrow> bool" where
  "IsAlias f origin = (case snAlias f of Some r \<Rightarrow> rsOrigin r = origin | None \<Rightarrow> False)"

definition addShared :: "remoteSnap \<Rightarrow> (string, SharedName) gomap \<Rightarrow> (string, SharedName) gomap" where
  "addShared r m =
     (let s = (case mget m (rsName r) of None \<Rightarrow> \<lparr>snAlias = None, snParts = []\<rparr> | Some s \<Rightarrow> s);
          s = s\<lparr>snParts := snParts s @ [r]\<rparr>
      in mput m (rsName r) (if rsAlias r \<noteq> '''' then s\<lparr>snAlias := Some r\<rparr> else s))"

definition Search :: "netenv \<Rightarrow> string list \<Rightarrow> (serr, (string, SharedName) gomap) res" where
  "Search N args = rbind (searchGet N (join args '','')) (\<lambda>ps. Inr (fold addShared ps []))"

section \<open>Installing from the store\<close>

definition download :: "netenv \<Rightarrow> string \<Rightarrow> string \<Rightarrow> ('m world_scheme, serr, unit) io" where
  "download N p url =
     (case httpGet N url of
        HttpErr e \<Rightarrow> throw (Errorf e)
      | HttpStatus c \<Rightarrow> throw (ErrDownload c url)
      | HttpBody body \<Rightarrow> ioWriteFile p body
      | HttpCut body e \<Rightarrow> andThen (ioWriteFile p body) (throw (Errorf e)))"

text \<open>
  \<^verbatim>\<open>Download\<close>. Only the errors of \<^verbatim>\<open>TempFile\<close> and \<^verbatim>\<open>NewRequest\<close> are in the variable that the
  deferred removal of the temporary file looks at; the error of the transfer is in a variable
  of its own.
\<close>

definition Download :: "netenv \<Rightarrow> remoteSnap \<Rightarrow> ('m world_scheme, serr, string) io" where
  "Download N r =
     bind (gets (\<lambda>w. tempFile N (fs w) (rsName r))) (\<lambda>tmp.
     andThen (ioWriteFile tmp '''')
       (let url = (if rsAnonDownloadURL r = '''' then rsDownloadURL r else rsAnonDownloadURL r)
        in case newRequest N url of
             Some e \<Rightarrow> andThen (ignoring (ioRemove tmp)) (throw (Errorf e))
           | None \<Rightarrow> andThen (download N tmp url) (ret tmp)))"

definition downloadIcon :: "genv \<Rightarrow> netenv \<Rightarrow> remoteSnap \<Rightarrow> ('m world_scheme, serr, unit) io" where
  "downloadIcon E N r =
     andThen (ioMkdirAll (SnapIconsDir E))
    (bind (gets (\<lambda>w. exists (fs w) (iconPath E (RemoteP r)))) (\<lambda>ex.
       if ex then ret ()
       else
         (case newRequest N (rsIconURL r) of
            Some e \<Rightarrow> throw (Errorf e)
          | None \<Rightarrow>
              andThen (ioWriteFile (iconPath E (RemoteP r)) '''')
                (download N (iconPath E (RemoteP r)) (rsIconURL r)))))"

definition saveStoreManifest :: "genv \<Rightarrow> netenv \<Rightarrow> remoteSnap \<Rightarrow> ('m world_scheme, serr, unit) io" where
  "saveStoreManifest E N r =
     andThen (ioMkdirAll (SnapMetaDir E))
       (ioWriteFile (RemoteManifestPath E (RemoteP r)) (remoteEnc N r))"

definition remoteInstall :: "genv \<Rightarrow> netenv \<Rightarrow> bool \<Rightarrow> int \<Rightarrow> remoteSnap \<Rightarrow> ('m sworld_scheme, serr, string) io" where
  "remoteInstall E N ag flags r =
     bind (Download N r) (\<lambda>downloadedSnap.
       deferIO
         (andThen (downloadIcon E N r)
         (andThen (saveStoreManifest E N r)
           (installClick E ag downloadedSnap flags (rsOrigin r))))
         (\<lambda>res. andThen (ignoring (ioRemove downloadedSnap)) (fromRes res)))"

section \<open>Parts that change the system\<close>

fun partInstall :: "genv \<Rightarrow> netenv \<Rightarrow> bool \<Rightarrow> int \<Rightarrow> Part \<Rightarrow> ('m sworld_scheme, serr, string) io" where
  "partInstall E N ag flags (SnapP s) = snapInstall E ag flags s"
| "partInstall E N ag flags (SysP s) = siInstall E (bootAssetFilePaths E) s"
| "partInstall E N ag flags (RemoteP r) = remoteInstall E N ag flags r"

fun partUninstall :: "genv \<Rightarrow> Part \<Rightarrow> ('m sworld_scheme, serr, unit) io" where
  "partUninstall E (SnapP s) = snapUninstall E s"
| "partUninstall E (SysP s) = throw (SErr ErrPackageNotRemovable)"
| "partUninstall E (RemoteP r) = throw (SErr ErrNotInstalled)"

fun partSetActive :: "genv \<Rightarrow> Part \<Rightarrow> bool \<Rightarrow> ('m sworld_scheme, serr, unit) io" where
  "partSetActive E (SnapP s) active = snapSetActive E s active"
| "partSetActive E (SysP s) active = siSetActive E s active"
| "partSetActive E (RemoteP r) active = throw (SErr ErrNotInstalled)"

section \<open>Properties\<close>

subsection \<open>Searching\<close>

definition orFresh :: "SharedName option \<Rightarrow> SharedName" where
  "orFresh s = (case s of None \<Rightarrow> \<lparr>snAlias = None, snParts = []\<rparr> | Some s \<Rightarrow> s)"

definition extendShared :: "SharedName \<Rightarrow> remoteSnap list \<Rightarrow> SharedName" where
  "extendShared s found =
     \<lparr>snAlias = foldl (\<lambda>a r. if rsAlias r \<noteq> '''' then Some r else a) (snAlias s) found,
      snParts = snParts s @ found\<rparr>"

lemma mget_addShared:
  "mget (addShared r m) n =
     (if rsName r = n then Some (extendShared (orFresh (mget m n)) [r]) else mget m n)"
  by (auto simp: addShared_def Let_def orFresh_def extendShared_def split: option.splits)

lemma fold_addShared:
  "mget (fold addShared rs m) n =
     (let found = filter (\<lambda>r. rsName r = n) rs
      in if found = [] then mget m n else Some (extendShared (orFresh (mget m n)) found))"
  by (induction rs arbitrary: m) (auto simp: Let_def mget_addShared extendShared_def orFresh_def)

lemma foldl_last:
  "foldl (\<lambda>a r. if P r then Some r else a) None rs =
     (if filter P rs = [] then None else Some (last (filter P rs)))"
  by (induction rs rule: rev_induct) simp_all

text \<open>
  A search groups what the store returned by package name: under every name are exactly
  the results of that name in the order of the answer, the alias is the last of them that
  claims one, and a name without results is not in the answer.
\<close>

lemma Search_groups_by_name:
  assumes "searchGet N (join args '','') = Inr rs"
  shows "\<exists>m. Search N args = Inr m \<and>
    (\<forall>n. mget m n =
       (let found = filter (\<lambda>r. rsName r = n) rs; aliases = filter (\<lambda>r. rsAlias r \<noteq> '''') found
        in if found = [] then None
           else Some \<lparr>snAlias = (if aliases = [] then None else Some (last aliases)), snParts = found\<rparr>))"
proof -
  have "mget (fold addShared rs []) n =
       (let found = filter (\<lambda>r. rsName r = n) rs; aliases = filter (\<lambda>r. rsAlias r \<noteq> '''') found
        in if found = [] then None
           else Some \<lparr>snAlias = (if aliases = [] then None else Some (last aliases)), snParts = found\<rparr>)" for n
    unfolding fold_addShared Let_def extendShared_def
    by (simp add: mget_def [of "[]"] orFresh_def foldl_last)
  with assms show ?thesis by (simp add: Search_def)
qed

subsection \<open>Downloading\<close>

lemma ioWriteFile_result:
  "ioWriteFile p c w = (Inr (), w') \<Longrightarrow> fget (fs w') (writeTarget (fs w) p) = Some (FFile c)"
  by (auto simp: ioWriteFile_def setNode_def fallible_def andThen_def bind_def Let_def split: if_splits)

text \<open>
  A download that fails leaves its temporary file behind: the error of the transfer is
  assigned to a variable that shadows the one the deferred cleanup looks at.
\<close>

lemma Download_leaves_temp:
  assumes "rsAnonDownloadURL r = url" and "url \<noteq> ''''" and "newRequest N url = None"
    and "httpGet N url = HttpStatus c"
    and "tempFile N (fs w) (rsName r) = tmp" and "ioWriteFile tmp '''' w = (Inr (), w')"
  shows "Download N r w = (Inl (ErrDownload c url), w')
    \<and> fget (fs w') (writeTarget (fs w) tmp) = Some (FFile '''')"
proof -
  have "Download N r w = (Inl (ErrDownload c url), w')"
    using assms by (simp add: Download_def download_def andThen_def bind_def)
  moreover have "fget (fs w') (writeTarget (fs w) tmp) = Some (FFile '''')"
    by (rule ioWriteFile_result [OF assms(6)])
  ultimately show ?thesis by simp
qed

subsection \<open>Witnesses\<close>

definition demoRemote :: "string \<Rightarrow> string \<Rightarrow> string \<Rightarrow> remoteSnap" where
  "demoRemote n orig al = \<lparr>rsName = n, rsVersion = ''1'', rsOrigin = orig, rsType = ''app'', rsChannel = ''edge'',
     rsDescription = '''', rsTitle = '''', rsPublisher = '''', rsAlias = al, rsDownloadSize = 1, rsDownloadSha512 = '''',
     rsIconURL = ''i'', rsAnonDownloadURL = ''u'', rsDownloadURL = '''', rsLastUpdated = '''', rsSupportURL = ''''\<rparr>"

definition demoNet :: netenv where
  "demoNet = \<lparr>newRequest = (\<lambda>_. None), httpGet = (\<lambda>_. HttpStatus 404), bulkPost = (\<lambda>_. Inr []),
     searchGet = (\<lambda>_. Inr [demoRemote ''f'' ''a'' '''', demoRemote ''g'' ''a'' '''', demoRemote ''f'' ''b'' ''f'']),
     channelDec = (\<lambda>_. Inr []), remoteEnc = rsName, tempFile = (\<lambda>_ n. ''/'' @ n @ ''1''), systemImageServer = ''s''\<rparr>"

end
