(* ===== verification/Services.thy ===== *)
theory Services
  imports Store "HOL-Library.Signed_Division"
begin

text \<open>
  The services of the installed packages and their configuration: \<^verbatim>\<open>snappy/service.go\<close>, the
  journal in \<^verbatim>\<open>systemd/systemd.go\<close>, \<^verbatim>\<open>snappy/config.go\<close> and \<^verbatim>\<open>makeSnapHookEnv\<close>. The decoder of
  the journal, the format of times and the configuration scripts of the packages are the
  fields of \<open>runenv\<close>.
\<close>

section \<open>The journal\<close>

text \<open>A value of a log entry: a string, or something else by what \<^verbatim>\<open>%#v\<close> prints of it.\<close>

datatype logValue = LogStr string | LogOther string

type_synonym Log = "string \<rightharpoonup> logValue"

record runenv =
  logDec :: "string \<Rightarrow> (string, Log list) res"
  formatTime :: "int \<Rightarrow> int \<Rightarrow> string"
  osEnviron :: "string list"
  runScript :: "string list \<Rightarrow> string \<Rightarrow> (string \<rightharpoonup> string) \<Rightarrow> fsys \<Rightarrow> (string \<times> string, string) res \<times> fsys"

definition jctl :: "string list \<Rightarrow> ('m sworld_scheme, serr, string) io" where
  "jctl svcs =
     (let cmd = [''journalctl'', ''-o'', ''json''] @ concat (map (\<lambda>s. [''-u'', s]) svcs)
      in mapErr (\<lambda>(code, out). SystemdError cmd (case code of None \<Rightarrow> 0 | Some c \<Rightarrow> c) out) (execCmd cmd))"

definition Logs :: "runenv \<Rightarrow> string list \<Rightarrow> ('m sworld_scheme, serr, Log list) io" where
  "Logs R svcs =
     bind (jctl svcs) (\<lambda>bs.
       if bs = ''-- No entries --'' @ [nl] then ret []
       else case logDec R bs of Inl e \<Rightarrow> throw (Errorf e) | Inr logs \<Rightarrow> ret logs)"

definition Timestamp :: "runenv \<Rightarrow> Log \<Rightarrow> string" where
  "Timestamp R l =
     (case l ''__REALTIME_TIMESTAMP'' of
        None \<Rightarrow> ''-(no timestamp!)-''
      | Some (LogOther v) \<Rightarrow> ''-(timestamp not a string: '' @ v @ '')-''
      | Some (LogStr sus) \<Rightarrow>
          (case atoi sus of
             None \<Rightarrow> ''-(timestamp not a decimal number: '' @ goQuote sus @ '')-''
           | Some us \<Rightarrow> formatTime R (us sdiv 1000000) (1000 * (us smod 1000000))))"

definition logField :: "string \<Rightarrow> Log \<Rightarrow> string" where
  "logField k l = (case l k of Some (LogStr s) \<Rightarrow> s | _ \<Rightarrow> ''-'')"

definition RawTimestamp :: "Log \<Rightarrow> string" where
  "RawTimestamp l = logField ''__REALTIME_TIMESTAMP'' l"

definition Message :: "Log \<Rightarrow> string" where
  "Message l = logField ''MESSAGE'' l"

definition SID :: "Log \<Rightarrow> string" where
  "SID l = logField ''SYSLOG_IDENTIFIER'' l"

definition LogString :: "runenv \<Rightarrow> Log \<Rightarrow> string" where
  "LogString R l = Timestamp R l @ '' '' @ SID l @ '' '' @ Message l"

section \<open>Actors\<close>

record svcT =
  tM :: packageYaml
  tSvc :: ServiceYaml

definition svcsOf :: "string \<Rightarrow> SnapPart \<Rightarrow> svcT list" where
  "svcsOf serviceName s =
     map (\<lambda>y. \<lparr>tM = sm s, tSvc = y\<rparr>)
       (filter (\<lambda>y. serviceName = '''' \<or> serviceName = svcName y) (yServiceYamls (sm s)))"

definition activeSnaps :: "string \<Rightarrow> Part list \<Rightarrow> SnapPart list" where
  "activeSnaps snapName parts =
     List.map_filter (\<lambda>p. case p of
         SnapP s \<Rightarrow> if sisActive s \<and> (snapName = '''' \<or> snapName = yName (sm s)) then Some s else None
       | _ \<Rightarrow> None) parts"

text \<open>
  \<^verbatim>\<open>installed, _ := repo.Installed()\<close>: the parts of the repositories before the first one that
  fails.
\<close>

fun installedSoFar :: "genv \<Rightarrow> Repository list \<Rightarrow> ('m pworld_scheme, serr, Part list) io" where
  "installedSoFar E [] = ret []"
| "installedSoFar E (r # rs) =
     bind (attempt (repoInstalled E r)) (\<lambda>res.
       case res of
         Inl e \<Rightarrow> if isPanicErr e then throw e else ret []
       | Inr installed \<Rightarrow> bind (installedSoFar E rs) (\<lambda>parts. ret (installed @ parts)))"

definition FindServices :: "genv \<Rightarrow> string \<Rightarrow> string \<Rightarrow> ('m sworld_scheme, serr, svcT list) io" where
  "FindServices E snapName serviceName =
     bind (bind (NewMetaLocalRepository E) (installedSoFar E)) (\<lambda>installed.
       let found = activeSnaps snapName installed; svcs = concat (map (svcsOf serviceName) found)
       in if snapName \<noteq> '''' \<and> found = [] then throw (SErr ErrPackageNotFound)
          else if snapName \<noteq> '''' \<and> svcs = [] then throw (SErr ErrServiceNotFound)
          else ret svcs)"

definition svcUnit :: "genv \<Rightarrow> svcT \<Rightarrow> string" where
  "svcUnit E t = pathBase (generateServiceFileName E (tM t) (tSvc t))"

definition unableTo :: "genv \<Rightarrow> string \<Rightarrow> svcT \<Rightarrow> serr \<Rightarrow> serr" where
  "unableTo E verb t e =
     (if isPanicErr e then e
      else Errorf (''unable to '' @ verb @ '' '' @ yName (tM t) @ [CHR 0x27] @ ''s service ''
             @ svcName (tSvc t) @ '': '' @ errorText (goarch E) e))"

definition actorStart :: "genv \<Rightarrow> svcT list \<Rightarrow> ('m sworld_scheme, serr, unit) io" where
  "actorStart E svcs = forEach svcs (\<lambda>t. mapErr (unableTo E ''start'' t) (Start (svcUnit E t)))"

definition actorStop :: "genv \<Rightarrow> svcT list \<Rightarrow> ('m sworld_scheme, serr, unit) io" where
  "actorStop E svcs =
     forEach svcs (\<lambda>t. mapErr (unableTo E ''stop'' t) (Stop (svcUnit E t) (svcStopTimeout (tSvc t))))"

definition actorRestart :: "genv \<Rightarrow> svcT list \<Rightarrow> ('m sworld_scheme, serr, unit) io" where
  "actorRestart E svcs = andThen (actorStop E svcs) (actorStart E svcs)"

definition actorEnable :: "genv \<Rightarrow> svcT list \<Rightarrow> ('m sworld_scheme, serr, unit) io" where
  "actorEnable E svcs =
     andThen (forEach svcs (\<lambda>t. mapErr (unableTo E ''enable'' t) (Enable (GlobalRootDir E) (svcUnit E t))))
       (ignoring DaemonReload)"

definition actorDisable :: "genv \<Rightarrow> svcT list \<Rightarrow> ('m sworld_scheme, serr, unit) io" where
  "actorDisable E svcs =
     andThen (forEach svcs (\<lambda>t. mapErr (unableTo E ''disable'' t) (Disable (GlobalRootDir E) (svcUnit E t))))
       (ignoring DaemonReload)"

fun actorStatus :: "genv \<Rightarrow> svcT list \<Rightarrow> ('m sworld_scheme, serr, string list) io" where
  "actorStatus E [] = ret []"
| "actorStatus E (t # ts) =
     bind (Status (svcUnit E t)) (\<lambda>status.
     bind (actorStatus E ts) (\<lambda>stati.
       ret ((yName (tM t) @ [CHR 0x09] @ svcName (tSvc t) @ [CHR 0x09] @ status) # stati)))"

record PackageServiceStatus = ServiceStatus +
  PackageName :: string
  ServiceName :: string

definition annotate :: "svcT \<Rightarrow> ServiceStatus \<Rightarrow> PackageServiceStatus" where
  "annotate t st =
     \<lparr>stFileName = stFileName st, LoadState = LoadState st, ActiveState = ActiveState st,
      SubState = SubState st, UnitFileState = UnitFileState st,
      PackageName = yName (tM t), ServiceName = svcName (tSvc t)\<rparr>"

fun actorServiceStatus :: "genv \<Rightarrow> svcT list \<Rightarrow> ('m sworld_scheme, serr, PackageServiceStatus list) io" where
  "actorServiceStatus E [] = ret []"
| "actorServiceStatus E (t # ts) =
     bind (serviceStatus (svcUnit E t)) (\<lambda>st.
     bind (actorServiceStatus E ts) (\<lambda>stati. ret (annotate t st # stati)))"

definition actorLogs :: "runenv \<Rightarrow> genv \<Rightarrow> svcT list \<Rightarrow> ('m sworld_scheme, serr, Log list) io" where
  "actorLogs R E svcs =
     mapErr (\<lambda>e. Errorf (''unable to get logs: '' @ errorText (goarch E) e)) (Logs R (map (svcUnit E) svcs))"

definition actorLoglines :: "runenv \<Rightarrow> genv \<Rightarrow> svcT list \<Rightarrow> ('m sworld_scheme, serr, string list) io" where
  "actorLoglines R E svcs = bind (actorLogs R E svcs) (\<lambda>logs. ret (map (LogString R) logs))"

section \<open>Configuration\<close>

text \<open>
  \<^verbatim>\<open>makeSnapHookEnv\<close>: an environment list with an entry that has no equals sign gives a nil
  map, and the assignment to it panics.
\<close>

definition hookDesc :: "genv \<Rightarrow> SnapPart \<Rightarrow> snapDesc" where
  "hookDesc E s =
     \<lparr>eAppName = yName (sm s), eAppArch = UbuntuArchitecture (goarch E), eAppPath = sbasedir s,
      eVersion = snapVersion s, eUdevAppName = QualifiedName (SnapP s), eOrigin = snapOrigin s, eHome = ''''\<rparr>"

definition makeSnapHookEnv :: "runenv \<Rightarrow> genv \<Rightarrow> SnapPart \<Rightarrow> (serr, string \<rightharpoonup> string) res" where
  "makeSnapHookEnv R E s =
     (case (MakeMapFromEnvList (GetBasicSnapEnvVars (hookDesc E s)), MakeMapFromEnvList (osEnviron R)) of
        (None, None) \<Rightarrow> Inr Map.empty
      | (None, Some env) \<Rightarrow> Inr env
      | (Some snapEnv, None) \<Rightarrow> Inl (GoPanic ''assignment to entry in nil map'')
      | (Some snapEnv, Some env) \<Rightarrow> Inr (env ++ snapEnv))"

definition runConfigScript ::
    "runenv \<Rightarrow> string \<Rightarrow> string \<Rightarrow> string \<Rightarrow> (string \<rightharpoonup> string) \<Rightarrow> ('m world_scheme, serr, string) io" where
  "runConfigScript R configScript appArmorProfile rawConfig env = (\<lambda>w.
     case runScript R [''aa-exec'', ''-p'', appArmorProfile, configScript] rawConfig env (fs w) of
       (Inl (output, err), f) \<Rightarrow>
         (Inl (Errorf (''config failed with: '' @ [CHR 0x27] @ output @ [CHR 0x27] @ '' ('' @ err @ '')'')), w\<lparr>fs := f\<rparr>)
     | (Inr output, f) \<Rightarrow> (Inr output, w\<lparr>fs := f\<rparr>))"

definition snapConfig ::
    "runenv \<Rightarrow> genv \<Rightarrow> string \<Rightarrow> string \<Rightarrow> string \<Rightarrow> ('m world_scheme, serr, string) io" where
  "snapConfig R E snapDir origin rawConfig =
     (let configScript = pathJoin [snapDir, ''meta'', ''hooks'', ''config'']
      in bind (gets (\<lambda>w. exists (fs w) configScript)) (\<lambda>ex.
           if \<not> ex then throw (SErr ErrConfigNotFound)
           else
             bind (attempt (NewInstalledSnapPart E (pathJoin [snapDir, ''meta'', ''package.yaml'']) origin)) (\<lambda>r.
               case r of
                 Inl e \<Rightarrow> throw (if isPanicErr e then e else SErr ErrPackageNotFound)
               | Inr part \<Rightarrow>
                   bind (fromRes (makeSnapHookEnv R E part))
                     (runConfigScript R configScript
                       (QualifiedName (SnapP part) @ ''_snappy-config_'' @ snapVersion part) rawConfig))))"

section \<open>Facts\<close>

text \<open>
  The environment of a configuration script: the variables of the package are those of this
  package, whatever the process had, and a variable that no package sets is that of the
  process.
\<close>


lemma basic_env:
  "\<exists>m. MakeMapFromEnvList (GetBasicSnapEnvVars d) = Some m
     \<and> m ''SNAP_NAME'' = Some (eAppName d) \<and> m ''SNAP_VERSION'' = Some (eVersion d)
     \<and> m ''SNAP_APP_PATH'' = Some (eAppPath d) \<and> m ''SNAP_FULLNAME'' = Some (eUdevAppName d)
     \<and> m ''PATH'' = None"
  by (simp add: GetBasicSnapEnvVars_def MakeMapFromEnvList_def splitN2_def Let_def)

lemma makeSnapHookEnv_overrides:
  assumes "MakeMapFromEnvList (osEnviron R) = Some osEnv"
  shows "\<exists>env. makeSnapHookEnv R E s = Inr env
    \<and> env ''SNAP_NAME'' = Some (yName (sm s)) \<and> env ''SNAP_VERSION'' = Some (snapVersion s)
    \<and> env ''SNAP_APP_PATH'' = Some (sbasedir s) \<and> env ''SNAP_FULLNAME'' = Some (QualifiedName (SnapP s))
    \<and> env ''PATH'' = osEnv ''PATH''"
proof -
  from basic_env [of "hookDesc E s"] obtain m where
    m: "MakeMapFromEnvList (GetBasicSnapEnvVars (hookDesc E s)) = Some m"
    "m ''SNAP_NAME'' = Some (yName (sm s))" "m ''SNAP_VERSION'' = Some (snapVersion s)"
    "m ''SNAP_APP_PATH'' = Some (sbasedir s)" "m ''SNAP_FULLNAME'' = Some (QualifiedName (SnapP s))"
    "m ''PATH'' = None" by (auto simp: hookDesc_def)
  have "makeSnapHookEnv R E s = Inr (osEnv ++ m)" using assms m(1) by (simp add: makeSnapHookEnv_def)
  with m(2-) show ?thesis by (simp add: map_add_def)
qed

text \<open>Collecting what is installed ends with an error only when it panics.\<close>

lemma NewMetaLocalRepository_panics:
  "NewMetaLocalRepository E w = (Inl e, w') \<Longrightarrow> isPanicErr e"
  by (auto simp: NewMetaLocalRepository_def New_def bind_def liftP_def isPanicErr_def
      split: prod.splits sum.splits perr.splits)

lemma installedSoFar_panics:
  "installedSoFar E rs w = (Inl e, w') \<Longrightarrow> isPanicErr e"
  by (induction rs arbitrary: w w') (auto simp: bind_def split: prod.splits sum.splits if_splits)

text \<open>What \<open>FindServices\<close> finds are exactly the services of active packages with the names asked for.\<close>

lemma activeSnaps_iff:
  "s \<in> set (activeSnaps n parts) \<longleftrightarrow> SnapP s \<in> set parts \<and> sisActive s \<and> (n = '''' \<or> n = yName (sm s))"
  by (induction parts) (auto simp: activeSnaps_def List.map_filter_simps split: Part.splits)

lemma FindServices_found:
  assumes "FindServices E n svc w = (Inr svcs, w')" and "t \<in> set svcs"
  shows "\<exists>s :: SnapPart. sisActive s \<and> tM t = sm s \<and> tSvc t \<in> set (yServiceYamls (sm s))
    \<and> (n = '''' \<or> n = yName (sm s)) \<and> (svc = '''' \<or> svc = svcName (tSvc t))"
proof -
  obtain installed where "svcs = concat (map (svcsOf svc) (activeSnaps n installed))"
    using assms(1) by (auto simp: FindServices_def bind_Inr Let_def split: if_splits)
  with assms(2) obtain s where "s \<in> set (activeSnaps n installed)" "t \<in> set (svcsOf svc s)" by auto
  then show ?thesis unfolding activeSnaps_iff by - (rule exI [of _ s], auto simp: svcsOf_def)
qed

text \<open>
  Asking for the services of a package by name never gives an empty answer: either there
  are services, all of active packages of that name, or the error says whether the package or
  the service is missing. Without a name an empty answer is no error.
\<close>

lemma FindServices_result:
  assumes "FindServices E n svc w = (r, w')" and "\<not> (\<exists>e. r = Inl e \<and> isPanicErr e)"
  shows "(n \<noteq> '''' \<longrightarrow> r \<noteq> Inr [] \<and> (isl r \<longrightarrow> r \<in> {Inl (SErr ErrPackageNotFound), Inl (SErr ErrServiceNotFound)}))
    \<and> (n = '''' \<longrightarrow> \<not> isl r)
    \<and> (\<forall>svcs. r = Inr svcs \<longrightarrow>
         list_all (\<lambda>t. (n = '''' \<or> n = yName (tM t)) \<and> (svc = '''' \<or> svc = svcName (tSvc t))) svcs)"
proof -
  have all: "list_all (\<lambda>t. (n = '''' \<or> n = yName (tM t)) \<and> (svc = '''' \<or> svc = svcName (tSvc t))) svcs"
    if "r = Inr svcs" for svcs
    unfolding list_all_iff using FindServices_found [of E n svc w svcs w'] assms(1) that by metis
  have "(n \<noteq> '''' \<longrightarrow> r \<noteq> Inr [] \<and> (isl r \<longrightarrow> r \<in> {Inl (SErr ErrPackageNotFound), Inl (SErr ErrServiceNotFound)}))
    \<and> (n = '''' \<longrightarrow> \<not> isl r)"
  proof (cases "bind (NewMetaLocalRepository E) (installedSoFar E) w")
    case (Pair q w1)
    show ?thesis
    proof (cases q)
      case (Inl e)
      then have "isPanicErr e"
        using Pair
        by (auto simp: bind_def split: prod.splits sum.splits
            dest: NewMetaLocalRepository_panics installedSoFar_panics)
      moreover have "r = Inl e" using assms(1) Pair Inl by (simp add: FindServices_def bind_def)
      ultimately show ?thesis using assms(2) by blast
    next
      case (Inr ps)
      then show ?thesis using assms(1) Pair by (auto simp: FindServices_def bind_def Let_def split: if_splits)
    qed
  qed
  with all show ?thesis by blast
qed

end
