(* ===== verification/Tasks.thy ===== *)
theory Tasks
  imports Services "HOL-Library.Word"
begin

unbundle bit_operations_syntax

text \<open>
  The background operations of the daemon: \<^verbatim>\<open>daemon/uuid.go\<close>, \<^verbatim>\<open>daemon/task.go\<close>, the answers of
  \<^verbatim>\<open>daemon/response.go\<close> and the table of tasks in \<^verbatim>\<open>daemon/daemon.go\<close>. A task runs in a goroutine
  of its own, so that the daemon is a machine: handlers and running tasks take steps in any
  order. The function of a task is one step, from the moment it ends.
\<close>

section \<open>Identifiers\<close>

type_synonym UUID = "64 word \<times> 64 word"

definition hexChar :: "nat \<Rightarrow> char" where
  "hexChar d = ''0123456789abcdef'' ! d"

text \<open>\<^verbatim>\<open>%0kx\<close> of a number below $16^k$.\<close>

fun hexPad :: "nat \<Rightarrow> nat \<Rightarrow> string" where
  "hexPad 0 n = []"
| "hexPad (Suc k) n = hexPad k (n div 16) @ [hexChar (n mod 16)]"

definition UUIDString :: "UUID \<Rightarrow> string" where
  "UUIDString u =
     (let m = fst u; n = snd u
      in hexPad 8 (unat (n AND 0xffffffff)) @ ''-'' @ hexPad 4 (unat (drop_bit 32 n AND 0xffff)) @ ''-''
         @ hexPad 4 (unat (drop_bit 48 n AND 0xffff)) @ ''-'' @ hexPad 4 (unat (m AND 0xffff)) @ ''-''
         @ hexPad 12 (unat (drop_bit 16 m)))"

lemma hexChar_inj: "a < 16 \<Longrightarrow> b < 16 \<Longrightarrow> hexChar a = hexChar b \<Longrightarrow> a = b"
proof -
  have "distinct ''0123456789abcdef''" "length ''0123456789abcdef'' = 16" by code_simp+
  then show "a < 16 \<Longrightarrow> b < 16 \<Longrightarrow> hexChar a = hexChar b \<Longrightarrow> a = b"
    unfolding hexChar_def by (metis nth_eq_iff_index_eq)
qed

lemma length_hexPad [simp]: "length (hexPad k n) = k"
  by (induction k n rule: hexPad.induct) simp_all

lemma hexPad_inj: "hexPad k a = hexPad k b \<Longrightarrow> a mod 16 ^ k = b mod 16 ^ k"
proof (induction k arbitrary: a b)
  case (Suc k)
  then have h: "hexPad k (a div 16) = hexPad k (b div 16)" "hexChar (a mod 16) = hexChar (b mod 16)" by simp_all
  have "a mod 16 = b mod 16" by (rule hexChar_inj [OF _ _ h(2)]) simp_all
  moreover have "a div 16 mod 16 ^ k = b div 16 mod 16 ^ k" using Suc.IH h(1) .
  ultimately show ?case by (simp add: mod_mult2_eq)
qed simp

lemma hexPad_unat:
  fixes x y :: "64 word"
  assumes "hexPad k (unat x) = hexPad k (unat y)" and "unat x < 16 ^ k" and "unat y < 16 ^ k"
  shows "x = y"
  using hexPad_inj [OF assms(1)] assms(2,3) by (simp add: word_unat_eq_iff)

lemma masked_bits:
  fixes x y :: "64 word"
  assumes "drop_bit i x AND mask k = drop_bit i y AND mask k" and "i \<le> j" and "j < i + k" and "j < 64"
  shows "bit x j = bit y j"
proof -
  have "bit (drop_bit i x AND mask k) (j - i) = bit (drop_bit i y AND mask k) (j - i)" using assms(1) by simp
  moreover have "j - i < k" "i + (j - i) = j" "j - i < 64" using assms(2-4) by auto
  ultimately show ?thesis by (simp add: bit_simps)
qed

lemma unat_masked: "unat (x AND mask k :: 64 word) < 2 ^ k"
proof (cases "k < 64")
  case True
  then show ?thesis by (simp flip: take_bit_eq_mask add: unsigned_take_bit_eq)
next
  case False
  have "unat (x AND mask k) < 2 ^ 64" using unsigned_less [of "x AND mask k"] by simp
  also have "(2::nat) ^ 64 \<le> 2 ^ k" using False by (intro power_increasing) auto
  finally show ?thesis .
qed

lemma unat_drop16: "unat (drop_bit 16 (m :: 64 word)) < 2 ^ 48"
proof -
  have "unat m < 2 ^ 64" using unsigned_less [of m] by simp
  then show ?thesis by (simp add: drop_bit_eq_div unat_div less_mult_imp_div_less)
qed

lemma UUIDString_words:
  assumes "UUIDString (m, n) = UUIDString (m', n')"
  shows "n AND mask 32 = n' AND mask 32" "drop_bit 32 n AND mask 16 = drop_bit 32 n' AND mask 16"
    "drop_bit 48 n AND mask 16 = drop_bit 48 n' AND mask 16" "m AND mask 16 = m' AND mask 16"
    "drop_bit 16 m = drop_bit 16 m'"
proof -
  have mk: "(0xffffffff :: 64 word) = mask 32" "(0xffff :: 64 word) = mask 16" by (simp_all add: mask_eq_exp_minus_1)
  have eqs: "hexPad 8 (unat (n AND mask 32)) = hexPad 8 (unat (n' AND mask 32))"
    "hexPad 4 (unat (drop_bit 32 n AND mask 16)) = hexPad 4 (unat (drop_bit 32 n' AND mask 16))"
    "hexPad 4 (unat (drop_bit 48 n AND mask 16)) = hexPad 4 (unat (drop_bit 48 n' AND mask 16))"
    "hexPad 4 (unat (m AND mask 16)) = hexPad 4 (unat (m' AND mask 16))"
    "hexPad 12 (unat (drop_bit 16 m)) = hexPad 12 (unat (drop_bit 16 m'))"
    using assms by (simp_all add: UUIDString_def Let_def mk del: hexPad.simps)
  have p: "(16::nat) ^ 8 = 2 ^ 32" "(16::nat) ^ 4 = 2 ^ 16" "(16::nat) ^ 12 = 2 ^ 48" by simp_all
  show "n AND mask 32 = n' AND mask 32" "drop_bit 32 n AND mask 16 = drop_bit 32 n' AND mask 16"
    "drop_bit 48 n AND mask 16 = drop_bit 48 n' AND mask 16" "m AND mask 16 = m' AND mask 16"
    using eqs(1-4) by (auto intro!: hexPad_unat simp only: p unat_masked)
  show "drop_bit 16 m = drop_bit 16 m'"
    by (rule hexPad_unat [OF eqs(5)]) (simp_all only: p unat_drop16)
qed

text \<open>The string of an identifier determines it: all 128 bits are printed.\<close>

lemma UUIDString_inj: "UUIDString u = UUIDString u' \<Longrightarrow> u = u'"
proof -
  obtain m n m' n' where u: "u = (m, n)" "u' = (m', n')" by (cases u, cases u') auto
  assume "UUIDString u = UUIDString u'"
  note e = UUIDString_words [OF this [unfolded u]]
  have "bit n j = bit n' j" if "j < 64" for j
  proof -
    consider "j < 32" | "32 \<le> j" "j < 48" | "48 \<le> j" using that by linarith
    then show ?thesis
    proof cases
      case 1 then show ?thesis using masked_bits [of 0 n 32 n' j] e(1) by simp
    next
      case 2 then show ?thesis using masked_bits [of 32 n 16 n' j] e(2) by simp
    next
      case 3 then show ?thesis using masked_bits [of 48 n 16 n' j] e(3) that by simp
    qed
  qed
  moreover have "bit m j = bit m' j" if "j < 64" for j
  proof (cases "j < 16")
    case True then show ?thesis using masked_bits [of 0 m 16 m' j] e(4) by simp
  next
    case False
    have "bit (drop_bit 16 m) (j - 16) = bit (drop_bit 16 m') (j - 16)" using e(5) by simp
    then show ?thesis using False that by (simp add: bit_simps)
  qed
  ultimately show ?thesis by (auto simp: u intro!: bit_eqI)
qed

section \<open>Answers\<close>

datatype errorResult = ErrorResult (erStr: string) (erMsg: string) (erObj: "serr option")

text \<open>What a handler or a task gives back, before it is written as json.\<close>

datatype jvalue =
    VNil
  | VStr string
  | VNum int
  | VBool bool
  | VErr errorResult
  | VList "jvalue list"
  | VMap "(string \<times> jvalue) list"

datatype response = Resp (respType: string) (respStatus: int) (respResult: jvalue) | FileResponse string

abbreviation ResponseTypeSync :: string where "ResponseTypeSync \<equiv> ''sync''"
abbreviation ResponseTypeAsync :: string where "ResponseTypeAsync \<equiv> ''async''"
abbreviation ResponseTypeError :: string where "ResponseTypeError \<equiv> ''error''"

definition SetError :: "genv \<Rightarrow> int \<Rightarrow> serr option \<Rightarrow> string \<Rightarrow> response" where
  "SetError E status err msg =
     Resp ResponseTypeError status
       (VErr (ErrorResult (case err of None \<Rightarrow> '''' | Some e \<Rightarrow> errorText (goarch E) e) msg err))"

definition NotFound :: "genv \<Rightarrow> serr option \<Rightarrow> string \<Rightarrow> response" where "NotFound E = SetError E 404"
definition BadRequest :: "genv \<Rightarrow> serr option \<Rightarrow> string \<Rightarrow> response" where "BadRequest E = SetError E 400"
definition BadMethod :: "genv \<Rightarrow> serr option \<Rightarrow> string \<Rightarrow> response" where "BadMethod E = SetError E 405"
definition InternalError :: "genv \<Rightarrow> serr option \<Rightarrow> string \<Rightarrow> response" where "InternalError E = SetError E 500"
definition NotImplemented :: "genv \<Rightarrow> serr option \<Rightarrow> string \<Rightarrow> response" where "NotImplemented E = SetError E 501"

definition SyncResponse :: "genv \<Rightarrow> (serr, jvalue) res \<Rightarrow> response" where
  "SyncResponse E result =
     (case result of Inl e \<Rightarrow> InternalError E (Some e) '''' | Inr v \<Rightarrow> Resp ResponseTypeSync 200 v)"

definition AsyncResponse :: "jvalue \<Rightarrow> response" where
  "AsyncResponse m = Resp ResponseTypeAsync 202 m"

text \<open>
  What goes to the client: \<open>enc\<close> is the json encoder, \<open>text\<close> the standard text of a status. A
  result that cannot be encoded is an internal error without a body.
\<close>

datatype served = Served int "(string \<times> string) list" string | ServedFile string

definition MarshalJSON :: "(int \<Rightarrow> string) \<Rightarrow> response \<Rightarrow> jvalue" where
  "MarshalJSON text r =
     VMap [(''type'', VStr (respType r)), (''status'', VStr (text (respStatus r))),
           (''status_code'', VNum (respStatus r)), (''result'', respResult r)]"

definition locationOf :: "response \<Rightarrow> (string \<times> string) list" where
  "locationOf r =
     (case respResult r of
        VMap m \<Rightarrow>
          (if respType r = ResponseTypeAsync
           then (case map_of m ''resource'' of
                   Some (VStr l) \<Rightarrow> if l \<noteq> '''' then [(''Location'', l)] else []
                 | _ \<Rightarrow> [])
           else [])
      | _ \<Rightarrow> [])"

fun ServeHTTP :: "(jvalue \<Rightarrow> string option) \<Rightarrow> (int \<Rightarrow> string) \<Rightarrow> response \<Rightarrow> served" where
  "ServeHTTP enc text (FileResponse p) = ServedFile p"
| "ServeHTTP enc text (Resp t s v) =
     (let (status, bs) = (case enc (MarshalJSON text (Resp t s v)) of None \<Rightarrow> (500, '''') | Some b \<Rightarrow> (s, b))
      in Served status (locationOf (Resp t s v) @ [(''Content-Type'', ''application/json'')]) bs)"

section \<open>Tasks\<close>

text \<open>The tomb of a task: its function runs, or it ended with an error or without one.\<close>

datatype tombState = Alive | Dead "serr option"

record Task =
  tkId :: UUID
  tkT0 :: int
  tkTf :: int
  tkTomb :: tombState
  tkOut :: jvalue

abbreviation TaskRunning :: string where "TaskRunning \<equiv> ''running''"
abbreviation TaskSucceeded :: string where "TaskSucceeded \<equiv> ''succeeded''"
abbreviation TaskFailed :: string where "TaskFailed \<equiv> ''failed''"

definition Output :: "Task \<Rightarrow> jvalue" where
  "Output t = (if tkTomb t = Alive then VNil else tkOut t)"

definition State :: "Task \<Rightarrow> string" where
  "State t = (case tkTomb t of Alive \<Rightarrow> TaskRunning | Dead None \<Rightarrow> TaskSucceeded | Dead (Some _) \<Rightarrow> TaskFailed)"

text \<open>Microseconds since the epoch; \<^verbatim>\<open>url\<close> builds the address of the task, if it can.\<close>

definition FormatTime :: "int \<Rightarrow> string" where
  "FormatTime nanos = itoa (nanos sdiv 1000)"

definition Location :: "(string \<Rightarrow> string option) \<Rightarrow> Task \<Rightarrow> string" where
  "Location url t = (case url (UUIDString (tkId t)) of None \<Rightarrow> '''' | Some u \<Rightarrow> u)"

text \<open>
  The description of a task reads it several times, and the task may end in between: \<open>t1\<close> is
  the task when its state is read, \<open>t2\<close> when the time and \<open>t3\<close> when the output is.
\<close>

definition TaskMap :: "(string \<Rightarrow> string option) \<Rightarrow> Task \<Rightarrow> Task \<Rightarrow> Task \<Rightarrow> jvalue" where
  "TaskMap url t1 t2 t3 =
     VMap [(''resource'', VStr (Location url t1)), (''status'', VStr (State t1)),
           (''created_at'', VStr (FormatTime (tkT0 t2))), (''updated_at'', VStr (FormatTime (tkTf t2))),
           (''may_cancel'', VBool False), (''output'', Output t3)]"

definition newTask :: "UUID \<Rightarrow> int \<Rightarrow> Task" where
  "newTask u now = \<lparr>tkId = u, tkT0 = now, tkTf = now, tkTomb = Alive, tkOut = VNil\<rparr>"

text \<open>The end of the function of a task; an error is kept as the output as well.\<close>

definition endTask :: "genv \<Rightarrow> int \<Rightarrow> (serr, jvalue) res \<Rightarrow> Task \<Rightarrow> Task" where
  "endTask E now r t =
     (case r of
        Inl e \<Rightarrow> t\<lparr>tkTf := now, tkTomb := Dead (Some e), tkOut := VErr (ErrorResult (errorText (goarch E) e) '''' (Some e))\<rparr>
      | Inr v \<Rightarrow> t\<lparr>tkTf := now, tkTomb := Dead None, tkOut := v\<rparr>)"

section \<open>The table of tasks\<close>

text \<open>
  The tasks that were ever run, by their identifier; the keys in the table of the daemon; and
  the tasks that run but are not in the table yet.
\<close>

record daemon =
  dNow :: int
  dObjs :: "string \<rightharpoonup> Task"
  dTasks :: "string list"
  dPending :: "string list"

definition newDaemon :: "int \<Rightarrow> daemon" where
  "newDaemon now = \<lparr>dNow = now, dObjs = Map.empty, dTasks = [], dPending = []\<rparr>"

text \<open>\<^verbatim>\<open>AddTask\<close> runs the task first and takes the lock afterwards to enter it.\<close>

definition RunTask :: "UUID \<Rightarrow> daemon \<Rightarrow> daemon" where
  "RunTask u d =
     d\<lparr>dObjs := (dObjs d)(UUIDString u \<mapsto> newTask u (dNow d)), dPending := UUIDString u # dPending d\<rparr>"

definition enterTask :: "string \<Rightarrow> daemon \<Rightarrow> daemon" where
  "enterTask k d = d\<lparr>dTasks := k # removeAll k (dTasks d), dPending := removeAll k (dPending d)\<rparr>"

definition AddTask :: "UUID \<Rightarrow> daemon \<Rightarrow> daemon" where
  "AddTask u d = enterTask (UUIDString u) (RunTask u d)"

definition GetTask :: "string \<Rightarrow> daemon \<Rightarrow> Task option" where
  "GetTask k d = (if k \<in> set (dTasks d) then dObjs d k else None)"

datatype taskErr = errTaskNotFound | errTaskStillRunning

definition DeleteTask :: "string \<Rightarrow> daemon \<Rightarrow> taskErr option \<times> daemon" where
  "DeleteTask k d =
     (case GetTask k d of
        None \<Rightarrow> (Some errTaskNotFound, d)
      | Some t \<Rightarrow>
          if State t \<noteq> TaskRunning then (None, d\<lparr>dTasks := removeAll k (dTasks d)\<rparr>)
          else (Some errTaskStillRunning, d))"

definition finishTask :: "genv \<Rightarrow> string \<Rightarrow> (serr, jvalue) res \<Rightarrow> daemon \<Rightarrow> daemon" where
  "finishTask E k r d =
     d\<lparr>dObjs := (\<lambda>q. if q = k then map_option (endTask E (dNow d) r) (dObjs d k) else dObjs d q)\<rparr>"

inductive dstep :: "genv \<Rightarrow> daemon \<Rightarrow> daemon \<Rightarrow> bool" for E where
  run: "dObjs d (UUIDString u) = None \<Longrightarrow> dstep E d (RunTask u d)"
| enter: "k \<in> set (dPending d) \<Longrightarrow> dstep E d (enterTask k d)"
| finish: "dObjs d k = Some t \<Longrightarrow> tkTomb t = Alive \<Longrightarrow> dstep E d (finishTask E k r d)"
| delete: "dstep E d (snd (DeleteTask k d))"
| tick: "0 \<le> n \<Longrightarrow> dstep E d (d\<lparr>dNow := dNow d + n\<rparr>)"

inductive dreach :: "genv \<Rightarrow> daemon \<Rightarrow> daemon \<Rightarrow> bool" for E where
  start: "dreach E d d"
| onward: "dreach E d d' \<Longrightarrow> dstep E d' d'' \<Longrightarrow> dreach E d d''"

section \<open>Facts\<close>

inductive_cases dstepE: "dstep E d d'"

lemmas daemon_defs = RunTask_def enterTask_def finishTask_def DeleteTask_def GetTask_def newTask_def

text \<open>
  A task that runs has no output and was not updated; the time of its end is not before its
  start; a task that failed has its error as output.
\<close>

definition wfTask :: "genv \<Rightarrow> int \<Rightarrow> Task \<Rightarrow> bool" where
  "wfTask E now t \<longleftrightarrow> tkT0 t \<le> tkTf t \<and> tkTf t \<le> now
     \<and> (case tkTomb t of
          Alive \<Rightarrow> tkOut t = VNil \<and> tkTf t = tkT0 t
        | Dead (Some e) \<Rightarrow> tkOut t = VErr (ErrorResult (errorText (goarch E) e) '''' (Some e))
        | Dead None \<Rightarrow> True)"

definition daemonInv :: "genv \<Rightarrow> daemon \<Rightarrow> bool" where
  "daemonInv E d \<longleftrightarrow>
     (\<forall>k t. dObjs d k = Some t \<longrightarrow> k = UUIDString (tkId t) \<and> wfTask E (dNow d) t)
     \<and> set (dTasks d) \<union> set (dPending d) \<subseteq> dom (dObjs d)
     \<and> set (dTasks d) \<inter> set (dPending d) = {}"

lemma wfTask_later: "wfTask E now t \<Longrightarrow> now \<le> now' \<Longrightarrow> wfTask E now' t"
  by (auto simp: wfTask_def)

lemma wfTask_new: "wfTask E now (newTask u now)" "tkId (newTask u now) = u"
  by (simp_all add: wfTask_def newTask_def)

lemma wfTask_end: "wfTask E now t \<Longrightarrow> wfTask E now (endTask E now r t)"
  by (auto simp: wfTask_def endTask_def split: sum.splits)

lemma daemonInv_step:
  assumes "dstep E d d'" and "daemonInv E d"
  shows "daemonInv E d'"
  using assms
proof cases
  case (run u)
  with assms(2) show ?thesis by (auto simp: daemonInv_def RunTask_def wfTask_new)
next
  case (enter k)
  with assms(2) show ?thesis by (auto simp: daemonInv_def enterTask_def)
next
  case (finish k t r)
  have "tkId (endTask E (dNow d) r t) = tkId t" by (simp add: endTask_def split: sum.splits)
  with finish assms(2) show ?thesis
    by (auto simp: daemonInv_def finishTask_def wfTask_end)
next
  case (delete k)
  with assms(2) show ?thesis by (auto simp: daemonInv_def DeleteTask_def split: option.splits)
next
  case (tick n)
  with assms(2) show ?thesis by (auto simp: daemonInv_def intro: wfTask_later [of E "dNow d"])
qed

lemma daemonInv_reach: "dreach E d d' \<Longrightarrow> daemonInv E d \<Longrightarrow> daemonInv E d'"
  by (induction rule: dreach.induct) (auto intro: daemonInv_step)

lemma dreach_trans: "dreach E b c \<Longrightarrow> dreach E a b \<Longrightarrow> dreach E a c"
  by (induction rule: dreach.induct) (auto intro: dreach.intros)

lemma daemonInv_new: "daemonInv E (newDaemon now)"
  by (simp add: daemonInv_def newDaemon_def)

text \<open>How one task can change: not at all, or it ends.\<close>

definition laterTask :: "Task \<Rightarrow> Task \<Rightarrow> bool" where
  "laterTask t t' \<longleftrightarrow> tkId t' = tkId t \<and> tkT0 t' = tkT0 t \<and> (tkTomb t \<noteq> Alive \<longrightarrow> t' = t)"

lemma laterTask_trans: "laterTask a b \<Longrightarrow> laterTask b c \<Longrightarrow> laterTask a c"
  by (auto simp: laterTask_def)

lemma laterTask_step:
  assumes "dstep E d d'" and "dObjs d k = Some t"
  shows "\<exists>t'. dObjs d' k = Some t' \<and> laterTask t t'"
  using assms
  by cases (auto simp: daemon_defs laterTask_def endTask_def split: option.splits sum.splits)

lemma laterTask_reach:
  assumes "dreach E d d'" and "dObjs d k = Some t"
  shows "\<exists>t'. dObjs d' k = Some t' \<and> laterTask t t'"
  using assms
proof (induction rule: dreach.induct)
  case (onward d d' d'')
  then show ?case by (meson laterTask_step laterTask_trans)
qed (simp add: laterTask_def)

lemma State_simps:
  "State t = TaskRunning \<longleftrightarrow> tkTomb t = Alive"
  "State t = TaskFailed \<longleftrightarrow> (\<exists>e. tkTomb t = Dead (Some e))"
  by (auto simp: State_def split: tombState.splits option.splits)


text \<open>A task that was taken out of the table stays out.\<close>
lemma deleted_step:
  assumes "dstep E d d'" and "k \<notin> set (dTasks d)" and "k \<notin> set (dPending d)" and "dObjs d k \<noteq> None"
  shows "k \<notin> set (dTasks d') \<and> k \<notin> set (dPending d') \<and> dObjs d' k \<noteq> None"
  using assms by cases (auto simp: daemon_defs split: option.splits)

lemma deleted_reach:
  assumes "dreach E d d'" and "k \<notin> set (dTasks d)" and "k \<notin> set (dPending d)" and "dObjs d k \<noteq> None"
  shows "k \<notin> set (dTasks d') \<and> k \<notin> set (dPending d') \<and> dObjs d' k \<noteq> None"
  using assms by (induction rule: dreach.induct) (auto dest: deleted_step)

text \<open>
  \<^verbatim>\<open>DeleteTask\<close> forgets a task exactly when it is in the table and has ended; then it is not
  in the table any more, and no later step brings it back. A running task stays.
\<close>

lemma DeleteTask_final:
  assumes "dreach E (newDaemon now) d" and "DeleteTask k d = (r, d')"
  shows "(r = None \<longleftrightarrow> (\<exists>t. GetTask k d = Some t \<and> State t \<noteq> TaskRunning))
    \<and> (r \<noteq> None \<longrightarrow> d' = d)
    \<and> (r = None \<longrightarrow> (\<forall>d''. dreach E d' d'' \<longrightarrow> GetTask k d'' = None))"
proof -
  have inv: "daemonInv E d" using assms(1) by (meson daemonInv_reach daemonInv_new)
  have cases: "(r = None \<longleftrightarrow> (\<exists>t. GetTask k d = Some t \<and> State t \<noteq> TaskRunning)) \<and> (r \<noteq> None \<longrightarrow> d' = d)"
    using assms(2) by (auto simp: DeleteTask_def split: option.splits if_splits)
  have "GetTask k d'' = None" if "r = None" "dreach E d' d''" for d''
  proof -
    have d': "d' = d\<lparr>dTasks := removeAll k (dTasks d)\<rparr>" and "k \<in> set (dTasks d)"
      using that(1) assms(2) by (auto simp: DeleteTask_def GetTask_def split: option.splits if_splits)
    then have "k \<notin> set (dTasks d')" "k \<notin> set (dPending d')" "dObjs d' k \<noteq> None"
      using inv by (auto simp: daemonInv_def)
    from deleted_reach [OF that(2) this] show ?thesis by (simp add: GetTask_def)
  qed
  with cases show ?thesis by (cases r) simp_all
qed

subsection \<open>Witnesses\<close>

definition demoTask :: daemon where
  "demoTask = finishTask fooEnv (UUIDString (1, 2)) (Inl (SErr ErrPackageNotFound)) (AddTask (1, 2) (newDaemon 5))"

lemma demoTask_reach: "dreach fooEnv (newDaemon 5) (AddTask (1, 2) (newDaemon 5))" (is ?A)
  and demoTask_end: "dreach fooEnv (AddTask (1, 2) (newDaemon 5)) demoTask" (is ?B)
proof -
  have "dstep fooEnv (newDaemon 5) (RunTask (1, 2) (newDaemon 5))"
    by (rule dstep.run) (simp add: newDaemon_def)
  moreover have "dstep fooEnv (RunTask (1, 2) (newDaemon 5)) (AddTask (1, 2) (newDaemon 5))"
    unfolding AddTask_def by (rule dstep.enter) (simp add: RunTask_def)
  ultimately show ?A by (meson dreach.intros)
  have "dstep fooEnv (AddTask (1, 2) (newDaemon 5)) demoTask"
    unfolding demoTask_def by (rule dstep.finish [of _ _ "newTask (1, 2) 5"])
      (simp_all add: AddTask_def enterTask_def RunTask_def newDaemon_def newTask_def)
  then show ?B by (meson dreach.intros)
qed


end
