(* ===== verification/Manage.thy ===== *)
theory Manage
  imports Store "HOL-Library.Multiset"
begin

unbundle bit_operations_syntax

text \<open>
  The commands on packages: \<^verbatim>\<open>snappy/install.go\<close>, \<^verbatim>\<open>remove.go\<close>, \<^verbatim>\<open>rollback.go\<close>,
  \<^verbatim>\<open>set_active.go\<close>, \<^verbatim>\<open>set.go\<close>, \<^verbatim>\<open>purge.go\<close> and \<^verbatim>\<open>datadir.go\<close>. Versions are sorted by
  \<^verbatim>\<open>sort.Sort\<close>, which does not say in which order it leaves equal versions: the functions
  take the sort as an argument, its contract is the locale \<open>snap_sort\<close>, and an insertion
  sort is one instance of it.
\<close>

section \<open>Sorting by version\<close>

type_synonym sorter = "Part list \<Rightarrow> Part list"

definition partLe :: "Part \<Rightarrow> Part \<Rightarrow> bool" where
  "partLe a b \<longleftrightarrow> VersionCompare (PartVersion a) (PartVersion b) \<le> 0"

fun insertPart :: "Part \<Rightarrow> Part list \<Rightarrow> Part list" where
  "insertPart p [] = [p]"
| "insertPart p (q # qs) = (if versionLess (PartVersion q) (PartVersion p) then q # insertPart p qs else p # q # qs)"

definition sortParts :: sorter where
  "sortParts ps = foldr insertPart ps []"

definition wfParts :: "Part list \<Rightarrow> bool" where
  "wfParts ps \<longleftrightarrow> list_all (\<lambda>p. wfFull (PartVersion p)) ps"

locale snap_sort =
  fixes srt :: sorter
  assumes srt_mset: "mset (srt ps) = mset ps"
    and srt_sorted: "wfParts ps \<Longrightarrow> sorted_wrt partLe (srt ps)"
begin

lemma set_srt [simp]: "set (srt ps) = set ps"
  using srt_mset by (rule mset_eq_setD)

lemma length_srt [simp]: "length (srt ps) = length ps"
  using srt_mset by (rule mset_eq_length)

text \<open>The last but one element is the previous version: only one part can be newer than it.\<close>

lemma srt_prev:
  assumes "wfParts ps" and "2 \<le> length ps"
  shows "\<exists>newest older. mset ps = {#srt ps ! (length ps - 2), newest#} + older
    \<and> partLe (srt ps ! (length ps - 2)) newest
    \<and> (\<forall>q \<in># older. partLe q (srt ps ! (length ps - 2)))"
proof -
  define n where "n = length ps - 2"
  have len: "length (srt ps) = Suc (Suc n)" using assms(2) by (simp add: n_def)
  have s: "sorted_wrt partLe (srt ps)" using srt_sorted assms(1) by blast
  have "srt ps = take n (srt ps) @ [srt ps ! n, srt ps ! Suc n]"
    using len by (metis Cons_nth_drop_Suc append_take_drop_id drop_all le_refl lessI less_SucI)
  then have "mset (srt ps) = {#srt ps ! n, srt ps ! Suc n#} + mset (take n (srt ps))"
    by (metis mset_append add.commute mset.simps)
  moreover have "partLe (srt ps ! n) (srt ps ! Suc n)"
    using s len by (simp add: sorted_wrt_iff_nth_less)
  moreover have "partLe q (srt ps ! n)" if "q \<in> set (take n (srt ps))" for q
    using that s len by (auto simp: in_set_conv_nth sorted_wrt_iff_nth_less)
  ultimately show ?thesis unfolding srt_mset n_def [symmetric] by (metis set_mset_mset)
qed

end

lemma insertPart_mset: "mset (insertPart p ps) = add_mset p (mset ps)"
  by (induction ps) auto

lemma insertPart_sorted:
  assumes "wfFull (PartVersion p)" and "wfParts ps" and "sorted_wrt partLe ps"
  shows "sorted_wrt partLe (insertPart p ps)"
  using assms
proof (induction ps)
  case (Cons q qs)
  have w: "wfFull (PartVersion q)" "wfParts qs" using Cons.prems(2) by (auto simp: wfParts_def)
  show ?case
  proof (cases "versionLess (PartVersion q) (PartVersion p)")
    case True
    then have "partLe q p" by (simp add: versionLess_def partLe_def)
    moreover have "set (insertPart p qs) = insert p (set qs)"
      using insertPart_mset [of p qs] by (metis set_mset_add_mset_insert set_mset_mset)
    ultimately show ?thesis using True Cons w by auto
  next
    case False
    then have pq: "partLe p q"
      using VersionCompare_swap [of "PartVersion p" "PartVersion q"] by (simp add: versionLess_def partLe_def)
    have "partLe p r" if "r \<in> set qs" for r
    proof -
      have "partLe q r" using Cons.prems(3) that by simp
      moreover have "wfFull (PartVersion r)" using w(2) that by (auto simp: wfParts_def list_all_iff)
      ultimately show ?thesis
        using pq VersionCompare_le_trans [OF Cons.prems(1) w(1)] unfolding partLe_def by blast
    qed
    then show ?thesis using False pq Cons.prems(3) by auto
  qed
qed simp

interpretation insertion: snap_sort sortParts
proof
  show perm: "mset (sortParts ps) = mset ps" for ps
    unfolding sortParts_def by (induction ps) (simp_all add: insertPart_mset)
  show "sorted_wrt partLe (sortParts ps)" if "wfParts ps" for ps
    using that
  proof (induction ps)
    case (Cons p ps)
    then have "wfFull (PartVersion p)" "wfParts ps" by (auto simp: wfParts_def)
    moreover have "wfParts (sortParts ps)"
      using \<open>wfParts ps\<close> mset_eq_setD [OF perm, of ps] by (simp add: wfParts_def list_all_iff)
    ultimately show ?case using Cons by (simp add: sortParts_def insertPart_sorted)
  qed (simp add: sortParts_def)
qed

section \<open>Garbage collection\<close>

text \<open>
  The loop over the sorted parts: the index of the active one, or \<open>None\<close> when some part
  waits for a reboot.
\<close>

fun gcScan :: "genv \<Rightarrow> Part list \<Rightarrow> int \<Rightarrow> int \<Rightarrow> ('m world_scheme, serr, int option) io" where
  "gcScan E [] i active = ret (Some active)"
| "gcScan E (part # parts) i active =
     (if IsActive part \<and> active > -1
      then throw (ErrGarbageCollectImpossible ''more than one active (should not happen).'')
      else
        bind (NeedsReboot E part) (\<lambda>reboot.
          if reboot then ret None
          else gcScan E parts (i + 1) (if IsActive part then i else active)))"

definition gcImpossible :: "genv \<Rightarrow> serr \<Rightarrow> serr" where
  "gcImpossible E e = (if isPanicErr e then e else ErrGarbageCollectImpossible (errorText (goarch E) e))"

definition gcUninstall :: "genv \<Rightarrow> Part \<Rightarrow> ('m sworld_scheme, serr, unit) io" where
  "gcUninstall E part = mapErr (gcImpossible E) (partUninstall E part)"

definition GarbageCollect :: "sorter \<Rightarrow> genv \<Rightarrow> string \<Rightarrow> int \<Rightarrow> ('m sworld_scheme, serr, unit) io" where
  "GarbageCollect srt E n flags =
     (if \<not> hasFlag flags DoInstallGC then ret ()
      else
        bind (allInstalled E) (\<lambda>installed.
        let parts = FindSnapsByName n installed
        in if length parts < 3 then ret ()
           else
             bind (gcScan E (srt parts) 0 (-1)) (\<lambda>scan.
               case scan of
                 None \<Rightarrow> ret ()
               | Some active \<Rightarrow>
                   if active < 1 then ret ()
                   else forEach (take (nat (active - 1)) (srt parts)) (gcUninstall E))))"

section \<open>Installing and updating\<close>

text \<open>The name is cut at its first dot; the error reports the cut name.\<close>

definition cutOrigin :: "string \<Rightarrow> string \<times> string" where
  "cutOrigin n = (takeWhile (\<lambda>c. c \<noteq> CHR ''.'') n, tl (dropWhile (\<lambda>c. c \<noteq> CHR ''.'') n))"

definition installFailed :: "string \<Rightarrow> serr \<Rightarrow> serr" where
  "installFailed n e = (if isPanicErr e then e else ErrInstallFailed n e)"

definition isRegular :: "fsys \<Rightarrow> string \<Rightarrow> bool" where
  "isRegular f p = (case stat f p of Inr (FFile _) \<Rightarrow> True | _ \<Rightarrow> False)"

definition installFound :: "genv \<Rightarrow> netenv \<Rightarrow> bool \<Rightarrow> int \<Rightarrow> Part list \<Rightarrow> Part option list \<Rightarrow> ('m sworld_scheme, serr, string) io" where
  "installFound E N ag flags installed found =
     (case found of
        [] \<Rightarrow> throw (SErr ErrPackageNotFound)
      | None # _ \<Rightarrow> throw (GoPanic ''nil pointer dereference'')
      | Some part # _ \<Rightarrow>
          (case FindSnapsByNameAndVersion (QualifiedName part) (PartVersion part) installed of
             _ # _ \<Rightarrow> throw (SErr ErrAlreadyInstalled)
           | [] \<Rightarrow>
               bind (PackageNameActive E (PartName part)) (\<lambda>act.
                 if act then throw (SErr ErrPackageNameAlreadyInstalled)
                 else partInstall E N ag flags part)))"

definition doInstall :: "genv \<Rightarrow> netenv \<Rightarrow> bool \<Rightarrow> string \<Rightarrow> int \<Rightarrow> ('m sworld_scheme, serr, string) io" where
  "doInstall E N ag n flags =
     bind (gets (\<lambda>w. isRegular (fs w) n)) (\<lambda>local.
       if local then
         mapErr (installFailed n)
           (bind (gets BootloaderDir) (\<lambda>dir.
            bind (InDeveloperMode E dir) (\<lambda>dev.
              installClick E ag n (if dev then flags OR AllowUnauthenticated else flags) SideloadedOrigin)))
       else
         bind (attempt (bind (NewMetaLocalRepository E) (metaInstalled E))) (\<lambda>inst.
           case inst of
             Inl e \<Rightarrow> throw (installFailed n e)
           | Inr installed \<Rightarrow>
               mapErr (installFailed (fst (cutOrigin n)))
                 (bind (metaDetails E NewMetaStoreRepository (fst (cutOrigin n)) (snd (cutOrigin n)))
                   (installFound E N ag flags installed))))"

definition Install :: "sorter \<Rightarrow> genv \<Rightarrow> netenv \<Rightarrow> bool \<Rightarrow> string \<Rightarrow> int \<Rightarrow> ('m sworld_scheme, serr, string) io" where
  "Install srt E N ag n flags =
     bind (doInstall E N ag n flags) (\<lambda>n. andThen (GarbageCollect srt E n flags) (ret n))"

fun updateAll :: "sorter \<Rightarrow> genv \<Rightarrow> netenv \<Rightarrow> bool \<Rightarrow> int \<Rightarrow> Part list \<Rightarrow> ('m sworld_scheme, serr, unit) io" where
  "updateAll srt E N ag flags [] = ret ()"
| "updateAll srt E N ag flags (part # parts) =
     bind (attempt (partInstall E N ag flags part)) (\<lambda>r.
       case r of
         Inl e \<Rightarrow> if e = SErr ErrSideLoaded then updateAll srt E N ag flags parts else throw e
       | Inr _ \<Rightarrow>
           andThen (GarbageCollect srt E (PartName part) flags) (updateAll srt E N ag flags parts))"

definition Update :: "sorter \<Rightarrow> genv \<Rightarrow> netenv \<Rightarrow> bool \<Rightarrow> int \<Rightarrow> ('m sworld_scheme, serr, Part list) io" where
  "Update srt E N ag flags =
     bind (ListUpdates E N) (\<lambda>updates. andThen (updateAll srt E N ag flags updates) (ret updates))"

section \<open>Removing, rolling back, activating\<close>

definition DoRemoveGC :: int where "DoRemoveGC = 1"

definition Remove :: "genv \<Rightarrow> string \<Rightarrow> int \<Rightarrow> ('m sworld_scheme, serr, unit) io" where
  "Remove E partSpec flags =
     bind (allInstalled E) (\<lambda>installed.
     bind (case splitChar (CHR ''='') partSpec of
             [n, version] \<Rightarrow> ret (FindSnapsByNameAndVersion n version installed)
           | _ \<Rightarrow>
               (if \<not> hasFlag flags DoRemoveGC
                then bind (ActiveSnapByName E partSpec) (\<lambda>part. ret (case part of None \<Rightarrow> [] | Some p \<Rightarrow> [p]))
                else ret (FindSnapsByName partSpec installed))) (\<lambda>parts.
       case parts of
         [] \<Rightarrow> throw (SErr ErrPackageNotFound)
       | _ \<Rightarrow> forEach parts (partUninstall E)))"

definition makeSnapActiveByNameAndVersion :: "genv \<Rightarrow> string \<Rightarrow> string \<Rightarrow> ('m sworld_scheme, serr, unit) io" where
  "makeSnapActiveByNameAndVersion E p ver =
     bind (allInstalled E) (\<lambda>installed.
       case FindSnapsByNameAndVersion p ver installed of
         [] \<Rightarrow> throw (Errorf (''Can not find '' @ p @ '' with version '' @ ver))
       | [part] \<Rightarrow> partSetActive E part True
       | _ \<Rightarrow> throw (Errorf (''More than one '' @ p @ '' with version '' @ ver)))"

text \<open>The version to go back to: the last but one of the sorted versions.\<close>

definition rollbackVersion :: "sorter \<Rightarrow> string \<Rightarrow> Part list \<Rightarrow> (serr, string) res" where
  "rollbackVersion srt p installed =
     (let snaps = FindSnapsByName p installed
      in if length snaps < 2 then Inl (Errorf ''no version to rollback to'')
         else Inr (PartVersion (srt snaps ! (length snaps - 2))))"

definition Rollback :: "sorter \<Rightarrow> genv \<Rightarrow> string \<Rightarrow> string \<Rightarrow> ('m sworld_scheme, serr, string) io" where
  "Rollback srt E p ver =
     bind (if ver = '''' then bind (allInstalled E) (\<lambda>installed. fromRes (rollbackVersion srt p installed))
           else ret ver) (\<lambda>ver.
       andThen (makeSnapActiveByNameAndVersion E p ver) (ret ver))"

text \<open>The active part of the name, or the newest when none is active.\<close>

definition chosenPart :: "sorter \<Rightarrow> Part list \<Rightarrow> Part" where
  "chosenPart srt parts =
     (let ps = rev (srt parts)
      in case find IsActive ps of Some p \<Rightarrow> p | None \<Rightarrow> hd ps)"

definition SetActive :: "sorter \<Rightarrow> genv \<Rightarrow> string \<Rightarrow> bool \<Rightarrow> ('m sworld_scheme, serr, unit) io" where
  "SetActive srt E fullName active =
     bind (bind (NewMetaLocalRepository E) (metaInstalled E)) (\<lambda>installed.
       case FindSnapsByName fullName installed of
         [] \<Rightarrow> throw (SErr ErrPackageNotFound)
       | p # ps \<Rightarrow> partSetActive E (chosenPart srt (p # ps)) active)"

definition setOne :: "genv \<Rightarrow> string \<Rightarrow> string \<Rightarrow> ('m sworld_scheme, serr, unit) io" where
  "setOne E pkgname propVal =
     (case splitN2 (CHR ''='') propVal of
        [prop, val] \<Rightarrow>
          if prop = ''active'' then makeSnapActiveByNameAndVersion E pkgname val
          else throw (Errorf (''Unknown property '' @ prop))
      | _ \<Rightarrow> throw (Errorf (''Can not parse property '' @ propVal)))"

definition SetProperty :: "genv \<Rightarrow> string \<Rightarrow> string list \<Rightarrow> ('m sworld_scheme, serr, unit) io" where
  "SetProperty E pkgname args =
     (if args = [] then throw (Errorf ''Need at least one argument for set'')
      else forEach args (setOne E pkgname))"

section \<open>Data directories and purging\<close>

record dataDirEntry =
  ddBase :: string
  ddName :: string
  ddOrigin :: string
  ddVersion :: string

definition ddQualifiedName :: "dataDirEntry \<Rightarrow> string" where
  "ddQualifiedName dd = (if ddOrigin dd \<noteq> '''' then ddName dd @ ''.'' @ ddOrigin dd else ddName dd)"

text \<open>A specification \<^verbatim>\<open>name[.origin][=version]\<close>: name, version glob, and the origin if one is given.\<close>

definition splitSpec :: "string \<Rightarrow> string \<times> string \<times> string option" where
  "splitSpec spec =
     (let n = takeWhile (\<lambda>c. c \<noteq> CHR ''='') spec;
          verglob = (if CHR ''='' \<in> set spec then tl (dropWhile (\<lambda>c. c \<noteq> CHR ''='') spec) else ''*'')
      in if CHR ''.'' \<in> set n then (fst (SplitOrigin n), verglob, Some (snd (SplitOrigin n)))
         else (n, verglob, None))"

definition dataDirOf :: "string \<Rightarrow> string \<Rightarrow> dataDirEntry" where
  "dataDirOf basedir dir =
     (let (n, origin) = SplitOrigin (pathBase (pathDir dir))
      in \<lparr>ddBase = basedir, ddName = n, ddOrigin = origin, ddVersion = pathBase dir\<rparr>)"

definition data1 :: "string \<Rightarrow> string \<Rightarrow> fsys \<Rightarrow> dataDirEntry list" where
  "data1 spec basedir f =
     (let (n, verglob, specns) = splitSpec spec;
          nameglob = (case specns of None \<Rightarrow> n @ ''*'' | Some ns \<Rightarrow> n @ ''.'' @ ns);
          ds = glob f (pathJoin [basedir, nameglob, verglob])
      in filter (\<lambda>dd. (case specns of None \<Rightarrow> True | Some ns \<Rightarrow> ns = ddOrigin dd) \<and> (n = '''' \<or> n = ddName dd))
           (map (dataDirOf basedir) (filter (\<lambda>d. pathBase d \<noteq> ''current'') ds)))"

definition DataDirs :: "genv \<Rightarrow> string \<Rightarrow> fsys \<Rightarrow> dataDirEntry list" where
  "DataDirs E spec f = data1 spec (SnapDataHomeGlob E) f @ data1 spec (SnapDataDir E) f"

definition DoPurgeActive :: int where "DoPurgeActive = 1"

text \<open>The active packages among those the data belongs to.\<close>

fun activeOwners :: "genv \<Rightarrow> bool \<Rightarrow> dataDirEntry list \<Rightarrow> ('m world_scheme, serr, SnapPart list) io" where
  "activeOwners E purgeActive [] = ret []"
| "activeOwners E purgeActive (dd # dds) =
     bind (attempt (NewInstalledSnapPart E
            (pathJoin [SnapAppsDir E, ddQualifiedName dd, ddVersion dd, ''meta'', ''package.yaml'']) (ddOrigin dd))) (\<lambda>r.
       case r of
         Inl _ \<Rightarrow> activeOwners E purgeActive dds
       | Inr part \<Rightarrow>
           if sisActive part then
             (if \<not> purgeActive then throw (SErr ErrStillActive)
              else bind (activeOwners E purgeActive dds) (\<lambda>ps. ret (part # ps)))
           else activeOwners E purgeActive dds)"

text \<open>Those that could be deactivated, to be activated again in the end.\<close>

fun deactivateAll :: "genv \<Rightarrow> SnapPart list \<Rightarrow> ('m sworld_scheme, serr, SnapPart list) io" where
  "deactivateAll E [] = ret []"
| "deactivateAll E (p # ps) =
     bind (attempt (deactivate E False p)) (\<lambda>r.
     bind (deactivateAll E ps) (\<lambda>qs.
       ret (case r of Inl _ \<Rightarrow> qs | Inr _ \<Rightarrow> p # qs)))"

text \<open>The last error is the one that is returned.\<close>

fun purgeAll :: "genv \<Rightarrow> dataDirEntry list \<Rightarrow> serr option \<Rightarrow> ('m world_scheme, serr, serr option) io" where
  "purgeAll E [] e = ret e"
| "purgeAll E (dd # dds) e =
     bind (attempt (removeSnapData E (ddQualifiedName dd) (ddVersion dd))) (\<lambda>r.
       purgeAll E dds (case r of Inl e' \<Rightarrow> Some e' | Inr _ \<Rightarrow> e))"

definition Purge :: "genv \<Rightarrow> string \<Rightarrow> int \<Rightarrow> ('m sworld_scheme, serr, unit) io" where
  "Purge E partSpec flags =
     bind (gets (\<lambda>w. DataDirs E partSpec (fs w))) (\<lambda>datadirs.
       if datadirs = [] then throw (SErr ErrPackageNotFound)
       else
         bind (activeOwners E (hasFlag flags DoPurgeActive) datadirs) (\<lambda>active.
         bind (deactivateAll E active) (\<lambda>stopped.
         bind (purgeAll E datadirs None) (\<lambda>e.
         andThen (forEach stopped (\<lambda>p. ignoring (activate E False p)))
           (case e of None \<Rightarrow> ret () | Some e \<Rightarrow> throw e)))))"

section \<open>Properties\<close>

subsection \<open>Garbage collection\<close>

lemma keeps_NeedsReboot: "keeps (fsFaults f g) (NeedsReboot E p)"
  by (cases p) (auto simp: siNeedsReboot_def intro!: keeps_intros keeps_IsNextBootOther)

lemma keeps_gcScan: "keeps (fsFaults f g) (gcScan E ps i a)"
proof (induction ps arbitrary: i a)
  case (Cons p ps)
  show ?case by (simp only: gcScan.simps) (intro keeps_intros keeps_NeedsReboot Cons)
qed (simp add: keeps_def)

lemma gcScan_fs: "gcScan E ps i a w = (r, w') \<Longrightarrow> fs w' = fs w"
  using keepsD [OF keeps_gcScan, of "fs w" "faults w" w E ps i a] by (simp add: fsFaults_def)

text \<open>Once an active part has been seen no other is.\<close>

lemma gcScan_seen:
  assumes "gcScan E ps i a w = (Inr (Some k), w')" and "0 \<le> a"
  shows "k = a \<and> list_all (\<lambda>p. \<not> IsActive p) ps"
  using assms
proof (induction ps arbitrary: i w)
  case (Cons p ps)
  then have "\<not> IsActive p" by (auto split: if_splits)
  with Cons show ?case by (auto simp: bind_Inr split: if_splits)
qed simp

lemma gcScan_splits:
  assumes "gcScan E ps i (-1) w = (Inr (Some k), w')" and "0 \<le> i" and "0 \<le> k"
  shows "\<exists>before p after. ps = before @ p # after \<and> k = i + int (length before) \<and> IsActive p
    \<and> list_all (\<lambda>q. \<not> IsActive q) (before @ after)"
  using assms
proof (induction ps arbitrary: i w)
  case (Cons p ps)
  show ?case
  proof (cases "IsActive p")
    case True
    then have "\<exists>w1. gcScan E ps (i + 1) i w1 = (Inr (Some k), w')"
      using Cons.prems(1) by (auto simp: bind_Inr split: if_splits)
    then have "k = i" "list_all (\<lambda>q. \<not> IsActive q) ps"
      using gcScan_seen Cons.prems(2) by blast+
    with True show ?thesis by (intro exI [of _ "[]"]) auto
  next
    case False
    then obtain w1 where "gcScan E ps (i + 1) (-1) w1 = (Inr (Some k), w')"
      using Cons.prems(1) by (auto simp: bind_Inr split: if_splits)
    from Cons.IH [OF this] Cons.prems(2,3) obtain before q after where
      "ps = before @ q # after" "k = i + 1 + int (length before)" "IsActive q"
      "list_all (\<lambda>q. \<not> IsActive q) (before @ after)" by auto
    with False show ?thesis by (intro exI [of _ "p # before"]) auto
  qed
qed simp

text \<open>
  C4. Garbage collection touches nothing but versions older than the one before the active
  one. Whatever order the sort gives to equal versions, either the collection stops in the
  file system it found, or it is the removal, oldest first, of a list of installed versions
  of the name none of which is active, that leaves out the active version, one version
  that is at least as new as all those removed and not newer than the active one, and
  everything newer than the active version.
\<close>

theorem GarbageCollect_keeps_previous:
  assumes "snap_sort srt" and "hasFlag flags DoInstallGC"
    and "allInstalled E w = (Inr installed, w1)" and "wfParts (FindSnapsByName n installed)"
  shows "(\<exists>r w2. GarbageCollect srt E n flags w = (r, w2) \<and> fs w2 = fs w1)
    \<or> (\<exists>old prev active newer w2.
         GarbageCollect srt E n flags w = forEach old (gcUninstall E) w2 \<and> fs w2 = fs w1
       \<and> mset (FindSnapsByName n installed) = mset old + {#prev, active#} + mset newer
       \<and> IsActive active \<and> list_all (\<lambda>p. \<not> IsActive p) (old @ prev # newer)
       \<and> sorted_wrt partLe (old @ prev # active # newer))"
proof -
  define parts where "parts = FindSnapsByName n installed"
  have ms: "mset (srt parts) = mset parts" and so: "sorted_wrt partLe (srt parts)"
    using snap_sort.srt_mset [OF assms(1)] snap_sort.srt_sorted [OF assms(1)] assms(4)
    by (auto simp: parts_def)
  obtain r w2 where scan: "gcScan E (srt parts) 0 (-1) w1 = (r, w2)" by (cases "gcScan E (srt parts) 0 (-1) w1")
  note fs2 = gcScan_fs [OF scan]
  have unf: "GarbageCollect srt E n flags w =
      (if length parts < 3 then (Inr (), w1)
       else case r of Inl e \<Rightarrow> (Inl e, w2) | Inr None \<Rightarrow> (Inr (), w2)
            | Inr (Some k) \<Rightarrow> if k < 1 then (Inr (), w2) else forEach (take (nat (k - 1)) (srt parts)) (gcUninstall E) w2)"
    using assms(2,3) scan
    by (simp add: GarbageCollect_def bind_def parts_def [symmetric] split: sum.splits option.splits)
  show ?thesis
  proof (cases "length parts < 3 \<or> (\<nexists>k. r = Inr (Some k) \<and> 1 \<le> k)")
    case True
    then have "\<exists>r w2. GarbageCollect srt E n flags w = (r, w2) \<and> fs w2 = fs w1"
      using unf fs2 by (auto split: sum.splits option.splits)
    then show ?thesis by blast
  next
    case False
    then obtain k where k: "r = Inr (Some k)" "1 \<le> k" by auto
    with gcScan_splits [of E "srt parts" 0 w1 k w2] scan obtain before act newer where
      sp: "srt parts = before @ act # newer" "k = int (length before)" "IsActive act"
      "list_all (\<lambda>q. \<not> IsActive q) (before @ newer)" by auto
    with k(2) obtain old prev where b: "before = old @ [prev]" by (cases before rule: rev_cases) auto
    have "GarbageCollect srt E n flags w = forEach old (gcUninstall E) w2"
      using unf False k sp(1,2) b by simp
    moreover have "mset parts = mset old + {#prev, act#} + mset newer"
      using ms sp(1) b by (metis mset_append mset.simps append_Cons append_Nil append_assoc add_mset_add_single
          union_mset_add_mset_left union_mset_add_mset_right add.commute add_cancel_right_right)
    ultimately show ?thesis
      using sp(3,4) so sp(1) b fs2 unfolding parts_def [symmetric]
      by (intro disjI2 exI [of _ old] exI [of _ prev] exI [of _ act] exI [of _ newer] exI [of _ w2]) simp
  qed
qed

subsection \<open>Choosing a version\<close>

text \<open>
  C14. Rolling back without a version goes to the last but one: among the installed versions
  of the name at most one is newer than the version chosen, all the others are not, and that
  version is then made the active one, or the error says why it could not be.
\<close>

theorem Rollback_previous:
  assumes "snap_sort srt" and "allInstalled E w = (Inr installed, w1)"
    and "wfParts (FindSnapsByName p installed)" and "2 \<le> length (FindSnapsByName p installed)"
  shows "\<exists>prev newest older.
      mset (FindSnapsByName p installed) = {#prev, newest#} + older
    \<and> partLe prev newest \<and> (\<forall>q \<in># older. partLe q prev)
    \<and> Rollback srt E p '''' w =
        (case makeSnapActiveByNameAndVersion E p (PartVersion prev) w1 of
           (Inl e, w') \<Rightarrow> (Inl e, w') | (Inr _, w') \<Rightarrow> (Inr (PartVersion prev), w'))"
proof -
  let ?parts = "FindSnapsByName p installed"
  let ?prev = "srt ?parts ! (length ?parts - 2)"
  have "Rollback srt E p '''' w =
      (case makeSnapActiveByNameAndVersion E p (PartVersion ?prev) w1 of
         (Inl e, w') \<Rightarrow> (Inl e, w') | (Inr _, w') \<Rightarrow> (Inr (PartVersion ?prev), w'))"
    using assms(2,4) by (simp add: Rollback_def rollbackVersion_def Let_def bind_def andThen_def ret_def)
  moreover obtain newest older where "mset ?parts = {#?prev, newest#} + older" "partLe ?prev newest"
    "\<forall>q \<in># older. partLe q ?prev"
    using snap_sort.srt_prev [OF assms(1,3,4)] by blast
  ultimately show ?thesis by (intro exI [of _ ?prev] exI [of _ newest] exI [of _ older]) simp
qed

text \<open>\<open>chosenPart\<close> takes the active version, and the newest one when none is active.\<close>

lemma chosenPart_spec:
  assumes "snap_sort srt" and "wfParts ps" and "ps \<noteq> []"
  shows "chosenPart srt ps \<in> set ps
    \<and> (if list_ex IsActive ps then IsActive (chosenPart srt ps) else list_all (\<lambda>q. q = chosenPart srt ps \<or> partLe q (chosenPart srt ps)) ps)"
proof -
  have set: "set (srt ps) = set ps" using snap_sort.set_srt [OF assms(1)] by simp
  with assms(3) obtain qs q where q: "srt ps = qs @ [q]" by (cases "srt ps" rule: rev_cases) auto
  have so: "\<forall>x \<in> set qs. partLe x q"
    using snap_sort.srt_sorted [OF assms(1,2)] by (simp add: q sorted_wrt_append)
  show ?thesis
  proof (cases "find IsActive (rev (srt ps))")
    case None
    then have "\<forall>p \<in> set ps. \<not> IsActive p" by (simp add: find_None_iff set)
    moreover have "chosenPart srt ps = q" using None by (simp add: chosenPart_def q)
    moreover have "set ps = insert q (set qs)" using set q by auto
    ultimately show ?thesis using so by (auto simp: list_ex_iff list_all_iff)
  next
    case (Some p)
    then have "IsActive p" "p \<in> set ps"
      by (auto simp: find_Some_iff set [symmetric] simp del: set_rev) (metis length_rev nth_mem set_rev)
    with Some show ?thesis by (auto simp: chosenPart_def list_ex_iff)
  qed
qed

subsection \<open>Purging\<close>

lemma activeOwners_result:
  "activeOwners E False dds w = (if list_ex (\<lambda>dd. case fst (NewInstalledSnapPart E
        (pathJoin [SnapAppsDir E, ddQualifiedName dd, ddVersion dd, ''meta'', ''package.yaml'']) (ddOrigin dd) w) of
      Inr part \<Rightarrow> sisActive part | Inl _ \<Rightarrow> False) dds then Inl (SErr ErrStillActive) else Inr [], w)"
proof (induction dds)
  case (Cons dd dds)
  have "snd (NewInstalledSnapPart E q orig w) = w" for q orig
    by (rule keeps_world) (rule keeps_NewInstalledSnapPart)
  with Cons show ?case by (auto simp: bind_def split: sum.splits)
qed simp

text \<open>
  Without the flag, purging refuses as soon as one of the data directories that the
  specification selects belongs to the active version of a package, before anything is
  removed or stopped: the system is as it was.
\<close>

lemma Purge_refuses_active:
  assumes "\<not> hasFlag flags DoPurgeActive" and "dd \<in> set (DataDirs E spec (fs w))"
    and "fst (NewInstalledSnapPart E
      (pathJoin [SnapAppsDir E, ddQualifiedName dd, ddVersion dd, ''meta'', ''package.yaml'']) (ddOrigin dd) w) = Inr part"
    and "sisActive part"
  shows "Purge E spec flags w = (Inl (SErr ErrStillActive), w)"
proof -
  have "activeOwners E False (DataDirs E spec (fs w)) w = (Inl (SErr ErrStillActive), w)"
    unfolding activeOwners_result using assms(2-4) by (auto simp: list_ex_iff intro!: bexI [of _ dd])
  moreover have "DataDirs E spec (fs w) \<noteq> []" using assms(2) by auto
  ultimately show ?thesis using assms(1) by (simp add: Purge_def bind_def)
qed

subsection \<open>Witnesses\<close>

definition verFs :: "string \<Rightarrow> fsys" where
  "verFs v = [(''/apps/f.m/'' @ v, FDir), (''/apps/f.m/'' @ v @ ''/meta'', FDir),
     (''/apps/f.m/'' @ v @ ''/meta/package.yaml'', FFile ''name: f''),
     (''/apps/f.m/'' @ v @ ''/meta/hashes.yaml'', FFile '''')]"

definition verWorld :: sworld where
  "verWorld = fooWorld ([(''/apps'', FDir), (''/apps/f.m'', FDir)] @ verFs ''1'' @ verFs ''9'' @ verFs ''3''
     @ [(''/apps/f.m/current'', FLink ''3'')])"

definition verListed :: "(serr, Part list) res \<times> sworld" where
  "verListed = allInstalled fooEnv verWorld"

lemma verListed_run:
  "case fst verListed of
     Inr ps \<Rightarrow> map (\<lambda>p. (PartVersion p, IsActive p)) ps = [(''1'', False), (''3'', True), (''9'', False)]
       \<and> list_all (\<lambda>p. PartName p = ''f'' \<and> Origin p = ''m'') ps
   | _ \<Rightarrow> False"
  by code_simp

lemma verListed_three:
  obtains ps where "allInstalled fooEnv verWorld = (Inr ps, snd verListed)"
    "length (FindSnapsByName ''f.m'' ps) = 3" "wfParts (FindSnapsByName ''f.m'' ps)"
proof -
  obtain ps where r: "fst verListed = Inr ps"
    and m: "map (\<lambda>p. (PartVersion p, IsActive p)) ps = [(''1'', False), (''3'', True), (''9'', False)]"
    and n: "list_all (\<lambda>p. PartName p = ''f'' \<and> Origin p = ''m'') ps"
    using verListed_run by (cases "fst verListed") auto
  have "SplitOrigin ''f.m'' = (''f'', ''m'')" by code_simp
  with n have f: "FindSnapsByName ''f.m'' ps = ps"
    by (simp add: FindSnapsByName_def list_all_iff)
  have "wfFull ''1''" "wfFull ''3''" "wfFull ''9''" by code_simp+
  with m have "wfParts ps" "length ps = 3" by (auto simp: wfParts_def)
  moreover have "allInstalled fooEnv verWorld = (Inr ps, snd verListed)"
    using r by (metis verListed_def prod.collapse)
  ultimately show ?thesis using that f by simp
qed

theorem GarbageCollect_keeps_previous_witness:
  "\<exists>installed w1. allInstalled fooEnv verWorld = (Inr installed, w1)
     \<and> length (FindSnapsByName ''f.m'' installed) = 3
     \<and> ((\<exists>r w2. GarbageCollect sortParts fooEnv ''f.m'' 4 verWorld = (r, w2) \<and> fs w2 = fs w1)
       \<or> (\<exists>old prev active newer w2.
            GarbageCollect sortParts fooEnv ''f.m'' 4 verWorld = forEach old (gcUninstall fooEnv) w2
          \<and> fs w2 = fs w1
          \<and> mset (FindSnapsByName ''f.m'' installed) = mset old + {#prev, active#} + mset newer
          \<and> IsActive active \<and> list_all (\<lambda>p. \<not> IsActive p) (old @ prev # newer)
          \<and> sorted_wrt partLe (old @ prev # active # newer)))"
proof -
  obtain ps where ps: "allInstalled fooEnv verWorld = (Inr ps, snd verListed)"
    "length (FindSnapsByName ''f.m'' ps) = 3" "wfParts (FindSnapsByName ''f.m'' ps)"
    by (rule verListed_three)
  have "hasFlag 4 DoInstallGC" by code_simp
  from GarbageCollect_keeps_previous [OF insertion.snap_sort_axioms this ps(1,3)] ps(1,2)
  show ?thesis by blast
qed

theorem Rollback_previous_witness:
  "\<exists>installed w1 prev newest older. allInstalled fooEnv verWorld = (Inr installed, w1)
     \<and> mset (FindSnapsByName ''f.m'' installed) = {#prev, newest#} + older
     \<and> partLe prev newest \<and> size older = 1"
proof -
  obtain ps where ps: "allInstalled fooEnv verWorld = (Inr ps, snd verListed)"
    "length (FindSnapsByName ''f.m'' ps) = 3" "wfParts (FindSnapsByName ''f.m'' ps)"
    by (rule verListed_three)
  have "2 \<le> length (FindSnapsByName ''f.m'' ps)" using ps(2) by simp
  from Rollback_previous [OF insertion.snap_sort_axioms ps(1,3) this] obtain prev newest older where
    m: "mset (FindSnapsByName ''f.m'' ps) = {#prev, newest#} + older" and le: "partLe prev newest" by blast
  have "size (mset (FindSnapsByName ''f.m'' ps)) = 3" using ps(2) by simp
  then have "size older = 1" unfolding m by simp
  with m le ps(1) show ?thesis by blast
qed

definition dataWorld :: sworld where
  "dataWorld = fooWorld (verFs ''1'' @ [(''/apps'', FDir), (''/apps/f.m'', FDir), (''/apps/f.m/current'', FLink ''1''),
     (''/var'', FDir), (''/var/lib'', FDir), (''/var/lib/apps'', FDir), (''/var/lib/apps/f.m'', FDir),
     (''/var/lib/apps/f.m/1'', FDir)])"

definition dataFound :: dataDirEntry where
  "dataFound = \<lparr>ddBase = ''/var/lib/apps'', ddName = ''f'', ddOrigin = ''m'', ddVersion = ''1''\<rparr>"

lemma dataFound_run:
  "DataDirs fooEnv ''f=1'' (fs dataWorld) = [dataFound]"
  "case fst (NewInstalledSnapPart fooEnv
     (pathJoin [SnapAppsDir fooEnv, ddQualifiedName dataFound, ddVersion dataFound, ''meta'', ''package.yaml''])
     (ddOrigin dataFound) dataWorld) of Inr part \<Rightarrow> sisActive part | _ \<Rightarrow> False"
  by code_simp+

lemma Purge_refuses_active_example:
  "Purge fooEnv ''f=1'' 0 dataWorld = (Inl (SErr ErrStillActive), dataWorld)"
proof -
  have "\<not> hasFlag 0 DoPurgeActive" by code_simp
  moreover have "dataFound \<in> set (DataDirs fooEnv ''f=1'' (fs dataWorld))" by (simp add: dataFound_run(1))
  ultimately show ?thesis
    using Purge_refuses_active [of 0 dataFound fooEnv "''f=1''" dataWorld] dataFound_run(2)
    by (auto split: sum.splits)
qed

end
