(* ===== verification/Lightweight.thy ===== *)
theory Lightweight
  imports Services Manage
begin

text \<open>
  Bags of versions: \<^verbatim>\<open>pkg/lightweight/lightweight.go\<close> and \<^verbatim>\<open>pkg/removed/removed.go\<close>. A bag
  collects the versions of a package from its data directories and loads one on demand; a
  version whose files are gone loads as a removed package. The sort of the versions and the
  size of a directory are arguments.
\<close>

section \<open>Removed packages\<close>

record Removed =
  rmName :: string
  rmOrigin :: string
  rmVersion :: string
  rmType :: string
  rmRemote :: "remoteSnap option"

definition removedOrigin :: "Removed \<Rightarrow> string" where
  "removedOrigin r =
     (case rmRemote r of
        Some s \<Rightarrow> rsOrigin s
      | None \<Rightarrow> if rmOrigin r = '''' then SideloadedOrigin else rmOrigin r)"

definition removedManifestPath :: "genv \<Rightarrow> Removed \<Rightarrow> string" where
  "removedManifestPath E r =
     (let qn = (if rmType r = TypeFramework \<or> rmType r = TypeOem then rmName r
                else rmName r @ ''.'' @ removedOrigin r)
      in pathJoin [SnapMetaDir E, qn @ ''_'' @ rmVersion r @ ''.manifest''])"

text \<open>\<^verbatim>\<open>removed.New\<close>: a manifest that is missing, empty or not understood leaves the pointer nil.\<close>

definition NewRemoved :: "genv \<Rightarrow> string \<Rightarrow> string \<Rightarrow> string \<Rightarrow> string \<Rightarrow> ('m world_scheme, serr, Removed) io" where
  "NewRemoved E n origin version pkgType =
     (let part = \<lparr>rmName = n, rmOrigin = origin, rmVersion = version, rmType = pkgType, rmRemote = None\<rparr>
      in bind (attempt (ioReadFile (removedManifestPath E part))) (\<lambda>r.
           ret (part\<lparr>rmRemote :=
             (case r of
                Inl _ \<Rightarrow> None
              | Inr content \<Rightarrow>
                  if content = '''' then None
                  else (case yamlRemote (ytools E) content of Inl _ \<Rightarrow> None | Inr s \<Rightarrow> Some s))\<rparr>)))"

text \<open>A part that was loaded, with the methods of the interface.\<close>

datatype loaded = Live Part | Gone Removed

fun lName :: "loaded \<Rightarrow> string" where
  "lName (Live p) = PartName p" | "lName (Gone r) = rmName r"

fun lVersion :: "loaded \<Rightarrow> string" where
  "lVersion (Live p) = PartVersion p" | "lVersion (Gone r) = rmVersion r"

fun lOrigin :: "loaded \<Rightarrow> string" where
  "lOrigin (Live p) = Origin p" | "lOrigin (Gone r) = removedOrigin r"

fun lType :: "loaded \<Rightarrow> string" where
  "lType (Live p) = Type p" | "lType (Gone r) = rmType r"

fun lDescription :: "loaded \<Rightarrow> string" where
  "lDescription (Live p) = Description p"
| "lDescription (Gone r) = (case rmRemote r of Some s \<Rightarrow> rsDescription s | None \<Rightarrow> '''')"

fun lVendor :: "loaded \<Rightarrow> string" where
  "lVendor (Live p) = Vendor p"
| "lVendor (Gone r) = (case rmRemote r of Some s \<Rightarrow> rsPublisher s | None \<Rightarrow> '''')"

fun lIcon :: "genv \<Rightarrow> fsys \<Rightarrow> loaded \<Rightarrow> string" where
  "lIcon E f (Live p) = Icon E f p"
| "lIcon E f (Gone r) = (case rmRemote r of Some s \<Rightarrow> rsIconURL s | None \<Rightarrow> '''')"

fun lIsActive :: "loaded \<Rightarrow> bool" where
  "lIsActive (Live p) = IsActive p" | "lIsActive (Gone r) = False"

fun lIsInstalled :: "loaded \<Rightarrow> bool" where
  "lIsInstalled (Live p) = IsInstalled p" | "lIsInstalled (Gone r) = False"

fun lInstalledSize :: "(string \<Rightarrow> fsys \<Rightarrow> int) \<Rightarrow> fsys \<Rightarrow> loaded \<Rightarrow> int" where
  "lInstalledSize sz f (Live (SnapP s)) = sz (sbasedir s) f"
| "lInstalledSize sz f _ = -1"

fun lDownloadSize :: "loaded \<Rightarrow> int" where
  "lDownloadSize (Live p) = DownloadSize p"
| "lDownloadSize (Gone r) = (case rmRemote r of Some s \<Rightarrow> rsDownloadSize s | None \<Rightarrow> -1)"

text \<open>A removed package refuses everything that would change it.\<close>

definition ErrRemoved :: serr where
  "ErrRemoved = Errorf ''package is removed''"

fun lInstall :: "genv \<Rightarrow> netenv \<Rightarrow> bool \<Rightarrow> int \<Rightarrow> loaded \<Rightarrow> ('m sworld_scheme, serr, string) io" where
  "lInstall E N ag flags (Live p) = partInstall E N ag flags p"
| "lInstall E N ag flags (Gone r) = throw ErrRemoved"

fun lUninstall :: "genv \<Rightarrow> loaded \<Rightarrow> ('m sworld_scheme, serr, unit) io" where
  "lUninstall E (Live p) = partUninstall E p"
| "lUninstall E (Gone r) = throw ErrRemoved"

fun lSetActive :: "genv \<Rightarrow> loaded \<Rightarrow> bool \<Rightarrow> ('m sworld_scheme, serr, unit) io" where
  "lSetActive E (Live p) active = partSetActive E p active"
| "lSetActive E (Gone r) active = throw ErrRemoved"

section \<open>Paths of versions\<close>

text \<open>The part before and after the last occurrence of a character, if there is one.\<close>

definition cutLast :: "'a \<Rightarrow> 'a list \<Rightarrow> ('a list \<times> 'a list) option" where
  "cutLast c xs =
     (if c \<in> set xs
      then Some (rev (tl (dropWhile (\<lambda>x. x \<noteq> c) (rev xs))), rev (takeWhile (\<lambda>x. x \<noteq> c) (rev xs)))
      else None)"

definition split :: "string \<Rightarrow> (serr, string \<times> string \<times> string) res" where
  "split path =
     (case cutLast slash path of
        None \<Rightarrow> Inl (GoPanic ''bad path given to split: must have at least two separators'')
      | Some (dir, file) \<Rightarrow>
          (let n = (case cutLast slash dir of None \<Rightarrow> dir | Some (_, n) \<Rightarrow> n)
           in case cutLast (CHR ''.'') n of
                None \<Rightarrow> Inr (n, '''', file)
              | Some (n, ext) \<Rightarrow> Inr (n, ext, file)))"

fun extractLoop :: "string \<Rightarrow> string \<Rightarrow> string list \<Rightarrow> (serr, string list \<times> string list) res" where
  "extractLoop n origin [] = Inr ([], [])"
| "extractLoop n origin (p # paths) =
     rbind (split p) (\<lambda>(m, o', v).
       if n \<noteq> m \<or> origin \<noteq> o' then Inr ([], p # paths)
       else rbind (extractLoop n origin paths) (\<lambda>(versions, rest).
              Inr (if v = ''current'' then versions else v # versions, rest)))"

fun extractBag :: "string list \<Rightarrow> (serr, string \<times> string \<times> string list \<times> string list) res" where
  "extractBag [] = Inl (GoPanic ''index out of range'')"
| "extractBag (p # paths) =
     rbind (split p) (\<lambda>(n, origin, _).
       rbind (extractLoop n origin (p # paths)) (\<lambda>(versions, rest).
         Inr (n, origin, versions, rest)))"

lemma extractLoop_shorter: "extractLoop n origin ps = Inr (vs, rest) \<Longrightarrow> length rest \<le> length ps"
  by (induction ps arbitrary: vs rest)
     (auto simp: rbind_def split: sum.splits prod.splits if_splits intro: le_SucI)

lemma extract_shorter: "extractBag ps = Inr (n, origin, vs, rest) \<Longrightarrow> length rest < length ps"
  by (cases ps)
     (auto simp: rbind_def split: sum.splits prod.splits if_splits dest!: extractLoop_shorter)

section \<open>Bags\<close>

datatype concrete = concreteCore | concreteSnap string

record PartBag =
  bagName :: string
  bagOrigin :: string
  bagType :: string
  bagVersions :: "string list"
  bagConcrete :: concrete

definition bagQualifiedName :: "PartBag \<Rightarrow> string" where
  "bagQualifiedName b = (if bagOrigin b = '''' then bagName b else bagName b @ ''.'' @ bagOrigin b)"

type_synonym vsorter = "string list \<Rightarrow> string list"

text \<open>
  The loop over the paths of one glob. The type and the directory belong to the glob, not to
  the package: they are passed on to the packages after it.
\<close>

function bagLoop ::
    "vsorter \<Rightarrow> genv \<Rightarrow> fsys \<Rightarrow> string \<Rightarrow> string \<Rightarrow> string list \<Rightarrow> (string, PartBag) gomap
      \<Rightarrow> (serr, (string, PartBag) gomap) res" where
  "bagLoop vsrt E f typ inst paths bags =
     (if paths = [] then Inr bags
      else case extractBag paths of
        Inl e \<Rightarrow> Inl e
      | Inr (n, origin, versions, rest) \<Rightarrow>
          if origin \<noteq> '''' \<and> typ \<noteq> TypeApp then bagLoop vsrt E f typ inst rest bags
          else
            (let oem = (typ = TypeFramework \<and> exists f (pathJoin [SnapOemDir E, n]));
                 typ = (if oem then TypeOem else typ); inst = (if oem then SnapOemDir E else inst);
                 bag = \<lparr>bagName = n, bagOrigin = origin, bagType = typ, bagVersions = vsrt versions,
                        bagConcrete = concreteSnap inst\<rparr>
             in bagLoop vsrt E f typ inst rest (mput bags (bagQualifiedName bag) bag)))"
  by pat_completeness auto
termination
  by (relation "measure (\<lambda>(vsrt, E, f, typ, inst, paths, bags). length paths)") (auto dest: extract_shorter)

declare bagLoop.simps [simp del]

definition coreParts :: "genv \<Rightarrow> ('m pworld_scheme, serr, SystemImagePart list) io" where
  "coreParts E = bind (liftP (New (lsblkOut E))) (siInstalled E)"

definition badCore :: "genv \<Rightarrow> (string \<Rightarrow> serr) \<Rightarrow> serr \<Rightarrow> serr" where
  "badCore E wrap e =
     (if isPanicErr e then e else wrap (''Bad SystemImageRepository: '' @ errorText (goarch E) e))"

definition coreBag :: "vsorter \<Rightarrow> SystemImagePart list \<Rightarrow> (string, PartBag) gomap" where
  "coreBag vsrt parts =
     (if parts = [] then []
      else
        (let bag = \<lparr>bagName = SystemImagePartName, bagOrigin = SystemImagePartOrigin, bagType = TypeCore,
                    bagVersions = vsrt (map siVersion parts), bagConcrete = concreteCore\<rparr>
         in [(bagQualifiedName bag, bag)]))"

definition findBags :: "vsorter \<Rightarrow> genv \<Rightarrow> string \<Rightarrow> string \<Rightarrow> ('m pworld_scheme, serr, (string, PartBag) gomap) io" where
  "findBags vsrt E n origin =
     bind (if (n = SystemImagePartName \<or> n = ''*'') \<and> (origin = SystemImagePartOrigin \<or> origin = ''*'')
           then bind (mapErr (badCore E GoPanic) (coreParts E)) (\<lambda>parts. ret (coreBag vsrt parts)) else ret []) (\<lambda>bags.
     bind (gets fs) (\<lambda>f.
     bind (fromRes (bagLoop vsrt E f TypeApp (SnapAppsDir E)
             (glob f (pathJoin [SnapDataDir E, n @ ''.'' @ origin, ''*''])) bags)) (\<lambda>bags.
       fromRes (bagLoop vsrt E f TypeFramework (SnapAppsDir E)
             (glob f (pathJoin [SnapDataDir E, n, ''*''])) bags))))"

definition badBagName :: "string \<Rightarrow> bool" where
  "badBagName n \<longleftrightarrow> list_ex (\<lambda>c. c \<in> set ''.*?/'') n"

text \<open>
  The first bag that the loop over the map meets; \<open>rng\<close> is the order in which it visits the
  map. There can be two bags, of the application and of a framework of the same name.
\<close>

type_synonym bagOrder = "(string, PartBag) gomap \<Rightarrow> (string, PartBag) gomap"

definition PartBagByName ::
    "bagOrder \<Rightarrow> vsorter \<Rightarrow> genv \<Rightarrow> string \<Rightarrow> string \<Rightarrow> ('m pworld_scheme, serr, PartBag option) io" where
  "PartBagByName rng vsrt E n origin =
     (if badBagName n \<or> badBagName origin then throw (GoPanic (''invalid name '' @ n @ ''.'' @ origin))
      else bind (findBags vsrt E n origin) (\<lambda>bags. ret (case rng bags of [] \<Rightarrow> None | (_, b) # _ \<Rightarrow> Some b)))"

definition AllPartBags :: "vsorter \<Rightarrow> genv \<Rightarrow> ('m pworld_scheme, serr, (string, PartBag) gomap) io" where
  "AllPartBags vsrt E = findBags vsrt E ''*'' ''*''"

section \<open>Loading\<close>

definition ErrBadVersionIndex :: serr where "ErrBadVersionIndex = Errorf ''Bad version index''"
definition ErrVersionGone :: serr where "ErrVersionGone = Errorf ''Version gone''"

definition metaYaml :: "string \<Rightarrow> PartBag \<Rightarrow> string \<Rightarrow> string" where
  "metaYaml instdir b version = pathJoin [instdir, bagQualifiedName b, version, ''meta'', ''package.yaml'']"

fun indexFrom :: "int \<Rightarrow> string \<Rightarrow> string list \<Rightarrow> int" where
  "indexFrom i x [] = -1"
| "indexFrom i x (y # ys) = (if y = x then i else indexFrom (i + 1) x ys)"

definition ActiveIndex :: "PartBag option \<Rightarrow> fsys \<Rightarrow> int" where
  "ActiveIndex bag f =
     (case bag of
        None \<Rightarrow> -1
      | Some b \<Rightarrow>
          if bagVersions b = [] then -1
          else case bagConcrete b of
            concreteCore \<Rightarrow> 0
          | concreteSnap instdir \<Rightarrow>
              (case fget f (pathJoin [instdir, bagQualifiedName b, ''current'']) of
                 Some (FLink t) \<Rightarrow> indexFrom 0 (pathBase t) (bagVersions b)
               | _ \<Rightarrow> -1))"

definition bagIsInstalled :: "PartBag \<Rightarrow> int \<Rightarrow> fsys \<Rightarrow> bool" where
  "bagIsInstalled b idx f =
     (if idx < 0 \<or> int (length (bagVersions b)) \<le> idx then False
      else case bagConcrete b of
        concreteCore \<Rightarrow> True
      | concreteSnap instdir \<Rightarrow> exists f (metaYaml instdir b (bagVersions b ! nat idx)))"

definition loadCore :: "genv \<Rightarrow> string \<Rightarrow> ('m pworld_scheme, serr, loaded) io" where
  "loadCore E version =
     bind (mapErr (badCore E Errorf) (coreParts E)) (\<lambda>parts.
       case find (\<lambda>p. siVersion p = version) parts of
         None \<Rightarrow> throw ErrVersionGone
       | Some p \<Rightarrow> ret (Live (SysP p)))"

definition loadSnap :: "genv \<Rightarrow> string \<Rightarrow> PartBag \<Rightarrow> string \<Rightarrow> ('m world_scheme, serr, loaded) io" where
  "loadSnap E instdir b version =
     bind (gets (\<lambda>w. exists (fs w) (metaYaml instdir b version))) (\<lambda>ex.
       if \<not> ex then bind (NewRemoved E (bagName b) (bagOrigin b) version (bagType b)) (\<lambda>r. ret (Gone r))
       else bind (NewInstalledSnapPart E (metaYaml instdir b version) (bagOrigin b)) (\<lambda>s. ret (Live (SnapP s))))"

definition Load :: "genv \<Rightarrow> PartBag option \<Rightarrow> int \<Rightarrow> ('m pworld_scheme, serr, loaded option) io" where
  "Load E bag idx =
     (case bag of
        None \<Rightarrow> ret None
      | Some b \<Rightarrow>
          if idx < 0 \<or> int (length (bagVersions b)) \<le> idx then throw ErrBadVersionIndex
          else
            bind (case bagConcrete b of
                    concreteCore \<Rightarrow> loadCore E (bagVersions b ! nat idx)
                  | concreteSnap instdir \<Rightarrow> loadSnap E instdir b (bagVersions b ! nat idx))
              (\<lambda>p. ret (Some p)))"

definition LoadActive :: "genv \<Rightarrow> PartBag option \<Rightarrow> ('m pworld_scheme, serr, loaded option) io" where
  "LoadActive E bag = bind (gets (\<lambda>w. ActiveIndex bag (fs w))) (Load E bag)"

text \<open>\<^verbatim>\<open>part, err := ...; err == nil\<close>: an error that is no panic is no part.\<close>

definition orNoPart :: "('w, serr, loaded option) io \<Rightarrow> ('w, serr, loaded option) io" where
  "orNoPart m =
     bind (attempt m) (\<lambda>r.
       case r of Inr p \<Rightarrow> ret p | Inl e \<Rightarrow> if isPanicErr e then throw e else ret None)"

fun firstInstalled :: "genv \<Rightarrow> PartBag \<Rightarrow> int list \<Rightarrow> ('m pworld_scheme, serr, loaded option) io" where
  "firstInstalled E b [] = ret None"
| "firstInstalled E b (i # is) =
     bind (gets (\<lambda>w. bagIsInstalled b i (fs w))) (\<lambda>inst.
       if inst then
         bind (orNoPart (Load E (Some b) i)) (\<lambda>p.
           case p of Some p \<Rightarrow> ret (Some p) | None \<Rightarrow> firstInstalled E b is)
       else firstInstalled E b is)"

definition LoadBest :: "genv \<Rightarrow> PartBag option \<Rightarrow> ('m pworld_scheme, serr, loaded option) io" where
  "LoadBest E bag =
     (case bag of
        None \<Rightarrow> ret None
      | Some b \<Rightarrow>
          if bagVersions b = [] then ret None
          else
            bind (orNoPart (LoadActive E bag)) (\<lambda>p.
              case p of
                Some p \<Rightarrow> ret (Some p)
              | None \<Rightarrow>
                  bind (firstInstalled E b [0..int (length (bagVersions b)) - 1]) (\<lambda>p.
                    case p of Some p \<Rightarrow> ret (Some p) | None \<Rightarrow> orNoPart (Load E bag 0))))"

section \<open>The description of a package\<close>

definition statusOf :: "loaded option \<Rightarrow> string" where
  "statusOf part =
     (case part of
        None \<Rightarrow> ''not installed''
      | Some p \<Rightarrow> if lIsActive p then ''active'' else if lIsInstalled p then ''installed'' else ''removed'')"

fun rollbackFrom :: "PartBag \<Rightarrow> fsys \<Rightarrow> int list \<Rightarrow> string" where
  "rollbackFrom b f [] = ''''"
| "rollbackFrom b f (i # is) = (if bagIsInstalled b i f then bagVersions b ! nat i else rollbackFrom b f is)"

definition orElse :: "string \<Rightarrow> string \<Rightarrow> string" where
  "orElse a b = (if a = '''' then b else a)"

definition bagFields ::
    "(string \<Rightarrow> fsys \<Rightarrow> int) \<Rightarrow> genv \<Rightarrow> fsys \<Rightarrow> loaded option \<Rightarrow> Part option \<Rightarrow> (string, string) gomap" where
  "bagFields sz E f part remotePart =
     (let local = (\<lambda>g. case part of None \<Rightarrow> '''' | Some p \<Rightarrow> g p);
          remote = (\<lambda>g. case remotePart of None \<Rightarrow> '''' | Some p \<Rightarrow> g p)
      in [(''icon'', orElse (local (lIcon E f)) (remote (Icon E f))),
          (''name'', if part = None then remote PartName else local lName),
          (''origin'', if part = None then remote Origin else local lOrigin),
          (''status'', statusOf part),
          (''type'', if part = None then remote Type else local lType),
          (''vendor'', orElse (local lVendor) (remote Vendor)),
          (''version'', if part = None then remote PartVersion else local lVersion),
          (''description'', orElse (local lDescription) (remote Description)),
          (''installed_size'', case part of None \<Rightarrow> ''-1'' | Some p \<Rightarrow> itoa (lInstalledSize sz f p)),
          (''download_size'',
             case remotePart of
               Some r \<Rightarrow> itoa (DownloadSize r)
             | None \<Rightarrow> (case part of None \<Rightarrow> ''-1'' | Some p \<Rightarrow> itoa (lDownloadSize p)))])"

definition bagUpdate :: "int \<Rightarrow> string \<Rightarrow> Part option \<Rightarrow> string" where
  "bagUpdate idx version remotePart =
     (case remotePart of
        Some r \<Rightarrow> if 0 \<le> idx \<and> version \<noteq> PartVersion r then PartVersion r else ''''
      | None \<Rightarrow> '''')"

definition bagRollback :: "int \<Rightarrow> PartBag option \<Rightarrow> fsys \<Rightarrow> string" where
  "bagRollback idx bag f =
     (case bag of
        Some b \<Rightarrow> if 0 \<le> idx then rollbackFrom b f [idx + 1..int (length (bagVersions b)) - 1] else ''''
      | None \<Rightarrow> '''')"

definition bagResult ::
    "(string \<Rightarrow> fsys \<Rightarrow> int) \<Rightarrow> genv \<Rightarrow> PartBag option \<Rightarrow> loaded option \<Rightarrow> Part option \<Rightarrow> fsys \<Rightarrow> (string, string) gomap" where
  "bagResult sz E bag part remotePart f =
     (let result = bagFields sz E f part remotePart;
          idx = ActiveIndex bag f;
          rollback = bagRollback idx bag f;
          update = bagUpdate idx (case mget result ''version'' of None \<Rightarrow> '''' | Some v \<Rightarrow> v) remotePart
      in result @ (if rollback \<noteq> '''' then [(''rollback_available'', rollback)] else [])
                @ (if update \<noteq> '''' then [(''update_available'', update)] else []))"

definition bagMap ::
    "(string \<Rightarrow> fsys \<Rightarrow> int) \<Rightarrow> genv \<Rightarrow> PartBag option \<Rightarrow> Part option \<Rightarrow> ('m pworld_scheme, serr, (string, string) gomap) io" where
  "bagMap sz E bag remotePart =
     (if bag = None \<and> remotePart = None
      then throw (GoPanic ''part bag & part both nil -- how did i even get here'')
      else
        bind (LoadBest E bag) (\<lambda>part.
        if part = None \<and> remotePart = None then throw (GoPanic ''unable to load a valid part'')
        else bind (gets fs) (\<lambda>f. ret (bagResult sz E bag part remotePart f))))"

section \<open>Facts\<close>

subsection \<open>Grouping\<close>

lemma cutLast_append: "c \<notin> set ys \<Longrightarrow> cutLast c (xs @ c # ys) = Some (xs, ys)"
  by (simp add: cutLast_def takeWhile_append dropWhile_append)

lemma cutLast_SplitOrigin:
  "SplitOrigin n = (case cutLast (CHR ''.'') n of None \<Rightarrow> (n, '''') | Some (m, e) \<Rightarrow> (m, e))"
  by (simp add: SplitOrigin_def cutLast_def)

definition versionPath :: "string \<Rightarrow> string \<Rightarrow> string \<Rightarrow> string" where
  "versionPath base d v = base @ slash # d @ slash # v"

lemma split_versionPath:
  assumes "slash \<notin> set d" and "slash \<notin> set v"
  shows "split (versionPath base d v) = Inr (fst (SplitOrigin d), snd (SplitOrigin d), v)"
proof -
  have "cutLast slash (versionPath base d v) = Some (base @ slash # d, v)"
    using cutLast_append [of slash v "base @ slash # d"] assms(2) by (simp add: versionPath_def)
  moreover have "cutLast slash (base @ slash # d) = Some (base, d)" using assms(1) by (rule cutLast_append)
  ultimately show ?thesis
    by (simp add: split_def cutLast_SplitOrigin split: option.splits prod.splits)
qed

text \<open>A group of paths of one directory, before paths of another one.\<close>

definition groupPaths :: "string \<Rightarrow> string \<times> string list \<Rightarrow> string list" where
  "groupPaths base g = map (versionPath base (fst g)) (snd g)"

definition wfGroup :: "string \<times> string list \<Rightarrow> bool" where
  "wfGroup g \<longleftrightarrow> slash \<notin> set (fst g) \<and> snd g \<noteq> [] \<and> list_all (\<lambda>v. slash \<notin> set v) (snd g)"

lemma extractLoop_group:
  assumes "slash \<notin> set d" and "list_all (\<lambda>v. slash \<notin> set v) vs"
    and "case rest of [] \<Rightarrow> True | p # _ \<Rightarrow> \<exists>n o' v. split p = Inr (n, o', v) \<and> (n, o') \<noteq> SplitOrigin d"
  shows "extractLoop (fst (SplitOrigin d)) (snd (SplitOrigin d)) (map (versionPath base d) vs @ rest)
    = Inr (filter (\<lambda>v. v \<noteq> ''current'') vs, rest)"
  using assms(2)
proof (induction vs)
  case Nil
  show ?case using assms(3) by (cases rest) (auto simp: rbind_def prod_eq_iff)
next
  case (Cons v vs)
  then show ?case by (simp add: split_versionPath [OF assms(1)] rbind_def)
qed

lemma extractBag_group:
  assumes "wfGroup (d, vs)"
    and "case rest of [] \<Rightarrow> True | p # _ \<Rightarrow> \<exists>n o' v. split p = Inr (n, o', v) \<and> (n, o') \<noteq> SplitOrigin d"
  shows "extractBag (groupPaths base (d, vs) @ rest)
    = Inr (fst (SplitOrigin d), snd (SplitOrigin d), filter (\<lambda>v. v \<noteq> ''current'') vs, rest)"
proof -
  obtain v vs' where vs: "vs = v # vs'" using assms(1) by (cases vs) (auto simp: wfGroup_def)
  have d: "slash \<notin> set d" and w: "list_all (\<lambda>v. slash \<notin> set v) vs" using assms(1) by (auto simp: wfGroup_def)
  from extractLoop_group [OF d w assms(2), of base] w show ?thesis
    by (simp add: groupPaths_def vs rbind_def split_versionPath [OF d])
qed

lemma groups_head:
  assumes "list_all wfGroup gs" and "d \<notin> set (map fst gs)" and "inj_on SplitOrigin (insert d (set (map fst gs)))"
  shows "case concat (map (groupPaths base) gs) of [] \<Rightarrow> True
    | p # _ \<Rightarrow> \<exists>n o' v. split p = Inr (n, o', v) \<and> (n, o') \<noteq> SplitOrigin d"
proof (cases gs)
  case (Cons g gs')
  obtain e v vs where g: "g = (e, v # vs)" using assms(1) Cons by (cases g; cases "snd g") (auto simp: wfGroup_def)
  have "split (versionPath base e v) = Inr (fst (SplitOrigin e), snd (SplitOrigin e), v)"
    using assms(1) Cons g by (intro split_versionPath) (auto simp: wfGroup_def)
  moreover have "SplitOrigin e \<noteq> SplitOrigin d"
    using assms(2,3) Cons g by (auto simp: inj_on_def)
  ultimately show ?thesis using Cons g by (simp add: groupPaths_def)
qed simp

definition appBag :: "vsorter \<Rightarrow> string \<Rightarrow> string \<times> string list \<Rightarrow> PartBag" where
  "appBag vsrt inst g =
     \<lparr>bagName = fst (SplitOrigin (fst g)), bagOrigin = snd (SplitOrigin (fst g)), bagType = TypeApp,
      bagVersions = vsrt (filter (\<lambda>v. v \<noteq> ''current'') (snd g)), bagConcrete = concreteSnap inst\<rparr>"

lemma bagLoop_apps:
  assumes "list_all wfGroup gs" and "distinct (map fst gs)" and "inj_on SplitOrigin (set (map fst gs))"
  shows "bagLoop vsrt E f TypeApp inst (concat (map (groupPaths base) gs)) bags
    = Inr (fold (\<lambda>g m. mput m (bagQualifiedName (appBag vsrt inst g)) (appBag vsrt inst g)) gs bags)"
  using assms
proof (induction gs arbitrary: bags)
  case (Cons g gs)
  obtain d vs where g: "g = (d, vs)" by (cases g)
  have ne: "groupPaths base g \<noteq> []" using Cons.prems(1) by (simp add: groupPaths_def wfGroup_def)
  have "extractBag (groupPaths base (d, vs) @ concat (map (groupPaths base) gs))
      = Inr (fst (SplitOrigin d), snd (SplitOrigin d), filter (\<lambda>v. v \<noteq> ''current'') vs, concat (map (groupPaths base) gs))"
    using Cons.prems g by (intro extractBag_group groups_head) auto
  with Cons ne g show ?case
    by (subst bagLoop.simps) (simp add: Let_def appBag_def inj_on_def)
qed (simp add: bagLoop.simps)

definition dotless :: "string \<Rightarrow> bool" where
  "dotless d \<longleftrightarrow> d = '''' \<or> last d \<noteq> CHR ''.''"

lemma SplitOrigin_rejoin:
  assumes "dotless d"
  shows "(if snd (SplitOrigin d) = '''' then fst (SplitOrigin d) else fst (SplitOrigin d) @ ''.'' @ snd (SplitOrigin d)) = d"
proof (cases "CHR ''.'' \<in> set d")
  case True
  then obtain a b where ab: "d = a @ CHR ''.'' # b" "CHR ''.'' \<notin> set b" by (metis split_list_last)
  then have "SplitOrigin d = (a, b)" by (simp add: cutLast_SplitOrigin cutLast_append)
  moreover have "b \<noteq> ''''" using assms ab(1) by (auto simp: dotless_def)
  ultimately show ?thesis using ab(1) by simp
qed (simp add: SplitOrigin_def)

lemma inj_SplitOrigin: "list_all dotless ds \<Longrightarrow> inj_on SplitOrigin (set ds)"
  by (rule inj_onI) (metis SplitOrigin_rejoin list_all_iff)

lemma appBag_qualified: "dotless (fst g) \<Longrightarrow> bagQualifiedName (appBag vsrt inst g) = fst g"
  using SplitOrigin_rejoin [of "fst g"] by (simp add: bagQualifiedName_def appBag_def split: if_splits)

lemma mget_fold_mput:
  assumes "distinct (map k gs)"
  shows "mget (fold (\<lambda>g m. mput m (k g) (h g)) gs m) x =
    (case find (\<lambda>g. k g = x) gs of None \<Rightarrow> mget m x | Some g \<Rightarrow> Some (h g))"
  using assms
proof (induction gs arbitrary: m)
  case (Cons g gs)
  have "find (\<lambda>g'. k g' = x) gs = None" if "k g = x" using Cons.prems that by (auto simp: find_None_iff) (metis imageI)
  with Cons show ?case by (auto split: option.splits)
qed simp

text \<open>
  C30. The bags of the applications are the data directories: when the paths are listed
  directory by directory, as the glob lists them, there is exactly one bag for every
  directory that has entries, under the name of the directory, and its versions are the
  sorted entries of that directory without the link \<^verbatim>\<open>current\<close>.
\<close>

theorem bags_by_directory:
  assumes "list_all wfGroup gs" and "distinct (map fst gs)" and "list_all dotless (map fst gs)"
  shows "\<exists>bags. bagLoop vsrt E f TypeApp inst (concat (map (groupPaths base) gs)) [] = Inr bags
    \<and> (\<forall>d vs. (d, vs) \<in> set gs \<longrightarrow>
         (\<exists>b. mget bags d = Some b \<and> bagQualifiedName b = d
            \<and> bagVersions b = vsrt (filter (\<lambda>v. v \<noteq> ''current'') vs)))
    \<and> (\<forall>d. mget bags d \<noteq> None \<longrightarrow> d \<in> set (map fst gs))"
proof -
  let ?k = "\<lambda>g. bagQualifiedName (appBag vsrt inst g)"
  let ?bags = "fold (\<lambda>g m. mput m (?k g) (appBag vsrt inst g)) gs []"
  have run: "bagLoop vsrt E f TypeApp inst (concat (map (groupPaths base) gs)) [] = Inr ?bags"
    by (rule bagLoop_apps [OF assms(1,2) inj_SplitOrigin [OF assms(3)]])
  have k: "?k g = fst g" if "g \<in> set gs" for g
    using assms(3) that by (intro appBag_qualified) (auto simp: list_all_iff)
  then have keys: "map ?k gs = map fst gs" by simp
  have get: "mget ?bags d = (case find (\<lambda>g. ?k g = d) gs of None \<Rightarrow> mget [] d | Some g \<Rightarrow> Some (appBag vsrt inst g))" for d
    by (rule mget_fold_mput) (simp only: keys assms(2))
  have "mget ?bags d = Some (appBag vsrt inst (d, vs))" if "(d, vs) \<in> set gs" for d vs
  proof -
    have "find (\<lambda>g. ?k g = d) gs \<noteq> None" using that k by (auto simp: find_None_iff)
    then obtain g where g: "find (\<lambda>g. ?k g = d) gs = Some g" by auto
    then have "g \<in> set gs" "?k g = d" by (auto simp: find_Some_iff)
    then have "fst g = d" using k by simp
    with \<open>g \<in> set gs\<close> that assms(2) have "g = (d, vs)"
      by (metis eq_key_imp_eq_value prod.collapse)
    then show ?thesis using get g by simp
  qed
  moreover have "d \<in> set (map fst gs)" if "mget ?bags d \<noteq> None" for d
    using that get [of d] k by (auto simp: mget_def find_None_iff find_Some_iff split: option.splits) (metis fst_conv image_eqI nth_mem)
  ultimately show ?thesis
    using run k by (intro exI [of _ ?bags]) (fastforce simp: appBag_def)
qed

theorem bags_by_directory_witness:
  "\<exists>bags b. bagLoop rev fooEnv [] TypeApp ''/apps''
       [''/d/f.m/1'', ''/d/f.m/2'', ''/d/f.m/current'', ''/d/g/3''] [] = Inr bags
     \<and> mget bags ''f.m'' = Some b \<and> bagVersions b = [''2'', ''1''] \<and> mget bags ''h'' = None"
proof -
  let ?gs = "[(''f.m'', [''1'', ''2'', ''current'']), (''g'', [''3''])]"
  have "list_all wfGroup ?gs" "distinct (map fst ?gs)" "list_all dotless (map fst ?gs)"
    by (simp_all add: wfGroup_def dotless_def)
  from bags_by_directory [OF this, of rev fooEnv "[]" "''/apps''" "''/d''"] obtain bags where
    r: "bagLoop rev fooEnv [] TypeApp ''/apps'' (concat (map (groupPaths ''/d'') ?gs)) [] = Inr bags"
    and g: "\<forall>d vs. (d, vs) \<in> set ?gs \<longrightarrow>
         (\<exists>b. mget bags d = Some b \<and> bagQualifiedName b = d \<and> bagVersions b = rev (filter (\<lambda>v. v \<noteq> ''current'') vs))"
    and n: "\<forall>d. mget bags d \<noteq> None \<longrightarrow> d \<in> set (map fst ?gs)" by blast
  have "concat (map (groupPaths ''/d'') ?gs) = [''/d/f.m/1'', ''/d/f.m/2'', ''/d/f.m/current'', ''/d/g/3'']"
    by (simp add: groupPaths_def versionPath_def)
  moreover obtain b where "mget bags ''f.m'' = Some b" "bagVersions b = [''2'', ''1'']"
    using g [rule_format, of "''f.m''" "[''1'', ''2'', ''current'']"] by auto
  moreover have "mget bags ''h'' = None" using n by fastforce
  ultimately show ?thesis using r by auto
qed

subsection \<open>Frameworks next to an oem package\<close>

definition oemFs :: fsys where
  "oemFs = [(''/oem/a'', FDir), (''/apps/b/1/meta/package.yaml'', FFile '''')]"

text \<open>
  When all packages are listed, a framework that comes after an oem package in the data
  directory is taken for an oem package: here the framework \<open>b\<close> is installed, but its bag has
  the type and the directory of the oem package \<open>a\<close> and says that it is not. Listed alone,
  its bag is right.
\<close>

lemma framework_after_oem:
  "(case bagLoop rev fooEnv oemFs TypeFramework ''/apps'' [''/var/lib/apps/a/1'', ''/var/lib/apps/b/1''] [] of
      Inl _ \<Rightarrow> False
    | Inr bags \<Rightarrow>
        (case mget bags ''b'' of
           None \<Rightarrow> False
         | Some b \<Rightarrow> bagType b = TypeOem \<and> bagVersions b = [''1''] \<and> \<not> bagIsInstalled b 0 oemFs))
   \<and> (case bagLoop rev fooEnv oemFs TypeFramework ''/apps'' [''/var/lib/apps/b/1''] [] of
        Inl _ \<Rightarrow> False
      | Inr bags \<Rightarrow>
          (case mget bags ''b'' of
             None \<Rightarrow> False
           | Some b \<Rightarrow> bagType b = TypeFramework \<and> bagIsInstalled b 0 oemFs))"
  by code_simp

subsection \<open>Rolling back\<close>

text \<open>What is offered as a rollback is the first installed version after the active one.\<close>

lemma rollbackFrom_first:
  assumes "rollbackFrom b f is = v" and "v \<noteq> ''''"
  shows "\<exists>ks i js. is = ks @ i # js \<and> v = bagVersions b ! nat i \<and> bagIsInstalled b i f
    \<and> (\<forall>j \<in> set ks. \<not> bagIsInstalled b j f)"
  using assms
proof (induction "is")
  case (Cons i js)
  show ?case
  proof (cases "bagIsInstalled b i f")
    case True
    then show ?thesis using Cons.prems by (intro exI [of _ "[]"]) auto
  next
    case False
    with Cons obtain ks i' js' where "js = ks @ i' # js'" "v = bagVersions b ! nat i'" "bagIsInstalled b i' f"
      "\<forall>j \<in> set ks. \<not> bagIsInstalled b j f" by auto
    with False show ?thesis by (intro exI [of _ "i # ks"]) auto
  qed
qed simp

lemma indexFrom_range: "indexFrom i x ys = k \<Longrightarrow> 0 \<le> i \<Longrightarrow> k = -1 \<or> (i \<le> k \<and> k < i + int (length ys) \<and> ys ! nat (k - i) = x)"
proof (induction ys arbitrary: i)
  case (Cons y ys)
  show ?case
  proof (cases "y = x")
    case False
    with Cons.prems have "k = -1 \<or> (i + 1 \<le> k \<and> k < i + 1 + int (length ys) \<and> ys ! nat (k - (i + 1)) = x)"
      by (intro Cons.IH) auto
    moreover have "(y # ys) ! nat (k - i) = ys ! nat (k - (i + 1))" if "i + 1 \<le> k"
      using that by (simp add: nth_Cons' nat_diff_distrib diff_diff_eq [symmetric])
    ultimately show ?thesis by auto
  qed (use Cons.prems in auto)
qed simp

lemma bagMap_rollback:
  assumes "bagMap sz E (Some b) r w = (Inr m, w')" and "mget m ''rollback_available'' = Some v"
  shows "\<exists>i. ActiveIndex (Some b) (fs w') < i \<and> i < int (length (bagVersions b)) \<and> v = bagVersions b ! nat i
    \<and> bagIsInstalled b i (fs w') \<and> (\<forall>j. ActiveIndex (Some b) (fs w') < j \<and> j < i \<longrightarrow> \<not> bagIsInstalled b j (fs w'))"
proof -
  let ?a = "ActiveIndex (Some b) (fs w')" and ?n = "int (length (bagVersions b)) - 1"
  obtain part where m: "m = bagResult sz E (Some b) part r (fs w')"
    using assms(1) by (auto simp: bagMap_def bind_Inr split: if_splits)
  have "mget (bagFields sz E (fs w') part r) ''rollback_available'' = None"
    by (simp add: bagFields_def mget_def Let_def)
  then have "bagRollback ?a (Some b) (fs w') = v \<and> v \<noteq> ''''"
    using assms(2) unfolding m bagResult_def
    by (auto simp: mget_def Let_def map_add_def split: if_splits option.splits)
  then have v: "rollbackFrom b (fs w') [?a + 1..?n] = v \<and> v \<noteq> ''''"
    by (auto simp: bagRollback_def split: if_splits)
  from rollbackFrom_first [OF conjunct1 [OF v] conjunct2 [OF v]] obtain ks i js where
    i: "[?a + 1..?n] = ks @ i # js" "v = bagVersions b ! nat i" "bagIsInstalled b i (fs w')"
    "\<forall>j \<in> set ks. \<not> bagIsInstalled b j (fs w')" by blast
  have "i \<in> set [?a + 1..?n]" unfolding i(1) by simp
  then have range: "?a < i" "i < int (length (bagVersions b))" by auto
  have "j \<in> set ks" if "?a < j" "j < i" for j
  proof -
    have "sorted (ks @ i # js)" by (metis i(1) sorted_upto)
    moreover have "j \<in> set (ks @ i # js)" unfolding i(1) [symmetric] using that range by auto
    ultimately show ?thesis using that(2) by (auto simp: sorted_append)
  qed
  then show ?thesis using i range by blast
qed

end
