(* ===== verification/Api.thy ===== *)
theory Api
  imports Tasks Lightweight
begin

unbundle bit_operations_syntax

text \<open>
  The handlers of the daemon, \<^verbatim>\<open>daemon/api.go\<close>. A handler answers at once or starts a task; the
  functions that the tasks run are the values of \<open>job\<close>. The decoders of bodies, the router, the
  description of values in json and the configuration of the core system are the fields of
  \<open>apienv\<close>.
\<close>

section \<open>Requests\<close>

record request =
  rqMethod :: string
  rqPath :: string
  rqVars :: "(string, string) gomap"
  rqBody :: string
  rqContentType :: string
  rqAllowUnsigned :: bool

definition muxVar :: "request \<Rightarrow> string \<Rightarrow> string" where
  "muxVar r k = (case mget (rqVars r) k of None \<Rightarrow> '''' | Some v \<Rightarrow> v)"

record apienv =
  decStrings :: "string \<Rightarrow> (string, (string, string) gomap) res"
  decInstruction :: "string \<Rightarrow> (string, string \<times> bool) res"
  decForm :: "string \<Rightarrow> string \<Rightarrow> (serr, bool \<times> string option) res"
  routeURL :: "string \<Rightarrow> (string, string) gomap \<Rightarrow> (serr, string) res"
  hasRoute :: "string \<Rightarrow> bool"
  routeVars :: "string \<Rightarrow> string \<Rightarrow> (string, string) gomap option"
  specValue :: "ServiceYaml \<Rightarrow> jvalue"
  statusValue :: "PackageServiceStatus \<Rightarrow> jvalue"
  logValueOf :: "Log \<Rightarrow> jvalue"
  coreConfig :: "string \<Rightarrow> fsys \<Rightarrow> (serr, string) res \<times> fsys"
  storeAll :: "(serr, remoteSnap list) res"
  sortQN :: sorter
  sortVersion :: sorter
  sortVersions :: vsorter
  bagRange :: bagOrder
  dirSize :: "string \<Rightarrow> fsys \<Rightarrow> int"
  relFlavor :: string
  relSeries :: string
  relChannel :: string

text \<open>Everything the handlers are given.\<close>

record apictx =
  cE :: genv
  cN :: netenv
  cR :: runenv
  cA :: apienv

definition operationPath :: string where "operationPath = ''/1.0/operations/{uuid}''"
definition packagePath :: string where "packagePath = ''/1.0/packages/{name}.{origin}''"
definition metaIconPath :: string where "metaIconPath = ''/1.0/icons/{icon}''"
definition appIconPath :: string where "appIconPath = ''/1.0/icons/{name}.{origin}/icon''"

section \<open>What tasks run\<close>

datatype instruction = Instruction (inAction: string) (inLeaveOld: bool) (inPkg: string)

definition leaveFlags :: "bool \<Rightarrow> int \<Rightarrow> int" where
  "leaveFlags leaveOld flag = (if leaveOld then 0 else flag)"

definition instInstall :: "apictx \<Rightarrow> instruction \<Rightarrow> ('m sworld_scheme, serr, jvalue) io" where
  "instInstall C i =
     andThen (Install (sortVersion (cA C)) (cE C) (cN C) True (inPkg i) (leaveFlags (inLeaveOld i) DoInstallGC)) (ret VNil)"

definition instUpdate :: "apictx \<Rightarrow> instruction \<Rightarrow> ('m sworld_scheme, serr, jvalue) io" where
  "instUpdate C i =
     (let flags = leaveFlags (inLeaveOld i) DoInstallGC
      in bind (ListUpdates (cE C) (cN C)) (\<lambda>parts.
           case find (\<lambda>p. QualifiedName p = inPkg i) parts of
             None \<Rightarrow> ret (VStr ''package is up to date'')
           | Some part \<Rightarrow>
               andThen (partInstall (cE C) (cN C) True flags part)
              (andThen (GarbageCollect (sortVersion (cA C)) (cE C) (inPkg i) flags) (ret VNil))))"

definition instRemove :: "apictx \<Rightarrow> instruction \<Rightarrow> ('m sworld_scheme, serr, jvalue) io" where
  "instRemove C i = andThen (Remove (cE C) (inPkg i) (leaveFlags (inLeaveOld i) DoRemoveGC)) (ret VNil)"

definition instPurge :: "apictx \<Rightarrow> instruction \<Rightarrow> ('m sworld_scheme, serr, jvalue) io" where
  "instPurge C i = andThen (Purge (cE C) (inPkg i) 0) (ret VNil)"

definition instRollback :: "apictx \<Rightarrow> instruction \<Rightarrow> ('m sworld_scheme, serr, jvalue) io" where
  "instRollback C i = andThen (Rollback (sortVersion (cA C)) (cE C) (inPkg i) '''') (ret VNil)"

definition instActivate :: "apictx \<Rightarrow> instruction \<Rightarrow> bool \<Rightarrow> ('m sworld_scheme, serr, jvalue) io" where
  "instActivate C i active = andThen (SetActive (sortVersion (cA C)) (cE C) (inPkg i) active) (ret VNil)"

definition dispatch :: "apictx \<Rightarrow> instruction \<Rightarrow> ('m sworld_scheme, serr, jvalue) io option" where
  "dispatch C i =
     (if inAction i = ''install'' then Some (instInstall C i)
      else if inAction i = ''update'' then Some (instUpdate C i)
      else if inAction i = ''remove'' then Some (instRemove C i)
      else if inAction i = ''purge'' then Some (instPurge C i)
      else if inAction i = ''rollback'' then Some (instRollback C i)
      else if inAction i = ''activate'' then Some (instActivate C i True)
      else if inAction i = ''deactivate'' then Some (instActivate C i False)
      else None)"

text \<open>The services of a package with the requested operation and, once known, their status.\<close>

record svcDesc =
  sdOp :: string
  sdSpec :: "ServiceYaml option"
  sdStatus :: "PackageServiceStatus option"

definition svcMap :: "string \<Rightarrow> ServiceYaml list \<Rightarrow> (string, svcDesc) gomap" where
  "svcMap action svcs =
     fold (\<lambda>y m. mput m (svcName y) \<lparr>sdOp = action, sdSpec = Some y, sdStatus = None\<rparr>) svcs []"

definition addStatus :: "PackageServiceStatus \<Rightarrow> (string, svcDesc) gomap \<Rightarrow> (string, svcDesc) gomap" where
  "addStatus st m =
     mput m (ServiceName st)
       (case mget m (ServiceName st) of
          Some desc \<Rightarrow> desc\<lparr>sdStatus := Some st\<rparr>
        | None \<Rightarrow> \<lparr>sdOp = '''', sdSpec = None, sdStatus = Some st\<rparr>)"

definition descValue :: "apienv \<Rightarrow> svcDesc \<Rightarrow> jvalue" where
  "descValue A d =
     VMap [(''op'', VStr (sdOp d)),
           (''spec'', case sdSpec d of None \<Rightarrow> VNil | Some y \<Rightarrow> specValue A y),
           (''status'', case sdStatus d of None \<Rightarrow> VNil | Some s \<Rightarrow> statusValue A s)]"

definition svcStatus :: "apictx \<Rightarrow> svcT list \<Rightarrow> (string, svcDesc) gomap \<Rightarrow> string \<Rightarrow> ('m sworld_scheme, serr, jvalue) io" where
  "svcStatus C actor m svc =
     bind (actorServiceStatus (cE C) actor) (\<lambda>status.
       let m = fold addStatus status m
       in ret (if svc = '''' then VMap (map (\<lambda>(k, d). (k, descValue (cA C) d)) m)
               else case mget m svc of None \<Rightarrow> VNil | Some d \<Rightarrow> descValue (cA C) d))"

definition svcAction :: "apictx \<Rightarrow> string \<Rightarrow> svcT list \<Rightarrow> ('m sworld_scheme, serr, unit) io" where
  "svcAction C action actor =
     (if action = ''start'' then actorStart (cE C) actor
      else if action = ''stop'' then actorStop (cE C) actor
      else if action = ''enable'' then actorEnable (cE C) actor
      else if action = ''disable'' then actorDisable (cE C) actor
      else if action = ''restart'' then actorRestart (cE C) actor
      else ret ())"

text \<open>\<^verbatim>\<open>Config\<close> of a part.\<close>

definition partConfig :: "apictx \<Rightarrow> loaded \<Rightarrow> string \<Rightarrow> ('m sworld_scheme, serr, string) io" where
  "partConfig C p cfg =
     (case p of
        Live (SnapP s) \<Rightarrow> snapConfig (cR C) (cE C) (sbasedir s) (sorigin s) cfg
      | Live (SysP s) \<Rightarrow> (\<lambda>w. case coreConfig (cA C) cfg (fs w) of (r, f) \<Rightarrow> (r, w\<lparr>fs := f\<rparr>))
      | Live (RemoteP r) \<Rightarrow> ret ''''
      | Gone r \<Rightarrow> throw ErrRemoved)"

definition subtask :: "string \<Rightarrow> jvalue \<Rightarrow> jvalue" where
  "subtask status output = VMap [(''status'', VStr status), (''output'', output)]"

definition subtaskFailed :: "genv \<Rightarrow> string \<Rightarrow> serr \<Rightarrow> jvalue" where
  "subtaskFailed E msg e = subtask TaskFailed (VErr (ErrorResult (errorText (goarch E) e) msg (Some e)))"

definition configOne ::
    "apictx \<Rightarrow> (string, PartBag) gomap \<Rightarrow> string \<Rightarrow> string \<Rightarrow> ('m sworld_scheme, serr, jvalue) io" where
  "configOne C bags pkg cfg =
     (case mget bags pkg of
        None \<Rightarrow> ret (subtaskFailed (cE C) '''' (SErr ErrPackageNotFound))
      | Some bag \<Rightarrow>
          bind (orNoPart (LoadActive (cE C) (Some bag))) (\<lambda>part.
            case part of
              None \<Rightarrow> ret (subtaskFailed (cE C) '''' (SErr ErrSnapNotActive))
            | Some p \<Rightarrow>
                bind (attempt (partConfig C p cfg)) (\<lambda>r.
                  case r of
                    Inl e \<Rightarrow> if isPanicErr e then throw e else ret (subtaskFailed (cE C) ''Config failed'' e)
                  | Inr config \<Rightarrow> ret (subtask TaskSucceeded (VStr config)))))"

fun configAll ::
    "apictx \<Rightarrow> (string, PartBag) gomap \<Rightarrow> (string, string) gomap \<Rightarrow> ('m sworld_scheme, serr, (string \<times> jvalue) list) io" where
  "configAll C bags [] = ret []"
| "configAll C bags ((pkg, cfg) # rest) =
     bind (configOne C bags pkg cfg) (\<lambda>v.
     bind (configAll C bags rest) (\<lambda>vs. ret ((pkg, v) # vs)))"

definition sideload :: "apictx \<Rightarrow> string \<Rightarrow> bool \<Rightarrow> ('m sworld_scheme, serr, jvalue) io" where
  "sideload C tmpf unsignedOk =
     deferIO
       (bind (NewSnapPartFromSnapFile (cE C) tmpf SideloadedOrigin unsignedOk) (\<lambda>part.
        bind (snapInstall (cE C) True 0 part) (\<lambda>n. ret (VStr n))))
       (\<lambda>r. andThen (ignoring (ioRemove tmpf)) (fromRes r))"

datatype job =
    JInstruction instruction
  | JService string "svcT list" "(string, svcDesc) gomap" string
  | JConfig "(string, string) gomap"
  | JSideload string bool

text \<open>\<^verbatim>\<open>progress.NullProgress\<close> agrees to nothing.\<close>

definition nullProgress :: "('m sworld_scheme, 'e, 'a) io \<Rightarrow> ('m sworld_scheme, 'e, 'a) io" where
  "nullProgress m = (\<lambda>w. case m (w\<lparr>agrees := \<lambda>_ _. False\<rparr>) of (r, w') \<Rightarrow> (r, w'\<lparr>agrees := agrees w\<rparr>))"

fun runJob ::"apictx \<Rightarrow> job \<Rightarrow> ('m sworld_scheme, serr, jvalue) io" where
  "runJob C (JInstruction i) =
     (case dispatch C i of None \<Rightarrow> throw (GoPanic ''nil function'') | Some f \<Rightarrow> nullProgress f)"
| "runJob C (JService action actor m svc) =
     andThen (svcAction C action actor) (svcStatus C actor m svc)"
| "runJob C (JConfig pkgs) =
     bind (AllPartBags (sortVersions (cA C)) (cE C)) (\<lambda>bags.
     bind (configAll C bags pkgs) (\<lambda>vs. ret (VMap vs)))"
| "runJob C (JSideload tmpf unsignedOk) = nullProgress (sideload C tmpf unsignedOk)"

section \<open>Handlers\<close>

text \<open>
  The daemon in its world: the table of tasks, the functions of the running ones, and the
  identifier that the source of random numbers gives next. The snappy package sees its own part
  of the world only; a panic in it unwinds through the handler.
\<close>

record dworld = sworld +
  dm :: daemon
  dJobs :: "(string \<times> job) list"
  nextUUID :: UUID

definition onSnappy :: "(sworld, serr, 'a) io \<Rightarrow> (dworld, serr, 'a) io" where
  "onSnappy m = (\<lambda>w.
     case m (sworld.truncate w) of
       (r, s) \<Rightarrow> (r, sworld.extend s (dworld.fields (dm w) (dJobs w) (nextUUID w))))"

definition snappyTry :: "(sworld, serr, 'a) io \<Rightarrow> (dworld, serr, (serr, 'a) res) io" where
  "snappyTry m =
     bind (onSnappy (attempt m)) (\<lambda>r.
       case r of Inl e \<Rightarrow> if isPanicErr e then throw e else ret r | Inr _ \<Rightarrow> ret r)"

definition opURL :: "apictx \<Rightarrow> string \<Rightarrow> string option" where
  "opURL C uuid =
     (case routeURL (cA C) operationPath [(''uuid'', uuid)] of Inl _ \<Rightarrow> None | Inr u \<Rightarrow> Some u)"

text \<open>\<^verbatim>\<open>AddTask\<close> with the job as its function, and the answer that describes the new task.\<close>

definition startTask :: "apictx \<Rightarrow> job \<Rightarrow> (dworld, serr, response) io" where
  "startTask C j = (\<lambda>w.
     let u = nextUUID w; t = newTask u (dNow (dm w))
     in (Inr (AsyncResponse (TaskMap (opURL C) t t t)),
         w\<lparr>dm := AddTask u (dm w), dJobs := (UUIDString u, j) # dJobs w\<rparr>))"

text \<open>Handlers that start tasks need the route of the operations.\<close>

definition withOperations ::
    "apictx \<Rightarrow> (dworld, serr, response) io \<Rightarrow> (dworld, serr, response) io" where
  "withOperations C m =
     (if hasRoute (cA C) operationPath then m
      else ret (InternalError (cE C) None ''router can't find route for operation''))"

definition v1Get :: "apictx \<Rightarrow> (dworld, serr, response) io" where
  "v1Get C =
     bind (onSnappy (StoreID (cE C))) (\<lambda>store.
       ret (SyncResponse (cE C) (Inr (VMap
         ([(''flavor'', VStr (relFlavor (cA C))), (''release'', VStr (relSeries (cA C))),
           (''default_channel'', VStr (relChannel (cA C))), (''api_compat'', VStr ''0'')]
          @ (if store \<noteq> '''' then [(''store'', VStr store)] else []))))))"

text \<open>The address of the package and, for an icon that is a file, the address it is served at.\<close>

definition webify :: "apictx \<Rightarrow> (string, string) gomap \<Rightarrow> string \<Rightarrow> (string, string) gomap" where
  "webify C result resource =
     (let E = cE C; A = cA C; result = mput result ''resource'' resource;
          val = (\<lambda>k. case mget result k of None \<Rightarrow> '''' | Some v \<Rightarrow> v); icon = val ''icon''
      in if icon = '''' \<or> hasPrefix icon ''http'' then result
         else
           (let (path, args) =
                  (if hasPrefix icon (SnapIconsDir E)
                   then (metaIconPath, [(''icon'', drop (length (SnapIconsDir E) + 1) icon)])
                   else (appIconPath, [(''name'', val ''name''), (''origin'', val ''origin'')]))
            in mput result ''icon''
                 (if hasRoute A path
                  then (case routeURL A path args of Inl _ \<Rightarrow> '''' | Inr u \<Rightarrow> u) else '''')))"

definition stringMap :: "(string, string) gomap \<Rightarrow> jvalue" where
  "stringMap m = VMap (map (\<lambda>(k, v). (k, VStr v)) m)"

definition pkgURL :: "apictx \<Rightarrow> string \<Rightarrow> string \<Rightarrow> (serr, string) res" where
  "pkgURL C n origin = routeURL (cA C) packagePath [(''name'', n), (''origin'', origin)]"

text \<open>Errors of the store are not looked at; panics are.\<close>

definition storeDetail :: "apictx \<Rightarrow> string \<Rightarrow> string \<Rightarrow> (dworld, serr, Part option) io" where
  "storeDetail C n origin =
     bind (onSnappy (orNone (metaDetails (cE C) NewMetaStoreRepository n origin))) (\<lambda>parts.
       ret (case parts of [] \<Rightarrow> None | p # _ \<Rightarrow> p))"

definition getPackageInfo :: "apictx \<Rightarrow> request \<Rightarrow> (dworld, serr, response) io" where
  "getPackageInfo C r =
     (let E = cE C; A = cA C; n = muxVar r ''name''; origin = muxVar r ''origin''
      in bind (storeDetail C n origin) (\<lambda>part.
         bind (onSnappy (PartBagByName (bagRange A) (sortVersions A) E n origin)) (\<lambda>bag.
           if bag = None \<and> part = None then ret (NotFound E None '''')
           else if \<not> hasRoute A packagePath
           then ret (InternalError E None (''router can't find route for package '' @ n @ ''.'' @ origin))
           else case pkgURL C n origin of
             Inl e \<Rightarrow> ret (InternalError E (Some e)
                        (''route can't build URL for package '' @ n @ ''.'' @ origin @ '': '' @ errorText (goarch E) e))
           | Inr url \<Rightarrow>
               bind (onSnappy (bagMap (dirSize A) E bag part)) (\<lambda>m.
                 ret (SyncResponse E (Inr (stringMap (webify C m url))))))))"

text \<open>The packages of the store and of the update server, then the bags that are left.\<close>

fun listFound ::
    "apictx \<Rightarrow> Part list \<Rightarrow> (string, PartBag) gomap \<Rightarrow> (string, jvalue) gomap
      \<Rightarrow> (dworld, serr, response + (string, PartBag) gomap \<times> (string, jvalue) gomap) io" where
  "listFound C [] bags results = ret (Inr (bags, results))"
| "listFound C (part # parts) bags results =
     (let E = cE C; n = PartName part; origin = Origin part; qn = QualifiedName part
      in case pkgURL C n origin of
           Inl e \<Rightarrow> ret (Inl (InternalError E (Some e)
                      (''can't get route to details for '' @ n @ ''.'' @ origin @ '': '' @ errorText (goarch E) e)))
         | Inr url \<Rightarrow>
             bind (onSnappy (bagMap (dirSize (cA C)) E (mget bags qn) (Some part))) (\<lambda>m.
               listFound C parts (filter (\<lambda>(k, _). k \<noteq> qn) bags)
                 (mput results (n @ ''.'' @ origin) (stringMap (webify C m url)))))"

fun listBags ::
    "apictx \<Rightarrow> (string, PartBag) gomap \<Rightarrow> (string, jvalue) gomap \<Rightarrow> (dworld, serr, (string, jvalue) gomap) io" where
  "listBags C [] results = ret results"
| "listBags C ((_, b) # bags) results =
     bind (onSnappy (bagMap (dirSize (cA C)) (cE C) (Some b) None)) (\<lambda>m.
       let val = (\<lambda>k. case mget m k of None \<Rightarrow> '''' | Some v \<Rightarrow> v); n = val ''name''; origin = val ''origin'';
           resource = (case pkgURL C n origin of Inl _ \<Rightarrow> ''no resource URL for this resource'' | Inr u \<Rightarrow> u)
       in listBags C bags (mput results (n @ ''.'' @ origin) (stringMap (webify C m resource))))"

definition getPackagesInfo :: "apictx \<Rightarrow> (dworld, serr, response) io" where
  "getPackagesInfo C =
     (let E = cE C; A = cA C
      in if \<not> hasRoute A packagePath then ret (InternalError E None ''router can't find route for packages'')
         else
           (let found = (case storeAll A of Inl _ \<Rightarrow> [] | Inr rs \<Rightarrow> map RemoteP rs)
            in bind (onSnappy (liftP (New (lsblkOut E)))) (\<lambda>p.
               bind (onSnappy (orNone (siUpdates E (cN C) p))) (\<lambda>upd.
               bind (onSnappy (AllPartBags (sortVersions A) E)) (\<lambda>bags.
               bind (listFound C (sortQN A (found @ upd)) bags []) (\<lambda>r.
                 case r of
                   Inl e \<Rightarrow> ret e
                 | Inr (bags, results) \<Rightarrow>
                     bind (listBags C (bagRange A bags) results) (\<lambda>results.
                       ret (SyncResponse E (Inr (VMap
                         [(''packages'', VMap results),
                          (''sources'', VList (map VStr ([''local'']
                             @ (if found \<noteq> [] then [''store''] else []) @ (if upd \<noteq> [] then [''system-image''] else [])))),
                          (''paging'', VMap [(''pages'', VNum 1), (''page'', VNum 1),
                                             (''count'', VNum (int (length results)))])]))))))))))"

subsection \<open>Services, configuration, logs\<close>

definition svcActionName :: "apictx \<Rightarrow> request \<Rightarrow> (response, string) res" where
  "svcActionName C r =
     rbind (if rqMethod r = ''GET'' then Inr ''status''
            else case decStrings (cA C) (rqBody r) of
              Inl e \<Rightarrow> Inl (BadRequest (cE C) (Some (Errorf e))
                         (''can't decode request body into service command: '' @ e))
            | Inr cmd \<Rightarrow> Inr (case mget cmd ''action'' of None \<Rightarrow> '''' | Some a \<Rightarrow> a)) (\<lambda>action.
       if action \<in> set [''status'', ''start'', ''stop'', ''restart'', ''enable'', ''disable''] then Inr action
       else Inl (BadRequest (cE C) None (''unknown action '' @ action)))"

definition serviceTask ::
    "apictx \<Rightarrow> string \<Rightarrow> string \<Rightarrow> string \<Rightarrow> string \<Rightarrow> SnapPart \<Rightarrow> (dworld, serr, response) io" where
  "serviceTask C action pkgName n svc part =
     (let E = cE C; svcs = yServiceYamls (sm part); m = svcMap action svcs
      in if svcs = [] then ret (NotFound E None (''package '' @ goQuote pkgName @ '' has no services''))
         else if svc \<noteq> '''' \<and> mget m svc = None
         then ret (NotFound E None (''package '' @ goQuote pkgName @ '' has no service '' @ goQuote svc))
         else
           bind (snappyTry (FindServices E n svc)) (\<lambda>r.
             case r of
               Inl e \<Rightarrow> ret (InternalError E (Some e) (''no services for '' @ goQuote pkgName @ '' ['' @ goQuote svc
                                @ ''] found: '' @ errorText (goarch E) e))
             | Inr actor \<Rightarrow>
                 if action = ''status'' then
                   bind (snappyTry (svcStatus C actor m svc)) (\<lambda>r. ret (SyncResponse E r))
                 else startTask C (JService action actor m svc)))"

text \<open>\<^verbatim>\<open>%T\<close> of a part.\<close>

definition partTypeName :: "loaded option \<Rightarrow> string" where
  "partTypeName p =
     (case p of
        None \<Rightarrow> ''<nil>''
      | Some (Live (SnapP _)) \<Rightarrow> ''*snappy.SnapPart''
      | Some (Live (SysP _)) \<Rightarrow> ''*snappy.SystemImagePart''
      | Some (Live (RemoteP _)) \<Rightarrow> ''*snappy.RemoteSnapPart''
      | Some (Gone _) \<Rightarrow> ''*removed.Removed'')"

definition packageService :: "apictx \<Rightarrow> request \<Rightarrow> (dworld, serr, response) io" where
  "packageService C r =
     withOperations C
       (let E = cE C; n = muxVar r ''name''; origin = muxVar r ''origin''
        in if n = '''' \<or> origin = '''' then ret (BadRequest E None ''missing name or origin'')
           else case svcActionName C r of
             Inl e \<Rightarrow> ret e
           | Inr action \<Rightarrow>
               bind (onSnappy (PartBagByName (bagRange (cA C)) (sortVersions (cA C)) E n origin)) (\<lambda>bag.
               bind (gets (\<lambda>w. ActiveIndex bag (fs w))) (\<lambda>idx.
                 if idx < 0 then ret (NotFound E None '''')
                 else
                   bind (snappyTry (Load E bag idx)) (\<lambda>p.
                     case p of
                       Inl e \<Rightarrow> ret (InternalError E (Some e) (''unable to get load active package: '' @ errorText (goarch E) e))
                     | Inr (Some (Live (SnapP s))) \<Rightarrow>
                         serviceTask C action (n @ ''.'' @ origin) n (muxVar r ''service'') s
                     | Inr other \<Rightarrow>
                         ret (InternalError E None (''active package is not a *snappy.SnapPart: '' @ partTypeName other))))))"

definition packageConfig :: "apictx \<Rightarrow> request \<Rightarrow> (dworld, serr, response) io" where
  "packageConfig C r =
     (let E = cE C; n = muxVar r ''name''; origin = muxVar r ''origin''
      in if n = '''' \<or> origin = '''' then ret (BadRequest E None ''missing name or origin'')
         else
           bind (onSnappy (PartBagByName (bagRange (cA C)) (sortVersions (cA C)) E n origin)) (\<lambda>bag.
             if bag = None then ret (NotFound E None '''')
             else
               bind (gets (\<lambda>w. ActiveIndex bag (fs w))) (\<lambda>idx.
                 if idx < 0 then ret (BadRequest E None '''')
                 else
                   bind (snappyTry (Load E bag idx)) (\<lambda>p.
                     case p of
                       Inl e \<Rightarrow> ret (InternalError E (Some e) (''unable to get load active package: '' @ errorText (goarch E) e))
                     | Inr None \<Rightarrow> throw (GoPanic ''nil pointer dereference'')
                     | Inr (Some part) \<Rightarrow>
                         bind (snappyTry (partConfig C part (rqBody r))) (\<lambda>c.
                           case c of
                             Inl e \<Rightarrow> ret (InternalError E (Some e)
                                      (''unable to retrieve config for '' @ n @ ''.'' @ origin @ '': '' @ errorText (goarch E) e))
                           | Inr config \<Rightarrow> ret (SyncResponse E (Inr (VStr config))))))))"

definition configMulti :: "apictx \<Rightarrow> request \<Rightarrow> (dworld, serr, response) io" where
  "configMulti C r =
     withOperations C
       (case decStrings (cA C) (rqBody r) of
          Inl e \<Rightarrow> ret (BadRequest (cE C) (Some (Errorf e))
                     (''can't decode request body into map[string]string: '' @ e))
        | Inr pkgmap \<Rightarrow> startTask C (JConfig pkgmap))"

definition getLogs :: "apictx \<Rightarrow> request \<Rightarrow> (dworld, serr, response) io" where
  "getLogs C r =
     (let E = cE C; n = muxVar r ''name''
      in bind (snappyTry (FindServices E n (muxVar r ''service''))) (\<lambda>a.
           case a of
             Inl e \<Rightarrow> ret (NotFound E (Some e) (''no services found for '' @ goQuote n @ '': '' @ errorText (goarch E) e))
           | Inr actor \<Rightarrow>
               bind (snappyTry (actorLogs (cR C) E actor)) (\<lambda>l.
                 case l of
                   Inl e \<Rightarrow> ret (InternalError E (Some e) (''unable to get logs for '' @ goQuote n @ '': '' @ errorText (goarch E) e))
                 | Inr logs \<Rightarrow>
                     ret (SyncResponse E (Inr (VList (map (\<lambda>l. VMap [(''timestamp'', VStr (RawTimestamp l)),
                            (''message'', VStr (Message l)), (''raw'', logValueOf (cA C) l)]) logs)))))))"

subsection \<open>Operations and instructions\<close>

definition getOpInfo :: "apictx \<Rightarrow> request \<Rightarrow> (dworld, serr, response) io" where
  "getOpInfo C r =
     withOperations C
       (bind (gets (\<lambda>w. GetTask (muxVar r ''uuid'') (dm w))) (\<lambda>t.
          ret (case t of
                 None \<Rightarrow> NotFound (cE C) None ''''
               | Some t \<Rightarrow> SyncResponse (cE C) (Inr (TaskMap (opURL C) t t t)))))"

definition deleteOp :: "apictx \<Rightarrow> request \<Rightarrow> (dworld, serr, response) io" where
  "deleteOp C r = (\<lambda>w.
     case DeleteTask (muxVar r ''uuid'') (dm w) of
       (e, d) \<Rightarrow>
         (Inr (case e of
                 None \<Rightarrow> SyncResponse (cE C) (Inr (VStr ''done''))
               | Some errTaskNotFound \<Rightarrow> NotFound (cE C) None ''''
               | Some errTaskStillRunning \<Rightarrow> BadRequest (cE C) None ''''), w\<lparr>dm := d\<rparr>))"

definition postPackage :: "apictx \<Rightarrow> request \<Rightarrow> (dworld, serr, response) io" where
  "postPackage C r =
     withOperations C
       (case decInstruction (cA C) (rqBody r) of
          Inl e \<Rightarrow> ret (BadRequest (cE C) (Some (Errorf e))
                     (''can't decode request body into package instruction: '' @ e))
        | Inr (action, leaveOld) \<Rightarrow>
            (let i = Instruction action leaveOld (muxVar r ''name'' @ ''.'' @ muxVar r ''origin'')
             in case (dispatch C i :: (sworld, serr, jvalue) io option) of
                  None \<Rightarrow> ret (BadRequest (cE C) None (''unknown action '' @ action))
                | Some _ \<Rightarrow> startTask C (JInstruction i)))"

text \<open>The body of an upload, and whether an unsigned package is allowed.\<close>

definition uploaded :: "apictx \<Rightarrow> request \<Rightarrow> (response, bool \<times> string) res" where
  "uploaded C r =
     (if hasPrefix (rqContentType r) ''multipart/'' then
        (case decForm (cA C) (rqContentType r) (rqBody r) of
           Inl e \<Rightarrow> Inl (BadRequest (cE C) (Some e) '''')
         | Inr (ok, file) \<Rightarrow> Inr (ok, case file of None \<Rightarrow> '''' | Some b \<Rightarrow> b))
      else Inr (rqAllowUnsigned r, rqBody r))"

definition sideloadPackage :: "apictx \<Rightarrow> request \<Rightarrow> (dworld, serr, response) io" where
  "sideloadPackage C r =
     withOperations C
       (case uploaded C r of
          Inl e \<Rightarrow> ret e
        | Inr (unsignedOk, body) \<Rightarrow>
            bind (gets (\<lambda>w. tempFile (cN C) (fs w) ''snapd-sideload-pkg-'')) (\<lambda>tmpf.
            bind (snappyTry (ioWriteFile tmpf '''')) (\<lambda>t.
              case t of
                Inl e \<Rightarrow> ret (InternalError (cE C) (Some e) (''can't create tempfile: '' @ errorText (goarch (cE C)) e))
              | Inr _ \<Rightarrow>
                  bind (snappyTry (ioWriteFile tmpf body)) (\<lambda>c.
                    case c of
                      Inl e \<Rightarrow> andThen (onSnappy (ignoring (ioRemove tmpf)))
                                 (ret (InternalError (cE C) (Some e)
                                        (''can't copy request into tempfile: '' @ errorText (goarch (cE C)) e)))
                    | Inr _ \<Rightarrow> startTask C (JSideload tmpf unsignedOk)))))"

subsection \<open>Icons\<close>

definition metaIconGet :: "apictx \<Rightarrow> request \<Rightarrow> (dworld, serr, response) io" where
  "metaIconGet C r = ret (FileResponse (pathJoin [SnapIconsDir (cE C), muxVar r ''icon'']))"

definition appIconGet :: "apictx \<Rightarrow> request \<Rightarrow> (dworld, serr, response) io" where
  "appIconGet C r =
     (let E = cE C
      in bind (onSnappy (PartBagByName (bagRange (cA C)) (sortVersions (cA C)) E (muxVar r ''name'') (muxVar r ''origin''))) (\<lambda>bag.
         if (case bag of None \<Rightarrow> True | Some b \<Rightarrow> bagVersions b = []) then ret (NotFound E None '''')
         else
           bind (onSnappy (LoadBest E bag)) (\<lambda>part.
             case part of
               None \<Rightarrow> ret (NotFound E None '''')
             | Some p \<Rightarrow>
                 bind (gets (\<lambda>w. pathClean (lIcon E (fs w) p))) (\<lambda>path.
                   ret (if \<not> hasPrefix path (SnapAppsDir E) \<and> \<not> hasPrefix path (SnapOemDir E)
                        then BadRequest E None '''' else FileResponse path)))))"


section \<open>Commands and routes\<close>

text \<open>
  A command routes a request to the handler of its verb. The router takes the first command
  whose path matches, \<open>routeVars\<close> being the variables of the match.
\<close>

type_synonym handler = "apictx \<Rightarrow> request \<Rightarrow> (dworld, serr, response) io"

record Command =
  Path :: string
  GET :: "handler option"
  PUT :: "handler option"
  POST :: "handler option"
  DELETE :: "handler option"

definition rootGet :: handler where
  "rootGet C r = ret (SyncResponse (cE C) (Inr (VList [VStr ''/1.0''])))"

definition rootCmd :: Command where
  "rootCmd = \<lparr>Path = ''/'', GET = Some rootGet, PUT = None, POST = None, DELETE = None\<rparr>"
definition v1Cmd :: Command where
  "v1Cmd = \<lparr>Path = ''/1.0'', GET = Some (\<lambda>C _. v1Get C), PUT = None, POST = None, DELETE = None\<rparr>"
definition metaIconCmd :: Command where
  "metaIconCmd = \<lparr>Path = metaIconPath, GET = Some metaIconGet, PUT = None, POST = None, DELETE = None\<rparr>"
definition appIconCmd :: Command where
  "appIconCmd = \<lparr>Path = appIconPath, GET = Some appIconGet, PUT = None, POST = None, DELETE = None\<rparr>"
definition packagesCmd :: Command where
  "packagesCmd = \<lparr>Path = ''/1.0/packages'', GET = Some (\<lambda>C _. getPackagesInfo C), PUT = Some configMulti,
     POST = Some sideloadPackage, DELETE = None\<rparr>"
definition packageCmd :: Command where
  "packageCmd = \<lparr>Path = packagePath, GET = Some getPackageInfo, PUT = None, POST = Some postPackage, DELETE = None\<rparr>"
definition packageConfigCmd :: Command where
  "packageConfigCmd = \<lparr>Path = packagePath @ ''/config'', GET = Some packageConfig, PUT = Some packageConfig,
     POST = None, DELETE = None\<rparr>"
definition packageSvcsCmd :: Command where
  "packageSvcsCmd = \<lparr>Path = packagePath @ ''/services'', GET = Some packageService, PUT = Some packageService,
     POST = None, DELETE = None\<rparr>"
definition packageSvcCmd :: Command where
  "packageSvcCmd = \<lparr>Path = packagePath @ ''/services/{service}'', GET = Some packageService,
     PUT = Some packageService, POST = None, DELETE = None\<rparr>"
definition packageSvcLogsCmd :: Command where
  "packageSvcLogsCmd = \<lparr>Path = packagePath @ ''/services/{service}/logs'', GET = Some getLogs, PUT = None,
     POST = None, DELETE = None\<rparr>"
definition operationCmd :: Command where
  "operationCmd = \<lparr>Path = operationPath, GET = Some getOpInfo, PUT = None, POST = None, DELETE = Some deleteOp\<rparr>"

definition api :: "Command list" where
  "api = [rootCmd, v1Cmd, metaIconCmd, appIconCmd, packagesCmd, packageCmd, packageConfigCmd,
          packageSvcCmd, packageSvcsCmd, packageSvcLogsCmd, operationCmd]"

definition verb :: "Command \<Rightarrow> string \<Rightarrow> handler option" where
  "verb c meth =
     (if meth = ''GET'' then GET c else if meth = ''PUT'' then PUT c
      else if meth = ''POST'' then POST c else if meth = ''DELETE'' then DELETE c else None)"

definition commandServeHTTP :: "Command \<Rightarrow> handler" where
  "commandServeHTTP c C r =
     (case verb c (rqMethod r) of None \<Rightarrow> ret (BadMethod (cE C) None '''') | Some rspf \<Rightarrow> rspf C r)"

fun routed :: "(string \<Rightarrow> string \<Rightarrow> (string, string) gomap option) \<Rightarrow> string \<Rightarrow> Command list
    \<Rightarrow> (Command \<times> (string, string) gomap) option" where
  "routed match url [] = None"
| "routed match url (c # cs) =
     (case match (Path c) url of Some vars \<Rightarrow> Some (c, vars) | None \<Rightarrow> routed match url cs)"

definition serve :: handler where
  "serve C r =
     (case routed (routeVars (cA C)) (rqPath r) api of
        None \<Rightarrow> ret (NotFound (cE C) None '''')
      | Some (c, vars) \<Rightarrow> commandServeHTTP c C (r\<lparr>rqVars := vars\<rparr>))"

section \<open>Steps of the daemon\<close>

text \<open>
  The daemon answers a request, with an identifier at hand that was never used; the function of a
  task ends, without a panic, which would end the daemon; time passes; and what is not the
  daemon's changes.
\<close>

inductive apistep :: "apictx \<Rightarrow> dworld \<Rightarrow> dworld \<Rightarrow> bool" for C where
  request: "dObjs (dm w) (UUIDString u) = None \<Longrightarrow> apistep C w (snd (serve C r (w\<lparr>nextUUID := u\<rparr>)))"
| job: "(k, j) \<in> set (dJobs w) \<Longrightarrow> onSnappy (runJob C j) w = (res, w')
    \<Longrightarrow> \<not> (\<exists>e. res = Inl e \<and> isPanicErr e)
    \<Longrightarrow> apistep C w (w'\<lparr>dm := finishTask (cE C) k res (dm w'), dJobs := filter (\<lambda>(q, _). q \<noteq> k) (dJobs w')\<rparr>)"
| tick: "0 \<le> n \<Longrightarrow> apistep C w (w\<lparr>dm := (dm w)\<lparr>dNow := dNow (dm w) + n\<rparr>\<rparr>)"
| outside: "apistep C w (sworld.extend s (dworld.fields (dm w) (dJobs w) (nextUUID w)))"

inductive apireach :: "apictx \<Rightarrow> dworld \<Rightarrow> dworld \<Rightarrow> bool" for C where
  start: "apireach C w w"
| onward: "apireach C w w' \<Longrightarrow> apistep C w' w'' \<Longrightarrow> apireach C w w''"

section \<open>Facts\<close>

text \<open>
  What a handler does to the daemon: nothing; or it enters one task with its job; or it deletes
  a task.
\<close>

definition handles :: "(dworld, serr, 'a) io \<Rightarrow> bool" where
  "handles m \<longleftrightarrow> (\<forall>w r w'. m w = (r, w') \<longrightarrow>
     (dm w' = dm w \<and> dJobs w' = dJobs w)
     \<or> (\<exists>j. dm w' = AddTask (nextUUID w) (dm w) \<and> dJobs w' = (UUIDString (nextUUID w), j) # dJobs w)
     \<or> (\<exists>k. dm w' = snd (DeleteTask k (dm w)) \<and> dJobs w' = dJobs w))"

definition looks :: "(dworld, serr, 'a) io \<Rightarrow> bool" where
  "looks m \<longleftrightarrow> (\<forall>w r w'. m w = (r, w') \<longrightarrow> dm w' = dm w \<and> dJobs w' = dJobs w \<and> nextUUID w' = nextUUID w)"

named_theorems handlers

lemma looks_basic [handlers]:
  "looks (ret x)" "looks (throw e)" "looks (gets f)" "looks (onSnappy m)" "looks (Pair x')"
  by (auto simp: looks_def ret_def throw_def gets_def onSnappy_def sworld.defs dworld.defs split: prod.splits)

lemma looks_bind [handlers]: "looks m \<Longrightarrow> (\<And>x. looks (f x)) \<Longrightarrow> looks (bind m f)"
  by (fastforce simp: looks_def bind_def split: prod.splits sum.splits)

lemma looks_andThen [handlers]: "looks m \<Longrightarrow> looks m' \<Longrightarrow> looks (andThen m m')"
  by (simp add: andThen_def looks_bind)

lemma looks_snappyTry [handlers]: "looks (snappyTry m)"
  unfolding snappyTry_def by (intro looks_bind looks_basic) (auto intro: handlers split: sum.splits)

lemma looks_handles: "looks m \<Longrightarrow> handles m"
  by (simp add: looks_def handles_def)

lemmas handles_basic [handlers] = looks_basic [THEN looks_handles] looks_snappyTry [THEN looks_handles]

lemma handles_bind [handlers]: "looks m \<Longrightarrow> (\<And>x. handles (f x)) \<Longrightarrow> handles (bind m f)"
  unfolding looks_def handles_def bind_def
  by (intro allI impI) (clarsimp split: prod.splits sum.splits, metis)

lemma handles_andThen [handlers]: "looks m \<Longrightarrow> handles m' \<Longrightarrow> handles (andThen m m')"
  by (simp add: andThen_def handles_bind)

lemma handles_startTask [handlers]: "handles (startTask C j)"
  by (auto simp: handles_def startTask_def Let_def)

lemma handles_deleteOp [handlers]: "handles (deleteOp C r)"
  unfolding handles_def deleteOp_def by (clarsimp split: prod.splits) (metis snd_conv)


lemma handles_withOperations [handlers]: "handles m \<Longrightarrow> handles (withOperations C m)"
  by (simp add: withOperations_def handlers)

lemma looks_storeDetail [handlers]: "looks (storeDetail C n origin)"
  by (auto simp: storeDetail_def intro!: handlers)

lemma looks_listFound [handlers]: "looks (listFound C parts bags results)"
  by (induction C parts bags results rule: listFound.induct)
     (auto simp: Let_def intro!: handlers split: sum.splits)

lemma looks_listBags [handlers]: "looks (listBags C bags results)"
  by (induction C bags results rule: listBags.induct) (auto simp: Let_def intro!: handlers)

lemma handles_packages [handlers]: "handles (getPackageInfo C r)" "handles (getPackagesInfo C)"
  "handles (v1Get C)" "handles (rootGet C r)" "handles (metaIconGet C r)" "handles (appIconGet C r)"
  by (auto simp: getPackageInfo_def getPackagesInfo_def v1Get_def rootGet_def metaIconGet_def appIconGet_def
      Let_def intro!: handlers split: sum.splits option.splits)

lemma handles_serviceTask [handlers]: "handles (serviceTask C action pkgName n svc part)"
  by (auto simp: serviceTask_def Let_def intro!: handlers split: sum.splits)

lemma handles_services [handlers]: "handles (packageService C r)" "handles (getLogs C r)"
  by (auto simp: packageService_def getLogs_def Let_def intro!: handlers
      split: sum.splits option.splits loaded.splits Part.splits)

lemma handles_config [handlers]: "handles (packageConfig C r)" "handles (configMulti C r)"
  by (auto simp: packageConfig_def configMulti_def Let_def intro!: handlers split: sum.splits option.splits)

lemma handles_operations [handlers]: "handles (getOpInfo C r)" "handles (postPackage C r)" "handles (sideloadPackage C r)"
  by (auto simp: getOpInfo_def postPackage_def sideloadPackage_def Let_def intro!: handlers
      split: sum.splits option.splits)

lemma routed_mem: "routed m url cs = Some (c, vars) \<Longrightarrow> c \<in> set cs"
  by (induction cs) (auto split: option.splits)

lemmas commands = rootCmd_def v1Cmd_def metaIconCmd_def appIconCmd_def packagesCmd_def packageCmd_def
  packageConfigCmd_def packageSvcCmd_def packageSvcsCmd_def packageSvcLogsCmd_def operationCmd_def

lemma handles_serve: "handles (serve C r)"
proof (cases "routed (routeVars (cA C)) (rqPath r) api")
  case (Some cv)
  obtain c vars where cv: "cv = (c, vars)" by (cases cv)
  have "c \<in> set api" using Some cv by (simp add: routed_mem)
  then have "handles (commandServeHTTP c C r')" for r'
    unfolding commandServeHTTP_def verb_def api_def by (auto simp: commands handlers)
  then show ?thesis using Some cv by (simp add: serve_def)
qed (simp add: serve_def handlers)

text \<open>The functions that run are those of the tasks that are reported as running.\<close>

definition jobsInv :: "dworld \<Rightarrow> bool" where
  "jobsInv w \<longleftrightarrow> dPending (dm w) = [] \<and> distinct (map fst (dJobs w))
     \<and> (\<forall>k. (\<exists>j. (k, j) \<in> set (dJobs w)) \<longleftrightarrow> (\<exists>t. dObjs (dm w) k = Some t \<and> tkTomb t = Alive))
     \<and> (\<forall>k t. dObjs (dm w) k = Some t \<longrightarrow> tkTomb t = Alive \<longrightarrow> k \<in> set (dTasks (dm w)))"

lemma dreach_AddTask:
  assumes "dObjs d (UUIDString u) = None"
  shows "dreach E d (AddTask u d)"
proof -
  have "dstep E (RunTask u d) (AddTask u d)"
    unfolding AddTask_def by (rule dstep.enter) (simp add: RunTask_def)
  with dstep.run [OF assms] show ?thesis by (meson dreach.intros)
qed

lemma serve_step:
  assumes "jobsInv w" and "dObjs (dm w) (UUIDString (nextUUID w)) = None" and "serve C r w = (x, w')"
  shows "jobsInv w' \<and> dreach E (dm w) (dm w')"
proof -
  consider (none) "dm w' = dm w" "dJobs w' = dJobs w"
    | (add) j where "dm w' = AddTask (nextUUID w) (dm w)" "dJobs w' = (UUIDString (nextUUID w), j) # dJobs w"
    | (delete) k where "dm w' = snd (DeleteTask k (dm w))" "dJobs w' = dJobs w"
    using handles_serve assms(3) unfolding handles_def by metis
  then show ?thesis
  proof cases
    case none
    then show ?thesis using assms(1) by (simp add: jobsInv_def dreach.start)
  next
    case add
    have "\<not> (\<exists>j. (UUIDString (nextUUID w), j) \<in> set (dJobs w))"
      using assms(1,2) by (simp add: jobsInv_def)
    then have "UUIDString (nextUUID w) \<notin> fst ` set (dJobs w)" by auto
    then have "jobsInv w'" using add assms(1,2)
      by (auto simp: jobsInv_def AddTask_def enterTask_def RunTask_def newTask_def)
    then show ?thesis using add(1) dreach_AddTask [OF assms(2)] by simp
  next
    case delete
    then have "jobsInv w'" using assms(1)
      by (auto simp: jobsInv_def DeleteTask_def GetTask_def State_simps split: option.splits)
    then show ?thesis using delete(1) by (metis dreach.intros dstep.delete)
  qed
qed

lemma onSnappy_frame:
  assumes "onSnappy m w = (r, w')"
  shows "dm w' = dm w" "dJobs w' = dJobs w"
  using assms looks_basic(4) [of m] unfolding looks_def by blast+

lemma job_step:
  assumes "jobsInv w" and "(k, j) \<in> set (dJobs w)" and "onSnappy m w = (res, w')"
    and w'': "w'' = w'\<lparr>dm := finishTask E k res (dm w'), dJobs := filter (\<lambda>(q, _). q \<noteq> k) (dJobs w')\<rparr>"
  shows "jobsInv w'' \<and> dreach E (dm w) (dm w'')"
proof -
  obtain t where t: "dObjs (dm w) k = Some t" "tkTomb t = Alive" using assms(1,2) unfolding jobsInv_def by blast
  have "tkTomb (endTask E now res t) \<noteq> Alive" for now by (simp add: endTask_def split: sum.splits)
  then have "jobsInv w''" using assms(1) t onSnappy_frame [OF assms(3)]
    by (auto simp: jobsInv_def w'' finishTask_def distinct_map inj_on_def)
  moreover have "dstep E (dm w) (dm w'')"
    using dstep.finish [OF t] onSnappy_frame [OF assms(3)] by (simp add: w'')
  ultimately show ?thesis by (metis dreach.intros)
qed

lemma apistep_keeps:
  assumes "apistep C w w'" and "jobsInv w"
  shows "jobsInv w' \<and> dreach (cE C) (dm w) (dm w')"
  using assms
proof cases
  case (request u r)
  then show ?thesis using assms(2) serve_step [of "w\<lparr>nextUUID := u\<rparr>" C r _ w']
    by (cases "serve C r (w\<lparr>nextUUID := u\<rparr>)") (auto simp: jobsInv_def)
next
  case (job k j res w1)
  then show ?thesis using job_step [OF assms(2)] by simp
next
  case (tick n)
  then show ?thesis using assms(2) by (auto simp: jobsInv_def intro: dreach.intros dstep.tick)
next
  case (outside s)
  then show ?thesis using assms(2) by (auto simp: jobsInv_def sworld.defs dworld.defs intro: dreach.start)
qed

lemma apireach_keeps:
  assumes "apireach C w w'" and "jobsInv w"
  shows "jobsInv w' \<and> dreach (cE C) (dm w) (dm w')"
  using assms by (induction rule: apireach.induct) (auto intro: dreach.start dest: apistep_keeps dreach_trans)


section \<open>Properties\<close>


definition actions :: "string list" where
  "actions = [''install'', ''update'', ''remove'', ''purge'', ''rollback'', ''activate'', ''deactivate'']"

lemma dispatch_actions: "dispatch C i = None \<longleftrightarrow> inAction i \<notin> set actions"
  by (simp add: dispatch_def actions_def)

lemma startTask_run:
  assumes "startTask C j w = (x, w1)"
  shows "(\<exists>v. x = Inr (Resp ResponseTypeAsync 202 v)) \<and> (UUIDString (nextUUID w), j) \<in> set (dJobs w1)
    \<and> GetTask (UUIDString (nextUUID w)) (dm w1) = Some (newTask (nextUUID w) (dNow (dm w)))"
  using assms by (auto simp: startTask_def Let_def AsyncResponse_def AddTask_def enterTask_def RunTask_def GetTask_def)

lemma getOpInfo_ended:
  assumes "hasRoute (cA C) operationPath" and "GetTask k (dm w) = Some t"
    and "onSnappy m w = (res, w')" and "muxVar r ''uuid'' = k"
  defines "t' \<equiv> endTask (cE C) (dNow (dm w)) res t"
  shows "fst (getOpInfo C r (w'\<lparr>dm := finishTask (cE C) k res (dm w')\<rparr>))
     = Inr (Resp ResponseTypeSync 200 (TaskMap (opURL C) t' t' t'))"
  using assms(1,2,4) onSnappy_frame [OF assms(3)]
  by (auto simp: getOpInfo_def withOperations_def bind_def gets_def ret_def SyncResponse_def GetTask_def
      finishTask_def t'_def split: if_splits)

lemma endTask_shows:
  "State (endTask E now res t) = (case res of Inl _ \<Rightarrow> TaskFailed | Inr _ \<Rightarrow> TaskSucceeded)"
  "Output (endTask E now res t)
     = (case res of Inl e \<Rightarrow> VErr (ErrorResult (errorText (goarch E) e) '''' (Some e)) | Inr x \<Rightarrow> x)"
  by (simp_all add: endTask_def State_def Output_def split: sum.splits)

text \<open>
  C29. A package instruction. With a known action the answer is 202, the function of the
  instruction runs and its task can be fetched; once the function has ended, the operation is
  described with the state and the output of that end. An unknown action is 400 and changes
  nothing.
\<close>

theorem postPackage_answers:
  assumes "hasRoute (cA C) operationPath" and "decInstruction (cA C) (rqBody r) = Inr (action, leaveOld)"
    and "postPackage C r w = (x, w1)"
  defines "k \<equiv> UUIDString (nextUUID w)"
    and "j \<equiv> JInstruction (Instruction action leaveOld (muxVar r ''name'' @ ''.'' @ muxVar r ''origin''))"
  shows "if action \<in> set actions
    then (\<exists>v. x = Inr (Resp ResponseTypeAsync 202 v)) \<and> (k, j) \<in> set (dJobs w1)
      \<and> (\<exists>t. GetTask k (dm w1) = Some t \<and> State t = TaskRunning)
      \<and> (\<forall>res w2 r'. onSnappy (runJob C j) w1 = (res, w2) \<longrightarrow> muxVar r' ''uuid'' = k \<longrightarrow>
           (\<exists>t. State t = (case res of Inl _ \<Rightarrow> TaskFailed | Inr _ \<Rightarrow> TaskSucceeded)
             \<and> Output t = (case res of Inl e \<Rightarrow> VErr (ErrorResult (errorText (goarch (cE C)) e) '''' (Some e)) | Inr y \<Rightarrow> y)
             \<and> fst (getOpInfo C r' (w2\<lparr>dm := finishTask (cE C) k res (dm w2)\<rparr>))
               = Inr (Resp ResponseTypeSync 200 (TaskMap (opURL C) t t t))))
    else (\<exists>v. x = Inr (Resp ResponseTypeError 400 v)) \<and> w1 = w"
proof (cases "action \<in> set actions")
  case True
  then have "dispatch C (Instruction action leaveOld (muxVar r ''name'' @ ''.'' @ muxVar r ''origin'')) \<noteq> (None :: (sworld, serr, jvalue) io option)"
    by (simp add: dispatch_actions)
  then have st: "startTask C j w = (x, w1)"
    using assms(1-3) by (auto simp: postPackage_def withOperations_def j_def Let_def)
  note run = startTask_run [OF st, folded k_def]
  then have t: "GetTask k (dm w1) = Some (newTask (nextUUID w) (dNow (dm w)))" by blast
  have "State (newTask (nextUUID w) (dNow (dm w))) = TaskRunning" by (simp add: State_def newTask_def)
  then show ?thesis using True run getOpInfo_ended [OF assms(1) t] endTask_shows by simp blast
next
  case False
  then have "dispatch C (Instruction action leaveOld (muxVar r ''name'' @ ''.'' @ muxVar r ''origin'')) = (None :: (sworld, serr, jvalue) io option)"
    by (simp add: dispatch_actions)
  then show ?thesis using False assms(1-3)
    by (auto simp: postPackage_def withOperations_def Let_def ret_def BadRequest_def SetError_def)
qed

text \<open>
  Removing only the active version of a package through the daemon never works: the
  instruction names the package with its origin, and without the garbage collection \<^verbatim>\<open>Remove\<close>
  compares that with the bare names of the active parts. As long as no name has a dot, the task
  ends with "snappy package not found", although the same instruction without \<^verbatim>\<open>leave_old\<close> finds
  the parts of that name and origin.
\<close>

lemma remove_leave_old_fails:
  assumes "allInstalled (cE C) w = (Inr ps, w1)" and "allInstalled (cE C) w1 = (Inr ps', w2)"
    and "\<forall>p\<in>set ps'. CHR ''.'' \<notin> set (PartName p)"
    and "CHR ''='' \<notin> set (n @ origin)" and "CHR ''.'' \<notin> set origin" and "origin \<noteq> ''''"
    and "p \<in> set ps" and "PartName p = n" and "Origin p = origin"
  shows "instRemove C (Instruction ''remove'' True (n @ ''.'' @ origin)) w = (Inl (SErr ErrPackageNotFound), w2)
    \<and> instRemove C (Instruction ''remove'' False (n @ ''.'' @ origin)) w
       = andThen (forEach (filter (\<lambda>q. PartName q = n \<and> Origin q = origin) ps) (partUninstall (cE C))) (ret VNil) w1"
proof -
  have spec: "splitChar (CHR ''='') (n @ ''.'' @ origin) = [n @ ''.'' @ origin]" using assms(4) by (intro splitChar_absent) auto
  have so: "SplitOrigin (n @ ''.'' @ origin) = (n, origin)" using assms(5) by (rule SplitOrigin_dot)
  have none: "find (\<lambda>part. IsActive part \<and> PartName part = n @ ''.'' @ origin) ps' = None"
    using assms(3) by (auto simp: find_None_iff)
  have "filter (\<lambda>q. PartName q = n \<and> Origin q = origin) ps \<noteq> []"
    using assms(7-9) by (auto simp: filter_empty_conv)
  then obtain q qs where q: "FindSnapsByName (n @ ''.'' @ origin) ps = q # qs"
      "filter (\<lambda>q. PartName q = n \<and> Origin q = origin) ps = q # qs"
    using so assms(6) by (cases "filter (\<lambda>q. PartName q = n \<and> Origin q = origin) ps") (auto simp: FindSnapsByName_def)
  have flags: "\<not> hasFlag 0 DoRemoveGC" "hasFlag DoRemoveGC DoRemoveGC" by (simp_all add: hasFlag_def DoRemoveGC_def)
  show ?thesis using assms(1,2) none
    by (simp add: instRemove_def Remove_def bind_def spec [simplified] leaveFlags_def flags ActiveSnapByName_def
        orNone_def attempt_def andThen_def ret_def throw_def q [simplified] del: forEach.simps)
qed


subsection \<open>Witnesses\<close>

definition demoApi :: apienv where
  "demoApi = \<lparr>decStrings = (\<lambda>s. Inr []), decInstruction = (\<lambda>s. Inr (s, True)), decForm = (\<lambda>_ b. Inr (True, Some b)),
     routeURL = (\<lambda>p vs. Inr p), hasRoute = (\<lambda>_. True), routeVars = (\<lambda>p u. if p = packagePath then Some [(''name'', u), (''origin'', ''m'')] else None),
     specValue = (\<lambda>_. VNil), statusValue = (\<lambda>_. VNil), logValueOf = (\<lambda>_. VNil), coreConfig = (\<lambda>c f. (Inr c, f)),
     storeAll = Inr [], sortQN = sortParts, sortVersion = sortParts, sortVersions = id, bagRange = id,
     dirSize = (\<lambda>_ _. 0), relFlavor = ''core'', relSeries = ''15.04'', relChannel = ''edge''\<rparr>"

definition demoRun :: runenv where
  "demoRun = \<lparr>logDec = (\<lambda>_. Inr []), formatTime = (\<lambda>_ _. ''''), osEnviron = [], runScript = (\<lambda>_ _ _ f. (Inr '''', f))\<rparr>"

definition demoCtx :: apictx where
  "demoCtx = \<lparr>cE = fooEnv, cN = demoNet, cR = demoRun, cA = demoApi\<rparr>"

definition demoDaemon :: dworld where
  "demoDaemon = sworld.extend verWorld (dworld.fields (newDaemon 5) [] (1, 2))"

definition demoPost :: "string \<Rightarrow> request" where
  "demoPost body = \<lparr>rqMethod = ''POST'', rqPath = ''f'', rqVars = [(''name'', ''f''), (''origin'', ''m'')], rqBody = body,
     rqContentType = '''', rqAllowUnsigned = False\<rparr>"

lemma demoDaemon_simps:
  "dm demoDaemon = newDaemon 5" "dJobs demoDaemon = []" "nextUUID demoDaemon = (1, 2)"
  by (simp_all add: demoDaemon_def sworld.defs dworld.defs)

lemma demoCtx_simps:
  "cE demoCtx = fooEnv" "hasRoute (cA demoCtx) p" "decInstruction (cA demoCtx) s = Inr (s, True)"
  by (simp_all add: demoCtx_def demoApi_def)

theorem postPackage_answers_witness:
  "(\<exists>v w1 t. postPackage demoCtx (demoPost ''purge'') demoDaemon = (Inr (Resp ResponseTypeAsync 202 v), w1)
      \<and> GetTask (UUIDString (1, 2)) (dm w1) = Some t \<and> State t = TaskRunning)
   \<and> (\<exists>v. postPackage demoCtx (demoPost ''explode'') demoDaemon = (Inr (Resp ResponseTypeError 400 v), demoDaemon))"
proof -
  have r: "hasRoute (cA demoCtx) operationPath" "decInstruction (cA demoCtx) (rqBody (demoPost b)) = Inr (b, True)" for b
    by (simp_all add: demoCtx_simps demoPost_def)
  have act: "''purge'' \<in> set actions" "''explode'' \<notin> set actions" by (simp_all add: actions_def)
  obtain x w1 y w2 where p: "postPackage demoCtx (demoPost ''purge'') demoDaemon = (x, w1)"
    and e: "postPackage demoCtx (demoPost ''explode'') demoDaemon = (y, w2)" by (meson surj_pair)
  have "(\<exists>v. x = Inr (Resp ResponseTypeAsync 202 v)) \<and> (\<exists>t. GetTask (UUIDString (1, 2)) (dm w1) = Some t \<and> State t = TaskRunning)"
    using postPackage_answers [OF r p, unfolded demoDaemon_simps] act(1) by (simp only: if_True)
  moreover have "(\<exists>v. y = Inr (Resp ResponseTypeError 400 v)) \<and> w2 = demoDaemon"
    using postPackage_answers [OF r e] act(2) by (simp only: if_False) 
  ultimately show ?thesis using p e by blast
qed


lemma verListed_again:
  "case fst (allInstalled fooEnv (snd verListed)) of
     Inr ps \<Rightarrow> list_all (\<lambda>p. CHR ''.'' \<notin> set (PartName p)) ps
   | _ \<Rightarrow> False"
  by code_simp

end
