(* ===== verification/Hashes.thy ===== *)
theory Hashes
  imports SnapPart
begin

unbundle bit_operations_syntax

text \<open>
  The textual form of file modes in the file of hashes, \<^verbatim>\<open>snappy/hashes.go\<close>. A mode is a word of 32
  bits, as \<^verbatim>\<open>os.FileMode\<close> is; its text is taken to be ASCII, for which the loop over runes of
  \<^verbatim>\<open>UnmarshalYAML\<close> is one over bytes.
\<close>

section \<open>File modes\<close>

definition ModeDir :: "32 word" where "ModeDir = push_bit 31 1"
definition ModeNamedPipe :: "32 word" where "ModeNamedPipe = push_bit 25 1"
definition ModeSocket :: "32 word" where "ModeSocket = push_bit 24 1"
definition ModeType :: "32 word" where
  "ModeType = ModeDir OR ModeSymlink OR ModeNamedPipe OR ModeSocket OR ModeDevice"

definition rwx :: string where "rwx = ''rwxrwxrwx''"

definition permString :: "32 word \<Rightarrow> string" where
  "permString mode = map (\<lambda>i. if mode AND push_bit (8 - i) 1 \<noteq> 0 then rwx ! i else CHR ''-'') [0..<9]"

definition MarshalYAML :: "32 word \<Rightarrow> (serr, string) res" where
  "MarshalYAML mode =
     (if mode AND ModeDir \<noteq> 0 then Inr (CHR ''d'' # permString mode)
      else if mode AND ModeSymlink \<noteq> 0 then Inr (CHR ''l'' # permString mode)
      else if mode AND ModeDevice \<noteq> 0 then Inr (CHR ''b'' # permString mode)
      else if mode AND ModeCharDevice \<noteq> 0 then Inr (CHR ''c'' # permString mode)
      else if mode AND ModeType = 0 then Inr (CHR ''f'' # permString mode)
      else Inl (Errorf ''Unknown file mode''))"

text \<open>The loop over the nine letters; a tenth is out of range of \<^verbatim>\<open>rwx\<close>.\<close>

fun readPerm :: "nat \<Rightarrow> string \<Rightarrow> 32 word \<Rightarrow> (serr, 32 word) res" where
  "readPerm i [] m = Inr m"
| "readPerm i (c # cs) m =
     (if 9 \<le> i then Inl (GoPanic ''index out of range'')
      else readPerm (Suc i) cs (if c = rwx ! i then m OR push_bit (8 - i) 1 else m))"

definition UnmarshalYAML :: "string \<Rightarrow> (serr, 32 word) res" where
  "UnmarshalYAML s =
     (case s of
        [] \<Rightarrow> Inl (GoPanic ''index out of range'')
      | t # ps \<Rightarrow>
          (if t = CHR ''d'' then readPerm 0 ps ModeDir
           else if t = CHR ''l'' then readPerm 0 ps ModeSymlink
           else if t = CHR ''c'' then readPerm 0 ps ModeCharDevice
           else if t = CHR ''b'' then readPerm 0 ps ModeDevice
           else if t = CHR ''f'' then readPerm 0 ps 0
           else Inl (Errorf (''Unknown file mode '' @ s))))"

lemma and_exp_nonzero: "m AND push_bit k (1 :: 32 word) \<noteq> 0 \<longleftrightarrow> k < 32 \<and> bit m k"
proof -
  have "m AND push_bit k 1 = (if bit m k then push_bit k 1 else 0)" for m :: "32 word"
    by (rule bit_word_eqI) (auto simp: bit_simps)
  then show ?thesis by (auto simp: bit_simps push_bit_eq_mult exp_eq_zero_iff dest: bit_imp_le_length)
qed

lemma readPerm_bits:
  assumes "i + length cs \<le> 9"
  shows "\<exists>m'. readPerm i cs m = Inr m' \<and>
    (\<forall>n. bit m' n \<longleftrightarrow> bit m n \<or> (\<exists>j<length cs. cs ! j = rwx ! (i + j) \<and> n = 8 - (i + j)))"
  using assms
proof (induction cs arbitrary: i m)
  case (Cons c cs)
  let ?m = "if c = rwx ! i then m OR push_bit (8 - i) 1 else m"
  obtain m' where m': "readPerm (Suc i) cs ?m = Inr m'"
    and b: "\<forall>n. bit m' n \<longleftrightarrow> bit ?m n \<or> (\<exists>j<length cs. cs ! j = rwx ! (Suc i + j) \<and> n = 8 - (Suc i + j))"
    using Cons.IH [of "Suc i" ?m] Cons.prems by auto
  have "bit ?m n \<longleftrightarrow> bit m n \<or> c = rwx ! i \<and> n = 8 - i" for n by (auto simp: bit_simps)
  moreover have "(\<exists>j<length (c # cs). (c # cs) ! j = rwx ! (i + j) \<and> n = 8 - (i + j)) \<longleftrightarrow>
      (c = rwx ! i \<and> n = 8 - i) \<or> (\<exists>j<length cs. cs ! j = rwx ! (Suc i + j) \<and> n = 8 - (Suc i + j))" for n
    by (auto simp: less_Suc_eq_0_disj)
  ultimately have "\<forall>n. bit m' n \<longleftrightarrow> bit m n \<or> (\<exists>j<length (c # cs). (c # cs) ! j = rwx ! (i + j) \<and> n = 8 - (i + j))"
    by (simp only: b) simp
  then show ?case using m' Cons.prems by simp
qed simp

lemma rwx_not_dash: "i < 9 \<Longrightarrow> rwx ! i \<noteq> CHR ''-''"
proof -
  have "list_all (\<lambda>i. rwx ! i \<noteq> CHR ''-'') [0..<9]" by code_simp
  then show "i < 9 \<Longrightarrow> rwx ! i \<noteq> CHR ''-''" by (simp add: list_all_iff)
qed

lemma readPerm_permString: "readPerm 0 (permString mode) base = Inr (base OR (mode AND mask 9))"
proof -
  have len: "length (permString mode) = 9" by (simp add: permString_def)
  have nth: "permString mode ! j = rwx ! j \<longleftrightarrow> bit mode (8 - j)" if "j < 9" for j
    using that rwx_not_dash [OF that] and_exp_nonzero [of mode "8 - j"] by (auto simp: permString_def)
  obtain m' where m': "readPerm 0 (permString mode) base = Inr m'"
    and b: "\<And>n. bit m' n \<longleftrightarrow> bit base n \<or> (\<exists>j<9. permString mode ! j = rwx ! j \<and> n = 8 - j)"
    using readPerm_bits [of 0 "permString mode" base] len by auto
  have "(\<exists>j<9. bit mode (8 - j) \<and> n = 8 - j) \<longleftrightarrow> n < 9 \<and> bit mode n" for n
    by (auto intro!: exI [of _ "8 - n"])
  moreover have "(\<exists>j<9. permString mode ! j = rwx ! j \<and> n = 8 - j) \<longleftrightarrow> (\<exists>j<9. bit mode (8 - j) \<and> n = 8 - j)" for n
    using nth by (intro ex_cong1) blast
  ultimately have "bit m' n \<longleftrightarrow> bit base n \<or> n < 9 \<and> bit mode n" for n by (simp only: b)
  then have "m' = base OR (mode AND mask 9)" by (intro bit_word_eqI) (auto simp: bit_simps)
  with m' show ?thesis by simp
qed

definition typeOf :: "32 word \<Rightarrow> 32 word" where
  "typeOf mode =
     (if mode AND ModeDir \<noteq> 0 then ModeDir else if mode AND ModeSymlink \<noteq> 0 then ModeSymlink
      else if mode AND ModeDevice \<noteq> 0 then ModeDevice else if mode AND ModeCharDevice \<noteq> 0 then ModeCharDevice else 0)"

text \<open>
  C34. A file mode that is written to \<^verbatim>\<open>hashes.yaml\<close> and read again keeps its nine permission
  bits and one bit for its type; nothing else can be read back, and the modes that cannot be
  written are those of pipes and sockets. A character device has the bits \<^verbatim>\<open>ModeDevice\<close> and
  \<^verbatim>\<open>ModeCharDevice\<close>: it comes back as a block device.
\<close>

theorem FileMode_roundtrip:
  shows "(case MarshalYAML mode of
      Inr s \<Rightarrow> UnmarshalYAML s = Inr (typeOf mode OR (mode AND mask 9))
    | Inl _ \<Rightarrow> typeOf mode = 0 \<and> mode AND (ModeNamedPipe OR ModeSocket) \<noteq> 0)
    \<and> UnmarshalYAML (case MarshalYAML (ModeDevice OR ModeCharDevice OR (mode AND mask 9)) of Inr s \<Rightarrow> s | Inl _ \<Rightarrow> [])
        = Inr (ModeDevice OR (mode AND mask 9))"
proof -
  have "MarshalYAML m = Inr s \<Longrightarrow> UnmarshalYAML s = Inr (typeOf m OR (m AND mask 9))" for m s
    by (auto simp: MarshalYAML_def UnmarshalYAML_def readPerm_permString typeOf_def split: if_splits)
  moreover have "typeOf mode = 0 \<and> mode AND (ModeNamedPipe OR ModeSocket) \<noteq> 0" if "MarshalYAML mode = Inl e" for e
  proof -
    have z: "mode AND ModeDir = 0" "mode AND ModeSymlink = 0" "mode AND ModeDevice = 0" "mode AND ModeCharDevice = 0"
      "mode AND ModeType \<noteq> 0" using that by (auto simp: MarshalYAML_def split: if_splits)
    then show ?thesis by (auto simp: typeOf_def ModeType_def bit.conj_disj_distrib)
  qed
  moreover have "MarshalYAML (ModeDevice OR ModeCharDevice OR (mode AND mask 9))
      = Inr (CHR ''b'' # permString (ModeDevice OR ModeCharDevice OR (mode AND mask 9)))"
    unfolding MarshalYAML_def ModeDir_def ModeSymlink_def ModeDevice_def and_exp_nonzero
    by (simp add: ModeCharDevice_def bit_simps)
  moreover have "(ModeDevice OR ModeCharDevice OR (mode AND mask 9)) AND mask 9 = mode AND mask 9"
    unfolding ModeDevice_def ModeCharDevice_def
    by (rule bit_word_eqI) (auto simp: bit_and_iff bit_or_iff bit_push_bit_iff bit_mask_iff simp del: push_bit_of_1 push_bit_numeral)
  ultimately show ?thesis
    by (auto simp: UnmarshalYAML_def readPerm_permString split: sum.splits)
qed

end
