(* ===== verification/ClickDeb.thy ===== *)
theory ClickDeb
  imports SnapPart Paths
begin

text \<open>
  The click package format: unpacking archives (\<^verbatim>\<open>UnpackTar\<close> of \<^verbatim>\<open>helpers/helpers.go\<close>), reading
  and building packages (\<^verbatim>\<open>pkg/clickdeb/deb.go\<close>) and checking signatures (\<^verbatim>\<open>verify.go\<close>).
  The encodings of the tar and ar formats with their compression are the fields of \<open>debtools\<close>.
  What matters here is where files end up, so that the calls of this theory follow links also
  in the middle of a path, as the kernel does.
\<close>

section \<open>Archives\<close>

datatype tarKind = TDir | TFile string | TLink string | TDevice | TOther

record tarEntry =
  teName :: string
  teKind :: tarKind

text \<open>What a reader yields: entries, and an error if the archive is broken after them.\<close>

type_synonym tarStream = "tarEntry list \<times> serr option"

definition TarIterate :: "(tarEntry \<Rightarrow> ('w, serr, unit) io) \<Rightarrow> tarStream \<Rightarrow> ('w, serr, unit) io" where
  "TarIterate fn s =
     andThen (forEach (fst s) fn) (case snd s of None \<Rightarrow> ret () | Some e \<Rightarrow> throw e)"

subsection \<open>Calls that follow links\<close>

text \<open>
  The name that a new file gets: the directory is resolved, and a link as the last name is
  followed, also to a place where nothing is yet; the kernel gives up after 40 links.
\<close>

definition dirPart :: "string \<Rightarrow> string" where
  "dirPart p = rev (dropWhile (\<lambda>c. c \<noteq> slash) (rev p))"

definition namePart :: "string \<Rightarrow> string" where
  "namePart p = rev (takeWhile (\<lambda>c. c \<noteq> slash) (rev p))"

definition placeOf :: "fsys \<Rightarrow> string \<Rightarrow> (oskind, string) res" where
  "placeOf f p =
     rbind (evalSymlinks f (dirPart p)) (\<lambda>d.
       if nodeAt f d = Some FDir then Inr (child d (namePart p)) else Inl KNotDir)"

fun createTarget :: "nat \<Rightarrow> fsys \<Rightarrow> string \<Rightarrow> (oskind, string) res" where
  "createTarget n f p =
     rbind (placeOf f p) (\<lambda>q.
       case fget f q of
         Some (FLink t) \<Rightarrow>
           (case n of 0 \<Rightarrow> Inl KLoop | Suc m \<Rightarrow> createTarget m f (if isAbs t then t else dirPart q @ t))
       | _ \<Rightarrow> Inr q)"

declare createTarget.simps [simp del]

definition rPut :: "event \<Rightarrow> (fsys \<Rightarrow> (oskind, string) res) \<Rightarrow> (fnode option \<Rightarrow> bool) \<Rightarrow> fnode \<Rightarrow> ('m world_scheme, serr, unit) io" where
  "rPut ev place okOver n =
     andThen (fallible (OsErr KIO ev) ev)
       (bind (gets fs) (\<lambda>f.
          case place f of
            Inl k \<Rightarrow> throw (OsErr k ev)
          | Inr q \<Rightarrow> if okOver (nodeAt f q) then setNode q n else throw (OsErr KExist ev)))"

definition rMkdir :: "string \<Rightarrow> ('m world_scheme, serr, unit) io" where
  "rMkdir p = rPut (EMkdirAll p) (\<lambda>f. placeOf f p) (\<lambda>n. n = None) FDir"

definition rSymlink :: "string \<Rightarrow> string \<Rightarrow> ('m world_scheme, serr, unit) io" where
  "rSymlink t p = rPut (ESymlink t p) (\<lambda>f. placeOf f p) (\<lambda>n. n = None) (FLink t)"

definition rWriteFile :: "string \<Rightarrow> string \<Rightarrow> ('m world_scheme, serr, unit) io" where
  "rWriteFile p c = rPut (EWrite p) (\<lambda>f. createTarget 40 f p) (\<lambda>n. n \<noteq> Some FDir) (FFile c)"

text \<open>\<^verbatim>\<open>os.MkdirAll\<close> from a directory that is resolved already.\<close>

fun mkdirsFrom :: "string \<Rightarrow> string list \<Rightarrow> fsys \<Rightarrow> oskind option \<times> fsys" where
  "mkdirsFrom d [] f = (None, f)"
| "mkdirsFrom d (c # cs) f =
     (if c = '''' then mkdirsFrom d cs f
      else case fget f (child d c) of
        None \<Rightarrow> mkdirsFrom (child d c) cs (fput f (child d c) FDir)
      | Some FDir \<Rightarrow> mkdirsFrom (child d c) cs f
      | Some (FFile _) \<Rightarrow> (Some KNotDir, f)
      | Some (FLink _) \<Rightarrow>
          (case evalSymlinks f (child d c) of
             Inl k \<Rightarrow> (Some KExist, f)
           | Inr r \<Rightarrow> if nodeAt f r = Some FDir then mkdirsFrom r cs f else (Some KNotDir, f)))"

definition rMkdirAll :: "string \<Rightarrow> ('m world_scheme, serr, unit) io" where
  "rMkdirAll p =
     andThen (fallible (OsErr KIO (EMkdirAll p)) (EMkdirAll p))
       (\<lambda>w. case mkdirsFrom ''/'' (splitChar slash p) (fs w) of
              (None, f) \<Rightarrow> (Inr (), w\<lparr>fs := f\<rparr>)
            | (Some k, f) \<Rightarrow> (Inl (OsErr k (EMkdirAll p)), w\<lparr>fs := f\<rparr>))"

subsection \<open>Unpacking\<close>

text \<open>
  The error of \<^verbatim>\<open>os.Mkdir\<close> is not looked at. Devices are no nodes of the model: making one is a
  call that can fail.
\<close>

fun placeEntry :: "string \<Rightarrow> tarKind \<Rightarrow> ('m world_scheme, serr, unit) io" where
  "placeEntry path TDir = ignoring (rMkdir path)"
| "placeEntry path (TLink t) = rSymlink t path"
| "placeEntry path TDevice = fallible (OsErr KIO (ECall (''mknod '' @ path))) (ECall (''mknod '' @ path))"
| "placeEntry path (TFile c) = rWriteFile path c"
| "placeEntry path TOther = throw (Errorf (path @ '': unsupported filetype''))"

definition unpackEntry :: "string \<Rightarrow> (string \<Rightarrow> (serr, string) res) option \<Rightarrow> tarEntry \<Rightarrow> ('m world_scheme, serr, unit) io" where
  "unpackEntry targetDir fn e =
     bind (fromRes (case fn of None \<Rightarrow> Inr (teName e) | Some g \<Rightarrow> g (teName e))) (\<lambda>name.
       let path = pathJoin [targetDir, name]
       in andThen (rMkdirAll (pathDir path)) (placeEntry path (teKind e)))"

definition UnpackTar :: "tarStream \<Rightarrow> string \<Rightarrow> (string \<Rightarrow> (serr, string) res) option \<Rightarrow> ('m world_scheme, serr, unit) io" where
  "UnpackTar r targetDir fn = TarIterate (unpackEntry targetDir fn) r"

definition ErrSnapInvalidContent :: serr where "ErrSnapInvalidContent = Errorf ''snap contains invalid content''"
definition ErrMemberNotFound :: serr where "ErrMemberNotFound = Errorf ''member not found''"

definition clickVerifyContentFn :: "string \<Rightarrow> (serr, string) res" where
  "clickVerifyContentFn path =
     (let path = pathClean path
      in if path = ''..'' \<or> hasPrefix path ''../'' then Inl ErrSnapInvalidContent else Inr path)"

section \<open>Packages\<close>

record debtools =
  arEnc :: "(string \<times> string) list \<Rightarrow> string"
  arDec :: "string \<Rightarrow> (string \<times> string) list \<times> serr"
  tarEnc :: "string \<Rightarrow> tarEntry list \<Rightarrow> string"
  tarDec :: "string \<Rightarrow> string \<Rightarrow> (serr, tarStream) res"
  debTemp :: "fsys \<Rightarrow> string \<Rightarrow> string"
  dropPrivs :: bool

definition hasSuffix :: "string \<Rightarrow> string \<Rightarrow> bool" where
  "hasSuffix s t = hasPrefix (rev s) (rev t)"

text \<open>
  The first member with the prefix; after the last one the reader gives its error, \<^verbatim>\<open>io.EOF\<close> for
  a whole archive. The compression follows from the ending.
\<close>

definition skipToArMember :: "debtools \<Rightarrow> string \<Rightarrow> string \<Rightarrow> (serr, tarStream) res" where
  "skipToArMember D content memberPrefix =
     (case find (\<lambda>m. hasPrefix (fst m) memberPrefix) (fst (arDec D content)) of
        None \<Rightarrow> Inl (snd (arDec D content))
      | Some (n, data) \<Rightarrow>
          if hasSuffix n ''.gz'' then tarDec D ''gz'' data
          else if hasSuffix n ''.bz2'' then tarDec D ''bz2'' data
          else if hasSuffix n ''.xz'' then tarDec D ''xz'' data
          else Inl (Errorf (''Can not handle '' @ n)))"

text \<open>
  \<^verbatim>\<open>member\<close>: the last entry with the name; a broken archive is an error only when the name was
  found. An entry that is no file has no content.
\<close>

definition entryContent :: "tarEntry \<Rightarrow> string" where
  "entryContent e = (case teKind e of TFile c \<Rightarrow> c | _ \<Rightarrow> '''')"

definition debMember :: "debtools \<Rightarrow> string \<Rightarrow> string \<Rightarrow> string \<Rightarrow> ('m world_scheme, serr, string) io" where
  "debMember D path arMember tarMember =
     bind (ioReadFile path) (\<lambda>content.
     bind (fromRes (skipToArMember D content arMember)) (\<lambda>(entries, err).
       case rev (filter (\<lambda>e. pathClean (teName e) = tarMember) entries) of
         [] \<Rightarrow> throw ErrMemberNotFound
       | e # _ \<Rightarrow> (case err of Some x \<Rightarrow> throw x | None \<Rightarrow> ret (entryContent e))))"

definition debControlMember :: "debtools \<Rightarrow> string \<Rightarrow> string \<Rightarrow> ('m world_scheme, serr, string) io" where
  "debControlMember D path controlMember = debMember D path ''control.tar'' controlMember"

definition debMetaMember :: "debtools \<Rightarrow> string \<Rightarrow> string \<Rightarrow> ('m world_scheme, serr, string) io" where
  "debMetaMember D path metaMember = debMember D path ''data.tar'' (pathJoin [''meta'', metaMember])"

definition debExtractHashes :: "debtools \<Rightarrow> string \<Rightarrow> string \<Rightarrow> ('m world_scheme, serr, unit) io" where
  "debExtractHashes D path dir =
     bind (debControlMember D path ''hashes.yaml'') (\<lambda>hashesData.
       ioWriteFile (pathJoin [dir, ''hashes.yaml'']) hashesData)"

definition debUnpack :: "debtools \<Rightarrow> string \<Rightarrow> string \<Rightarrow> ('m world_scheme, serr, unit) io" where
  "debUnpack D path targetDir =
     bind (ioReadFile path) (\<lambda>content.
     bind (fromRes (skipToArMember D content ''data.tar'')) (\<lambda>dataReader.
       UnpackTar dataReader targetDir (Some clickVerifyContentFn)))"

definition ErrUnpackFailed :: "string \<Rightarrow> string \<Rightarrow> string \<Rightarrow> serr" where
  "ErrUnpackFailed snapFile instDir origErr =
     Errorf (''unpack '' @ snapFile @ '' to '' @ instDir @ '' failed with '' @ origErr)"

definition debUnpackWithDropPrivs :: "debtools \<Rightarrow> string \<Rightarrow> string \<Rightarrow> string \<Rightarrow> ('m sworld_scheme, serr, unit) io" where
  "debUnpackWithDropPrivs D path instDir rootdir =
     (if \<not> dropPrivs D then debUnpack D path instDir
      else let args = [''snappy'', ''internal-unpack'', path, instDir, rootdir]
           in andThen (mapErr (\<lambda>(code, out). ErrUnpackFailed path instDir
                (case code of None \<Rightarrow> ''exec failed'' | Some c \<Rightarrow> ''exit status '' @ itoa c)) (execCmd args)) (ret ()))"

section \<open>Building\<close>

text \<open>
  \<^verbatim>\<open>tarCreate\<close>: the entries of a directory tree in the order of the walk, without the directory
  itself; \<open>fn\<close> decides which are taken.
\<close>

definition walkPaths :: "fsys \<Rightarrow> string \<Rightarrow> string list" where
  "walkPaths f root =
     sort_key (splitChar slash) (remdups (filter (inTree root) (map fst f)))"

definition tarEntries :: "fsys \<Rightarrow> string \<Rightarrow> (string \<Rightarrow> bool) \<Rightarrow> tarEntry list" where
  "tarEntries f sourceDir fn =
     List.map_filter (\<lambda>p.
       if \<not> fn p \<or> p = sourceDir then None
       else map_option (\<lambda>n. \<lparr>teName = CHR ''.'' # drop (length sourceDir) p,
              teKind = (case n of FDir \<Rightarrow> TDir | FFile c \<Rightarrow> TFile c | FLink t \<Rightarrow> TLink t)\<rparr>) (fget f p))
       (walkPaths f sourceDir)"

definition tarCreate :: "debtools \<Rightarrow> string \<Rightarrow> string \<Rightarrow> (string \<Rightarrow> bool) \<Rightarrow> ('m world_scheme, serr, unit) io" where
  "tarCreate D tarname sourceDir fn =
     andThen (ioWriteFile tarname '''')
       (if \<not> hasSuffix tarname ''.gz'' \<and> \<not> hasSuffix tarname ''.xz''
        then throw (Errorf (''unknown compression extension '' @ tarname))
        else bind (gets fs) (\<lambda>f.
          if nodeAt f sourceDir = None then throw (OsErr KNotExist (ECall (''lstat '' @ sourceDir)))
          else ioWriteFile tarname
                 (tarEnc D (if hasSuffix tarname ''.gz'' then ''gz'' else ''xz'') (tarEntries f sourceDir fn))))"

text \<open>A file that cannot be opened is left out of the archive without an error.\<close>

definition arMemberOf :: "fsys \<Rightarrow> string \<Rightarrow> (string \<times> string) list" where
  "arMemberOf f filename = (case stat f filename of Inr (FFile c) \<Rightarrow> [(pathBase filename, c)] | _ \<Rightarrow> [])"

definition debBuild ::
    "debtools \<Rightarrow> string \<Rightarrow> string \<Rightarrow> (string \<Rightarrow> ('m world_scheme, serr, unit) io) \<Rightarrow> ('m world_scheme, serr, unit) io" where
  "debBuild D path sourceDir dataTarFinished =
     bind (gets (\<lambda>w. debTemp D (fs w) ''data'')) (\<lambda>tempdir.
     andThen (ioMkdirAll tempdir)
       (deferIO
         (let dataName = pathJoin [tempdir, ''data.tar.gz'']; controlName = pathJoin [tempdir, ''control.tar.gz'']
          in andThen (tarCreate D dataName sourceDir (\<lambda>p. \<not> hasPrefix p (pathJoin [sourceDir, ''DEBIAN''])))
            (andThen (dataTarFinished dataName)
            (andThen (tarCreate D controlName (pathJoin [sourceDir, ''DEBIAN'']) (\<lambda>_. True))
               (bind (gets fs) (\<lambda>f.
                  ioWriteFile path
                    (arEnc D ([(''debian-binary'', (''2.0'' @ [nl])), (''_click-binary'', (''0.4'' @ [nl]))]
                       @ arMemberOf f controlName @ arMemberOf f dataName)))))))
         (\<lambda>r. andThen (ignoring (ioRemoveAll tempdir)) (fromRes r))))"

section \<open>Signatures\<close>

definition dsErrMsg :: "int \<Rightarrow> string option" where
  "dsErrMsg code =
     map_of [(10, ''No signatures, or no origin signature.''),
             (11, ''No policies subdirectory for origin signature.''),
             (12, ''No policies passed selection; no verification done.''),
             (13, ''Bad signature, or other verification criteria failed.''),
             (14, ''Internal error. E.g. Package corrupt, gpg failed, etc.'')] code"

definition ErrSignature :: "int option \<Rightarrow> serr" where
  "ErrSignature code =
     Errorf (case code of
        None \<Rightarrow> ''Signature verification failed: exec failed''
      | Some c \<Rightarrow>
          (case dsErrMsg c of
             None \<Rightarrow> ''Signature verification failed with exit status '' @ itoa c
           | Some dsc \<Rightarrow> ''Signature verification failed: '' @ dsc @ '' (exit code '' @ itoa c @ '')''))"

definition allowUnauthenticatedOkExitCode :: "int \<Rightarrow> bool" where
  "allowUnauthenticatedOkExitCode exitCode \<longleftrightarrow> exitCode = 10 \<or> exitCode = 11 \<or> exitCode = 12"

definition Verify :: "string \<Rightarrow> bool \<Rightarrow> ('m sworld_scheme, serr, unit) io" where
  "Verify clickFile allowUnauthenticated = (\<lambda>w.
     case execCmd [''debsig-verify'', clickFile] w of
       (Inr _, w') \<Rightarrow> (Inr (), w')
     | (Inl (Some exitCode, _), w') \<Rightarrow>
         if allowUnauthenticated \<and> allowUnauthenticatedOkExitCode exitCode then (Inr (), w')
         else (Inl (ErrSignature (Some exitCode)), w')
     | (Inl (None, _), w') \<Rightarrow> (Inl (ErrSignature None), w'))"


section \<open>Where entries go\<close>

subsection \<open>Names\<close>

lemma cleanComps_rooted:
  "plainNames (rev acc) \<Longrightarrow> list_all (\<lambda>c. slash \<notin> set c) xs \<Longrightarrow> plainNames (cleanComps True acc xs)"
proof (induction xs arbitrary: acc)
  case (Cons x xs)
  have "plainNames (rev (tl acc))" using Cons.prems(1) by (cases acc) auto
  moreover have "plainNames (rev (x # acc))" if "x \<noteq> ''''" "x \<noteq> ''.''" "x \<noteq> ''..''"
    using that Cons.prems by (simp add: plainName_def [of x])
  ultimately show ?case using Cons by auto
qed simp

lemma cleanComps_relative:
  assumes "list_all (\<lambda>c. slash \<notin> set c) xs"
  shows "plainNames ps \<Longrightarrow> \<exists>m qs. plainNames qs \<and> cleanComps False (rev ps @ replicate k ''..'') xs = replicate m ''..'' @ qs"
  using assms
proof (induction xs arbitrary: ps k)
  case Nil
  then show ?case by (auto intro: exI [of _ k])
next
  case (Cons x xs)
  have IH: "\<exists>m qs. plainNames qs \<and> cleanComps False (rev ps' @ replicate k' ''..'') xs = replicate m ''..'' @ qs"
    if "plainNames ps'" for ps' k' using Cons.IH [OF that] Cons.prems(2) by simp
  consider (skip) "x = '''' \<or> x = ''.''" | (up) "x = ''..''" | (plain) "plainName x"
    using Cons.prems(2) by (auto simp: plainName_def)
  then show ?case
  proof cases
    case skip
    then show ?thesis using IH [OF Cons.prems(1)] by simp
  next
    case plain
    then have "cleanComps False (rev ps @ replicate k ''..'') (x # xs) = cleanComps False (rev (ps @ [x]) @ replicate k ''..'') xs"
      by (simp add: plainName_def)
    then show ?thesis using IH [of "ps @ [x]"] Cons.prems(1) plain by simp
  next
    case up
    show ?thesis
    proof (cases ps rule: rev_cases)
      case Nil
      then have "cleanComps False (rev ps @ replicate k ''..'') (x # xs) = cleanComps False (rev [] @ replicate (Suc k) ''..'') xs"
        using up by (cases k) simp_all
      then show ?thesis using IH [of "[]" "Suc k"] by (metis list.pred_inject(1))
    next
      case (snoc qs q)
      then have "cleanComps False (rev ps @ replicate k ''..'') (x # xs) = cleanComps False (rev qs @ replicate k ''..'') xs"
        using up Cons.prems(1) by (simp add: plainName_def)
      then show ?thesis using IH [of qs] Cons.prems(1) snoc by simp
    qed
  qed
qed

text \<open>A name that passed the check consists of plain names, apart from empty ones and dots.\<close>

definition tameNames :: "string list \<Rightarrow> bool" where
  "tameNames xs \<longleftrightarrow> list_all (\<lambda>c. plainName c \<or> c = '''' \<or> c = ''.'') xs"

lemma splitChar_join_plain: "plainNames ks \<Longrightarrow> tameNames (splitChar slash (join ks ''/''))"
proof (cases "ks = []")
  case False
  assume "plainNames ks"
  with False have "splitChar slash (join ks ''/'') = ks" by (intro splitChar_join) (auto simp: plain_noSlash)
  then show ?thesis using \<open>plainNames ks\<close> by (auto simp: tameNames_def list_all_iff)
qed (simp add: tameNames_def)

lemma clickVerifyContentFn_tame:
  assumes "clickVerifyContentFn n = Inr nm"
  shows "tameNames (splitChar slash nm)"
proof -
  have ok: "nm = pathClean n" "nm \<noteq> ''..''" "\<not> hasPrefix nm ''../''"
    using assms by (auto simp: clickVerifyContentFn_def Let_def split: if_splits)
  have sl: "list_all (\<lambda>c. slash \<notin> set c) (splitChar slash n)" by (auto simp: list_all_iff dest: splitChar_pieces)
  show ?thesis
  proof (cases "n = ''''")
    case True
    then show ?thesis using ok by (simp add: pathClean_def tameNames_def)
  next
    case False
    show ?thesis
    proof (cases "hd n = slash")
      case True
      let ?ks = "cleanComps True [] (splitChar slash n)"
      have "nm = slash # join ?ks ''/''" using ok False True by (simp add: pathClean_def Let_def)
      then show ?thesis using splitChar_join_plain [of ?ks] cleanComps_rooted [of "[]"] sl by (simp add: tameNames_def)
    next
      case rel: False
      let ?ks = "cleanComps False [] (splitChar slash n)"
      obtain m qs where ks: "?ks = replicate m ''..'' @ qs" "plainNames qs"
        using cleanComps_relative [OF sl, of "[]" 0] by auto
      have name: "nm = (if join ?ks ''/'' = '''' then ''.'' else join ?ks ''/'')"
        using ok False rel by (simp add: pathClean_def Let_def)
      have "m = 0"
      proof (rule ccontr)
        assume "m \<noteq> 0"
        then obtain m' where "?ks = ''..'' # (replicate m' ''..'' @ qs)" using ks(1) by (cases m) auto
        then have "join ?ks ''/'' = ''..'' \<or> hasPrefix (join ?ks ''/'') ''../''"
          by (cases "replicate m' ''..'' @ qs") auto
        then show False using ok(2,3) name by (auto split: if_splits)
      qed
      then show ?thesis using ks name splitChar_join_plain [of qs]
        by (auto simp: tameNames_def plainName_def split: if_splits)
    qed
  qed
qed

lemma cleanComps_tame:
  "tameNames xs \<Longrightarrow> cleanComps True acc xs = rev acc @ filter plainName xs"
  by (induction xs arbitrary: acc) (auto simp: tameNames_def plainName_def)

lemma cleanComps_prefix:
  "plainNames cs \<Longrightarrow> cleanComps True acc (cs @ xs) = cleanComps True (rev cs @ acc) xs"
  by (induction cs arbitrary: acc) (auto simp: plainName_def)

lemma unpack_path:
  assumes "plainNames cs" and "cs \<noteq> []" and "clickVerifyContentFn n = Inr nm"
  shows "\<exists>ds. plainNames ds \<and> pathJoin [absPath cs, nm] = absPath (cs @ ds)"
proof -
  let ?xs = "splitChar slash nm"
  have t: "tameNames ?xs" using clickVerifyContentFn_tame [OF assms(3)] .
  have ne: "absPath cs \<noteq> ''''" by (simp add: absPath_def)
  have "absPath cs @ slash # nm = absPath (cs @ ?xs)"
  proof -
    have j: "join (cs @ ys) ''/'' = join cs ''/'' @ slash # join ys ''/''" if "ys \<noteq> []" for ys
      using assms(2)
    proof (induction cs rule: induct_list012)
      case (2 a)
      then show ?case using that by (cases ys) auto
    qed auto
    have "join (cs @ ?xs) ''/'' = join cs ''/'' @ slash # nm" using j [of ?xs] join_splitChar [of slash nm] by simp
    then show ?thesis by (simp add: absPath_def)
  qed
  moreover have "list_all (\<lambda>c. slash \<notin> set c) (cs @ ?xs)"
    using plain_noSlash [OF assms(1)] splitChar_pieces [of _ slash nm] by (auto simp: list_all_iff)
  ultimately have "pathJoin [absPath cs, nm] = absPath (cleanComps True [] (cs @ ?xs))"
    using ne pathClean_abs [of "cs @ ?xs"] assms(2) by (simp add: pathJoin_def)
  also have "\<dots> = absPath (cs @ filter plainName ?xs)"
    using cleanComps_prefix [OF assms(1)] cleanComps_tame [OF t] by simp
  finally show ?thesis by (intro exI [of _ "filter plainName ?xs"]) (simp add: list_all_iff)
qed


subsection \<open>Nodes\<close>

lemma inTree_absPath: "cs \<noteq> [] \<Longrightarrow> inTree (absPath cs) (absPath (cs @ xs))"
proof (induction xs rule: rev_induct)
  case (snoc x xs)
  then have "absPath (cs @ xs @ [x]) = absPath (cs @ xs) @ slash # x" using absPath_snoc [of "cs @ xs" x] by simp
  then show ?case using snoc by (auto simp: inTree_def hasPrefix_iff)
qed (simp add: inTree_def)

text \<open>
  The state of an unpacking into \<open>absPath cs\<close>: the directories on the way are no links, there is
  no link inside, and nothing changed outside.
\<close>

definition keptInside :: "string list \<Rightarrow> fsys \<Rightarrow> fsys \<Rightarrow> bool" where
  "keptInside cs f0 f \<longleftrightarrow> dirsTo f cs
     \<and> (\<forall>xs t. plainNames xs \<longrightarrow> fget f (absPath (cs @ xs)) \<noteq> Some (FLink t))
     \<and> (\<forall>q. \<not> inTree (absPath cs) q \<longrightarrow> fget f q = fget f0 q)"

lemma dirsTo_snoc: "dirsTo f (cs @ [c]) \<longleftrightarrow> dirsTo f cs \<and> fget f (absPath (cs @ [c])) = Some FDir"
proof
  show "dirsTo f (cs @ [c]) \<Longrightarrow> dirsTo f cs \<and> fget f (absPath (cs @ [c])) = Some FDir"
    using dirsTo_prefix dirsTo_last by blast
next
  assume a: "dirsTo f cs \<and> fget f (absPath (cs @ [c])) = Some FDir"
  have "fget f (absPath (take (Suc i) (cs @ [c]))) = Some FDir" if "i < Suc (length cs)" for i
    using a that by (cases "i = length cs") (auto simp: dirsTo_def list_all_iff)
  then show "dirsTo f (cs @ [c])" unfolding dirsTo_def list_all_iff by (simp del: take_append upt_Suc)
qed

lemma mkdirsFrom_plain:
  assumes "plainNames (us @ vs)" and "dirsTo f us"
    and "\<forall>i<length vs. \<forall>t. fget f (absPath (us @ take (Suc i) vs)) \<noteq> Some (FLink t)"
    and "mkdirsFrom (absPath us) vs f = (r, f')"
  shows "(\<forall>q. fget f' q = fget f q \<or> fget f q = None \<and> fget f' q = Some FDir
            \<and> (\<exists>i<length vs. q = absPath (us @ take (Suc i) vs)))
    \<and> (r = None \<longrightarrow> dirsTo f' (us @ vs))"
  using assms
proof (induction vs arbitrary: us f)
  case (Cons v vs)
  let ?p = "absPath (us @ [v])"
  have pl: "plainNames us" "plainName v" "plainNames ((us @ [v]) @ vs)" using Cons.prems(1) by simp_all
  have ch: "child (absPath us) v = ?p" using pl by (simp add: child_absPath)
  have nl0: "fget f ?p \<noteq> Some (FLink t)" for t using Cons.prems(3) by force
  have steps: "\<exists>j<length (v # vs). q = absPath (us @ take (Suc j) (v # vs))"
    if "q = ?p \<or> (\<exists>i<length vs. q = absPath ((us @ [v]) @ take (Suc i) vs))" for q
    using that by (metis Suc_less_eq append.assoc append_Cons append_Nil length_Cons take0 take_Suc_Cons zero_less_Suc)
  have go: ?case if g: "mkdirsFrom ?p vs g = (r, f')" "dirsTo g (us @ [v])"
    "\<forall>q. fget g q = fget f q \<or> fget f q = None \<and> fget g q = Some FDir \<and> q = ?p" for g
  proof -
    have nl: "\<forall>i<length vs. \<forall>t. fget g (absPath ((us @ [v]) @ take (Suc i) vs)) \<noteq> Some (FLink t)"
    proof (intro allI impI)
      fix i t assume "i < length vs"
      then have "fget f (absPath ((us @ [v]) @ take (Suc i) vs)) \<noteq> Some (FLink t)"
        using Cons.prems(3) by (auto dest!: spec [of _ "Suc i"])
      then show "fget g (absPath ((us @ [v]) @ take (Suc i) vs)) \<noteq> Some (FLink t)" using g(3) by (metis fnode.distinct(3) option.inject)
    qed
    note IH = Cons.IH [OF pl(3) g(2) nl g(1)]
    have "fget f' q = fget f q \<or> fget f q = None \<and> fget f' q = Some FDir
        \<and> (q = ?p \<or> (\<exists>i<length vs. q = absPath ((us @ [v]) @ take (Suc i) vs)))" for q
      using conjunct1 [OF IH, rule_format, of q] g(3) [rule_format, of q] by metis
    then have "\<forall>q. fget f' q = fget f q \<or> fget f q = None \<and> fget f' q = Some FDir
        \<and> (\<exists>i<length (v # vs). q = absPath (us @ take (Suc i) (v # vs)))" using steps by metis
    moreover have "r = None \<longrightarrow> dirsTo f' (us @ v # vs)" using IH by simp
    ultimately show ?thesis by blast
  qed
  show ?case
  proof (cases "fget f ?p")
    case None
    then have "mkdirsFrom ?p vs (fput f ?p FDir) = (r, f')" using Cons.prems(4) pl ch by (simp add: plainName_def)
    moreover have "dirsTo (fput f ?p FDir) (us @ [v])"
      using Cons.prems(2) by (auto simp: dirsTo_snoc dirsTo_def list_all_iff)
    ultimately show ?thesis using None by (intro go) (auto split: if_splits)
  next
    case (Some n)
    show ?thesis
    proof (cases n)
      case FDir
      then have "mkdirsFrom ?p vs f = (r, f')" "dirsTo f (us @ [v])"
        using Some Cons.prems(2,4) pl ch by (auto simp: plainName_def dirsTo_snoc)
      then show ?thesis by (intro go) auto
    next
      case (FFile c)
      then show ?thesis using Some Cons.prems(4) pl ch by (auto simp: plainName_def)
    next
      case (FLink t)
      then show ?thesis using Some nl0 by simp
    qed
  qed
qed auto


lemma placeOf_plain:
  assumes "plainNames ks" and "plainName k" and "dirsTo f ks"
  shows "placeOf f (absPath (ks @ [k])) = Inr (absPath (ks @ [k]))"
proof -
  have sl: "slash \<notin> set k" using assms(2) by (simp add: plainName_def)
  obtain p where p: "absPath (ks @ [k]) = p @ slash # k" "p @ [slash] = absPath (ks @ [[]])"
    by (cases "ks = []") (auto simp: absPath_snoc, auto simp: absPath_def)
  have d: "dirPart (absPath (ks @ [k])) = absPath (ks @ [[]])" "namePart (absPath (ks @ [k])) = k"
    using sl p by (auto simp: dirPart_def namePart_def dropWhile_append takeWhile_append)
  have "splitChar slash (absPath (ks @ [[]])) = [] # ks @ [[]]"
    using plain_noSlash [OF assms(1)] by (intro splitChar_absPath) auto
  then have "evalSymlinks f (absPath (ks @ [[]])) = walk 255 f ''/'' (ks @ [[]])" by (simp add: evalSymlinks_def)
  also have "\<dots> = Inr (absPath ks)" using walk_dirs [OF assms(1,3), of 255 "[[]]"] by simp
  finally have e: "evalSymlinks f (absPath (ks @ [[]])) = Inr (absPath ks)" .
  have "nodeAt f (absPath ks) = Some FDir"
    using assms(3) dirsTo_last [of f "butlast ks" "last ks"] by (cases "ks = []") (auto simp: nodeAt_def absPath_def)
  then show ?thesis using e d assms(1) by (simp add: placeOf_def child_absPath)
qed

lemma createTarget_plain:
  assumes "plainNames ks" and "plainName k" and "dirsTo f ks" and "\<forall>t. fget f (absPath (ks @ [k])) \<noteq> Some (FLink t)"
  shows "createTarget n f (absPath (ks @ [k])) = Inr (absPath (ks @ [k]))"
  using assms(4) by (subst createTarget.simps)
    (auto simp: placeOf_plain [OF assms(1-3)] split: option.splits fnode.splits)

text \<open>Putting a node that is no link at a place inside, where no directory is.\<close>

lemma keptInside_put:
  assumes "keptInside cs f0 f" and "plainNames (cs @ ds)" and "cs \<noteq> []" and "ds \<noteq> []"
    and "\<forall>t. n \<noteq> FLink t"
  shows "keptInside cs f0 (fput f (absPath (cs @ ds)) n)"
proof -
  have "absPath (take (Suc i) cs) \<noteq> absPath (cs @ ds)" if "i < length cs" for i
  proof
    assume "absPath (take (Suc i) cs) = absPath (cs @ ds)"
    moreover have "plainNames (take (Suc i) cs)" using assms(2) by (auto simp: list_all_iff dest: in_set_takeD)
    ultimately have "take (Suc i) cs = cs @ ds" using absPath_inj assms(2) by blast
    then have "length (take (Suc i) cs) = length cs + length ds" by (metis length_append)
    then show False using assms(4) that by (cases ds) auto
  qed
  then have "dirsTo (fput f (absPath (cs @ ds)) n) cs"
    using assms(1) by (auto simp: keptInside_def dirsTo_def list_all_iff)
  then show ?thesis using assms(1,3,5) inTree_absPath [OF assms(3), of ds] by (auto simp: keptInside_def)
qed

lemma keptInside_rMkdirAll:
  assumes "keptInside cs f0 (fs w)" and "plainNames (cs @ ds)" and "cs \<noteq> []"
    and "rMkdirAll (pathDir (absPath (cs @ ds))) w = (r, w')"
  shows "keptInside cs f0 (fs w') \<and> (r = Inr () \<longrightarrow> dirsTo (fs w') (butlast (cs @ ds)))"
proof -
  let ?w1 = "w\<lparr>hist := EMkdirAll (pathDir (absPath (cs @ ds))) # hist w\<rparr>"
  let ?vs = "butlast (cs @ ds)"
  have pl: "plainNames ?vs" using assms(2) by (auto simp: list_all_iff dest: in_set_butlastD)
  have dir: "pathDir (absPath (cs @ ds)) = absPath ?vs"
    using pathDir_abs [OF pl, of "last (cs @ ds)"] assms(2,3) by (metis append_butlast_last_id append_is_Nil_conv last_in_set list_all_iff)
  obtain r1 f' where mk: "mkdirsFrom ''/'' (splitChar slash (absPath ?vs)) (fs w) = (r1, f')" by (meson surj_pair)
  have "mkdirsFrom ''/'' (splitChar slash (absPath ?vs)) (fs w) = mkdirsFrom (absPath []) ?vs (fs w)"
    using plain_noSlash [OF pl] splitChar_absPath [of ?vs]
    by (cases "?vs = []") (simp_all add: absPath_def)
  with mk have mk': "mkdirsFrom (absPath []) ?vs (fs w) = (r1, f')" by simp
  have dt: "dirsTo (fs w) cs" and nl: "\<And>xs t. plainNames xs \<Longrightarrow> fget (fs w) (absPath (cs @ xs)) \<noteq> Some (FLink t)"
    using assms(1) by (auto simp: keptInside_def)
  have pre: "(\<exists>j<length cs. take (Suc i) ?vs = take (Suc j) cs) \<or> (\<exists>xs. plainNames xs \<and> xs \<noteq> [] \<and> take (Suc i) ?vs = cs @ xs)"
    if "i < length ?vs" for i
  proof (cases "i < length cs")
    case True
    moreover have "Suc i \<le> length (cs @ ds) - 1" using that by (simp only: length_butlast)
    ultimately have "take (Suc i) ?vs = take (Suc i) cs" by (simp only: butlast_conv_take take_take min_absorb1) simp
    then show ?thesis using True by blast
  next
    case False
    moreover have "Suc i \<le> length (cs @ ds) - 1" using that by (simp only: length_butlast)
    ultimately have "take (Suc i) ?vs = cs @ take (Suc i - length cs) ds"
      by (simp only: butlast_conv_take take_take min_absorb1) simp
    moreover have "plainNames (take (Suc i - length cs) ds)" using assms(2) by (auto simp: list_all_iff dest: in_set_takeD)
    moreover have "take (Suc i - length cs) ds \<noteq> []" using False \<open>Suc i \<le> _\<close> by (cases ds) (auto simp: Suc_diff_le)
    ultimately show ?thesis by blast
  qed
  have dirs: "fget (fs w) (absPath (take (Suc j) cs)) = Some FDir" if "j < length cs" for j
    using dt that by (auto simp: dirsTo_def list_all_iff)
  have "\<forall>i<length ?vs. \<forall>t. fget (fs w) (absPath ([] @ take (Suc i) ?vs)) \<noteq> Some (FLink t)"
    using pre dirs nl by fastforce
  then have res: "(\<forall>q. fget f' q = fget (fs w) q \<or> fget (fs w) q = None \<and> fget f' q = Some FDir
        \<and> (\<exists>i<length ?vs. q = absPath ([] @ take (Suc i) ?vs))) \<and> (r1 = None \<longrightarrow> dirsTo f' ([] @ ?vs))"
    using mkdirsFrom_plain [of "[]" ?vs "fs w" r1 f'] pl mk' by (simp add: dirsTo_def)
  have ch: "fget f' q = fget (fs w) q \<or> fget f' q = Some FDir \<and> inTree (absPath cs) q \<and> fget (fs w) q = None" for q
    using conjunct1 [OF res, rule_format, of q] pre dirs inTree_absPath [OF assms(3)] by (metis append_Nil option.distinct(1))
  have "fget f' (absPath (take (Suc j) cs)) = Some FDir" if "j < length cs" for j
    using ch [of "absPath (take (Suc j) cs)"] dirs [OF that] by auto
  then have "dirsTo f' cs" by (simp add: dirsTo_def list_all_iff)
  moreover have "fget f' (absPath (cs @ xs)) \<noteq> Some (FLink t)" if "plainNames xs" for xs t
    using ch [of "absPath (cs @ xs)"] nl [OF that] by auto
  moreover have "fget f' q = fget f0 q" if "\<not> inTree (absPath cs) q" for q
    using ch [of q] assms(1) that by (auto simp: keptInside_def)
  ultimately have "keptInside cs f0 f'" by (simp add: keptInside_def)
  moreover have "fs w' = fs w \<and> r \<noteq> Inr () \<or> fs w' = f' \<and> (r = Inr () \<longrightarrow> r1 = None)"
    using assms(4) mk unfolding dir rMkdirAll_def
    by (auto simp: andThen_def bind_def fallible_def Let_def split: if_splits option.splits)
  ultimately show ?thesis using assms(1) res by auto
qed


lemma keptInside_rPut:
  assumes "keptInside cs f0 (fs w)" and "\<forall>q. place (fs w) = Inr q \<longrightarrow> okOver (nodeAt (fs w) q) \<longrightarrow> keptInside cs f0 (fput (fs w) q n)"
    and "rPut ev place okOver n w = (r, w')"
  shows "keptInside cs f0 (fs w')"
  using assms
  by (auto simp: rPut_def andThen_def bind_def fallible_def Let_def setNode_def split: if_splits sum.splits)

lemma keptInside_entry:
  assumes "keptInside cs f0 (fs w)" and "plainNames cs" and "cs \<noteq> []" and "\<forall>t. teKind e \<noteq> TLink t"
    and "unpackEntry (absPath cs) (Some clickVerifyContentFn) e w = (r, w')"
  shows "keptInside cs f0 (fs w')"
proof (cases "clickVerifyContentFn (teName e)")
  case (Inl x)
  then show ?thesis using assms(1,5) by (simp add: unpackEntry_def)
next
  case (Inr nm)
  obtain ds where ds: "plainNames ds" "pathJoin [absPath cs, nm] = absPath (cs @ ds)"
    using unpack_path [OF assms(2,3) Inr] by blast
  have pl: "plainNames (cs @ ds)" using assms(2) ds(1) by simp
  let ?p = "absPath (cs @ ds)"
  obtain r1 w1 where mk: "rMkdirAll (pathDir ?p) w = (r1, w1)" by (meson surj_pair)
  note c1 = keptInside_rMkdirAll [OF assms(1) pl assms(3) mk]
  show ?thesis
  proof (cases r1)
    case (Inl x)
    then show ?thesis using c1 assms(5) mk ds(2) \<open>clickVerifyContentFn _ = _\<close>
      by (simp add: unpackEntry_def Let_def andThen_def bind_def)
  next
    case r1: (Inr u)
    have dt: "dirsTo (fs w1) (butlast (cs @ ds))" using c1 r1 by simp
    have run: "placeEntry ?p (teKind e) w1 = (r, w')"
      using assms(5) mk r1 ds(2) \<open>clickVerifyContentFn _ = _\<close> by (simp add: unpackEntry_def Let_def andThen_def bind_def)
    have last: "cs @ ds = butlast (cs @ ds) @ [last (cs @ ds)]" using assms(3) by simp
    have plb: "plainNames (butlast (cs @ ds))" "plainName (last (cs @ ds))"
      using pl assms(3) last_in_set [of "cs @ ds"] by (auto simp: list_all_iff dest: in_set_butlastD)
    have place: "placeOf (fs w1) ?p = Inr ?p" using placeOf_plain [OF plb dt] last by simp
    have nolink: "\<forall>t. fget (fs w1) ?p \<noteq> Some (FLink t)" using c1 ds(1) by (simp add: keptInside_def)
    then have target: "createTarget 40 (fs w1) ?p = Inr ?p" using createTarget_plain [OF plb dt] last by simp
    have node: "nodeAt (fs w1) ?p = Some FDir" if "ds = []"
      using that dirsTo_last [of "fs w1" "butlast cs" "last cs"] c1 assms(3) by (simp add: nodeAt_def keptInside_def)
    have put: "keptInside cs f0 (fput (fs w1) ?p n)" if "ds \<noteq> []" "\<forall>t. n \<noteq> FLink t" for n
      using keptInside_put [OF conjunct1 [OF c1] pl assms(3)] that by simp
    show ?thesis
    proof (cases "teKind e")
      case TDir
      have "keptInside cs f0 (fs (snd (rMkdir ?p w1)))"
        unfolding rMkdir_def using c1 place node put
        by (intro keptInside_rPut [OF _ _ prod.collapse [symmetric]]) (cases "ds = []"; auto)+
      then show ?thesis using run TDir by auto
    next
      case (TFile c)
      have "keptInside cs f0 (fs (snd (rWriteFile ?p c w1)))"
        unfolding rWriteFile_def using c1 target node put
        by (intro keptInside_rPut [OF _ _ prod.collapse [symmetric]]) (cases "ds = []"; auto)+
      then show ?thesis using run TFile by auto
    next
      case TDevice
      then show ?thesis using run c1 by (auto simp: fallible_def Let_def split: if_splits)
    next
      case TOther
      then show ?thesis using run c1 by (simp add: throw_def)
    next
      case (TLink t)
      then show ?thesis using assms(4) by simp
    qed
  qed
qed

lemma keptInside_entries:
  assumes "keptInside cs f0 (fs w)" and "plainNames cs" and "cs \<noteq> []" and "\<forall>e\<in>set es. \<forall>t. teKind e \<noteq> TLink t"
  shows "keptInside cs f0 (fs (snd (forEach es (unpackEntry (absPath cs) (Some clickVerifyContentFn)) w)))"
  using assms(1,4)
proof (induction es arbitrary: w)
  case (Cons e es)
  obtain r w1 where e: "unpackEntry (absPath cs) (Some clickVerifyContentFn) e w = (r, w1)" by (meson surj_pair)
  have "keptInside cs f0 (fs w1)" using keptInside_entry [OF Cons.prems(1) assms(2,3) _ e] Cons.prems(2) by simp
  then show ?case using Cons.IH [of w1] Cons.prems(2) e by (cases r) (simp_all add: andThen_def bind_def)
qed simp

text \<open>
  C31. An archive without links is unpacked inside the target directory, whatever its names
  are and wherever it fails: no file outside changes. The target is a directory that is
  reached without links and has no links inside.
\<close>

theorem UnpackTar_inside:
  assumes "plainNames cs" and "cs \<noteq> []" and "dirsTo (fs w) cs"
    and "\<forall>xs t. plainNames xs \<longrightarrow> fget (fs w) (absPath (cs @ xs)) \<noteq> Some (FLink t)"
    and "\<forall>e\<in>set (fst s). \<forall>t. teKind e \<noteq> TLink t"
    and "UnpackTar s (absPath cs) (Some clickVerifyContentFn) w = (r, w')"
    and "\<not> inTree (absPath cs) q"
  shows "fget (fs w') q = fget (fs w) q"
proof -
  have "keptInside cs (fs w) (fs w)" using assms(3,4) by (simp add: keptInside_def)
  from keptInside_entries [OF this assms(1,2,5)]
  have c: "keptInside cs (fs w) (fs (snd (forEach (fst s) (unpackEntry (absPath cs) (Some clickVerifyContentFn)) w)))" .
  have "fs w' = fs (snd (forEach (fst s) (unpackEntry (absPath cs) (Some clickVerifyContentFn)) w))"
    using assms(6) by (auto simp: UnpackTar_def TarIterate_def andThen_def bind_def throw_def ret_def
        split: prod.splits sum.splits option.splits)
  then show ?thesis using c assms(7) by (simp add: keptInside_def)
qed


definition linkFs :: fsys where
  "linkFs = [(''/t'', FDir), (''/etc'', FDir), (''/etc/passwd'', FFile ''root'')]"

definition linkWorld :: world where
  "linkWorld = \<lparr>fs = linkFs, hist = [], faults = \<lambda>_ _. False\<rparr>"

definition linkEntries :: "tarEntry list" where
  "linkEntries = [\<lparr>teName = ''a'', teKind = TLink ''/etc''\<rparr>, \<lparr>teName = ''./a/passwd'', teKind = TFile ''mine''\<rparr>]"


section \<open>Facts on packages\<close>

text \<open>
  Whether a signature is accepted depends on the exit status alone: a bad signature or an
  internal error of the checker never is, also when unsigned packages are allowed.
\<close>

lemma Verify_accepts:
  fixes w :: "'m sworld_scheme"
  assumes ev_def: "ev = ECmd [''debsig-verify'', p]"
  shows "fst (Verify p allow w) = Inr () \<longleftrightarrow>
    \<not> faults w (hist w) ev \<or> allow \<and> (exits w (hist w) ev = Some 10 \<or> exits w (hist w) ev = Some 11 \<or> exits w (hist w) ev = Some 12)"
  unfolding Verify_def execCmd_def Let_def ev_def
  by (cases "exits w (hist w) (ECmd [''debsig-verify'', p])") (auto simp: allowUnauthenticatedOkExitCode_def)

lemma walkPaths_set: "set (walkPaths f root) = {p \<in> fst ` set f. inTree root p}"
  by (auto simp: walkPaths_def)

lemma fget_dom: "fget f p = Some n \<Longrightarrow> p \<in> fst ` set f"
  by (auto simp: fget_def dest!: map_of_SomeD intro: rev_image_eqI)

text \<open>The entries of a tree: one for each node that is taken, with its contents.\<close>

lemma tarEntries_mem:
  "\<lparr>teName = CHR ''.'' # q, teKind = k\<rparr> \<in> set (tarEntries f sourceDir fn) \<longleftrightarrow>
     (\<exists>p n. fget f p = Some n \<and> inTree sourceDir p \<and> p \<noteq> sourceDir \<and> fn p \<and> q = drop (length sourceDir) p
        \<and> k = (case n of FDir \<Rightarrow> TDir | FFile c \<Rightarrow> TFile c | FLink t \<Rightarrow> TLink t))"
proof -
  have mf: "y \<in> set (List.map_filter g xs) \<longleftrightarrow> (\<exists>x\<in>set xs. g x = Some y)" for y g and xs :: "string list"
    by (induction xs) (auto simp: List.map_filter_simps split: option.splits)
  show ?thesis unfolding tarEntries_def mf walkPaths_set
    by (auto intro: fget_dom split: if_splits) (use fget_dom in fastforce)+
qed

text \<open>
  What a built package carries: a file or link of the source directory is an entry of the
  data archive, with its contents and its name relative to the directory, exactly when the
  path does not begin with the one of \<^verbatim>\<open>DEBIAN\<close>. So a file like \<^verbatim>\<open>DEBIAN.md\<close> beside that directory is
  left out too.
\<close>

lemma data_entries:
  assumes "fget f (sourceDir @ slash # q) = Some (FFile c)" and "sourceDir \<noteq> ''/''"
  shows "\<lparr>teName = CHR ''.'' # slash # q, teKind = TFile c\<rparr>
       \<in> set (tarEntries f sourceDir (\<lambda>p. \<not> hasPrefix p (sourceDir @ ''/DEBIAN'')))
     \<longleftrightarrow> \<not> hasPrefix q ''DEBIAN''"
proof -
  have "hasPrefix (xs @ ys) (xs @ zs) = hasPrefix ys zs" for xs ys zs :: string by (induction xs) simp_all
  then have hp: "hasPrefix (sourceDir @ slash # q) (sourceDir @ ''/DEBIAN'') = hasPrefix q ''DEBIAN''" by simp
  have it: "inTree sourceDir (sourceDir @ slash # q)" by (simp add: inTree_def hasPrefix_iff)
  show ?thesis
  proof
    assume "\<not> hasPrefix q ''DEBIAN''"
    then show "\<lparr>teName = CHR ''.'' # slash # q, teKind = TFile c\<rparr>
       \<in> set (tarEntries f sourceDir (\<lambda>p. \<not> hasPrefix p (sourceDir @ ''/DEBIAN'')))"
      unfolding tarEntries_mem using assms(1) hp it by (intro exI [of _ "sourceDir @ slash # q"] exI [of _ "FFile c"]) simp
  next
    assume "\<lparr>teName = CHR ''.'' # slash # q, teKind = TFile c\<rparr>
       \<in> set (tarEntries f sourceDir (\<lambda>p. \<not> hasPrefix p (sourceDir @ ''/DEBIAN'')))"
    then obtain p where p: "inTree sourceDir p" "p \<noteq> sourceDir" "\<not> hasPrefix p (sourceDir @ ''/DEBIAN'')"
        "slash # q = drop (length sourceDir) p" unfolding tarEntries_mem by blast
    then have "p = sourceDir @ slash # q" by (auto simp: inTree_def hasPrefix_iff)
    then show "\<not> hasPrefix q ''DEBIAN''" using p(3) hp by simp
  qed
qed

subsection \<open>Witnesses\<close>

theorem UnpackTar_inside_witness:
  "fget (fs (snd (UnpackTar ([\<lparr>teName = ''../../etc/passwd'', teKind = TFile ''mine''\<rparr>], None) ''/t'' (Some clickVerifyContentFn) linkWorld)))
     ''/etc/passwd'' = Some (FFile ''root'')"
proof -
  have t: "absPath [''t''] = ''/t''" by (simp add: absPath_def)
  have "dirsTo (fs linkWorld) [''t'']" by code_simp
  moreover have "plainNames [''t'']" by (simp add: plainName_def)
  moreover have "\<forall>xs l. plainNames xs \<longrightarrow> fget (fs linkWorld) (absPath ([''t''] @ xs)) \<noteq> Some (FLink l)"
    by (auto simp: linkWorld_def linkFs_def fget_def)
  moreover have "\<not> inTree (absPath [''t'']) ''/etc/passwd''" unfolding t by code_simp
  ultimately have "fget (fs w') ''/etc/passwd'' = fget (fs linkWorld) ''/etc/passwd''"
    if "UnpackTar ([\<lparr>teName = ''../../etc/passwd'', teKind = TFile ''mine''\<rparr>], None) (absPath [''t'']) (Some clickVerifyContentFn) linkWorld = (r, w')"
    for r w' using that by (intro UnpackTar_inside) auto
  moreover have "fget (fs linkWorld) ''/etc/passwd'' = Some (FFile ''root'')" by (simp add: linkWorld_def linkFs_def fget_def)
  ultimately show ?thesis unfolding t by (metis prod.collapse)
qed

end
