(* ===== verification/CoreConfig.thy ===== *)
theory CoreConfig
  imports Policy Helpers PackageYaml BootEnv
begin

text \<open>
  The configuration of the core system, \<^verbatim>\<open>coreconfig/config.go\<close>: reading it from the files of
  the system and writing back what a new configuration changes. The yaml form is an argument,
  and so is the variable of the environment that names the time zone file. The host name is
  kept by the kernel, so the world has one more field.
\<close>

section \<open>White space\<close>

text \<open>
  \<^verbatim>\<open>strings.TrimSpace\<close>: the code points with the property White\_Space in UTF-8, removed from
  the front and from the back.
\<close>

definition spaceRunes :: "string list" where
  "spaceRunes = map (map char_of)
     ([[9], [10], [11], [12], [13], [32], [194, 133], [194, 160], [225, 154, 128]]
      @ map (\<lambda>i. [226, 128, 128 + i]) [0..<11]
      @ [[226, 128, 168], [226, 128, 169], [226, 128, 175], [226, 129, 159], [227, 128, 128 :: nat]])"

function dropSpace :: "string list \<Rightarrow> string \<Rightarrow> string" where
  "dropSpace rs s =
     (case find (\<lambda>r. r \<noteq> [] \<and> hasPrefix s r) rs of
        None \<Rightarrow> s
      | Some r \<Rightarrow> dropSpace rs (drop (length r) s))"
  by pat_completeness auto
termination
  by (relation "measure (\<lambda>(rs, s). length s)") (auto simp: find_Some_iff hasPrefix_iff)

declare dropSpace.simps [simp del]

definition TrimSpace :: "string \<Rightarrow> string" where
  "TrimSpace s = rev (dropSpace (map rev spaceRunes) (rev (dropSpace spaceRunes s)))"

section \<open>The configuration\<close>

record passthroughConfig =
  ptName :: string
  ptContent :: string

record networkConfig =
  Interfaces :: "passthroughConfig list"
  PPP :: "passthroughConfig list"

record watchdogConfig =
  Startup :: string
  WdConfig :: string

record systemConfig =
  Autopilot :: "bool option"
  Timezone :: "string option"
  Hostname :: "string option"
  Modprobe :: "string option"
  Modules :: "string list option"
  Network :: "networkConfig option"
  Watchdog :: "watchdogConfig option"

record cworld = sworld +
  kernelHost :: string

record coretools =
  cfgEnc :: "systemConfig \<Rightarrow> (serr, string) res"
  cfgDec :: "string \<Rightarrow> (serr, systemConfig option) res"
  tzEnv :: string

definition ErrInvalidUnitStatus :: serr where "ErrInvalidUnitStatus = Errorf ''invalid unit status''"
definition ErrInvalidConfig :: serr where "ErrInvalidConfig = Errorf ''invalid ubuntu-core configuration''"

abbreviation tzPathDefault :: string where "tzPathDefault \<equiv> ''/etc/timezone''"
abbreviation tzZoneInfoPath :: string where "tzZoneInfoPath \<equiv> ''/usr/share/zoneinfo''"
abbreviation tzZoneInfoTarget :: string where "tzZoneInfoTarget \<equiv> ''/etc/localtime''"
abbreviation autopilotTimer :: string where "autopilotTimer \<equiv> ''snappy-autopilot.timer''"
abbreviation modprobePath :: string where "modprobePath \<equiv> ''/etc/modprobe.d/ubuntu-core.conf''"
abbreviation modulesPath :: string where "modulesPath \<equiv> ''/etc/modules-load.d/ubuntu-core.conf''"
abbreviation interfacesRoot :: string where "interfacesRoot \<equiv> ''/etc/network/interfaces.d/''"
abbreviation pppRoot :: string where "pppRoot \<equiv> ''/etc/ppp/''"
abbreviation watchdogConfigPath :: string where "watchdogConfigPath \<equiv> ''/etc/watchdog.conf''"
abbreviation watchdogStartupPath :: string where "watchdogStartupPath \<equiv> ''/etc/default/watchdog''"
abbreviation hostnamePath :: string where "hostnamePath \<equiv> ''/etc/writable/hostname''"

text \<open>\<^verbatim>\<open>helpers.AtomicWriteFile\<close> with \<^verbatim>\<open>AtomicWriteFollow\<close>, as one step.\<close>

definition atomicFollow :: "string \<Rightarrow> string \<Rightarrow> ('m world_scheme, serr, unit) io" where
  "atomicFollow p c = bind (gets (\<lambda>w. followOnce (fs w) p)) (\<lambda>q. ioAtomicWrite q c)"

text \<open>A file that does not have to exist.\<close>

definition readOptional :: "string \<Rightarrow> ('m world_scheme, serr, string) io" where
  "readOptional p =
     bind (attempt (ioReadFile p)) (\<lambda>r.
       case r of Inr c \<Rightarrow> ret c | Inl e \<Rightarrow> if IsNotExist e then ret '''' else throw e)"

subsection \<open>Time zone\<close>

definition tzFile :: "coretools \<Rightarrow> string" where
  "tzFile T = (if tzEnv T = '''' then tzPathDefault else tzEnv T)"

definition getTimezone :: "coretools \<Rightarrow> ('m world_scheme, serr, string) io" where
  "getTimezone T = bind (ioReadFile (tzFile T)) (\<lambda>tz. ret (TrimSpace tz))"

definition setTimezone :: "coretools \<Rightarrow> string \<Rightarrow> ('m world_scheme, serr, unit) io" where
  "setTimezone T timezone =
     andThen (CopyFile (pathJoin [tzZoneInfoPath, timezone]) tzZoneInfoTarget True) (atomicFollow (tzFile T) timezone)"

subsection \<open>Files passed through\<close>

text \<open>
  \<^verbatim>\<open>filepath.Walk\<close>: the files and links below a directory, each directory in the order of its
  names; that is the order of the paths as lists of names. A root that is missing is given
  to the callback without its \<^verbatim>\<open>FileInfo\<close>, which the callback dereferences. A file that cannot
  be read ends the walk, and the error of the walk is not looked at.
\<close>

definition walkFiles :: "fsys \<Rightarrow> string \<Rightarrow> string list" where
  "walkFiles f root =
     filter (\<lambda>p. fget f p \<noteq> Some FDir)
       (sort_key (splitChar slash) (remdups (filter (\<lambda>p. inTree root p \<and> p \<noteq> root) (map fst f))))"

fun passFiles :: "string \<Rightarrow> fsys \<Rightarrow> string list \<Rightarrow> passthroughConfig list" where
  "passFiles rootDir f [] = []"
| "passFiles rootDir f (p # ps) =
     (case stat f p of
        Inr (FFile c) \<Rightarrow> \<lparr>ptName = drop (length rootDir) p, ptContent = c\<rparr> # passFiles rootDir f ps
      | _ \<Rightarrow> [])"

definition getPassthrough :: "string \<Rightarrow> ('m world_scheme, serr, passthroughConfig list) io" where
  "getPassthrough rootDir =
     bind (gets fs) (\<lambda>f.
       if isDirectory f (pathClean rootDir)
       then ret (passFiles rootDir f (walkFiles f (pathClean rootDir)))
       else throw (GoPanic ''nil pointer dereference''))"

definition setPassthrough :: "string \<Rightarrow> passthroughConfig list \<Rightarrow> ('m world_scheme, serr, unit) io" where
  "setPassthrough rootDir pc =
     forEach pc (\<lambda>c.
       let path = pathJoin [rootDir, ptName c]
       in if ptContent c = '''' then ignoring (ioRemove path) else atomicFollow path (ptContent c))"

subsection \<open>Kernel modules\<close>

definition getModprobe :: "('m world_scheme, serr, string) io" where
  "getModprobe = readOptional modprobePath"

definition setModprobe :: "string \<Rightarrow> ('m world_scheme, serr, unit) io" where
  "setModprobe modprobe = atomicFollow modprobePath modprobe"

definition moduleLines :: "string \<Rightarrow> string list" where
  "moduleLines c =
     sort (filter (\<lambda>l. l \<noteq> [] \<and> hd l \<noteq> CHR ''#'' \<and> hd l \<noteq> CHR '';'') (map TrimSpace (scanLines c)))"

definition getModules :: "('m world_scheme, serr, string list) io" where
  "getModules = bind (readOptional modulesPath) (\<lambda>c. ret (moduleLines c))"

definition modulesHeader :: string where
  "modulesHeader = printLines [''#'', ''# DO NOT EDIT THIS FILE'', ''# it is auto-generated, and will be overwritten.'']"

definition moduleStep :: "string \<Rightarrow> string list \<Rightarrow> string list" where
  "moduleStep entry old =
     (let m = TrimSpace entry
      in if m = '''' then old
         else if hd m = CHR ''-'' then
           (let idx = searchStrings old (tl m)
            in if idx = int (length old) \<or> old ! nat idx \<noteq> tl m then old
               else take (nat idx) old @ drop (Suc (nat idx)) old)
         else
           (let idx = searchStrings old m
            in if idx < int (length old) \<and> old ! nat idx = m then old
               else take (nat idx) old @ m # drop (nat idx) old))"

definition setModules :: "string list \<Rightarrow> ('m world_scheme, serr, unit) io" where
  "setModules modules =
     bind getModules (\<lambda>oldModules.
       atomicFollow modulesPath (modulesHeader @ printLines (fold moduleStep modules oldModules)))"

subsection \<open>Watchdog, autopilot, host name\<close>

definition getWatchdog :: "('m world_scheme, serr, watchdogConfig option) io" where
  "getWatchdog =
     bind (readOptional watchdogStartupPath) (\<lambda>startup.
     bind (readOptional watchdogConfigPath) (\<lambda>config.
       ret (if startup = '''' \<and> config = '''' then None else Some \<lparr>Startup = startup, WdConfig = config\<rparr>)))"

definition setWatchdog :: "watchdogConfig \<Rightarrow> ('m world_scheme, serr, unit) io" where
  "setWatchdog wd =
     andThen (atomicFollow watchdogStartupPath (Startup wd)) (atomicFollow watchdogConfigPath (WdConfig wd))"

definition systemctlRun :: "string \<Rightarrow> ('m sworld_scheme, serr, string) io" where
  "systemctlRun verb =
     mapErr (\<lambda>_. OsErr KIO (ECmd [''systemctl'', verb, autopilotTimer])) (execCmd [''systemctl'', verb, autopilotTimer])"

definition tryCmd :: "string list \<Rightarrow> ('m sworld_scheme, 'e, (int option \<times> string) + string) io" where
  "tryCmd args = (\<lambda>w. case execCmd args w of (r, w') \<Rightarrow> (Inr r, w'))"

text \<open>
  Only an exit status other than 1 is an error; a command that could not be started has no
  output and is an invalid status.
\<close>

definition getAutopilot :: "('m sworld_scheme, serr, bool) io" where
  "getAutopilot =
     bind (tryCmd [''systemctl'', ''is-enabled'', autopilotTimer]) (\<lambda>r.
       let status = (\<lambda>out. if TrimSpace out = ''enabled'' then ret True
                           else if TrimSpace out = ''disabled'' then ret False else throw ErrInvalidUnitStatus)
       in case r of
            Inr out \<Rightarrow> status out
          | Inl (Some code, out) \<Rightarrow>
              if code \<noteq> 1 then throw (OsErr KIO (ECmd [''systemctl'', ''is-enabled'', autopilotTimer])) else status out
          | Inl (None, out) \<Rightarrow> status out)"

definition setAutopilot :: "bool \<Rightarrow> ('m sworld_scheme, serr, unit) io" where
  "setAutopilot stateEnabled =
     (if stateEnabled then andThen (systemctlRun ''enable'') (andThen (systemctlRun ''start'') (ret ()))
      else andThen (systemctlRun ''stop'') (andThen (systemctlRun ''disable'') (ret ())))"

definition setHostname :: "string \<Rightarrow> ('m cworld_scheme, serr, unit) io" where
  "setHostname hostname =
     andThen (fallible (OsErr KIO (ECall ''sethostname'')) (ECall ''sethostname''))
    (andThen (modifies (\<lambda>w. w\<lparr>kernelHost := hostname\<rparr>))
       (atomicFollow hostnamePath hostname))"


section \<open>Reading and changing the configuration\<close>

definition newSystemConfig :: "coretools \<Rightarrow> ('m cworld_scheme, serr, systemConfig) io" where
  "newSystemConfig T =
     bind (getTimezone T) (\<lambda>tz.
     bind getAutopilot (\<lambda>autopilot.
     bind (gets kernelHost) (\<lambda>hostname.
     bind getModprobe (\<lambda>modprobe.
     bind getModules (\<lambda>modules.
     bind (getPassthrough interfacesRoot) (\<lambda>interfaces.
     bind (getPassthrough pppRoot) (\<lambda>ppp.
     bind getWatchdog (\<lambda>watchdog.
       ret \<lparr>Autopilot = Some autopilot, Timezone = Some tz, Hostname = Some hostname, Modprobe = Some modprobe,
            Modules = (if modules = [] then None else Some modules),
            Network = (if interfaces \<noteq> [] \<or> ppp \<noteq> [] then Some \<lparr>Interfaces = interfaces, PPP = ppp\<rparr> else None),
            Watchdog = watchdog\<rparr>))))))))"

definition Get :: "coretools \<Rightarrow> ('m cworld_scheme, serr, string) io" where
  "Get T = bind (newSystemConfig T) (\<lambda>config. fromRes (cfgEnc T config))"

text \<open>The loop of \<^verbatim>\<open>passthroughEqual\<close>, over positions.\<close>

definition passthroughEqual :: "passthroughConfig list \<Rightarrow> passthroughConfig list \<Rightarrow> bool" where
  "passthroughEqual a b = (length a = length b \<and> list_all (\<lambda>i. a ! i = b ! i) [0..<length a])"

text \<open>
  One field of the new configuration; a field that is nil is skipped. \<open>changed\<close> is the case of
  a field that is compared with its old value first.
\<close>

definition field :: "'a option \<Rightarrow> ('a \<Rightarrow> ('w, serr, unit) io) \<Rightarrow> ('w, serr, unit) io" where
  "field v f = (case v of None \<Rightarrow> ret () | Some x \<Rightarrow> f x)"

definition changed :: "'a option \<Rightarrow> 'a \<Rightarrow> ('w, serr, unit) io \<Rightarrow> ('w, serr, unit) io" where
  "changed old v m = (if old = Some v then ret () else m)"

definition setNetwork :: "networkConfig option \<Rightarrow> networkConfig \<Rightarrow> ('m world_scheme, serr, unit) io" where
  "setNetwork old new =
     (let differs = (\<lambda>sel. case old of None \<Rightarrow> True | Some o1 \<Rightarrow> \<not> passthroughEqual (sel o1) (sel new))
      in andThen (whenIO (differs Interfaces) (setPassthrough interfacesRoot (Interfaces new)))
           (whenIO (differs PPP) (setPassthrough pppRoot (PPP new))))"

text \<open>The fields in the order of the struct.\<close>

definition applyConfig :: "coretools \<Rightarrow> systemConfig \<Rightarrow> systemConfig \<Rightarrow> ('m cworld_scheme, serr, unit) io" where
  "applyConfig T old new =
     andThen (field (Autopilot new) (\<lambda>v. changed (Autopilot old) v (setAutopilot v)))
    (andThen (field (Timezone new) (\<lambda>v. changed (Timezone old) v (setTimezone T v)))
    (andThen (field (Hostname new) (\<lambda>v. changed (Hostname old) v (setHostname v)))
    (andThen (field (Modprobe new) (\<lambda>v. changed (Modprobe old) v (setModprobe v)))
    (andThen (field (Modules new) setModules)
    (andThen (field (Network new) (setNetwork (Network old)))
       (field (Watchdog new) (\<lambda>v. changed (Watchdog old) v (setWatchdog v))))))))"

definition SetConfig :: "coretools \<Rightarrow> string \<Rightarrow> ('m cworld_scheme, serr, string) io" where
  "SetConfig T rawConfig =
     bind (newSystemConfig T) (\<lambda>oldConfig.
     bind (fromRes (cfgDec T rawConfig)) (\<lambda>newConfig.
       case newConfig of
         None \<Rightarrow> throw ErrInvalidConfig
       | Some new \<Rightarrow> andThen (applyConfig T oldConfig new) (Get T)))"

section \<open>Trimming\<close>

lemma dropSpace_cases:
  obtains "find (\<lambda>r. r \<noteq> [] \<and> hasPrefix s r) rs = None" "dropSpace rs s = s"
  | r where "find (\<lambda>r. r \<noteq> [] \<and> hasPrefix s r) rs = Some r" "dropSpace rs s = dropSpace rs (drop (length r) s)"
  using dropSpace.simps [of rs s] by (cases "find (\<lambda>r. r \<noteq> [] \<and> hasPrefix s r) rs") auto

lemma dropSpace_done: "find (\<lambda>r. r \<noteq> [] \<and> hasPrefix (dropSpace rs s) r) rs = None"
proof (induction rs s rule: dropSpace.induct)
  case (1 rs s)
  then show ?case by (cases rule: dropSpace_cases [of s rs]) simp_all
qed

lemma dropSpace_id: "find (\<lambda>r. r \<noteq> [] \<and> hasPrefix s r) rs = None \<Longrightarrow> dropSpace rs s = s"
  by (simp add: dropSpace.simps)

lemma dropSpace_suffix: "\<exists>p. s = p @ dropSpace rs s"
proof (induction rs s rule: dropSpace.induct)
  case (1 rs s)
  show ?case
  proof (cases rule: dropSpace_cases [of s rs])
    case (2 r)
    with 1 obtain p where "drop (length r) s = p @ dropSpace rs (drop (length r) s)" by blast
    then have "s = (take (length r) s @ p) @ dropSpace rs s" using 2(2) by (metis append_assoc append_take_drop_id)
    then show ?thesis ..
  qed simp
qed

lemma TrimSpace_idem: "TrimSpace (TrimSpace s) = TrimSpace s"
proof -
  let ?R = "map rev spaceRunes"
  let ?l = "dropSpace spaceRunes s"
  obtain p where "rev ?l = p @ dropSpace ?R (rev ?l)" using dropSpace_suffix by blast
  then have l: "?l = TrimSpace s @ rev p" by (metis TrimSpace_def rev_append rev_rev_ident)
  have "find (\<lambda>r. r \<noteq> [] \<and> hasPrefix (TrimSpace s) r) spaceRunes = None"
    using dropSpace_done [of spaceRunes s] unfolding l by (auto simp: find_None_iff hasPrefix_iff)
  then have "dropSpace spaceRunes (TrimSpace s) = TrimSpace s" by (rule dropSpace_id)
  moreover have "dropSpace ?R (rev (TrimSpace s)) = rev (TrimSpace s)"
    using dropSpace_done [of ?R "rev ?l"] by (simp add: TrimSpace_def dropSpace_id)
  ultimately show ?thesis by (simp add: TrimSpace_def [of "TrimSpace s"])
qed

lemma set_TrimSpace: "set (TrimSpace s) \<subseteq> set s"
  using dropSpace_suffix [of s spaceRunes] dropSpace_suffix [of "rev (dropSpace spaceRunes s)" "map rev spaceRunes"]
  unfolding TrimSpace_def by (metis Un_upper2 order_trans set_append set_rev)


section \<open>The modules as a set\<close>

text \<open>What an entry of the new list does to the set of modules.\<close>

definition moduleSet :: "string \<Rightarrow> string set \<Rightarrow> string set" where
  "moduleSet entry S =
     (let m = TrimSpace entry
      in if m = '''' then S else if hd m = CHR ''-'' then S - {tl m} else insert m S)"

lemma searchStrings_split:
  assumes "sorted a"
  shows "\<exists>i. searchStrings a x = int i \<and> i \<le> length a \<and> (\<forall>y\<in>set (take i a). y < x) \<and> (\<forall>y\<in>set (drop i a). x \<le> y)"
proof -
  let ?f = "\<lambda>h. x \<le> a ! nat h"
  define i where "i = nat (searchStrings a x)"
  have b: "0 \<le> searchStrings a x" "searchStrings a x \<le> int (length a)"
    using search_bounds [of 0 "int (length a)" ?f] by (simp_all add: searchStrings_def)
  have mono: "?f p \<Longrightarrow> ?f q" if "0 \<le> p" "p \<le> q" "q < int (length a)" for p q
    using sorted_nth_mono [OF assms, of "nat p" "nat q"] that by (auto simp: nat_less_iff nat_mono)
  note first = search_first [of 0 "int (length a)" ?f, folded searchStrings_def]
  have low: "a ! k < x" if "k < i" for k
    using first mono that b unfolding i_def by (metis (no_types, lifting) linorder_not_le nat_int of_nat_0_le_iff zless_nat_eq_int_zless)
  have up: "x \<le> a ! k" if "i \<le> k" "k < length a" for k
    using first mono that b unfolding i_def by (metis (no_types, lifting) nat_int nat_le_iff of_nat_0_le_iff of_nat_less_iff)
  have "searchStrings a x = int i" "i \<le> length a" using b by (auto simp: i_def)
  moreover have "\<forall>y\<in>set (take i a). y < x" using low by (auto simp: in_set_conv_nth)
  moreover have "\<forall>y\<in>set (drop i a). x \<le> y" using up by (auto simp: in_set_conv_nth)
  ultimately show ?thesis by blast
qed

lemma moduleStep_spec:
  assumes "sorted_wrt (<) old"
  shows "sorted_wrt (<) (moduleStep entry old) \<and> set (moduleStep entry old) = moduleSet entry (set old)"
proof -
  let ?m = "TrimSpace entry"
  have so: "sorted old" using assms by (simp add: strict_sorted_iff)
  have insert: "sorted_wrt (<) (take i old @ x # drop i old)" "set (take i old @ x # drop i old) = insert x (set old)"
    if "\<forall>y\<in>set (take i old). y < x" "\<forall>y\<in>set (drop i old). x \<le> y" "x \<notin> set old" for i x
  proof -
    have "sorted_wrt (<) (take i old @ drop i old)" using assms by simp
    moreover have "\<forall>y\<in>set (drop i old). x < y" using that(2,3) by (metis in_set_dropD order_le_less)
    ultimately show "sorted_wrt (<) (take i old @ x # drop i old)"
      using that(1) unfolding sorted_wrt_append by auto
    show "set (take i old @ x # drop i old) = insert x (set old)"
      using set_append [of "take i old" "drop i old"] by auto
  qed
  have remove: "sorted_wrt (<) (take i old @ drop (Suc i) old)" "set (take i old @ drop (Suc i) old) = set old - {old ! i}"
    if "i < length old" for i
  proof -
    have o1: "old = take i old @ old ! i # drop (Suc i) old" using that by (rule id_take_nth_drop)
    then have "sorted_wrt (<) (take i old @ old ! i # drop (Suc i) old)" using assms by simp
    then show "sorted_wrt (<) (take i old @ drop (Suc i) old)" "set (take i old @ drop (Suc i) old) = set old - {old ! i}"
      using arg_cong [OF o1, of set] unfolding sorted_wrt_append by auto
  qed
  consider (blank) "?m = ''''" | (minus) "?m \<noteq> ''''" "hd ?m = CHR ''-''" | (plus) "?m \<noteq> ''''" "hd ?m \<noteq> CHR ''-''" by blast
  then show ?thesis
  proof cases
    case blank
    then show ?thesis using assms by (simp add: moduleStep_def moduleSet_def)
  next
    case minus
    obtain i where i: "searchStrings old (tl ?m) = int i" "i \<le> length old" using searchStrings_split [OF so] by metis
    have "i < length old \<and> old ! i = tl ?m \<longleftrightarrow> tl ?m \<in> set old"
      using searchStrings_found [OF so, of "tl ?m"] i by simp
    then show ?thesis using minus i remove [of i] assms
      by (cases "tl ?m \<in> set old") (auto simp: moduleStep_def moduleSet_def)
  next
    case plus
    obtain i where i: "searchStrings old ?m = int i" "\<forall>y\<in>set (take i old). y < ?m" "\<forall>y\<in>set (drop i old). ?m \<le> y"
      using searchStrings_split [OF so] by metis
    have "i < length old \<and> old ! i = ?m \<longleftrightarrow> ?m \<in> set old"
      using searchStrings_found [OF so, of ?m] i(1) by simp
    then show ?thesis using plus i insert [of i ?m] assms
      by (cases "?m \<in> set old") (auto simp: moduleStep_def moduleSet_def)
  qed
qed

lemma modules_spec:
  "sorted_wrt (<) old \<Longrightarrow> sorted_wrt (<) (fold moduleStep es old) \<and> set (fold moduleStep es old) = fold moduleSet es (set old)"
  by (induction es arbitrary: old) (auto simp: moduleStep_spec)


section \<open>Writing and reading the modules\<close>

text \<open>A line of the file that stands for a module.\<close>

definition moduleLine :: "string \<Rightarrow> bool" where
  "moduleLine m \<longleftrightarrow> TrimSpace m = m \<and> m \<noteq> [] \<and> hd m \<noteq> CHR ''#'' \<and> hd m \<noteq> CHR '';'' \<and> nl \<notin> set m"

lemma TrimSpace_last: "TrimSpace m = m \<Longrightarrow> m \<noteq> [] \<Longrightarrow> last m \<noteq> CHR 0x0D"
proof
  assume m: "TrimSpace m = m" "m \<noteq> []" "last m = CHR 0x0D"
  let ?R = "map rev spaceRunes"
  have "[CHR 0x0D] \<in> set ?R" by code_simp
  moreover have "rev (TrimSpace m) = dropSpace ?R (rev (dropSpace spaceRunes m))" by (simp add: TrimSpace_def)
  then have "\<not> hasPrefix (rev m) r" if "r \<in> set ?R" "r \<noteq> []" for r
    using dropSpace_done [of ?R "rev (dropSpace spaceRunes m)"] that m(1) by (auto simp: find_None_iff)
  moreover have "rev m = CHR 0x0D # rev (butlast m)" using m(2,3) by (metis append_butlast_last_id rev_eq_Cons_iff rev_rev_ident)
  ultimately show False by (metis hasPrefix.simps(1,3) not_Cons_self2)
qed

text \<open>A string between two printable characters has nothing to trim.\<close>

lemma runes_not_printable:
  "list_all (\<lambda>r. list_all (\<lambda>c. of_char c < (33 :: nat) \<or> (126 :: nat) < of_char c) r) spaceRunes"
  by code_simp

lemma dropSpace_printable:
  assumes "\<forall>r\<in>set rs. \<forall>c\<in>set r. of_char c < (33 :: nat) \<or> (126 :: nat) < of_char c"
    and "s \<noteq> []" and "(33 :: nat) \<le> of_char (hd s)" and "of_char (hd s) \<le> (126 :: nat)"
  shows "dropSpace rs s = s"
proof (rule dropSpace_id)
  have "\<not> hasPrefix s r" if "r \<in> set rs" "r \<noteq> []" for r
  proof
    assume "hasPrefix s r"
    then have "hd s = hd r" using that(2) by (auto simp: hasPrefix_iff)
    then show False using assms that hd_in_set [OF that(2)] by fastforce
  qed
  then show "find (\<lambda>r. r \<noteq> [] \<and> hasPrefix s r) rs = None" by (auto simp: find_None_iff)
qed

lemma TrimSpace_plain:
  assumes "s \<noteq> []" and "(33 :: nat) \<le> of_char (hd s)" and "of_char (hd s) \<le> (126 :: nat)"
    and "(33 :: nat) \<le> of_char (last s)" and "of_char (last s) \<le> (126 :: nat)"
  shows "TrimSpace s = s"
proof -
  have "dropSpace spaceRunes s = s"
    using runes_not_printable assms by (intro dropSpace_printable) (auto simp: list_all_iff)
  moreover have "dropSpace (map rev spaceRunes) (rev s) = rev s"
    using runes_not_printable assms by (intro dropSpace_printable) (auto simp: list_all_iff hd_rev)
  ultimately show ?thesis by (simp add: TrimSpace_def)
qed

lemma scanLines_trimmed:
  assumes "list_all (\<lambda>l. nl \<notin> set l \<and> TrimSpace l = l) ls"
  shows "scanLines (printLines ls) = ls"
proof -
  have "map dropCR ls = ls" using assms TrimSpace_last by (induction ls) (auto simp: dropCR_def)
  moreover have "list_all (\<lambda>l. nl \<notin> set l) ls" using assms by (simp add: list_all_iff)
  ultimately show ?thesis by (simp add: scanLines_def splitChar_printLines)
qed

lemma moduleLines_written:
  assumes "list_all moduleLine ms" and "sorted ms"
  shows "moduleLines (modulesHeader @ printLines ms) = ms"
proof -
  define h where "h = [''#'', ''# DO NOT EDIT THIS FILE'', ''# it is auto-generated, and will be overwritten.'']"
  let ?P = "\<lambda>l. nl \<notin> set l \<and> TrimSpace l = l"
  have p: "printLines (xs @ ys) = printLines xs @ printLines ys" for xs ys by (induction xs) simp_all
  have "list_all ?P h" unfolding h_def by (simp add: TrimSpace_plain)
  then have all: "list_all ?P (h @ ms)" using assms(1) by (auto simp: list_all_iff moduleLine_def)
  have "map TrimSpace xs = xs" if "list_all ?P xs" for xs using that by (induction xs) simp_all
  with scanLines_trimmed [OF all] all have "map TrimSpace (scanLines (printLines (h @ ms))) = h @ ms" by simp
  moreover have "modulesHeader @ printLines ms = printLines (h @ ms)" by (simp only: p modulesHeader_def h_def)
  moreover have "filter (\<lambda>l. l \<noteq> [] \<and> hd l \<noteq> CHR ''#'' \<and> hd l \<noteq> CHR '';'') h = []" by (simp add: h_def)
  moreover have "filter (\<lambda>l. l \<noteq> [] \<and> hd l \<noteq> CHR ''#'' \<and> hd l \<noteq> CHR '';'') ms = ms"
    using assms(1) by (induction ms) (auto simp: moduleLine_def)
  ultimately show ?thesis using assms(2) by (simp add: moduleLines_def sorted_sort_id)
qed

lemma moduleLines_lines: "list_all moduleLine (moduleLines c)"
proof -
  have "nl \<notin> set l" if "l \<in> set (scanLines c)" for l
    using that splitChar_pieces [of _ nl c]
    by (auto simp: scanLines_def Let_def dropCR_def split: if_splits dest!: in_set_butlastD)
  then have "nl \<notin> set (TrimSpace l)" if "l \<in> set (scanLines c)" for l using set_TrimSpace that by blast
  then show ?thesis by (auto simp: list_all_iff moduleLines_def moduleLine_def TrimSpace_idem)
qed

lemma fold_moduleSet_lines:
  assumes "\<forall>m\<in>S. moduleLine m"
    and "\<forall>e\<in>set es. nl \<notin> set e \<and> \<not> hasPrefix (TrimSpace e) ''#'' \<and> \<not> hasPrefix (TrimSpace e) '';''"
  shows "\<forall>m\<in>fold moduleSet es S. moduleLine m"
  using assms
proof (induction es arbitrary: S)
  case (Cons e es)
  have "moduleLine (TrimSpace e)" if "TrimSpace e \<noteq> []"
    using Cons.prems(2) that set_TrimSpace [of e] TrimSpace_idem [of e] by (cases "TrimSpace e") (auto simp: moduleLine_def)
  then have "\<forall>m\<in>moduleSet e S. moduleLine m" using Cons.prems(1) by (auto simp: moduleSet_def Let_def)
  then show ?case using Cons by simp
qed simp

lemma readOptional_file: "fget (fs w) p = Some (FFile c) \<Longrightarrow> p \<noteq> ''/'' \<Longrightarrow> readOptional p w = (Inr c, w)"
  by (simp add: readOptional_def bind_def ioReadFile_def stat_file)

lemma ioAtomicWrite_run: "ioAtomicWrite p c w = (Inr u, w') \<Longrightarrow> fs w' = fput (fs w) p (FFile c)"
  by (auto simp: ioAtomicWrite_def andThen_def bind_def fallible_def setNode_def Let_def throw_def split: if_splits)

lemma getModules_world: "snd (getModules w) = w"
  by (simp add: getModules_def readOptional_def bind_def split: sum.splits prod.splits)

text \<open>
  C33. The kernel modules of the configuration are a set. Setting a list of entries that
  succeeds applies them to the set in their order, an entry with a minus takes its module out,
  any other puts it in, and reading the configuration afterwards gives that set, sorted. It
  holds for entries without a newline that do not begin like a comment; no other file changes.
\<close>

theorem modules_roundtrip:
  assumes "getModules w = (Inr old, w)" and "distinct old" and "setModules es w = (Inr (), w')"
    and "\<forall>t. fget (fs w) modulesPath \<noteq> Some (FLink t)"
    and "\<forall>e\<in>set es. nl \<notin> set e \<and> \<not> hasPrefix (TrimSpace e) ''#'' \<and> \<not> hasPrefix (TrimSpace e) '';''"
  shows "getModules w' = (Inr (sorted_list_of_set (fold moduleSet es (set old))), w')
    \<and> (\<forall>q. q \<noteq> modulesPath \<longrightarrow> fget (fs w') q = fget (fs w) q)"
proof -
  let ?ms = "fold moduleStep es old"
  obtain c where old: "old = moduleLines c"
    using assms(1) by (auto simp: getModules_def bind_Inr)
  then have so: "sorted_wrt (<) old" using assms(2) by (simp add: strict_sorted_iff moduleLines_def)
  note spec = modules_spec [OF this, of es]
  have "followOnce (fs w) modulesPath = modulesPath"
    using assms(4) by (simp add: followOnce_def split: option.splits fnode.splits)
  then have "ioAtomicWrite modulesPath (modulesHeader @ printLines ?ms) w = (Inr (), w')"
    using assms(1,3) by (simp add: setModules_def bind_ok [of getModules w] atomicFollow_def)
  from ioAtomicWrite_run [OF this] have fs': "fs w' = fput (fs w) modulesPath (FFile (modulesHeader @ printLines ?ms))" .
  have "\<forall>m\<in>set old. moduleLine m" using moduleLines_lines [of c] old by (simp add: list_all_iff)
  from fold_moduleSet_lines [OF this assms(5)] have "list_all moduleLine ?ms" using spec by (simp add: list_all_iff)
  moreover have "sorted ?ms" "distinct ?ms" using spec by (simp_all add: strict_sorted_iff)
  ultimately have "getModules w' = (Inr ?ms, w')"
    using readOptional_file [of w' modulesPath] fs' by (simp add: getModules_def bind_def moduleLines_written)
  moreover have "?ms = sorted_list_of_set (fold moduleSet es (set old))"
    using spec \<open>sorted ?ms\<close> \<open>distinct ?ms\<close> by (metis sorted_list_of_set.idem_if_sorted_distinct)
  ultimately show ?thesis using fs' by simp
qed


section \<open>Setting what is set already\<close>

definition sameState :: "fsys \<Rightarrow> string \<Rightarrow> 'm cworld_scheme \<Rightarrow> bool" where
  "sameState f h w \<longleftrightarrow> fs w = f \<and> kernelHost w = h"

lemma keeps_sameState [keeps_intros]: "keeps (sameState f h) (tryCmd args)"
  by (simp add: keeps_def sameState_def tryCmd_def execCmd_def Let_def split: prod.splits)

lemma keeps_readOptional [keeps_intros]: "keeps P (readOptional p)"
  by (simp add: keeps_def readOptional_def bind_def split: sum.splits prod.splits)

lemma keeps_getters [keeps_intros]: "keeps P getModules" "keeps P (getPassthrough d)" "keeps P getWatchdog"
  "keeps P getModprobe" "keeps P (getTimezone T)"
  unfolding getModules_def getPassthrough_def getWatchdog_def getModprobe_def getTimezone_def
  by (intro keeps_intros | simp add: keeps_def)+

lemma keeps_getAutopilot [keeps_intros]: "keeps (sameState f h) getAutopilot"
  unfolding getAutopilot_def Let_def
  by (intro keeps_intros) (auto simp: keeps_def split: sum.splits option.splits)

lemma keeps_Get: "keeps (sameState f h) (newSystemConfig T)" "keeps (sameState f h) (Get T)"
  unfolding Get_def newSystemConfig_def by (intro keeps_intros)+

lemma passthroughEqual_refl: "passthroughEqual a a"
  by (simp add: passthroughEqual_def list_all_iff)

lemma newSystemConfig_full:
  assumes "newSystemConfig T w = (Inr cfg, w1)"
  shows "\<exists>a tz h m. Autopilot cfg = Some a \<and> Timezone cfg = Some tz \<and> Hostname cfg = Some h \<and> Modprobe cfg = Some m"
  using assms by (auto simp: newSystemConfig_def bind_Inr)

lemma applyConfig_same:
  assumes "newSystemConfig T w0 = (Inr cfg, w1)"
  shows "applyConfig T cfg cfg w = field (Modules cfg) setModules w"
proof -
  have n: "field (Network cfg) (setNetwork (Network cfg)) = ret ()"
    by (simp add: field_def setNetwork_def passthroughEqual_refl split: option.splits)
  have wd: "field (Watchdog cfg) (\<lambda>v. changed (Watchdog cfg) v (setWatchdog v)) = ret ()"
    by (simp add: field_def changed_def split: option.splits)
  have last: "andThen m (ret ()) = m" for m :: "('w, 'e, unit) io"
    by (rule ext) (simp add: andThen_def bind_def split: prod.splits sum.splits)
  show ?thesis using newSystemConfig_full [OF assms]
    by (auto simp: applyConfig_def n wd last) (auto simp: field_def changed_def)
qed

lemma ioAtomicWrite_frame:
  fixes w w' :: "'m cworld_scheme"
  assumes "ioAtomicWrite p c w = (r, w')"
  shows "q \<noteq> p \<Longrightarrow> fget (fs w') q = fget (fs w) q" "kernelHost w' = kernelHost w"
  using assms by (auto simp: ioAtomicWrite_def andThen_def bind_def fallible_def setNode_def Let_def throw_def split: if_splits)

lemma setModules_changes:
  assumes "setModules es w = (r, w')" and "\<forall>t. fget (fs w) modulesPath \<noteq> Some (FLink t)"
  shows "(\<forall>q. q \<noteq> modulesPath \<longrightarrow> fget (fs w') q = fget (fs w) q) \<and> kernelHost w' = kernelHost w"
proof -
  have fo: "followOnce (fs w) modulesPath = modulesPath"
    using assms(2) by (simp add: followOnce_def split: option.splits fnode.splits)

  show ?thesis
  proof (cases "getModules w")
    case (Pair x w1)
    then have "w1 = w" using getModules_world [of w] by simp
    then show ?thesis using Pair assms(1) fo
      by (cases x) (auto simp: setModules_def bind_def atomicFollow_def dest: ioAtomicWrite_frame)
  qed
qed

text \<open>
  Setting the configuration that the system has: whatever the calls answer, no file but
  the one of the modules changes, and the host name stays.
\<close>

lemma SetConfig_current:
  assumes "newSystemConfig T w = (Inr cfg, w1)" and "cfgDec T raw = Inr (Some cfg)"
    and "\<forall>t. fget (fs w) modulesPath \<noteq> Some (FLink t)" and "SetConfig T raw w = (r, w')"
  shows "(\<forall>q. q \<noteq> modulesPath \<longrightarrow> fget (fs w') q = fget (fs w) q) \<and> kernelHost w' = kernelHost w"
proof -
  have w1: "fs w1 = fs w" "kernelHost w1 = kernelHost w"
    using keepsD [OF keeps_Get(1), of "fs w" "kernelHost w" w T] assms(1) by (simp_all add: sameState_def)
  obtain x w2 where x: "field (Modules cfg) setModules w1 = (x, w2)" by (meson surj_pair)
  have w2: "(\<forall>q. q \<noteq> modulesPath \<longrightarrow> fget (fs w2) q = fget (fs w) q) \<and> kernelHost w2 = kernelHost w"
    using x w1 assms(3) setModules_changes [of _ w1 x w2] by (auto simp: field_def split: option.splits)
  have "fs w' = fs w2 \<and> kernelHost w' = kernelHost w2"
    using assms(1,2,4) x keepsD [OF keeps_Get(2), of "fs w2" "kernelHost w2" w2 T]
    by (cases x) (auto simp: SetConfig_def bind_def andThen_def applyConfig_same [OF assms(1)] sameState_def)
  then show ?thesis using w2 by simp
qed


subsection \<open>Witness\<close>

definition demoModules :: world where
  "demoModules = \<lparr>fs = [(''/etc'', FDir), (''/etc/modules-load.d'', FDir), (modulesPath, FFile (printLines [''ext4'', ''xfs'']))],
     hist = [], faults = \<lambda>_ _. False\<rparr>"

theorem modules_roundtrip_witness:
  "\<exists>w'. setModules [''btrfs'', ''-xfs''] demoModules = (Inr (), w') \<and> getModules w' = (Inr [''btrfs'', ''ext4''], w')"
proof -
  have trim: "TrimSpace ''ext4'' = ''ext4''" "TrimSpace ''xfs'' = ''xfs''" "TrimSpace ''btrfs'' = ''btrfs''" "TrimSpace ''-xfs'' = ''-xfs''"
    by (simp_all add: TrimSpace_plain)
  have "scanLines (printLines [''ext4'', ''xfs'']) = [''ext4'', ''xfs'']" by code_simp
  then have "moduleLines (printLines [''ext4'', ''xfs'']) = [''ext4'', ''xfs'']"
    by (simp add: moduleLines_def trim)
  moreover have node: "fget (fs demoModules) modulesPath = Some (FFile (printLines [''ext4'', ''xfs'']))"
    by (simp add: demoModules_def fget_def)
  ultimately have old: "getModules demoModules = (Inr [''ext4'', ''xfs''], demoModules)"
    using readOptional_file [OF node] by (simp add: getModules_def bind_def)
  have dir: "isDirectory (fs demoModules) (pathDir modulesPath)" by code_simp
  have "fst (ioAtomicWrite modulesPath c demoModules) = Inr ()" for c
    using dir node by (simp add: ioAtomicWrite_def andThen_def bind_def fallible_def setNode_def Let_def demoModules_def)
  moreover have "followOnce (fs demoModules) modulesPath = modulesPath" using node by (simp add: followOnce_def)
  ultimately have "fst (setModules [''btrfs'', ''-xfs''] demoModules) = Inr ()"
    using old by (simp add: setModules_def bind_def atomicFollow_def)
  then obtain w' where w': "setModules [''btrfs'', ''-xfs''] demoModules = (Inr (), w')" by (metis prod.collapse)
  have "fold moduleSet [''btrfs'', ''-xfs''] (set [''ext4'', ''xfs'']) = set [''btrfs'', ''ext4'']"
    by (auto simp: moduleSet_def trim)
  moreover have "sorted_list_of_set (set [''btrfs'', ''ext4'']) = [''btrfs'', ''ext4'']"
    by (subst sorted_list_of_set.idem_if_sorted_distinct) simp_all
  moreover have "getModules w' = (Inr (sorted_list_of_set (fold moduleSet [''btrfs'', ''-xfs''] (set [''ext4'', ''xfs'']))), w')"
    by (rule conjunct1, rule modules_roundtrip [OF old _ w']) (simp_all add: node trim)
  ultimately show ?thesis using w' by simp
qed

end
