(* ===== verification/Build.thy ===== *)
theory Build
  imports Hashes ClickDeb CoreConfig
begin

text \<open>
  Building a package from a source directory, \<^verbatim>\<open>snappy/build.go\<close>, and the squashfs format,
  \<^verbatim>\<open>pkg/snapfs/pkg.go\<close>. Regular expressions, encoders, the hash function and what external
  programs do to the file system are the fields of \<open>bldtools\<close>. Files are hard linked into the build
  directory when that works, so that the world records which paths share a file.
\<close>

record fileHash =
  fhName :: string
  fhSize :: "int option"
  fhDevice :: string
  fhSha512 :: string
  fhMode :: "32 word"

record buildHashesYaml =
  hyArchiveSha512 :: string
  hyFiles :: "fileHash list"

record buildManifest =
  bmName :: string
  bmVersion :: string
  bmArchitecture :: "string list"
  bmFramework :: string
  bmType :: string
  bmIcon :: string
  bmInstalledSize :: string
  bmTitle :: string
  bmDescription :: string
  bmMaintainer :: string
  bmHooks :: "(string, clickAppHook) gomap"

record bldtools =
  reCompile :: "string \<Rightarrow> (string \<Rightarrow> bool) option"
  quoteMeta :: "string \<Rightarrow> string"
  apparmorEnc :: "apparmorJSONTemplate \<Rightarrow> string"
  bmEnc :: "buildManifest \<Rightarrow> string"
  sha512 :: "string \<Rightarrow> string"
  lstatMode :: "fsys \<Rightarrow> string \<Rightarrow> 32 word"
  lstatDev :: "fsys \<Rightarrow> string \<Rightarrow> 64 word"
  hashesEnc :: "buildHashesYaml \<Rightarrow> (serr, string) res"
  bldTemp :: "fsys \<Rightarrow> string \<Rightarrow> string"
  cmdEffect :: "string list \<Rightarrow> fsys \<Rightarrow> fsys"
  bldDeb :: debtools
  bldYaml :: yamltools

record bworld = cworld +
  hardLinks :: "(string \<times> string) list"

section \<open>What is left out\<close>

text \<open>
  \<^verbatim>\<open>shouldExcludeDefault\<close>, pattern by pattern. \<open>oneRune\<close> is what the last dot of the pattern for swap
  files matches.
\<close>

definition oneRune :: "string \<Rightarrow> bool" where
  "oneRune t \<longleftrightarrow>
     (case map byte t of
        [b] \<Rightarrow> b \<noteq> 10
      | [b, c] \<Rightarrow> 194 \<le> b \<and> b \<le> 223 \<and> 128 \<le> c \<and> c \<le> 191
      | [b, c, d] \<Rightarrow> 224 \<le> b \<and> b \<le> 239 \<and> 128 \<le> c \<and> c \<le> 191 \<and> 128 \<le> d \<and> d \<le> 191
      | [b, c, d, e] \<Rightarrow> 240 \<le> b \<and> b \<le> 244 \<and> 128 \<le> c \<and> c \<le> 191 \<and> 128 \<le> d \<and> d \<le> 191 \<and> 128 \<le> e \<and> e \<le> 191
      | _ \<Rightarrow> False)"

definition isSwapFile :: "string \<Rightarrow> bool" where
  "isSwapFile s \<longleftrightarrow>
     hasPrefix s ''.'' \<and> nl \<notin> set s \<and>
     list_ex (\<lambda>i. hasPrefix (drop i s) ''.sw'' \<and> oneRune (drop (i + 3) s)) [1..<length s]"

definition excludedNames :: "string list" where
  "excludedNames =
     [''.arch-ids'', ''.arch-inventory'', ''.bzr'', ''.bzr-builddeb'', ''.bzr.backup'', ''.bzr.tags'', ''.bzrignore'',
      ''.cvsignore'', ''.git'', ''.gitattributes'', ''.gitignore'', ''.gitmodules'', ''.hg'', ''.hgignore'', ''.hgsigs'',
      ''.hgtags'', ''.shelf'', ''.svn'', ''CVS'', ''DEADJOE'', ''RCS'', ''_MTN'', ''_darcs'', ''{arch}'', ''.snapignore'']"

definition shouldExcludeDefault :: "string \<Rightarrow> bool" where
  "shouldExcludeDefault s \<longleftrightarrow>
     hasSuffix s ''.snap'' \<or> hasSuffix s ''.click'' \<or> isSwapFile s \<or> hasSuffix s ''~'' \<or> hasPrefix s '',,''
     \<or> hasPrefix s ''.#'' \<or> hasPrefix s ''.~'' \<or> s \<in> set excludedNames"

text \<open>\<^verbatim>\<open>keep\<close>: the patterns of the directory that was asked for last. A line that is no regular
  expression stands for itself. A directory can be opened like a file, but has no lines.\<close>

record keep =
  kBasedir :: string
  kExclude :: "(string \<Rightarrow> bool) option"

definition newKeep :: keep where "newKeep = \<lparr>kBasedir = '''', kExclude = None\<rparr>"

definition ignoreRegex :: "bldtools \<Rightarrow> string \<Rightarrow> string" where
  "ignoreRegex B content =
     join (map (\<lambda>line. case reCompile B line of None \<Rightarrow> quoteMeta B line | Some _ \<Rightarrow> line) (scanLines content)) ''|''"

definition keepShouldExclude :: "bldtools \<Rightarrow> fsys \<Rightarrow> string \<Rightarrow> string \<Rightarrow> keep \<Rightarrow> (serr, bool \<times> keep) res" where
  "keepShouldExclude B f basedir file1 k =
     (if basedir = kBasedir k then Inr (case kExclude k of None \<Rightarrow> False | Some x \<Rightarrow> x file1, k)
      else case stat f (pathJoin [basedir, ''.snapignore'']) of
        Inl _ \<Rightarrow> Inr (False, \<lparr>kBasedir = basedir, kExclude = None\<rparr>)
      | Inr node \<Rightarrow>
          (case reCompile B (ignoreRegex B (case node of FFile content \<Rightarrow> content | _ \<Rightarrow> '''')) of
             Some x \<Rightarrow> Inr (x file1, \<lparr>kBasedir = basedir, kExclude = Some x\<rparr>)
           | None \<Rightarrow> Inl (GoPanic ''|-composition of valid regexps is invalid?!?'')))"

definition shouldExclude :: "bldtools \<Rightarrow> fsys \<Rightarrow> string \<Rightarrow> string \<Rightarrow> keep \<Rightarrow> (serr, bool \<times> keep) res" where
  "shouldExclude B f basedir file1 k =
     (if shouldExcludeDefault file1 then Inr (True, k) else keepShouldExclude B f basedir file1 k)"

section \<open>Copying\<close>

definition absOf :: "string \<Rightarrow> string" where
  "absOf p = (if isAbs p then pathClean p else pathJoin [''/'', p])"

definition ioMkdir :: "string \<Rightarrow> ('m world_scheme, serr, unit) io" where
  "ioMkdir p =
     andThen (fallible (OsErr KIO (EMkdirAll p)) (EMkdirAll p))
       (bind (gets fs) (\<lambda>f.
          if \<not> isDirectory f (pathDir p) then throw (OsErr KNotExist (EMkdirAll p))
          else if nodeAt f p \<noteq> None then throw (OsErr KExist (EMkdirAll p))
          else setNode p FDir))"

text \<open>\<^verbatim>\<open>os.Link\<close>: both names are the same file from now on.\<close>

definition ioLink :: "string \<Rightarrow> string \<Rightarrow> string \<Rightarrow> ('m bworld_scheme, serr, unit) io" where
  "ioLink p dest c =
     andThen (fallible (OsErr KIO (ECopy p dest)) (ECopy p dest))
       (bind (gets fs) (\<lambda>f.
          if \<not> isDirectory f (pathDir dest) then throw (OsErr KNotExist (ECopy p dest))
          else if nodeAt f dest \<noteq> None then throw (OsErr KExist (ECopy p dest))
          else andThen (setNode dest (FFile c)) (modifies (\<lambda>w. w\<lparr>hardLinks := (dest, p) # hardLinks w\<rparr>))))"

text \<open>\<^verbatim>\<open>ioutil.WriteFile\<close> opens an existing file and truncates it: all its names see the new contents.\<close>

definition writeLinked :: "string \<Rightarrow> string \<Rightarrow> ('m bworld_scheme, serr, unit) io" where
  "writeLinked p c =
     andThen (ioWriteFile p c)
       (modifies (\<lambda>w. case map_of (hardLinks w) p of None \<Rightarrow> w | Some q \<Rightarrow> w\<lparr>fs := fput (fs w) q (FFile c)\<rparr>))"

definition copyNode :: "fsys \<Rightarrow> string \<Rightarrow> string \<Rightarrow> ('m bworld_scheme, serr, unit) io" where
  "copyNode f p dest =
     (case fget f p of
        Some FDir \<Rightarrow> ioMkdir dest
      | Some (FLink t) \<Rightarrow> ioSymlink t dest
      | Some (FFile c) \<Rightarrow>
          bind (attempt (ioLink p dest c)) (\<lambda>r.
            case r of Inr _ \<Rightarrow> ret () | Inl _ \<Rightarrow> CopyFile p dest False)
      | None \<Rightarrow> throw (OsErr KNotExist (ECall (''lstat '' @ p))))"

text \<open>The walk over the source directory; what is left out takes what is below it along.\<close>

function copyWalk :: "bldtools \<Rightarrow> string \<Rightarrow> string \<Rightarrow> keep \<Rightarrow> string list \<Rightarrow> ('m bworld_scheme, serr, unit) io" where
  "copyWalk B src dst k [] = ret ()"
| "copyWalk B src dst k (p # ps) =
     bind (gets fs) (\<lambda>f.
       let relpath = drop (length src) p
       in bind (fromRes (if relpath = ''/DEBIAN'' then Inr (True, k) else shouldExclude B f src (pathBase p) k)) (\<lambda>(skip, k').
            if skip then copyWalk B src dst k' (if fget f p = Some FDir then filter (\<lambda>q. \<not> inTree p q) ps else ps)
            else andThen (copyNode f p (pathJoin [dst, relpath])) (copyWalk B src dst k' ps)))"
  by pat_completeness auto
termination
  by (relation "measure (\<lambda>(B, src, dst, k, ps). length ps)") (auto simp: le_imp_less_Suc)

definition copyToBuildDir :: "bldtools \<Rightarrow> string \<Rightarrow> string \<Rightarrow> keep \<Rightarrow> ('m bworld_scheme, serr, unit) io" where
  "copyToBuildDir B sourceDir buildDir k =
     (let src = absOf sourceDir
      in andThen (tolerating IsNotExist (ioRemove buildDir))
           (bind (gets fs) (\<lambda>f.
              if nodeAt f src = None then throw (OsErr KNotExist (ECall (''lstat '' @ src)))
              else copyWalk B src buildDir k (walkPaths f src))))"

section \<open>Compatibility files\<close>

definition handleApparmor ::
    "bldtools \<Rightarrow> string \<Rightarrow> packageYaml \<Rightarrow> string \<Rightarrow> SecurityDefinitions \<Rightarrow> ('m bworld_scheme, serr, unit) io" where
  "handleApparmor B buildDir m hookName s =
     (if (case SecurityPolicy s of None \<Rightarrow> False | Some p \<Rightarrow> polApparmor p \<noteq> '''')
         \<or> (case SecurityOverride s of None \<Rightarrow> False | Some v \<Rightarrow> ovApparmor v \<noteq> '''')
      then ret ()
      else let hooks = (case yIntegration m of None \<Rightarrow> [] | Some i \<Rightarrow> (case mget i hookName of None \<Rightarrow> [] | Some h \<Rightarrow> h));
               apparmorJSONFile = (case mget hooks ''apparmor'' of None \<Rightarrow> '''' | Some x \<Rightarrow> x)
           in writeLinked (pathJoin [buildDir, apparmorJSONFile]) (apparmorEnc B (generateApparmorJSONContent s)))"


definition handleBinaries :: "bldtools \<Rightarrow> string \<Rightarrow> packageYaml \<Rightarrow> ('m bworld_scheme, serr, unit) io" where
  "handleBinaries B buildDir m =
     forEach (yBinaries m) (\<lambda>v. handleApparmor B buildDir m (pathBase (binName v)) (binSec v))"

definition handleServices :: "bldtools \<Rightarrow> string \<Rightarrow> packageYaml \<Rightarrow> ('m bworld_scheme, serr, unit) io" where
  "handleServices B buildDir m =
     forEach (yServiceYamls m) (\<lambda>v. handleApparmor B buildDir m (pathBase (svcName v)) (svcSec v))"

definition emptySecurity :: SecurityDefinitions where
  "emptySecurity = \<lparr>SecurityTemplate = '''', SecurityOverride = None, SecurityPolicy = None, SecurityCaps = None\<rparr>"

text \<open>The hook of the configuration is entered into the description, which is returned.\<close>

definition handleConfigHookApparmor :: "bldtools \<Rightarrow> string \<Rightarrow> packageYaml \<Rightarrow> ('m bworld_scheme, serr, packageYaml) io" where
  "handleConfigHookApparmor B buildDir m =
     bind (gets (\<lambda>w. exists (fs w) (pathJoin [buildDir, ''meta'', ''hooks'', ''config'']))) (\<lambda>hasHook.
       if \<not> hasHook then ret m
       else
         (let hookName = ''snappy-config''; configApparmorJSONFile = pathJoin [''meta'', hookName @ ''.apparmor'']
          in andThen (writeLinked (pathJoin [buildDir, configApparmorJSONFile]) (apparmorEnc B (generateApparmorJSONContent emptySecurity)))
               (case yIntegration m of
                  None \<Rightarrow> throw (GoPanic ''assignment to entry in nil map'')
                | Some i \<Rightarrow> ret (m\<lparr>yIntegration := Some (mput i hookName [(''apparmor'', configApparmorJSONFile)])\<rparr>))))"

text \<open>The first field of the output of \<^verbatim>\<open>du\<close>.\<close>

definition firstField :: "string \<Rightarrow> string option" where
  "firstField s =
     (let fields = filter (\<lambda>x. x \<noteq> []) (foldr (\<lambda>c acc. if 9 \<le> byte c \<and> byte c \<le> 13 \<or> byte c = 32 then [] # acc
                                                 else (c # hd acc) # tl acc) s [[]])
      in case fields of [] \<Rightarrow> None | x # _ \<Rightarrow> Some x)"

definition dirSizeOf :: "string \<Rightarrow> ('m sworld_scheme, serr, string) io" where
  "dirSizeOf buildDir =
     bind (mapErr (\<lambda>_. OsErr KIO (ECmd [''du'', ''-s'', ''--apparent-size'', buildDir]))
             (execCmd [''du'', ''-s'', ''--apparent-size'', buildDir])) (\<lambda>output.
       case firstField output of None \<Rightarrow> throw (GoPanic ''index out of range'') | Some x \<Rightarrow> ret x)"

section \<open>Hashes\<close>

definition hashForFile :: "bldtools \<Rightarrow> fsys \<Rightarrow> string \<Rightarrow> string \<Rightarrow> fnode \<Rightarrow> fileHash" where
  "hashForFile B f buildDir path node =
     \<lparr>fhName = (if buildDir \<noteq> '''' then drop (length buildDir + 1) path else path),
      fhSize = (case node of FFile c \<Rightarrow> Some (int (length c)) | _ \<Rightarrow> None),
      fhDevice = (case MajorMinor path (lstatMode B f path) (lstatDev B f path) of
                    Inr (major, minor) \<Rightarrow> itoa (uint major) @ '','' @ itoa (uint minor)
                  | Inl _ \<Rightarrow> ''''),
      fhSha512 = (case node of FFile c \<Rightarrow> sha512 B c | _ \<Rightarrow> ''''),
      fhMode = lstatMode B f path\<rparr>"

definition hashedFiles :: "bldtools \<Rightarrow> fsys \<Rightarrow> string \<Rightarrow> fileHash list" where
  "hashedFiles B f buildDir =
     List.map_filter (\<lambda>p. if p = buildDir \<or> inTree (buildDir @ ''/DEBIAN'') p then None
                          else map_option (hashForFile B f buildDir p) (fget f p)) (walkPaths f buildDir)"

definition writeHashes :: "bldtools \<Rightarrow> string \<Rightarrow> string \<Rightarrow> ('m bworld_scheme, serr, unit) io" where
  "writeHashes B buildDir dataTar =
     (let debianDir = pathJoin [buildDir, ''DEBIAN'']
      in andThen (ignoring (ioMkdirAll debianDir))
           (bind (ioReadFile dataTar) (\<lambda>content.
            bind (gets fs) (\<lambda>f.
            bind (fromRes (hashesEnc B \<lparr>hyArchiveSha512 = sha512 B content, hyFiles = hashedFiles B f buildDir\<rparr>)) (\<lambda>out.
              writeLinked (pathJoin [debianDir, ''hashes.yaml'']) out)))))"

section \<open>The package\<close>

definition debArchitecture :: "packageYaml \<Rightarrow> string" where
  "debArchitecture m =
     (case yArchitectures m of None \<Rightarrow> ''unknown'' | Some [] \<Rightarrow> ''unknown'' | Some [a] \<Rightarrow> a | Some _ \<Rightarrow> ''multi'')"

definition staticPreinst :: string where
  "staticPreinst = printLines [''#! /bin/sh'', ''echo \"Click packages may not be installed directly using dpkg.\"'',
     ''echo \"Use 'click install' instead.\"'', ''exit 1'']"

definition debianControl :: "packageYaml \<Rightarrow> string \<Rightarrow> string \<Rightarrow> string" where
  "debianControl m installedSize title =
     printLines [''Package: '' @ yName m, ''Version: '' @ yVersion m, ''Click-Version: 0.4'',
       ''Architecture: '' @ debArchitecture m, ''Maintainer: '' @ yVendor m, ''Installed-Size: '' @ installedSize,
       ''Description: '' @ title]"

text \<open>\<^verbatim>\<open>control\<close> is opened without truncation: what is longer than the new text stays.\<close>

definition overwriteFile :: "string \<Rightarrow> string \<Rightarrow> ('m bworld_scheme, serr, unit) io" where
  "overwriteFile p c =
     bind (gets (\<lambda>w. case stat (fs w) p of Inr (FFile old) \<Rightarrow> drop (length c) old | _ \<Rightarrow> '''')) (\<lambda>rest.
       writeLinked p (c @ rest))"

definition writeDebianControl :: "bldtools \<Rightarrow> string \<Rightarrow> packageYaml \<Rightarrow> ('m bworld_scheme, serr, unit) io" where
  "writeDebianControl B buildDir m =
     (let debianDir = pathJoin [buildDir, ''DEBIAN'']
      in andThen (ioMkdirAll debianDir)
           (bind (dirSizeOf buildDir) (\<lambda>installedSize.
            bind (parseReadme (pathJoin [buildDir, ''meta'', ''readme.md''])) (\<lambda>(title, _).
            andThen (overwriteFile (pathJoin [debianDir, ''control'']) (debianControl m installedSize title))
              (writeLinked (pathJoin [debianDir, ''preinst'']) staticPreinst)))))"

definition writeClickManifest :: "bldtools \<Rightarrow> string \<Rightarrow> packageYaml \<Rightarrow> ('m bworld_scheme, serr, unit) io" where
  "writeClickManifest B buildDir m =
     bind (dirSizeOf buildDir) (\<lambda>installedSize.
     bind (parseReadme (pathJoin [buildDir, ''meta'', ''readme.md''])) (\<lambda>(title, description).
       writeLinked (pathJoin [buildDir, ''DEBIAN'', ''manifest''])
         (bmEnc B \<lparr>bmName = yName m, bmVersion = yVersion m,
            bmArchitecture = (case yArchitectures m of None \<Rightarrow> [] | Some as \<Rightarrow> as),
            bmFramework = FrameworksForClick m, bmType = yType m, bmIcon = yIcon m, bmInstalledSize = installedSize,
            bmTitle = title, bmDescription = description, bmMaintainer = yVendor m,
            bmHooks = (case yIntegration m of None \<Rightarrow> [] | Some i \<Rightarrow> i)\<rparr>)))"

text \<open>\<^verbatim>\<open>\S\<close> is any byte but tab, newline, form feed, carriage return and blank.\<close>

definition nonEmptyLicense :: "string \<Rightarrow> bool" where
  "nonEmptyLicense s = list_ex (\<lambda>c. byte c \<notin> set [9, 10, 12, 13, 32]) s"

definition checkLicenseExists :: "string \<Rightarrow> ('m world_scheme, serr, unit) io" where
  "checkLicenseExists sourceDir =
     bind (ioReadFile (pathJoin [sourceDir, ''meta'', ''license.txt''])) (\<lambda>buf.
       if nonEmptyLicense buf then ret () else throw (SErr ErrLicenseBlank))"

definition prepare :: "bldtools \<Rightarrow> keep \<Rightarrow> string \<Rightarrow> string \<Rightarrow> string \<Rightarrow> ('m bworld_scheme, serr, string) io" where
  "prepare B k sourceDir targetDir buildDir =
     bind (parsePackageYamlFile (bldYaml B) (pathJoin [sourceDir, ''meta'', ''package.yaml''])) (\<lambda>m.
     andThen (whenIO (yExplicitLicenseAgreement m) (checkLicenseExists sourceDir))
    (andThen (fromRes (checkForNameClashes m))
    (andThen (copyToBuildDir B sourceDir buildDir k)
    (andThen (handleBinaries B buildDir m)
    (andThen (handleServices B buildDir m)
       (bind (handleConfigHookApparmor B buildDir m) (\<lambda>m.
        andThen (writeDebianControl B buildDir m)
       (andThen (writeClickManifest B buildDir m)
         (let snapName = yName m @ ''_'' @ yVersion m @ ''_'' @ debArchitecture m @ ''.snap''
          in if targetDir = '''' then ret snapName
             else bind (gets (\<lambda>w. stat (fs w) targetDir)) (\<lambda>st.
                    andThen (whenIO (st = Inl KNotExist) (ioMkdirAll targetDir)) (ret (pathJoin [targetDir, snapName]))))))))))))"

subsection \<open>The squashfs format\<close>

definition snapfsRunCommand :: "bldtools \<Rightarrow> string list \<Rightarrow> ('m sworld_scheme, serr, unit) io" where
  "snapfsRunCommand B args =
     andThen (mapErr (\<lambda>(code, output). Errorf (''cmd: '' @ goQuote (join args '' '') @ '' failed: ''
          @ (case code of None \<Rightarrow> ''exec failed'' | Some c \<Rightarrow> ''exit status '' @ itoa c) @ '' ('' @ goQuote output @ '')''))
        (execCmd args))
       (modifies (\<lambda>w. w\<lparr>fs := cmdEffect B args (fs w)\<rparr>))"

definition snapfsUnpack :: "bldtools \<Rightarrow> string \<Rightarrow> string \<Rightarrow> string \<Rightarrow> ('m sworld_scheme, serr, unit) io" where
  "snapfsUnpack B path src dstDir = snapfsRunCommand B [''unsquashfs'', ''-f'', ''-i'', ''-d'', dstDir, path, src]"

definition snapfsUnpackMeta :: "bldtools \<Rightarrow> string \<Rightarrow> string \<Rightarrow> ('m sworld_scheme, serr, unit) io" where
  "snapfsUnpackMeta B path dst = andThen (snapfsUnpack B path ''meta/*'' dst) (snapfsUnpack B path ''.click/*'' dst)"

definition snapfsReadFile :: "bldtools \<Rightarrow> string \<Rightarrow> string \<Rightarrow> ('m sworld_scheme, serr, string) io" where
  "snapfsReadFile B path member =
     bind (gets (\<lambda>w. bldTemp B (fs w) ''read-file'')) (\<lambda>tmpdir.
     andThen (ioMkdirAll tmpdir)
       (deferIO
         (let unpackDir = pathJoin [tmpdir, ''unpack'']
          in andThen (snapfsRunCommand B [''unsquashfs'', ''-i'', ''-d'', unpackDir, path, member])
               (ioReadFile (pathJoin [unpackDir, member])))
         (\<lambda>r. andThen (ignoring (ioRemoveAll tmpdir)) (fromRes r))))"

definition snapfsControlMember :: "bldtools \<Rightarrow> string \<Rightarrow> string \<Rightarrow> ('m sworld_scheme, serr, string) io" where
  "snapfsControlMember B path controlMember = snapfsReadFile B path (pathJoin [''DEBIAN'', controlMember])"

definition snapfsMetaMember :: "bldtools \<Rightarrow> string \<Rightarrow> string \<Rightarrow> ('m sworld_scheme, serr, string) io" where
  "snapfsMetaMember B path metaMember = snapfsReadFile B path (pathJoin [''meta'', metaMember])"

definition snapfsCopyBlob :: "bldtools \<Rightarrow> string \<Rightarrow> string \<Rightarrow> ('m sworld_scheme, serr, unit) io" where
  "snapfsCopyBlob B path targetFile = snapfsRunCommand B [''cp'', ''-a'', path, targetFile]"

text \<open>\<^verbatim>\<open>helpers.ChDir\<close> enters the directory for the time of the command.\<close>

definition snapfsBuild :: "bldtools \<Rightarrow> string \<Rightarrow> string \<Rightarrow> ('m sworld_scheme, serr, unit) io" where
  "snapfsBuild B path buildDir =
     bind (gets (\<lambda>w. isDirectory (fs w) buildDir)) (\<lambda>ok.
       if \<not> ok then throw (OsErr KNotExist (ECall (''chdir '' @ buildDir)))
       else snapfsRunCommand B [''mksquashfs'', ''.'', absOf path, ''-all-root'', ''-noappend'', ''-comp'', ''xz''])"

subsection \<open>Both formats\<close>

definition inBuildDir :: "bldtools \<Rightarrow> (string \<Rightarrow> ('m bworld_scheme, serr, 'a) io) \<Rightarrow> ('m bworld_scheme, serr, 'a) io" where
  "inBuildDir B m =
     bind (gets (\<lambda>w. bldTemp B (fs w) ''snappy-build-'')) (\<lambda>buildDir.
     andThen (ioMkdirAll buildDir)
       (deferIO (m buildDir) (\<lambda>r. andThen (ignoring (ioRemoveAll buildDir)) (fromRes r))))"

definition BuildSnapfsSnap :: "bldtools \<Rightarrow> keep \<Rightarrow> string \<Rightarrow> string \<Rightarrow> ('m bworld_scheme, serr, string) io" where
  "BuildSnapfsSnap B k sourceDir targetDir =
     inBuildDir B (\<lambda>buildDir.
       bind (prepare B k sourceDir targetDir buildDir) (\<lambda>snapName.
         andThen (snapfsBuild B snapName buildDir) (ret snapName)))"

definition BuildLegacySnap :: "bldtools \<Rightarrow> keep \<Rightarrow> string \<Rightarrow> string \<Rightarrow> ('m bworld_scheme, serr, string) io" where
  "BuildLegacySnap B k sourceDir targetDir =
     inBuildDir B (\<lambda>buildDir.
       bind (prepare B k sourceDir targetDir buildDir) (\<lambda>snapName.
         andThen (ioWriteFile snapName '''')
        (andThen (debBuild (bldDeb B) snapName buildDir (writeHashes B buildDir)) (ret snapName))))"

section \<open>Facts\<close>

subsection \<open>The list of hashes and the archive\<close>

lemma map_filter_pairs:
  assumes "\<And>x. x \<in> set xs \<Longrightarrow> map_option g (f x) = map_option h (k x)"
  shows "map g (List.map_filter f xs) = map h (List.map_filter k xs)"
  using assms
proof (induction xs)
  case (Cons x xs)
  then have "map_option g (f x) = map_option h (k x)" "map g (List.map_filter f xs) = map h (List.map_filter k xs)" by simp_all
  then show ?case by (cases "f x"; cases "k x") (simp_all add: List.map_filter_simps)
qed (simp add: List.map_filter_simps)

text \<open>
  C32. The list of hashes describes the archive it goes with: name for name and in order, with
  the hash of the contents for the files, it lists the entries of the data archive. It does so
  as long as only the directory \<^verbatim>\<open>DEBIAN\<close> and what is inside begins with that name.
\<close>

theorem hashes_of_archive:
  assumes "\<forall>p\<in>fst ` set f. hasPrefix p (buildDir @ ''/DEBIAN'') \<longrightarrow> inTree (buildDir @ ''/DEBIAN'') p"
    and "buildDir \<noteq> ''''"
  shows "map (\<lambda>h. (fhName h, fhSha512 h)) (hashedFiles B f buildDir)
       = map (\<lambda>e. (drop 2 (teName e), case teKind e of TFile c \<Rightarrow> sha512 B c | _ \<Rightarrow> ''''))
           (tarEntries f buildDir (\<lambda>p. \<not> hasPrefix p (buildDir @ ''/DEBIAN'')))"
  unfolding hashedFiles_def tarEntries_def
proof (rule map_filter_pairs, goal_cases)
  case (1 p)
  then have p: "p \<in> fst ` set f" "inTree buildDir p" by (auto simp: walkPaths_set)
  have d: "inTree (buildDir @ ''/DEBIAN'') p \<longleftrightarrow> hasPrefix p (buildDir @ ''/DEBIAN'')"
    using assms(1) p(1) by (auto simp: inTree_def hasPrefix_iff)
  show ?case using d assms(2) by (cases "fget f p") (auto simp: hashForFile_def split: fnode.splits)
qed

definition bare :: bldtools where
  "bare =
     \<lparr>reCompile = (\<lambda>r. Some (\<lambda>s. r = '''' \<or> r = s)), quoteMeta = (\<lambda>s. s), apparmorEnc = aaTemplate,
      bmEnc = bmName, sha512 = (\<lambda>s. s), lstatMode = (\<lambda>_ _. 420), lstatDev = (\<lambda>_ _. 0), hashesEnc = (\<lambda>_. Inr ''hashes''),
      bldTemp = (\<lambda>_ _. ''/b''), cmdEffect = (\<lambda>_ f. f),
      bldDeb = \<lparr>arEnc = (\<lambda>_. ''ar''), arDec = (\<lambda>_. ([], Errorf ''EOF'')), tarEnc = (\<lambda>_ _. ''tar''), tarDec = (\<lambda>_ _. Inr ([], None)),
                debTemp = (\<lambda>_ _. ''/t''), dropPrivs = False\<rparr>,
      bldYaml = ytools (demoEnv (demoYaml ''foo''))\<rparr>"

definition srcFs :: fsys where
  "srcFs = [(''/b'', FDir), (''/s'', FDir), (''/s/meta'', FDir), (''/s/meta/package.yaml'', FFile ''name: foo''),
     (''/s/meta/readme.md'', FFile ''foo''), (''/s/meta/web.apparmor'', FFile ''my profile'')]"

definition srcWorld :: "fsys \<Rightarrow> bworld" where
  "srcWorld f =
     \<lparr>fs = f, hist = [], faults = (\<lambda>_ _. False), mounts = [], outs = (\<lambda>_ _. ''12 /b''), exits = (\<lambda>_ _. None),
      lapse = (\<lambda>_ _. 0), clock = 0, agrees = (\<lambda>_ _. True), kernelHost = '''', hardLinks = []\<rparr>"


theorem hashes_of_archive_witness:
  "map (\<lambda>h. (fhName h, fhSha512 h)) (hashedFiles bare [(''/b'', FDir), (''/b/DEBIAN'', FDir), (''/b/DEBIAN/control'', FFile ''c''), (''/b/x'', FFile ''text'')] ''/b'')
     = [(''x'', ''text'')]"
proof -
  let ?f = "[(''/b'', FDir), (''/b/DEBIAN'', FDir), (''/b/DEBIAN/control'', FFile ''c''), (''/b/x'', FFile ''text'')]"
  have h: "\<forall>p\<in>fst ` set ?f. hasPrefix p (''/b'' @ ''/DEBIAN'') \<longrightarrow> inTree (''/b'' @ ''/DEBIAN'') p" by (simp add: inTree_def)
  have "map (\<lambda>e. (drop 2 (teName e), case teKind e of TFile c \<Rightarrow> sha512 bare c | _ \<Rightarrow> ''''))
      (tarEntries ?f ''/b'' (\<lambda>p. \<not> hasPrefix p (''/b'' @ ''/DEBIAN''))) = [(''x'', ''text'')]" by code_simp
  then show ?thesis using hashes_of_archive [OF h, of bare] by simp
qed

subsection \<open>An ignore file with a blank line\<close>

text \<open>What holds of the regular expressions: an alternative that is empty matches everything.\<close>

definition emptyAlternative :: "bldtools \<Rightarrow> bool" where
  "emptyAlternative B \<longleftrightarrow>
     (\<forall>ls. '''' \<in> set ls \<longrightarrow> (\<forall>l\<in>set ls. reCompile B l \<noteq> None \<and> CHR 0x5C \<notin> set l) \<longrightarrow>
        reCompile B (join ls ''|'') = Some (\<lambda>_. True))"

lemma ignoreRegex_blank:
  assumes "emptyAlternative B" and "'''' \<in> set (scanLines content)"
    and "\<forall>l\<in>set (scanLines content). reCompile B l \<noteq> None \<and> CHR 0x5C \<notin> set l"
  shows "reCompile B (ignoreRegex B content) = Some (\<lambda>_. True)"
proof -
  have "map (\<lambda>l. case reCompile B l of None \<Rightarrow> quoteMeta B l | Some _ \<Rightarrow> l) (scanLines content) = scanLines content"
    using assms(3) by (intro map_idI) (auto split: option.splits)
  then show ?thesis using assms by (simp add: emptyAlternative_def ignoreRegex_def)
qed

lemma copyWalk_blank:
  assumes "reCompile B (ignoreRegex B content) = Some (\<lambda>_. True)"
    and "stat (fs w) (pathJoin [src, ''.snapignore'']) = Inr (FFile content)"
    and "kBasedir k \<noteq> src \<or> kExclude k = Some (\<lambda>_. True)"
  shows "copyWalk B src dst k ps w = (Inr (), w)"
  using assms(3)
proof (induction ps arbitrary: k rule: length_induct)
  case (1 ps)
  show ?case
  proof (cases ps)
    case (Cons p qs)
    have "\<exists>k'. (if drop (length src) p = ''/DEBIAN'' then Inr (True, k) else shouldExclude B (fs w) src (pathBase p) k) = Inr (True, k')
        \<and> (kBasedir k' \<noteq> src \<or> kExclude k' = Some (\<lambda>_. True))"
      using 1(2) assms(1,2) by (auto simp: shouldExclude_def keepShouldExclude_def)
    then obtain k' where k': "(if drop (length src) p = ''/DEBIAN'' then Inr (True, k) else shouldExclude B (fs w) src (pathBase p) k) = Inr (True, k')"
        "kBasedir k' \<noteq> src \<or> kExclude k' = Some (\<lambda>_. True)" by blast
    have "copyWalk B src dst k' rs w = (Inr (), w)" if "length rs \<le> length qs" for rs using 1(1) k'(2) that Cons by simp
    then show ?thesis using Cons k'(1) by (simp add: bind_def gets_def fromRes_def Let_def)
  qed simp
qed

text \<open>
  One blank line in \<^verbatim>\<open>.snapignore\<close>, and nothing of the package is copied: the lines become the
  alternatives of one regular expression, and an empty alternative matches every name. The copy
  succeeds all the same, and leaves no build directory behind.
\<close>

lemma copyToBuildDir_blank_line:
  assumes "emptyAlternative B" and "'''' \<in> set (scanLines content)"
    and "\<forall>l\<in>set (scanLines content). reCompile B l \<noteq> None \<and> CHR 0x5C \<notin> set l"
    and "fget (fs w) buildDir = Some FDir" and "listDir (fs w) buildDir = []" and "\<not> faults w (hist w) (ERemove buildDir)"
    and "f = fdrop (\<lambda>q. q = buildDir) (fs w)" and "nodeAt f (absOf sourceDir) \<noteq> None" and "absOf sourceDir \<noteq> ''''"
    and "stat f (pathJoin [absOf sourceDir, ''.snapignore'']) = Inr (FFile content)"
  shows "\<exists>w'. copyToBuildDir B sourceDir buildDir newKeep w = (Inr (), w') \<and> fs w' = f"
proof -
  let ?w = "w\<lparr>hist := ERemove buildDir # hist w, fs := f\<rparr>"
  have "ioRemove buildDir w = (Inr (), ?w)"
    using assms(4-7) by (simp add: ioRemove_def andThen_def bind_def fallible_def gets_def modifies_def Let_def)
  then have "tolerating IsNotExist (ioRemove buildDir) w = (Inr (), ?w)" by (simp add: tolerating_def attempt_def bind_def)
  moreover have "copyWalk B (absOf sourceDir) buildDir newKeep ps ?w = (Inr (), ?w)" for ps
    using copyWalk_blank [of B content ?w "absOf sourceDir"] ignoreRegex_blank [OF assms(1-3)] assms(9,10) by (simp add: newKeep_def)
  ultimately show ?thesis using assms(8) by (simp add: copyToBuildDir_def andThen_def bind_def gets_def Let_def)
qed

subsection \<open>Witness\<close>

text \<open>Expressions without operators but the alternatives, for names of one letter.\<close>

definition letterExprs :: bldtools where
  "letterExprs = bare\<lparr>reCompile := (\<lambda>r. Some (\<lambda>s. hasPrefix r ''|'' \<or> hasSuffix r ''|'' \<or> containsSub r ''||'' \<or> r = '''' \<or> containsSub r s))\<rparr>"

lemma join_blank: "'''' \<in> set ls \<Longrightarrow>
   hasPrefix (join ls ''|'') ''|'' \<or> hasSuffix (join ls ''|'') ''|'' \<or> containsSub (join ls ''|'') ''||'' \<or> join ls ''|'' = ''''"
proof (induction ls rule: induct_list012)
  case (3 x y zs)
  let ?t = "join (y # zs) ''|''"
  have c: "containsSub (us @ vs) p" if "containsSub vs p" for us vs p :: string using that by (induction us) auto
  have "containsSub (x @ ''|'' @ ?t) ''||''" if "hasPrefix ?t ''|''"
    using that by (intro c [of "''|'' @ ?t"]) (cases ?t; simp)
  moreover have "containsSub (x @ ''|'' @ ?t) ''||''" if "containsSub ?t ''||''"
    using that c [of ?t "''||''" "x @ ''|''"] by simp
  moreover have "hasSuffix (x @ ''|'' @ ?t) ''|''" if "hasSuffix ?t ''|'' \<or> ?t = ''''"
    using that by (auto simp: hasSuffix_def hasPrefix_iff)
  moreover have "hasPrefix (x @ ''|'' @ ?t) ''|''" if "x = ''''" using that by simp
  ultimately show ?case using 3 by auto
qed auto

definition ignoreFs :: fsys where
  "ignoreFs = (''/s/.snapignore'', FFile [CHR ''x'', nl, nl]) # srcFs"

lemma copyToBuildDir_blank_line_example:
  "fget (fs (snd (copyToBuildDir letterExprs ''/s'' ''/b'' newKeep (srcWorld ignoreFs)))) ''/b/meta/package.yaml'' = None"
proof -
  have s: "scanLines [CHR ''x'', nl, nl] = [''x'', '''']" by code_simp
  have e: "emptyAlternative letterExprs" using join_blank by (auto simp: emptyAlternative_def letterExprs_def fun_eq_iff)
  have f: "fget (fs (srcWorld ignoreFs)) ''/b'' = Some FDir" "listDir (fs (srcWorld ignoreFs)) ''/b'' = []"
    "nodeAt (fdrop (\<lambda>q. q = ''/b'') (fs (srcWorld ignoreFs))) (absOf ''/s'') \<noteq> None" "absOf ''/s'' \<noteq> ''''"
    "stat (fdrop (\<lambda>q. q = ''/b'') (fs (srcWorld ignoreFs))) (pathJoin [absOf ''/s'', ''.snapignore'']) = Inr (FFile [CHR ''x'', nl, nl])"
    by code_simp+
  obtain w' where w: "copyToBuildDir letterExprs ''/s'' ''/b'' newKeep (srcWorld ignoreFs) = (Inr (), w')"
      "fs w' = fdrop (\<lambda>q. q = ''/b'') (fs (srcWorld ignoreFs))"
    using copyToBuildDir_blank_line [OF e _ _ f(1,2) _ refl f(3-5)] s by (auto simp: letterExprs_def srcWorld_def)
  have "fget (fdrop (\<lambda>q. q = ''/b'') (fs (srcWorld ignoreFs))) ''/b/meta/package.yaml'' = None" by code_simp
  then show ?thesis using w by simp
qed

end
