(* ===== verification/FirstBoot.thy ===== *)
theory FirstBoot
  imports CoreConfig Services
begin

text \<open>
  What is done at the first boot, \<^verbatim>\<open>snappy/firstboot.go\<close>: the configuration that an oem package brings
  along is given to the packages it names, the core system among them, the first network
  interface is enabled, and a stamp is left.
\<close>

record bootenv =
  fbEnv :: genv
  fbRun :: runenv
  fbCore :: coretools
  wrapEnc :: "string \<Rightarrow> yval \<Rightarrow> (serr, string) res"

definition errNoSnapToConfig :: serr where
  "errNoSnapToConfig = Errorf ''configuring an invalid snappy package''"

text \<open>\<^verbatim>\<open>Config\<close> of a part: of the core system, of a package, and of one in the store.\<close>

definition siConfig :: "coretools \<Rightarrow> string \<Rightarrow> ('m cworld_scheme, serr, string) io" where
  "siConfig T configuration = (if configuration \<noteq> '''' then SetConfig T configuration else Get T)"

definition configOf :: "bootenv \<Rightarrow> Part \<Rightarrow> string \<Rightarrow> ('m cworld_scheme, serr, string) io" where
  "configOf B p configuration =
     (case p of
        SnapP s \<Rightarrow> snapConfig (fbRun B) (fbEnv B) (sbasedir s) (sorigin s) configuration
      | SysP s \<Rightarrow> siConfig (fbCore B) configuration
      | RemoteP r \<Rightarrow> ret '''')"

text \<open>The loop over the configuration, in whatever order the map is walked.\<close>

definition applyOemConfig :: "bootenv \<Rightarrow> string \<times> yval \<Rightarrow> ('m cworld_scheme, serr, unit) io" where
  "applyOemConfig B e =
     (case e of (pkgName, conf) \<Rightarrow>
        bind (fromRes (wrapEnc B pkgName conf)) (\<lambda>configData.
        bind (ActiveSnapByName (fbEnv B) pkgName) (\<lambda>snap.
          case snap of
            None \<Rightarrow> throw errNoSnapToConfig
          | Some p \<Rightarrow> bind (configOf B p configData) (\<lambda>_. ret ()))))"

definition oemConfig :: "bootenv \<Rightarrow> ('m cworld_scheme, serr, unit) io" where
  "oemConfig B =
     bind (ActiveSnapsByType (fbEnv B) [TypeOem]) (\<lambda>oemSnap.
       case oemSnap of
         [] \<Rightarrow> ret ()
       | SnapP s # _ \<Rightarrow> forEach (yConfig (sm s)) (applyOemConfig B)
       | _ \<Rightarrow> throw (SErr ErrNoOemConfiguration))"

definition stampFile :: string where "stampFile = ''/var/lib/snappy/firstboot/stamp''"

definition stampFirstBoot :: "('m world_scheme, serr, unit) io" where
  "stampFirstBoot =
     (let stampDir = pathDir stampFile
      in bind (gets (\<lambda>w. stat (fs w) stampDir)) (\<lambda>st.
           andThen (whenIO (st = Inl KNotExist) (ioMkdirAll stampDir)) (ioWriteFile stampFile '''')))"

definition globs :: "string list" where "globs = [''/sys/class/net/eth*'', ''/sys/class/net/en*'']"
definition ethdir :: string where "ethdir = ''/etc/network/interfaces.d''"
definition ifup :: string where "ifup = ''/sbin/ifup''"

definition firstEther :: "fsys \<Rightarrow> string option" where
  "firstEther f = (case find (\<lambda>es. es \<noteq> []) (map (glob f) globs) of Some (e # _) \<Rightarrow> Some (pathBase e) | _ \<Rightarrow> None)"

definition etherText :: "string \<Rightarrow> string" where
  "etherText eth = printLines [''allow-hotplug '' @ eth, ''iface '' @ eth @ '' inet dhcp'']"

definition enableFirstEther :: "('m sworld_scheme, serr, unit) io" where
  "enableFirstEther =
     bind (gets (\<lambda>w. firstEther (fs w))) (\<lambda>e.
       case e of
         None \<Rightarrow> ret ()
       | Some eth \<Rightarrow>
           andThen (ioAtomicWrite (pathJoin [ethdir, eth]) (etherText eth))
             (bind (mapErr (\<lambda>_. OsErr KIO (ECmd [ifup, eth])) (execCmd [ifup, eth])) (\<lambda>_. ret ())))"

definition firstBootHasRun :: "fsys \<Rightarrow> bool" where
  "firstBootHasRun f = exists f stampFile"

text \<open>Both deferred calls run whatever the configuration gives, the one deferred last first.\<close>

definition FirstBoot :: "bootenv \<Rightarrow> ('m cworld_scheme, serr, unit) io" where
  "FirstBoot B =
     bind (gets (\<lambda>w. firstBootHasRun (fs w))) (\<lambda>done.
       if done then throw (SErr ErrNotFirstBoot)
       else deferIO (oemConfig B) (\<lambda>r. andThen (ignoring enableFirstEther) (andThen (ignoring stampFirstBoot) (fromRes r))))"

section \<open>Facts\<close>

lemma mkdirs_link: "fget (snd (mkdirs d cs f)) p = Some (FLink t) \<Longrightarrow> fget f p = Some (FLink t)"
  by (induction d cs f rule: mkdirs.induct) (auto split: if_splits)

lemma stampFirstBoot_leaves:
  assumes "stampFirstBoot w = (Inr (), w')" and "\<forall>t. fget (fs w) stampFile \<noteq> Some (FLink t)"
  shows "firstBootHasRun (fs w')"
proof -
  obtain w1 where w1: "ioWriteFile stampFile '''' w1 = (Inr (), w')" "w1 = w \<or> ioMkdirAll (pathDir stampFile) w = (Inr (), w1)"
    using assms(1) by (auto simp: stampFirstBoot_def Let_def bind_def andThen_def whenIO_def split: if_splits prod.splits sum.splits)
  have "\<forall>t. fget (fs w1) stampFile \<noteq> Some (FLink t)"
    using w1(2)
  proof
    assume "ioMkdirAll (pathDir stampFile) w = (Inr (), w1)"
    then have "fs w1 = snd (mkdirs ''/'' (splitChar slash (pathDir stampFile)) (fs w))"
      by (auto simp: ioMkdirAll_def andThen_def bind_def fallible_def Let_def split: prod.splits if_splits bool.splits)
    then show ?thesis using mkdirs_link assms(2) by metis
  qed (use assms(2) in simp)
  then have "writeTarget (fs w1) stampFile = stampFile" by (auto simp: writeTarget_def split: option.splits fnode.splits)
  then have "fget (fs w') stampFile = Some (FFile '''')" using ioWriteFile_result [OF w1(1)] by simp
  then show ?thesis using stat_file [of "fs w'" stampFile "''''"] by (simp add: firstBootHasRun_def exists_def stampFile_def)
qed

text \<open>
  C35. The first boot happens once: whatever the configuration by the oem package and the network
  interface give, also when they fail or panic, the stamp is written, the result of
  the configuration is returned, and the next call does nothing but say that it is not the first
  boot. So a configuration that failed is never tried again.
\<close>

theorem FirstBoot_once:
  assumes "\<not> firstBootHasRun (fs w)" and "oemConfig B w = (r, w1)" and "enableFirstEther w1 = (r1, w2)"
    and "\<forall>t. fget (fs w2) stampFile \<noteq> Some (FLink t)" and "stampFirstBoot w2 = (Inr (), w')"
  shows "FirstBoot B w = (r, w') \<and> FirstBoot B w' = (Inl (SErr ErrNotFirstBoot), w')"
proof -
  have "firstBootHasRun (fs w')" using stampFirstBoot_leaves [OF assms(5,4)] .
  moreover have "FirstBoot B w = (r, w')"
    using assms(1-3,5) by (cases r) (simp_all add: FirstBoot_def andThen_def bind_def)
  ultimately show ?thesis by (simp add: FirstBoot_def)
qed

definition fbDemo :: bootenv where
  "fbDemo = \<lparr>fbEnv = demoEnv (demoYaml ''foo''),
     fbRun = \<lparr>logDec = (\<lambda>_. Inr []), formatTime = (\<lambda>_ _. ''''), osEnviron = [], runScript = (\<lambda>_ _ _ f. (Inr '''', f))\<rparr>,
     fbCore = \<lparr>cfgEnc = (\<lambda>_. Inr ''''), cfgDec = (\<lambda>_. Inr None), tzEnv = ''''\<rparr>, wrapEnc = (\<lambda>_ _. Inr '''')\<rparr>"

definition fbWorld :: cworld where
  "fbWorld = \<lparr>fs = [(''/sys/class/net'', FDir), (''/sys/class/net/eth0'', FDir), (''/etc/network/interfaces.d'', FDir)],
     hist = [], faults = (\<lambda>_ _. False), mounts = [], outs = (\<lambda>_ _. ''''), exits = (\<lambda>_ _. None),
     lapse = (\<lambda>_ _. 0), clock = 0, agrees = (\<lambda>_ _. True), kernelHost = ''h''\<rparr>"

theorem FirstBoot_once_witness:
  "fst (FirstBoot fbDemo (snd (FirstBoot fbDemo fbWorld))) = Inl (SErr ErrNotFirstBoot)"
proof -
  obtain r w1 where 1: "oemConfig fbDemo fbWorld = (r, w1)" by (meson surj_pair)
  obtain r1 w2 where 2: "enableFirstEther w1 = (r1, w2)" by (meson surj_pair)
  have run: "w1 = snd (oemConfig fbDemo fbWorld)" "w2 = snd (enableFirstEther (snd (oemConfig fbDemo fbWorld)))"
    using 1 2 by simp_all
  have "\<not> firstBootHasRun (fs fbWorld)" by code_simp
  moreover have "fget (fs (snd (enableFirstEther (snd (oemConfig fbDemo fbWorld))))) stampFile = None" by code_simp
  moreover have "fst (stampFirstBoot (snd (enableFirstEther (snd (oemConfig fbDemo fbWorld))))) = Inr ()" by code_simp
  then have "stampFirstBoot w2 = (Inr (), snd (stampFirstBoot w2))" using run by (metis prod.collapse)
  ultimately show ?thesis using FirstBoot_once [OF _ 1 2] run by simp
qed

end
