(* ===== verification/GrubMigrate.thy ===== *)
theory GrubMigrate
  imports Policy SystemImage
begin

text \<open>
  The move to the grub configuration that chooses the root by itself, \<^verbatim>\<open>partition/migrate_grub.go\<close>. The
  script that is written here is the one \<^verbatim>\<open>BootMachine\<close> gives a meaning to.
\<close>

definition newGrubConfig :: string where
  "newGrubConfig = printLines
     ['''',
      ''set default=0'',
      ''set timeout=3'',
      '''',
      ''insmod part_gpt'',
      ''insmod ext2'',
      '''',
      ''if [ -s $prefix/grubenv ]; then'',
      ''  load_env'',
      ''fi'',
      '''',
      ''if [ -z \"$snappy_mode\" ]; then'',
      ''    set snappy_mode=regular'',
      ''    save_env snappy_mode'',
      ''fi'',
      ''if [ -z \"$snappy_ab\" ]; then'',
      ''    set snappy_ab=a'',
      ''    save_env snappy_ab'',
      ''fi'',
      '''',
      ''if [ \"$snappy_mode\" = \"try\" ]; then'',
      ''    if [ \"$snappy_trial_boot\" = \"1\" ]; then'',
      ''        # Previous boot failed to unset snappy_trial_boot, so toggle'',
      ''        # rootfs.'',
      ''        if [ \"$snappy_ab\" = \"a\" ]; then'',
      ''            set snappy_ab=b'',
      ''        else'',
      ''            set snappy_ab=a'',
      ''        fi'',
      ''        save_env snappy_ab'',
      ''    else'',
      ''        # Trial mode so set the snappy_trial_boot (which snappy is'',
      ''        # expected to unset).'',
      ''        #'',
      ''        # Note: don't use the standard recordfail variable since that forces'',
      ''        # the menu to be displayed and sets an infinite timeout if set.'',
      ''        set snappy_trial_boot=1'',
      ''        save_env snappy_trial_boot'',
      ''    fi'',
      ''fi'',
      '''',
      ''set label=\"system-$snappy_ab\"'',
      ''set cmdline=\"root=LABEL=$label ro init=/lib/systemd/systemd console=ttyS0 console=tty1 panic=-1\"'',
      '''',
      ''menuentry \"$label\" {'',
      ''    if [ -e \"$prefix/$snappy_ab/vmlinuz\" ]; then'',
      ''        linux $prefix/$snappy_ab/vmlinuz $cmdline'',
      ''        initrd $prefix/$snappy_ab/initrd.img'',
      ''    else'',
      ''        # old-style kernel-in-os-partition'',
      ''        search --no-floppy --set --label \"$label\"'',
      ''        linux /vmlinuz $cmdline'',
      ''        initrd /initrd.img'',
      ''    fi'',
      ''}'']"

definition oldGrubConfigHeader :: string where
  "oldGrubConfigHeader = printLines [''#'', ''# DO NOT EDIT THIS FILE'', ''#'']"

definition isOldGrubConfig :: "string \<Rightarrow> bool" where
  "isOldGrubConfig grubConf = hasPrefix grubConf oldGrubConfigHeader"

text \<open>One kernel and one initrd are copied, unless there is a file of that name already.\<close>

definition copyKernelAsset :: "string \<Rightarrow> string \<Rightarrow> string \<Rightarrow> ('m world_scheme, serr, unit) io" where
  "copyKernelAsset prefixDir grubTargetDir p =
     bind (gets (\<lambda>w. glob (fs w) (pathJoin [prefixDir, p]))) (\<lambda>ms.
       case ms of
         [m] \<Rightarrow>
           (let targetPath = pathJoin [bootloaderGrubDir, grubTargetDir, normalizeKernelInitrdName (pathBase m)]
            in andThen (ignoring (ioMkdirAll (pathDir targetPath)))
                 (bind (gets (\<lambda>w. exists (fs w) targetPath)) (\<lambda>ex.
                    if ex then ret () else CopyFile m targetPath False)))
       | _ \<Rightarrow> throw (Errorf (''Incorrect matches for '' @ p @ '': ['' @ join ms '' '' @ '']'')))"

definition copyKernelAssets :: "string \<Rightarrow> string \<Rightarrow> ('m world_scheme, serr, unit) io" where
  "copyKernelAssets prefixDir grubTargetDir =
     forEach [''/boot/vmlinuz-*'', ''/boot/initrd.img-*''] (copyKernelAsset prefixDir grubTargetDir)"

definition shortNameOf :: "blockDevice option \<Rightarrow> ('w, serr, string) io" where
  "shortNameOf d = (case d of None \<Rightarrow> liftP nilDeref | Some b \<Rightarrow> ret (shortName b))"

definition MigrateToDynamicGrub :: "genv \<Rightarrow> ('m pworld_scheme, serr, unit) io" where
  "MigrateToDynamicGrub E =
     bind (attempt (ioReadFile bootloaderGrubConfigFile)) (\<lambda>r.
       case r of
         Inl e \<Rightarrow> if IsNotExist e then ret () else throw e
       | Inr grubConfig \<Rightarrow>
           if \<not> isOldGrubConfig grubConfig then ret ()
           else
             bind (liftP (New (lsblkOut E))) (\<lambda>part.
             bind (shortNameOf (rootPartition part)) (\<lambda>current.
             andThen (copyKernelAssets ''/'' current)
            (andThen
               (bind (gets (\<lambda>w. exists (fs w) ''/writable/cache/system/boot'')) (\<lambda>ex.
                  if \<not> ex then ret ()
                  else bind (shortNameOf (otherRootPartition part)) (copyKernelAssets ''/writable/cache/system/'')))
               (ioAtomicWrite bootloaderGrubConfigFile newGrubConfig)))))"

section \<open>Facts\<close>

lemma newGrubConfig_not_old: "\<not> isOldGrubConfig newGrubConfig"
  by code_simp

lemma Migrate_not_old:
  assumes "fst (ioReadFile bootloaderGrubConfigFile w) = Inr c" and "\<not> isOldGrubConfig c"
  shows "MigrateToDynamicGrub E w = (Inr (), w)"
  using assms ioReadFile_world [of bootloaderGrubConfigFile w]
  by (simp add: MigrateToDynamicGrub_def bind_def split: prod.splits)

text \<open>
  The migration is done at most once: a configuration that is not an old one is left alone, and
  after a successful migration the configuration is the new one, which a second
  migration takes for what it is and leaves alone.
\<close>

lemma MigrateToDynamicGrub_once:
  assumes "fst (ioReadFile bootloaderGrubConfigFile w) = Inr c" and "MigrateToDynamicGrub E w = (Inr (), w')"
  shows "(if isOldGrubConfig c then fget (fs w') bootloaderGrubConfigFile = Some (FFile newGrubConfig) else w' = w)
    \<and> MigrateToDynamicGrub E w' = (Inr (), w')"
proof (cases "isOldGrubConfig c")
  case True
  have "\<exists>w1. ioAtomicWrite bootloaderGrubConfigFile newGrubConfig w1 = (Inr (), w')"
    using assms True ioReadFile_world [of bootloaderGrubConfigFile w]
    by (auto simp: MigrateToDynamicGrub_def bind_Inr andThen_Inr attempt_def split: prod.splits)
  then have c: "fget (fs w') bootloaderGrubConfigFile = Some (FFile newGrubConfig)"
    by (auto simp: ioAtomicWrite_def andThen_def bind_def fallible_def setNode_def Let_def split: if_splits)
  then have "fst (ioReadFile bootloaderGrubConfigFile w') = Inr newGrubConfig"
    using stat_file [OF c] by (simp add: ioReadFile_def bootloaderGrubConfigFile_def)
  then show ?thesis using c True Migrate_not_old [OF _ newGrubConfig_not_old] by auto
next
  case False
  then show ?thesis using assms Migrate_not_old [of w c E] by simp
qed

definition migrateEnv :: genv where
  "migrateEnv = (demoEnv (demoYaml ''foo''))\<lparr>lsblkOut := Inr
     [''NAME=\"sda\" LABEL=\"\" PKNAME=\"\" MOUNTPOINT=\"\"'',
      ''NAME=\"sda1\" LABEL=\"system-a\" PKNAME=\"sda\" MOUNTPOINT=\"/\"'']\<rparr>"

definition migrateWorld :: sworld where
  "migrateWorld = quietWorld (\<lambda>_ _. '''')
     [(''/boot'', FDir), (''/boot/grub'', FDir), (''/boot/grub/grub.cfg'', FFile oldGrubConfigHeader),
      (''/boot/vmlinuz-4'', FFile ''kernel''), (''/boot/initrd.img-4'', FFile ''initrd'')]"

lemma MigrateToDynamicGrub_once_example:
  "fget (fs (snd (MigrateToDynamicGrub migrateEnv migrateWorld))) bootloaderGrubConfigFile = Some (FFile newGrubConfig)
   \<and> fget (fs (snd (MigrateToDynamicGrub migrateEnv migrateWorld))) ''/boot/grub/a/vmlinuz'' = Some (FFile ''kernel'')"
proof
  have "fst (ioReadFile bootloaderGrubConfigFile migrateWorld) = Inr oldGrubConfigHeader" by code_simp
  moreover have "fst (MigrateToDynamicGrub migrateEnv migrateWorld) = Inr ()" by code_simp
  then have "MigrateToDynamicGrub migrateEnv migrateWorld = (Inr (), snd (MigrateToDynamicGrub migrateEnv migrateWorld))"
    by (metis prod.collapse)
  moreover have "isOldGrubConfig oldGrubConfigHeader" by code_simp
  ultimately show "fget (fs (snd (MigrateToDynamicGrub migrateEnv migrateWorld))) bootloaderGrubConfigFile = Some (FFile newGrubConfig)"
    using MigrateToDynamicGrub_once [of migrateWorld oldGrubConfigHeader migrateEnv] by simp
  show "fget (fs (snd (MigrateToDynamicGrub migrateEnv migrateWorld))) ''/boot/grub/a/vmlinuz'' = Some (FFile ''kernel'')"
    by code_simp
qed

end
