(* ===== verification/Priv.thy ===== *)
theory Priv
  imports Errors
begin

text \<open>
  The lock that keeps two runs of snappy apart, \<^verbatim>\<open>priv/priv.go\<close> and \<^verbatim>\<open>priv/filelock.go\<close>. The kernel's part
  is modelled down to open files and inodes: a name leads to an inode, every open makes a new
  open file, and \<^verbatim>\<open>flock\<close> is a lock on the inode that belongs to an open file. The operations are
  cut at the system calls, so that the calls of several processes interleave.
\<close>

section \<open>The kernel\<close>

record lkernel =
  lkNames :: "string \<rightharpoonup> nat"
  lkFiles :: "nat \<rightharpoonup> nat"
  lkOwner :: "nat \<rightharpoonup> nat"
  lkNext :: nat
  lkRemoved :: nat

text \<open>\<^verbatim>\<open>open\<close> with \<^verbatim>\<open>O_CREAT\<close>: a new inode when there is no file of that name.\<close>

definition sysOpen :: "string \<Rightarrow> lkernel \<Rightarrow> nat \<times> lkernel" where
  "sysOpen fn k =
     (let i = (case lkNames k fn of Some i \<Rightarrow> i | None \<Rightarrow> lkNext k); fd = Suc (lkNext k)
      in (fd, k\<lparr>lkNames := (lkNames k)(fn \<mapsto> i), lkFiles := (lkFiles k)(fd \<mapsto> i), lkNext := Suc fd\<rparr>))"

datatype flockResult = FlockOk lkernel | FlockBusy | FlockBad

definition flockEx :: "nat \<Rightarrow> lkernel \<Rightarrow> flockResult" where
  "flockEx fd k =
     (case lkFiles k fd of
        None \<Rightarrow> FlockBad
      | Some i \<Rightarrow>
          (case lkOwner k i of
             None \<Rightarrow> FlockOk (k\<lparr>lkOwner := (lkOwner k)(i \<mapsto> fd)\<rparr>)
           | Some fd' \<Rightarrow> if fd' = fd then FlockOk k else FlockBusy))"

definition release :: "nat \<Rightarrow> nat \<Rightarrow> lkernel \<Rightarrow> lkernel" where
  "release fd i k = (if lkOwner k i = Some fd then k\<lparr>lkOwner := (lkOwner k)(i := None)\<rparr> else k)"

definition flockUn :: "nat \<Rightarrow> lkernel \<Rightarrow> lkernel option" where
  "flockUn fd k = (case lkFiles k fd of None \<Rightarrow> None | Some i \<Rightarrow> Some (release fd i k))"

definition sysClose :: "nat \<Rightarrow> lkernel \<Rightarrow> lkernel option" where
  "sysClose fd k =
     (case lkFiles k fd of None \<Rightarrow> None | Some i \<Rightarrow> Some ((release fd i k)\<lparr>lkFiles := (lkFiles k)(fd := None)\<rparr>))"

definition sysUnlink :: "string \<Rightarrow> lkernel \<Rightarrow> lkernel option" where
  "sysUnlink fn k =
     (case lkNames k fn of
        None \<Rightarrow> None
      | Some _ \<Rightarrow> Some (k\<lparr>lkNames := (lkNames k)(fn := None), lkRemoved := Suc (lkRemoved k)\<rparr>))"

section \<open>The file lock\<close>

datatype lerr = PrivNeedRoot | ErrAlreadyLocked | ErrNotLocked | LockOs string

record FileLock =
  Filename :: string
  realFile :: "nat option"

definition NewFileLock :: "string \<Rightarrow> FileLock" where
  "NewFileLock path = \<lparr>Filename = path, realFile = None\<rparr>"

text \<open>
  \<^verbatim>\<open>Lock\<close> opens and then locks. The arguments \<open>fails\<close> stand for a failure of the system call. With
  \<^verbatim>\<open>LOCK_NB\<close> a lock that is taken is an error, else the call waits, which is \<open>None\<close>. After an
  error the file stays open.
\<close>

definition openCall :: "bool \<Rightarrow> FileLock \<Rightarrow> lkernel \<Rightarrow> lerr option \<times> FileLock \<times> lkernel" where
  "openCall fails l k =
     (if fails then (Some (LockOs ''open''), l, k)
      else let (fd, k') = sysOpen (Filename l) k in (None, l\<lparr>realFile := Some fd\<rparr>, k'))"

definition flockCall :: "bool \<Rightarrow> FileLock \<Rightarrow> lkernel \<Rightarrow> (lerr option \<times> lkernel) option" where
  "flockCall blocking l k =
     (case realFile l of
        None \<Rightarrow> Some (Some ErrAlreadyLocked, k)
      | Some fd \<Rightarrow>
          (case flockEx fd k of
             FlockOk k' \<Rightarrow> Some (None, k')
           | FlockBusy \<Rightarrow> if blocking then None else Some (Some ErrAlreadyLocked, k)
           | FlockBad \<Rightarrow> Some (Some ErrAlreadyLocked, k)))"

definition Lock :: "bool \<Rightarrow> bool \<Rightarrow> FileLock \<Rightarrow> lkernel \<Rightarrow> (lerr option \<times> FileLock \<times> lkernel) option" where
  "Lock fails blocking l k =
     (case openCall fails l k of
        (Some e, l', k') \<Rightarrow> Some (Some e, l', k')
      | (None, l', k') \<Rightarrow> map_option (\<lambda>(r, k''). (r, l', k'')) (flockCall blocking l' k'))"

text \<open>
  \<^verbatim>\<open>Unlock\<close>: unlock, close, forget the file, and remove it. The file descriptor of a lock
  without a file is invalid.
\<close>

definition unflockCall :: "FileLock \<Rightarrow> lkernel \<Rightarrow> lerr option \<times> lkernel" where
  "unflockCall l k =
     (case realFile l of
        None \<Rightarrow> (Some ErrNotLocked, k)
      | Some fd \<Rightarrow> (case flockUn fd k of None \<Rightarrow> (Some ErrNotLocked, k) | Some k' \<Rightarrow> (None, k')))"

definition closeCall :: "FileLock \<Rightarrow> lkernel \<Rightarrow> lerr option \<times> FileLock \<times> string \<times> lkernel" where
  "closeCall l k =
     (case realFile l of
        None \<Rightarrow> (Some (LockOs ''close''), l, Filename l, k)
      | Some fd \<Rightarrow>
          (case sysClose fd k of
             None \<Rightarrow> (Some (LockOs ''close''), l, Filename l, k)
           | Some k' \<Rightarrow> (None, \<lparr>Filename = '''', realFile = None\<rparr>, Filename l, k')))"

definition removeCall :: "string \<Rightarrow> lkernel \<Rightarrow> lerr option \<times> lkernel" where
  "removeCall fn k = (case sysUnlink fn k of None \<Rightarrow> (Some (LockOs ''remove''), k) | Some k' \<Rightarrow> (None, k'))"

definition Unlock :: "FileLock \<Rightarrow> lkernel \<Rightarrow> lerr option \<times> FileLock \<times> lkernel" where
  "Unlock l k =
     (case unflockCall l k of
        (Some e, k') \<Rightarrow> (Some e, l, k')
      | (None, k') \<Rightarrow>
          (case closeCall l k' of
             (Some e, l', _, k'') \<Rightarrow> (Some e, l', k'')
           | (None, l', fn, k'') \<Rightarrow> (case removeCall fn k'' of (r, k3) \<Rightarrow> (r, l', k3))))"

section \<open>The mutex of privileged processes\<close>

record Mutex =
  mlock :: FileLock

definition NewMutex :: "string \<Rightarrow> Mutex" where
  "NewMutex fileName = \<lparr>mlock = NewFileLock fileName\<rparr>"

definition commonChecks :: "bool \<Rightarrow> lerr option" where
  "commonChecks isRoot = (if \<not> isRoot then Some PrivNeedRoot else None)"

definition mutexLock :: "bool \<Rightarrow> bool \<Rightarrow> bool \<Rightarrow> Mutex \<Rightarrow> lkernel \<Rightarrow> (lerr option \<times> Mutex \<times> lkernel) option" where
  "mutexLock isRoot fails blocking m k =
     (case commonChecks isRoot of
        Some e \<Rightarrow> Some (Some e, m, k)
      | None \<Rightarrow> map_option (\<lambda>(r, l, k'). (r, m\<lparr>mlock := l\<rparr>, k')) (Lock fails blocking (mlock m) k))"

definition TryLock :: "bool \<Rightarrow> bool \<Rightarrow> Mutex \<Rightarrow> lkernel \<Rightarrow> (lerr option \<times> Mutex \<times> lkernel) option" where
  "TryLock isRoot fails m k = mutexLock isRoot fails False m k"

definition mutexUnlock :: "bool \<Rightarrow> Mutex \<Rightarrow> lkernel \<Rightarrow> lerr option \<times> Mutex \<times> lkernel" where
  "mutexUnlock isRoot m k =
     (case commonChecks isRoot of
        Some e \<Rightarrow> (Some e, m, k)
      | None \<Rightarrow> (case Unlock (mlock m) k of (r, l, k') \<Rightarrow> (r, m\<lparr>mlock := l\<rparr>, k')))"

text \<open>
  \<^verbatim>\<open>WithMutex\<close> of one process, nothing in between: \<open>f\<close> works on the rest of the world and on what
  other processes do to the kernel meanwhile.
\<close>

definition WithMutex ::
    "bool \<Rightarrow> bool \<Rightarrow> string \<Rightarrow> (lkernel \<times> 'w \<Rightarrow> 'e option \<times> lkernel \<times> 'w) \<Rightarrow> lkernel \<times> 'w
     \<Rightarrow> (lerr + 'e option) \<times> lkernel \<times> 'w" where
  "WithMutex isRoot fails fileName f s =
     (case TryLock isRoot fails (NewMutex fileName) (fst s) of
        None \<Rightarrow> (Inl ErrAlreadyLocked, s)
      | Some (Some e, m, k) \<Rightarrow> (Inl e, k, snd s)
      | Some (None, m, k) \<Rightarrow>
          (case f (k, snd s) of (r, k', w) \<Rightarrow> (case mutexUnlock isRoot m k' of (_, _, k'') \<Rightarrow> (Inr r, k'', w))))"

section \<open>Processes\<close>

text \<open>
  Any number of processes, each going through \<^verbatim>\<open>WithMutex\<close> on the same file again and again. A
  step is one system call of one of them; a call that fails for other reasons than the lock
  changes nothing that matters here and is left out.
\<close>

datatype mpc =
    Outside
  | Opened FileLock
  | Inside FileLock
  | Unflocked FileLock
  | Removing string

record lsys =
  kern :: lkernel
  procs :: "nat \<Rightarrow> mpc"

inductive mstep :: "string \<Rightarrow> lsys \<Rightarrow> lsys \<Rightarrow> bool" for fn where
  mopen: "procs s p = Outside \<Longrightarrow> openCall False (NewFileLock fn) (kern s) = (None, l, k)
    \<Longrightarrow> mstep fn s \<lparr>kern = k, procs = (procs s)(p := Opened l)\<rparr>"
| menter: "procs s p = Opened l \<Longrightarrow> flockCall False l (kern s) = Some (None, k)
    \<Longrightarrow> mstep fn s \<lparr>kern = k, procs = (procs s)(p := Inside l)\<rparr>"
| mbusy: "procs s p = Opened l \<Longrightarrow> flockCall False l (kern s) = Some (Some e, k)
    \<Longrightarrow> mstep fn s \<lparr>kern = k, procs = (procs s)(p := Outside)\<rparr>"
| mleave: "procs s p = Inside l \<Longrightarrow> unflockCall l (kern s) = (None, k)
    \<Longrightarrow> mstep fn s \<lparr>kern = k, procs = (procs s)(p := Unflocked l)\<rparr>"
| mclose: "procs s p = Unflocked l \<Longrightarrow> closeCall l (kern s) = (None, l', fname, k)
    \<Longrightarrow> mstep fn s \<lparr>kern = k, procs = (procs s)(p := Removing fname)\<rparr>"
| mremove: "procs s p = Removing fname \<Longrightarrow> removeCall fname (kern s) = (r, k)
    \<Longrightarrow> mstep fn s \<lparr>kern = k, procs = (procs s)(p := Outside)\<rparr>"

inductive_cases mstepE: "mstep fn s t"

definition freshKernel :: lkernel where
  "freshKernel = \<lparr>lkNames = Map.empty, lkFiles = Map.empty, lkOwner = Map.empty, lkNext = 0, lkRemoved = 0\<rparr>"

inductive mreach :: "string \<Rightarrow> lsys \<Rightarrow> bool" for fn where
  minit: "mreach fn \<lparr>kern = freshKernel, procs = \<lambda>_. Outside\<rparr>"
| mnext: "mreach fn s \<Longrightarrow> mstep fn s t \<Longrightarrow> mreach fn t"

definition inside :: "lsys \<Rightarrow> nat \<Rightarrow> bool" where
  "inside s p \<longleftrightarrow> (case procs s p of Inside _ \<Rightarrow> True | _ \<Rightarrow> False)"

section \<open>Facts\<close>

subsection \<open>One process alone\<close>

lemmas lock_defs = WithMutex_def TryLock_def mutexLock_def mutexUnlock_def commonChecks_def NewMutex_def NewFileLock_def
  Lock_def Unlock_def openCall_def flockCall_def unflockCall_def closeCall_def removeCall_def
  sysOpen_def flockEx_def flockUn_def sysClose_def sysUnlink_def release_def Let_def

text \<open>No lock refers to an open file that is yet to come, and no name to such an inode.\<close>

definition wfKernel :: "lkernel \<Rightarrow> bool" where
  "wfKernel k \<longleftrightarrow> (\<forall>i fd. lkOwner k i = Some fd \<longrightarrow> fd < lkNext k \<and> i < lkNext k)"

text \<open>
  A process that is not disturbed: without privileges nothing happens; when the file is
  locked by another, the function is not run and the other keeps its lock; else the function is run, its result is returned,
  and in the end the lock file is gone, no lock is left, and what others have locked they still have.
\<close>

lemma WithMutex_alone:
  assumes "wfKernel k" and "\<And>k. f (k, w) = (r, k, w')"
  shows "WithMutex False fails fn f (k, w) = (Inl PrivNeedRoot, k, w)
    \<and> (if \<exists>i fd. lkNames k fn = Some i \<and> lkOwner k i = Some fd
       then \<exists>k'. WithMutex True False fn f (k, w) = (Inl ErrAlreadyLocked, k', w) \<and> lkNames k' = lkNames k \<and> lkOwner k' = lkOwner k
       else \<exists>k'. WithMutex True False fn f (k, w) = (Inr r, k', w') \<and> lkNames k' = (lkNames k)(fn := None) \<and> lkOwner k' = lkOwner k)"
proof -
  have unprivileged: "WithMutex False fails fn f (k, w) = (Inl PrivNeedRoot, k, w)" by (simp add: lock_defs)
  show ?thesis
  proof (cases "\<exists>i fd. lkNames k fn = Some i \<and> lkOwner k i = Some fd")
    case True
    then obtain i fd where i: "lkNames k fn = Some i" "lkOwner k i = Some fd" by blast
    then have "fd < lkNext k" using assms(1) by (auto simp: wfKernel_def)
    then show ?thesis using i unprivileged by (auto simp: lock_defs)
  next
    case False
    have "lkOwner k (lkNext k) = None" using assms(1) by (cases "lkOwner k (lkNext k)") (auto simp: wfKernel_def)
    then show ?thesis using False unprivileged
      by (cases "lkNames k fn") (auto simp: lock_defs assms(2))
  qed
qed

lemma WithMutex_alone_example:
  "\<exists>k'. WithMutex True False ''/run/snappy.lock'' (\<lambda>(k, w). (None :: unit option, k, Suc w)) (freshKernel, 3) = (Inr None, k', 4)
     \<and> lkNames k' ''/run/snappy.lock'' = None"
proof -
  have "wfKernel freshKernel" by (simp add: wfKernel_def freshKernel_def)
  from WithMutex_alone [OF this, of "\<lambda>(k, w). (None :: unit option, k, Suc w)" 3 None 4 True "''/run/snappy.lock''"]
  show ?thesis by (auto simp: freshKernel_def)
qed

subsection \<open>Several processes\<close>

fun fdOf :: "mpc \<Rightarrow> nat option" where
  "fdOf (Opened l) = realFile l"
| "fdOf (Inside l) = realFile l"
| "fdOf (Unflocked l) = realFile l"
| "fdOf _ = None"

text \<open>
  What holds between the calls: every process has an open file of its own; who is inside owns
  the lock of the inode; and before the first removal all of them have opened the same inode.
\<close>

definition mutexInv :: "string \<Rightarrow> lsys \<Rightarrow> bool" where
  "mutexInv fn s \<longleftrightarrow>
     (\<forall>p l. procs s p \<in> {Opened l, Inside l, Unflocked l} \<longrightarrow> realFile l \<noteq> None \<and> Filename l = fn)
   \<and> (\<forall>p fd. fdOf (procs s p) = Some fd \<longrightarrow> lkFiles (kern s) fd \<noteq> None \<and> fd < lkNext (kern s))
   \<and> (\<forall>p q fd. fdOf (procs s p) = Some fd \<longrightarrow> fdOf (procs s q) = Some fd \<longrightarrow> p = q)
   \<and> (\<forall>p l fd i. procs s p = Inside l \<longrightarrow> realFile l = Some fd \<longrightarrow> lkFiles (kern s) fd = Some i \<longrightarrow> lkOwner (kern s) i = Some fd)
   \<and> (\<forall>p nm. procs s p = Removing nm \<longrightarrow> nm = fn)
   \<and> (lkRemoved (kern s) = 0 \<longrightarrow> (\<forall>p fd. fdOf (procs s p) = Some fd \<longrightarrow> lkFiles (kern s) fd = lkNames (kern s) fn))"

lemma mutexInvD:
  assumes "mutexInv fn s"
  shows "procs s p = Opened l \<or> procs s p = Inside l \<or> procs s p = Unflocked l \<Longrightarrow> Filename l = fn \<and> (\<exists>fd. realFile l = Some fd)"
    and "fdOf (procs s p) = Some fd \<Longrightarrow> (\<exists>i. lkFiles (kern s) fd = Some i) \<and> fd < lkNext (kern s)"
    and "fdOf (procs s p) = Some fd \<Longrightarrow> fdOf (procs s q) = Some fd \<Longrightarrow> p = q"
    and "procs s p = Inside l \<Longrightarrow> realFile l = Some fd \<Longrightarrow> lkFiles (kern s) fd = Some i \<Longrightarrow> lkOwner (kern s) i = Some fd"
    and "procs s p = Removing nm \<Longrightarrow> nm = fn"
    and "lkRemoved (kern s) = 0 \<Longrightarrow> fdOf (procs s p) = Some fd \<Longrightarrow> lkFiles (kern s) fd = lkNames (kern s) fn"
  using assms unfolding mutexInv_def by (blast, blast, blast, blast, blast, blast)

text \<open>A process that gives up its open file, and a change of the kernel that others do not notice.\<close>

lemma mutexInv_change:
  assumes inv: "mutexInv fn s" and "\<forall>q fd. fdOf (((procs s)(p := c)) q) = Some fd \<longrightarrow> lkFiles k fd = lkFiles (kern s) fd"
    and "lkNext k = lkNext (kern s)" and "lkRemoved k = 0 \<longrightarrow> lkNames k fn = lkNames (kern s) fn"
    and "lkRemoved k = 0 \<longrightarrow> lkRemoved (kern s) = 0"
    and "fdOf c = None \<or> fdOf c = fdOf (procs s p)" and "\<forall>nm. c = Removing nm \<longrightarrow> nm = fn"
    and "\<forall>l. c \<in> {Opened l, Inside l, Unflocked l} \<longrightarrow> realFile l \<noteq> None \<and> Filename l = fn"
    and "\<forall>q l fd i. q \<noteq> p \<longrightarrow> procs s q = Inside l \<longrightarrow> realFile l = Some fd \<longrightarrow> lkFiles k fd = Some i \<longrightarrow> lkOwner k i = Some fd"
    and "\<forall>l fd i. c = Inside l \<longrightarrow> realFile l = Some fd \<longrightarrow> lkFiles k fd = Some i \<longrightarrow> lkOwner k i = Some fd"
  shows "mutexInv fn \<lparr>kern = k, procs = (procs s)(p := c)\<rparr>"
proof -
  have c: "fdOf (((procs s)(p := c)) q) = Some fd \<Longrightarrow> fdOf (procs s q) = Some fd" for q fd
    using assms(6) by (auto split: if_splits)
  show ?thesis unfolding mutexInv_def
  proof (intro conjI allI impI, goal_cases)
    case (1 q l)
    then show ?case using mutexInvD(1) [OF inv, of q l] assms(8) by (cases "q = p") auto
  next
    case (2 q l)
    then show ?case using mutexInvD(1) [OF inv, of q l] assms(8) by (cases "q = p") auto
  next
    case (3 q fd)
    then show ?case using mutexInvD(2) [OF inv, of q fd] c [of q fd] assms(2) by auto
  next
    case (4 q fd)
    then show ?case using mutexInvD(2) [OF inv, of q fd] c [of q fd] assms(3) by auto
  next
    case (5 q r fd)
    then show ?case using mutexInvD(3) [OF inv, of q fd r] c by auto
  next
    case (6 q l fd i)
    then show ?case using assms(9,10) by (cases "q = p") (auto simp: fun_upd_apply split: if_splits)
  next
    case (7 q nm)
    then show ?case using mutexInvD(5) [OF inv, of q nm] assms(7) by (cases "q = p") auto
  next
    case (8 q fd)
    then show ?case using mutexInvD(6) [OF inv, of q fd] c [of q fd] assms(2,4,5) by auto
  qed
qed

lemma mutexInv_open:
  assumes inv: "mutexInv fn s" and "procs s p = Outside" and "openCall False (NewFileLock fn) (kern s) = (None, l, k)"
  shows "mutexInv fn \<lparr>kern = k, procs = (procs s)(p := Opened l)\<rparr>"
proof -
  let ?fd = "Suc (lkNext (kern s))"
  obtain i where k: "l = \<lparr>Filename = fn, realFile = Some ?fd\<rparr>" "lkFiles k = (lkFiles (kern s))(?fd \<mapsto> i)" "lkNames k = (lkNames (kern s))(fn \<mapsto> i)"
      "lkOwner k = lkOwner (kern s)" "lkNext k = Suc ?fd" "lkRemoved k = lkRemoved (kern s)"
      "lkNames (kern s) fn = None \<or> lkNames (kern s) fn = Some i"
    using assms(3) by (cases "lkNames (kern s) fn") (auto simp: openCall_def NewFileLock_def sysOpen_def Let_def)
  have old: "fdOf (procs s q) = Some fd \<Longrightarrow> fd < ?fd" for q fd using mutexInvD(2) [OF inv, of q fd] by auto
  have others: "fdOf (((procs s)(p := Opened l)) q) = Some fd \<Longrightarrow> q = p \<and> fd = ?fd \<or> q \<noteq> p \<and> fdOf (procs s q) = Some fd \<and> fd \<noteq> ?fd" for q fd
    using old [of q fd] k(1) by (auto split: if_splits)
  show ?thesis unfolding mutexInv_def
  proof (intro conjI allI impI, goal_cases)
    case (1 q l')
    then show ?case using mutexInvD(1) [OF inv, of q l'] k(1) by (cases "q = p") auto
  next
    case (2 q l')
    then show ?case using mutexInvD(1) [OF inv, of q l'] k(1) by (cases "q = p") auto
  next
    case (3 q fd)
    then show ?case using mutexInvD(2) [OF inv, of q fd] others [of q fd] k(2) by auto
  next
    case (4 q fd)
    then show ?case using mutexInvD(2) [OF inv, of q fd] others [of q fd] k(5) by auto
  next
    case (5 q r fd)
    then show ?case using mutexInvD(3) [OF inv, of q fd r] others [of q fd] others [of r fd] by auto
  next
    case (6 q l' fd j)
    then have "q \<noteq> p" "procs s q = Inside l'" by (auto split: if_splits)
    then show ?case using 6 mutexInvD(4) [OF inv, of q l' fd j] old [of q fd] k(2,4) by auto
  next
    case (7 q nm)
    then show ?case using mutexInvD(5) [OF inv, of q nm] by (auto split: if_splits)
  next
    case (8 q fd)
    have "lkFiles (kern s) fd = Some i" if "q \<noteq> p" "fdOf (procs s q) = Some fd"
      using that mutexInvD(2) [OF inv, of q fd] mutexInvD(6) [OF inv, of q fd] 8(1) k(6,7) by auto
    then show ?case using others [of q fd] 8(2) k(2,3) by auto
  qed
qed

lemma mutexInv_step:
  assumes inv: "mutexInv fn s" and "mstep fn s t"
  shows "mutexInv fn t"
  using assms(2)
proof cases
  case (mopen p l k)
  then show ?thesis using mutexInv_open [OF inv] by simp
next
  case (menter p l k)
  obtain fd i where l: "realFile l = Some fd" "lkFiles (kern s) fd = Some i" "Filename l = fn"
    using mutexInvD(1) [OF inv, of p l] mutexInvD(2) [OF inv, of p] menter(2) by fastforce
  have k: "lkOwner (kern s) i = None \<and> k = (kern s)\<lparr>lkOwner := (lkOwner (kern s))(i \<mapsto> fd)\<rparr> \<or> lkOwner (kern s) i = Some fd \<and> k = kern s"
    using menter(3) l by (auto simp: flockCall_def flockEx_def split: option.splits if_splits flockResult.splits)
  then have "\<forall>q l fd i. procs s q = Inside l \<longrightarrow> realFile l = Some fd \<longrightarrow> lkFiles k fd = Some i \<longrightarrow> lkOwner k i = Some fd"
    using mutexInvD(4) [OF inv] by fastforce
  then show ?thesis unfolding menter(1) using k l menter(2) by (intro mutexInv_change [OF inv]) auto
next
  case (mbusy p l e k)
  then have "k = kern s" by (auto simp: flockCall_def split: option.splits if_splits flockResult.splits)
  then show ?thesis unfolding mbusy(1) using mutexInvD(4) [OF inv] by (intro mutexInv_change [OF inv]) auto
next
  case (mleave p l k)
  obtain fd i where l: "realFile l = Some fd" "lkFiles (kern s) fd = Some i" "Filename l = fn"
    using mutexInvD(1) [OF inv, of p l] mutexInvD(2) [OF inv, of p] mleave(2) by fastforce
  then have k: "k = release fd i (kern s)" using mleave(3) by (auto simp: unflockCall_def flockUn_def)
  have "lkOwner k j = Some fd'" if "q \<noteq> p" "procs s q = Inside l'" "realFile l' = Some fd'" "lkFiles (kern s) fd' = Some j" for q l' fd' j
    using mutexInvD(4) [OF inv that(2-4)] mutexInvD(3) [OF inv, of q fd' p] that l mleave(2) k by (auto simp: release_def)
  moreover have "lkFiles k = lkFiles (kern s)" "lkNext k = lkNext (kern s)" "lkNames k = lkNames (kern s)" "lkRemoved k = lkRemoved (kern s)"
    using k by (simp_all add: release_def)
  ultimately show ?thesis unfolding mleave(1) using l mleave(2) by (intro mutexInv_change [OF inv]) auto
next
  case (mclose p l l' nm k)
  obtain fd i where l: "realFile l = Some fd" "lkFiles (kern s) fd = Some i" "Filename l = fn"
    using mutexInvD(1) [OF inv, of p l] mutexInvD(2) [OF inv, of p] mclose(2) by fastforce
  then have k: "k = (release fd i (kern s))\<lparr>lkFiles := (lkFiles (kern s))(fd := None)\<rparr>" "nm = fn"
    using mclose(3) by (auto simp: closeCall_def sysClose_def)
  have other: "fd' \<noteq> fd" if "q \<noteq> p" "fdOf (procs s q) = Some fd'" for q fd'
    using mutexInvD(3) [OF inv, of q fd' p] that l mclose(2) by auto
  have "lkOwner k j = Some fd'" if "q \<noteq> p" "procs s q = Inside l'" "realFile l' = Some fd'" "lkFiles k fd' = Some j" for q l' fd' j
  proof -
    have "fd' \<noteq> fd" using other [of q fd'] that by simp
    then have "lkFiles (kern s) fd' = Some j" using that(4) k by simp
    then show ?thesis using mutexInvD(4) [OF inv that(2,3)] \<open>fd' \<noteq> fd\<close> k by (auto simp: release_def)
  qed
  then show ?thesis unfolding mclose(1) using k other
    by (intro mutexInv_change [OF inv]) (auto simp: release_def split: if_splits)
next
  case (mremove p nm r k)
  then have "nm = fn" "k = kern s \<or> k = (kern s)\<lparr>lkNames := (lkNames (kern s))(fn := None), lkRemoved := Suc (lkRemoved (kern s))\<rparr>"
    using mutexInvD(5) [OF inv, of p nm] by (auto simp: removeCall_def sysUnlink_def split: option.splits)
  then show ?thesis unfolding mremove(1) using mutexInvD(4) [OF inv] by (intro mutexInv_change [OF inv]) auto
qed

lemma mutexInv_reach: "mreach fn s \<Longrightarrow> mutexInv fn s"
proof (induction rule: mreach.induct)
  case minit
  then show ?case by (simp add: mutexInv_def freshKernel_def)
qed (rule mutexInv_step)

definition inodeOf :: "lsys \<Rightarrow> nat \<Rightarrow> nat option" where
  "inodeOf s p = Option.bind (fdOf (procs s p)) (lkFiles (kern s))"

text \<open>
  C16. What the lock gives, however the calls of any number of processes interleave: two
  processes inside at the same time have locked different files, and this can only be
  once a lock file was removed. Until then at most one process is inside.
\<close>

theorem mutex_excludes:
  assumes "mreach fn s" and "inside s p" and "inside s q" and "p \<noteq> q"
  shows "inodeOf s p \<noteq> inodeOf s q \<and> 0 < lkRemoved (kern s)"
proof -
  have inv: "mutexInv fn s" using mutexInv_reach [OF assms(1)] .
  obtain l m where lm: "procs s p = Inside l" "procs s q = Inside m"
    using assms(2,3) by (auto simp: inside_def split: mpc.splits)
  obtain fd fd' where fd: "realFile l = Some fd" "realFile m = Some fd'"
    using mutexInvD(1) [OF inv] lm by metis
  obtain i j where ij: "lkFiles (kern s) fd = Some i" "lkFiles (kern s) fd' = Some j"
    using mutexInvD(2) [OF inv, of p fd] mutexInvD(2) [OF inv, of q fd'] lm fd by auto
  have "i \<noteq> j"
  proof
    assume "i = j"
    then have "fd = fd'" using mutexInvD(4) [OF inv lm(1) fd(1) ij(1)] mutexInvD(4) [OF inv lm(2) fd(2) ij(2)] by simp
    then show False using mutexInvD(3) [OF inv, of p fd q] lm fd assms(4) by simp
  qed
  moreover have "i = j" if "lkRemoved (kern s) = 0"
    using mutexInvD(6) [OF inv that, of p fd] mutexInvD(6) [OF inv that, of q fd'] lm fd ij by (metis fdOf.simps(2) option.inject)
  ultimately show ?thesis using lm fd ij by (auto simp: inodeOf_def)
qed

subsection \<open>A schedule\<close>

text \<open>The next call of a process, for running a schedule.\<close>

definition mexec :: "string \<Rightarrow> nat \<Rightarrow> lsys \<Rightarrow> lsys" where
  "mexec fn p s =
     (case procs s p of
        Outside \<Rightarrow> (case openCall False (NewFileLock fn) (kern s) of (_, l, k) \<Rightarrow> \<lparr>kern = k, procs = (procs s)(p := Opened l)\<rparr>)
      | Opened l \<Rightarrow>
          (case flockCall False l (kern s) of
             None \<Rightarrow> s
           | Some (None, k) \<Rightarrow> \<lparr>kern = k, procs = (procs s)(p := Inside l)\<rparr>
           | Some (Some e, k) \<Rightarrow> \<lparr>kern = k, procs = (procs s)(p := Outside)\<rparr>)
      | Inside l \<Rightarrow>
          (case unflockCall l (kern s) of (None, k) \<Rightarrow> \<lparr>kern = k, procs = (procs s)(p := Unflocked l)\<rparr> | _ \<Rightarrow> s)
      | Unflocked l \<Rightarrow>
          (case closeCall l (kern s) of (None, _, nm, k) \<Rightarrow> \<lparr>kern = k, procs = (procs s)(p := Removing nm)\<rparr> | _ \<Rightarrow> s)
      | Removing nm \<Rightarrow> (case removeCall nm (kern s) of (_, k) \<Rightarrow> \<lparr>kern = k, procs = (procs s)(p := Outside)\<rparr>))"

lemma mexec_step: "mexec fn p s = s \<or> mstep fn s (mexec fn p s)"
proof (cases "procs s p")
  case Outside
  then show ?thesis using mopen [OF Outside, of fn] by (simp add: mexec_def openCall_def split: prod.splits)
next
  case (Opened l)
  then show ?thesis using menter [OF Opened, of _ fn] mbusy [OF Opened, of _ _ fn] by (auto simp: mexec_def split: option.splits)
next
  case (Inside l)
  then show ?thesis using mleave [OF Inside, of _ fn] by (auto simp: mexec_def split: option.splits prod.splits)
next
  case (Unflocked l)
  then show ?thesis using mclose [OF Unflocked, of _ _ _ fn] by (auto simp: mexec_def split: option.splits prod.splits)
next
  case (Removing nm)
  then show ?thesis using mremove [OF Removing, of _ _ fn] by (auto simp: mexec_def split: prod.splits)
qed

lemma mexec_reach: "mreach fn s \<Longrightarrow> mreach fn (fold (mexec fn) ps s)"
proof (induction ps arbitrary: s)
  case (Cons p ps)
  then show ?case using mexec_step [of fn p s] by (metis fold_simps(2) mnext)
qed simp

definition raceRun :: "nat list \<Rightarrow> lsys" where
  "raceRun ps = fold (mexec ''/run/snappy.lock'') ps \<lparr>kern = freshKernel, procs = \<lambda>_. Outside\<rparr>"


theorem mutex_excludes_witness:
  "inodeOf (raceRun [0, 0, 1, 0, 1, 0, 0, 0, 0]) 0 \<noteq> inodeOf (raceRun [0, 0, 1, 0, 1, 0, 0, 0, 0]) 1"
proof -
  have "mreach ''/run/snappy.lock'' (raceRun [0, 0, 1, 0, 1, 0, 0, 0, 0])"
    unfolding raceRun_def by (intro mexec_reach minit)
  moreover have "inside (raceRun [0, 0, 1, 0, 1, 0, 0, 0, 0]) 0" "inside (raceRun [0, 0, 1, 0, 1, 0, 0, 0, 0]) 1" by code_simp+
  ultimately show ?thesis using mutex_excludes by simp
qed

end
