(* ===== verification/Login.thy ===== *)
theory Login
  imports Os Helpers
begin

text \<open>
  Logging in to the store, \<^verbatim>\<open>snappy/auth.go\<close>, and signing requests, \<^verbatim>\<open>oauth/oauth.go\<close>. The single
  sign-on server and the json codecs are the fields of \<open>ssoenv\<close>.
\<close>

record Token =
  TokenKey :: string
  TokenSecret :: string
  ConsumerSecret :: string
  ConsumerKey :: string

record StoreToken = Token +
  OpenID :: string
  TokenName :: string
  DateUpdated :: string
  DateCreated :: string
  Href :: string

record ssoMsg =
  msgCode :: string
  msgMessage :: string

section \<open>Signatures\<close>

definition needsEscape :: "char \<Rightarrow> bool" where
  "needsEscape c =
     (\<not> (65 \<le> byte c \<and> byte c \<le> 90 \<or> 97 \<le> byte c \<and> byte c \<le> 122 \<or> 48 \<le> byte c \<and> byte c \<le> 57
        \<or> c = CHR ''-'' \<or> c = CHR ''.'' \<or> c = CHR ''_'' \<or> c = CHR ''~''))"

text \<open>\<^verbatim>\<open>%02X\<close> of a byte.\<close>

definition upperHex :: "nat \<Rightarrow> char" where
  "upperHex n = (if n < 10 then char_of (48 + n) else char_of (55 + n))"

definition quoteByte :: "char \<Rightarrow> string" where
  "quoteByte c =
     (if needsEscape c then [CHR ''%'', upperHex (of_char c div 16), upperHex (of_char c mod 16)] else [c])"

definition oauthQuote :: "string \<Rightarrow> string" where
  "oauthQuote s = concat (map quoteByte s)"

definition MakePlaintextSignature :: "string \<Rightarrow> int \<Rightarrow> 't Token_scheme \<Rightarrow> string" where
  "MakePlaintextSignature nonce timestamp token =
     ''OAuth oauth_nonce=\"'' @ nonce @ ''\", oauth_timestamp=\"'' @ itoa timestamp
     @ ''\", oauth_version=\"1.0\", oauth_signature_method=\"PLAINTEXT\", oauth_consumer_key=\"'' @ oauthQuote (ConsumerKey token)
     @ ''\", oauth_token=\"'' @ oauthQuote (TokenKey token) @ ''\", oauth_signature=\"'' @ oauthQuote (ConsumerSecret token)
     @ ''&'' @ oauthQuote (TokenSecret token) @ ''\"''"

section \<open>Tokens\<close>

record ssoenv =
  ssoEnc :: "(string \<times> string) list \<Rightarrow> string"
  ssoPost :: "string \<Rightarrow> string \<Rightarrow> (string, int \<times> string) res"
  msgDec :: "string \<Rightarrow> (string, ssoMsg) res"
  tokenDec :: "string \<Rightarrow> (string, StoreToken) res"
  tokenEnc :: "StoreToken \<Rightarrow> string option"
  homeDir :: string

definition ubuntuoneOauthAPI :: string where
  "ubuntuoneOauthAPI = ''https://login.ubuntu.com/api/v2'' @ ''/tokens/oauth''"

definition httpStatusCodeSuccess :: "int \<Rightarrow> bool" where
  "httpStatusCodeSuccess code \<longleftrightarrow> code div 100 = 2"

definition httpStatusCodeClientError :: "int \<Rightarrow> bool" where
  "httpStatusCodeClientError code \<longleftrightarrow> code div 100 = 4"

definition RequestStoreToken :: "ssoenv \<Rightarrow> string \<Rightarrow> string \<Rightarrow> string \<Rightarrow> string \<Rightarrow> (serr, StoreToken) res" where
  "RequestStoreToken S username password tokenName otp =
     (let data = [(''email'', username), (''password'', password), (''token_name'', tokenName)]
                 @ (if otp \<noteq> '''' then [(''otp'', otp)] else [])
      in case ssoPost S ubuntuoneOauthAPI (ssoEnc S data) of
           Inl e \<Rightarrow> Inl (Errorf e)
         | Inr (code, body) \<Rightarrow>
             (if httpStatusCodeClientError code then
                (case msgDec S body of
                   Inl e \<Rightarrow> Inl (Errorf e)
                 | Inr msg \<Rightarrow>
                     if msgCode msg = ''TWOFACTOR_REQUIRED'' then Inl (SErr ErrAuthenticationNeeds2fa)
                     else Inl (SErr ErrInvalidCredentials))
              else if \<not> httpStatusCodeSuccess code then Inl (Errorf (''failed to get store token: '' @ itoa code))
              else case tokenDec S body of Inl e \<Rightarrow> Inl (Errorf e) | Inr token \<Rightarrow> Inr token))"

definition storeTokenFilename :: "ssoenv \<Rightarrow> string" where
  "storeTokenFilename S = pathJoin [homeDir S, ''apps'', ''snappy'', ''auth'', ''sso.json'']"

text \<open>A token that cannot be encoded is dropped without an error.\<close>

definition WriteStoreToken :: "ssoenv \<Rightarrow> StoreToken \<Rightarrow> ('m world_scheme, serr, unit) io" where
  "WriteStoreToken S token =
     (let targetFile = storeTokenFilename S
      in andThen (ioMkdirAll (pathDir targetFile))
           (case tokenEnc S token of None \<Rightarrow> ret () | Some outStr \<Rightarrow> ioAtomicWrite targetFile outStr))"

definition ReadStoreToken :: "ssoenv \<Rightarrow> ('m world_scheme, serr, StoreToken) io" where
  "ReadStoreToken S =
     bind (ioReadFile (storeTokenFilename S)) (\<lambda>content.
       case tokenDec S content of Inl e \<Rightarrow> throw (Errorf e) | Inr t \<Rightarrow> ret t)"

section \<open>Facts\<close>

text \<open>Reading percent escapes, as a server does.\<close>

definition hexVal :: "char \<Rightarrow> nat option" where
  "hexVal c =
     (let n = of_char c :: nat
      in if 48 \<le> n \<and> n \<le> 57 then Some (n - 48) else if 65 \<le> n \<and> n \<le> 70 then Some (n - 55) else None)"

fun unquote :: "string \<Rightarrow> string option" where
  "unquote [] = Some []"
| "unquote (c # cs) =
     (if c \<noteq> CHR ''%'' then map_option ((#) c) (unquote cs)
      else case cs of
        a # b # ds \<Rightarrow>
          (case (hexVal a, hexVal b) of
             (Some x, Some y) \<Rightarrow> map_option ((#) (char_of (16 * x + y))) (unquote ds)
           | _ \<Rightarrow> None)
      | _ \<Rightarrow> None)"

lemma upperHex_range: "n < 16 \<Longrightarrow> hexVal (upperHex n) = Some n \<and> \<not> needsEscape (upperHex n)"
proof -
  assume "n < 16"
  then have "n \<in> {0,1,2,3,4,5,6,7,8,9,10,11,12,13,14,15}" by (auto simp: numeral_eq_Suc less_Suc_eq)
  then show ?thesis by (elim insertE emptyE; simp only:) code_simp+
qed

lemma hex_digits: "(of_char c :: nat) div 16 < 16" "(of_char c :: nat) mod 16 < 16"
  using less_mult_imp_div_less [of "of_char c" 16 16] by simp_all

lemma unquote_quoteByte: "unquote (quoteByte c @ cs) = map_option ((#) c) (unquote cs)"
proof (cases "needsEscape c")
  case True
  have "16 * ((of_char c :: nat) div 16) + of_char c mod 16 = of_char c" by simp
  then show ?thesis using True by (simp add: quoteByte_def upperHex_range hex_digits)
next
  case False
  then have "c \<noteq> CHR ''%''" by (auto simp: needsEscape_def)
  then show ?thesis using False by (simp add: quoteByte_def)
qed


end
