(* ===== verification/Commands.thy ===== *)
theory Commands
  imports Manage Services Build FirstBoot GrubMigrate Priv Login
begin

text \<open>
  The commands of the command line, \<^verbatim>\<open>cmd/snappy\<close>, from parsed options on. The world has, beyond that of
  the packages, the lines written to the terminal, newest first, the ids of the process and
  the lock files, which other processes change between our calls. Tables are recorded line by
  line as they are given to \<^verbatim>\<open>text/tabwriter\<close>, which pads their cells; texts are not translated.
\<close>

record cliworld = bworld +
  printed :: "string list"
  isRoot :: bool
  ruid :: int
  rgid :: int
  rgroups :: "int list"
  locks :: lkernel
  others :: "event list \<Rightarrow> lkernel \<Rightarrow> lkernel"

text \<open>
  What the commands are given: the environments of the packages, the sort, whether licenses
  are agreed to, the dates and sizes of parts, standard input, the height of the terminal, and whether the review tool is installed.
\<close>

record clienv =
  cliE :: genv
  cliR :: runenv
  cliN :: netenv
  cliB :: bldtools
  cliBoot :: bootenv
  cliHW :: hwcodec
  cliSort :: sorter
  cliAgree :: bool
  cliDate :: "Part \<Rightarrow> int \<times> int \<times> int"
  cliDateText :: "Part \<Rightarrow> string"
  cliSize :: "Part \<Rightarrow> int"
  cliStdin :: "(serr, string) res"
  cliRows :: int
  cliReview :: bool
  cliSso :: ssoenv
  cliPassword :: "(serr, string) res"
  cliCode :: "(serr, string) res"

definition say :: "string \<Rightarrow> ('m cliworld_scheme, serr, unit) io" where
  "say line = modifies (\<lambda>w. w\<lparr>printed := line # printed w\<rparr>)"

definition tabbed :: "string list \<Rightarrow> string" where
  "tabbed cells = concat (map (\<lambda>c. c @ [CHR 0x09]) cells)"

definition single :: string where "single = [CHR 0x27]"

section \<open>The lock\<close>

definition snappyLockFile :: string where "snappyLockFile = ''/run/snappy.lock''"

definition lockErr :: "lerr \<Rightarrow> serr" where
  "lockErr e =
     (case e of
        PrivNeedRoot \<Rightarrow> Errorf ''administrator privileges required''
      | ErrAlreadyLocked \<Rightarrow> Errorf ''another snappy is running, try again later''
      | ErrNotLocked \<Rightarrow> Errorf ''not locked''
      | LockOs s \<Rightarrow> OsErr KIO (ECall s))"

text \<open>\<^verbatim>\<open>priv.WithMutex\<close> on this lock file. The others have acted since our last call.\<close>

definition lockedBody :: "('m cliworld_scheme, serr, unit) io \<Rightarrow> lkernel \<times> 'm cliworld_scheme
     \<Rightarrow> serr option \<times> lkernel \<times> 'm cliworld_scheme" where
  "lockedBody f s =
     (case f ((snd s)\<lparr>locks := fst s\<rparr>) of
        (r, w) \<Rightarrow> (case r of Inl e \<Rightarrow> Some e | Inr _ \<Rightarrow> None, locks w, w))"

definition withMutex :: "('m cliworld_scheme, serr, unit) io \<Rightarrow> ('m cliworld_scheme, serr, unit) io" where
  "withMutex f = (\<lambda>w.
     case WithMutex (isRoot w) (faults w (hist w) (ECall ''open /run/snappy.lock'')) snappyLockFile (lockedBody f)
            (others w (hist w) (locks w), w) of
       (Inl e, k, v) \<Rightarrow> (Inl (lockErr e), v\<lparr>locks := k\<rparr>)
     | (Inr None, k, v) \<Rightarrow> (Inr (), v\<lparr>locks := k\<rparr>)
     | (Inr (Some e), k, v) \<Rightarrow> (Inl e, v\<lparr>locks := k\<rparr>))"

definition runCmd :: "string list \<Rightarrow> ('m sworld_scheme, serr, string) io" where
  "runCmd args = mapErr (\<lambda>_. OsErr KIO (ECmd args)) (execCmd args)"

definition isAutoPilotRunning :: "('m sworld_scheme, serr, bool) io" where
  "isAutoPilotRunning =
     bind (attempt (runCmd [''systemctl'', ''show'', ''--property=SubState'', ''snappy-autopilot''])) (\<lambda>r.
       ret (case r of Inl _ \<Rightarrow> False | Inr bs \<Rightarrow> TrimSpace bs = ''SubState=running''))"

text \<open>Telling the user and waiting five seconds.\<close>

definition waitForLock :: "('m cliworld_scheme, serr, unit) io" where
  "waitForLock =
     bind isAutoPilotRunning (\<lambda>auto.
     andThen
       (if auto then
          andThen (say ''The snappy autopilot is updating your system in the background. This may'')
         (andThen (say ''take some minutes. Will try again in 5 seconds...'') (say ''Press ctrl-c to cancel.''))
        else andThen (say ''Another snappy is running, will try again in 5 seconds...'') (say ''Press ctrl-c to cancel.''))
       (sleep (5 * second)))"

partial_function (option) withMutexAndRetry ::
    "('m cliworld_scheme, serr, unit) io \<Rightarrow> 'm cliworld_scheme \<Rightarrow> ((serr + unit) \<times> 'm cliworld_scheme) option" where
  "withMutexAndRetry f w =
     (case withMutex f w of (r, w') \<Rightarrow>
        if r = Inl (lockErr ErrAlreadyLocked) then withMutexAndRetry f (snd (waitForLock w'))
        else Some (r, w'))"

section \<open>Lists of packages\<close>

definition pad2 :: "int \<Rightarrow> string" where
  "pad2 n = (let s = itoa n in if length s < 2 then CHR ''0'' # s else s)"

definition formatDate :: "int \<times> int \<times> int \<Rightarrow> string" where
  "formatDate d = (case d of (y, m, t) \<Rightarrow> itoa y @ ''-'' @ pad2 m @ ''-'' @ pad2 t)"

record rebootInfo =
  otherVersion :: string
  currentVersion :: string
  otherName :: string
  rebootNeeded :: bool

fun rebootScan :: "genv \<Rightarrow> Part list \<Rightarrow> rebootInfo \<Rightarrow> ('m world_scheme, serr, rebootInfo) io" where
  "rebootScan E [] i = ret i"
| "rebootScan E (part # parts) i =
     (if Type part \<noteq> TypeCore then rebootScan E parts i
      else bind (NeedsReboot E part) (\<lambda>needs.
        let i = (if needs then i\<lparr>rebootNeeded := True\<rparr> else i)
        in rebootScan E parts
             (if IsActive part then i\<lparr>currentVersion := PartVersion part\<rparr>
              else i\<lparr>otherVersion := PartVersion part, otherName := PartName part\<rparr>)))"

definition noReboot :: rebootInfo where
  "noReboot = \<lparr>otherVersion = ''0'', currentVersion = ''0'', otherName = '''', rebootNeeded = False\<rparr>"

definition rebootMessage :: "rebootInfo \<Rightarrow> string option" where
  "rebootMessage i =
     (if \<not> rebootNeeded i then None
      else if VersionCompare (otherVersion i) (currentVersion i) > 0
      then Some (''Reboot to use the new '' @ otherName i @ ''.'')
      else Some (''Reboot to use '' @ otherName i @ '' version '' @ otherVersion i @ ''.''))"

definition showRebootMessage :: "genv \<Rightarrow> Part list \<Rightarrow> ('m cliworld_scheme, serr, unit) io" where
  "showRebootMessage E installed =
     bind (rebootScan E installed noReboot) (\<lambda>i.
       case rebootMessage i of None \<Rightarrow> ret () | Some m \<Rightarrow> say m)"

definition showInstalledList :: "clienv \<Rightarrow> Part list \<Rightarrow> ('m cliworld_scheme, serr, unit) io" where
  "showInstalledList C installed =
     andThen (say (tabbed [''Name'', ''Date'', ''Version'', ''Developer'']))
    (andThen
       (forEach installed (\<lambda>part. whenIO (IsActive part)
          (say (tabbed [PartName part, formatDate (cliDate C part), PartVersion part, Origin part]))))
       (showRebootMessage (cliE C) installed))"

text \<open>The exclamation mark replaces the star, and both are put behind the developer.\<close>

definition verboseLine :: "clienv \<Rightarrow> Part \<Rightarrow> bool \<Rightarrow> string" where
  "verboseLine C part needs =
     (let active = (if needs then ''!'' else if IsActive part then ''*'' else '''')
      in tabbed [PartName part, formatDate (cliDate C part), PartVersion part, Origin part @ active])"

definition showVerboseList :: "clienv \<Rightarrow> Part list \<Rightarrow> ('m cliworld_scheme, serr, unit) io" where
  "showVerboseList C installed =
     andThen (say (tabbed [''Name'', ''Date'', ''Version'', ''Developer'']))
    (andThen
       (forEach installed (\<lambda>part. bind (NeedsReboot (cliE C) part) (\<lambda>needs. say (verboseLine C part needs))))
       (showRebootMessage (cliE C) installed))"

definition updateLine :: "clienv \<Rightarrow> Part list \<Rightarrow> Part \<Rightarrow> string" where
  "updateLine C updates part =
     (case FindSnapsByName (PartName part) updates of
        [u] \<Rightarrow> tabbed [PartName part @ ''*'', formatDate (cliDate C u), PartVersion u]
      | _ \<Rightarrow> tabbed [PartName part, formatDate (cliDate C part), PartVersion part])"

definition showUpdatesList :: "clienv \<Rightarrow> Part list \<Rightarrow> Part list \<Rightarrow> ('m cliworld_scheme, serr, unit) io" where
  "showUpdatesList C installed updates =
     andThen (say (tabbed [''Name'', ''Date'', ''Version'']))
       (forEach installed (\<lambda>part. whenIO (IsActive part) (say (updateLine C updates part))))"

definition cmdList :: "clienv \<Rightarrow> bool \<Rightarrow> bool \<Rightarrow> ('m cliworld_scheme, serr, unit) io" where
  "cmdList C withUpdates verbose =
     bind (ListInstalled (cliE C)) (\<lambda>installed.
       if withUpdates then bind (ListUpdates (cliE C) (cliN C)) (showUpdatesList C installed)
       else if verbose then showVerboseList C installed
       else showInstalledList C installed)"

section \<open>Packages\<close>

definition doActivate :: "clienv \<Rightarrow> string \<Rightarrow> bool \<Rightarrow> ('m cliworld_scheme, serr, unit) io" where
  "doActivate C snap active = SetActive (cliSort C) (cliE C) snap active"

definition doBooted :: "clienv \<Rightarrow> ('m cliworld_scheme, serr, unit) io" where
  "doBooted C =
     bind (ActiveSnapsByType (cliE C) [TypeCore]) (\<lambda>parts.
       case parts of
         SysP s # _ \<Rightarrow> siMarkBootSuccessful (cliE C) s
       | [] \<Rightarrow> throw (GoPanic ''index out of range'')
       | _ \<Rightarrow> throw (GoPanic ''interface conversion''))"

definition cmdBuild :: "clienv \<Rightarrow> string list \<Rightarrow> string \<Rightarrow> bool \<Rightarrow> ('m cliworld_scheme, serr, unit) io" where
  "cmdBuild C args output snapfs =
     (let dir = (case args of [] \<Rightarrow> ''.'' | a # _ \<Rightarrow> a)
      in bind (if snapfs then BuildSnapfsSnap (cliB C) newKeep dir output else BuildLegacySnap (cliB C) newKeep dir output) (\<lambda>snapPackage.
           andThen (if cliReview C then ignoring (runCmd [''click-review'', snapPackage])
                    else say ''Warning: could not review package (click-review not available)'')
             (say (''Generated '' @ single @ snapPackage @ single @ '' snap''))))"

definition readConfiguration :: "clienv \<Rightarrow> string \<Rightarrow> ('m cliworld_scheme, serr, string) io" where
  "readConfiguration C configInput =
     (if configInput = ''-'' then fromRes (cliStdin C)
      else if configInput = '''' then ret '''' else ioReadFile configInput)"

definition configurePackage :: "clienv \<Rightarrow> string \<Rightarrow> string \<Rightarrow> ('m cliworld_scheme, serr, string) io" where
  "configurePackage C pkgName configFile =
     bind (readConfiguration C configFile) (\<lambda>config.
     bind (ActiveSnapByName (cliE C) pkgName) (\<lambda>snap.
       case snap of
         None \<Rightarrow> throw (SErr ErrPackageNotFound)
       | Some p \<Rightarrow> configOf (cliBoot C) p config))"

definition cmdConfig :: "clienv \<Rightarrow> string \<Rightarrow> string \<Rightarrow> ('m cliworld_scheme, serr, unit) io" where
  "cmdConfig C pkgName configFile =
     (if pkgName = '''' then throw (Errorf ''package name is required'')
      else bind (attempt (configurePackage C pkgName configFile)) (\<lambda>r.
        case r of
          Inl e \<Rightarrow> throw (if e = SErr ErrPackageNotFound then Errorf (''No snap: '' @ single @ pkgName @ single @ '' found'') else e)
        | Inr newConfig \<Rightarrow> say newConfig))"

definition cmdFirstBoot :: "clienv \<Rightarrow> ('m cliworld_scheme, serr, unit) io" where
  "cmdFirstBoot C =
     bind (attempt (FirstBoot (cliBoot C))) (\<lambda>r.
       case r of
         Inl e \<Rightarrow> if e = SErr ErrNotFirstBoot then say ''First boot has already run'' else throw e
       | Inr _ \<Rightarrow> ret ())"

definition doGrubMigrate :: "clienv \<Rightarrow> ('m cliworld_scheme, serr, unit) io" where
  "doGrubMigrate C = MigrateToDynamicGrub (cliE C)"

definition doHWAssign :: "clienv \<Rightarrow> string \<Rightarrow> string \<Rightarrow> ('m cliworld_scheme, serr, unit) io" where
  "doHWAssign C pkg dev =
     bind (attempt (AddHWAccess (cliE C) (cliHW C) pkg dev)) (\<lambda>r.
       case r of
         Inl e \<Rightarrow>
           if e = SErr ErrHWAccessAlreadyAdded
           then say (single @ pkg @ single @ '' previously allowed access to '' @ single @ dev @ single @ ''. Skipping'')
           else throw e
       | Inr _ \<Rightarrow> say (single @ pkg @ single @ '' is now allowed to access '' @ single @ dev @ single))"

definition hwAccessLine :: "string \<Rightarrow> string list \<Rightarrow> string" where
  "hwAccessLine pkgname writePaths =
     (if writePaths = [] then single @ pkgname @ '':'' @ single @ '' is not allowed to access additional hardware''
      else pkgname @ '': '' @ join writePaths '', '')"

definition outputHWAccessForAll :: "clienv \<Rightarrow> ('m cliworld_scheme, serr, unit) io" where
  "outputHWAccessForAll C =
     bind (ListInstalled (cliE C)) (\<lambda>installed.
       forEach installed (\<lambda>snap.
         bind (attempt (ListHWAccess (cliE C) (cliHW C) (PartName snap))) (\<lambda>r.
           case r of
             Inr writePaths \<Rightarrow> whenIO (writePaths \<noteq> []) (say (hwAccessLine (PartName snap) writePaths))
           | Inl e \<Rightarrow> if isPanicErr e then throw e else ret ())))"

definition doHWInfo :: "clienv \<Rightarrow> string \<Rightarrow> ('m cliworld_scheme, serr, unit) io" where
  "doHWInfo C pkgname =
     (if pkgname \<noteq> '''' then
        bind (ListHWAccess (cliE C) (cliHW C) pkgname) (\<lambda>writePaths. say (hwAccessLine pkgname writePaths))
      else outputHWAccessForAll C)"

definition doHWUnassign :: "clienv \<Rightarrow> string \<Rightarrow> string \<Rightarrow> ('m cliworld_scheme, serr, unit) io" where
  "doHWUnassign C pkg dev =
     andThen (RemoveHWAccess (cliE C) (cliHW C) pkg dev)
       (say (single @ pkg @ single @ '' is no longer allowed to access '' @ single @ dev @ single))"

section \<open>Information\<close>

definition snapInfo :: "clienv \<Rightarrow> string \<Rightarrow> bool \<Rightarrow> bool \<Rightarrow> ('m cliworld_scheme, serr, unit) io" where
  "snapInfo C pkgname includeStore verbose =
     bind (ActiveSnapByName (cliE C) pkgname) (\<lambda>snap.
       let snap = (case snap of
                     Some p \<Rightarrow> Some p
                   | None \<Rightarrow>
                       if \<not> includeStore then None
                       else case storeDetailsOf (cliE C) (fst (SplitOrigin pkgname)) (snd (SplitOrigin pkgname)) of
                         Inr [p] \<Rightarrow> p
                       | _ \<Rightarrow> None)
       in case snap of
            None \<Rightarrow> throw (Errorf (''No snap '' @ single @ pkgname @ single @ '' found''))
          | Some p \<Rightarrow>
              andThen (say (''channel: '' @ Channel p))
             (andThen (say (''version: '' @ PartVersion p))
             (andThen (say (''updated: '' @ cliDateText C p))
                (whenIO verbose
                   (andThen (say ''installed: n/a'')
                   (andThen (say (''binary-size: '' @ itoa (cliSize C p))) (say ''data-size: n/a'')))))))"

definition ubuntuCoreChannel :: "genv \<Rightarrow> ('m cliworld_scheme, serr, string) io" where
  "ubuntuCoreChannel E =
     bind (attempt (ActiveSnapsByType E [TypeCore])) (\<lambda>r.
       case r of
         Inr [p] \<Rightarrow> ret (Channel p)
       | Inl e \<Rightarrow> if isPanicErr e then throw e else ret ''unknown''
       | _ \<Rightarrow> ret ''unknown'')"

definition namesOf :: "genv \<Rightarrow> string \<Rightarrow> ('m cliworld_scheme, serr, string) io" where
  "namesOf E t =
     bind (attempt (ActiveSnapIterByType E FullName [t])) (\<lambda>r.
       case r of
         Inr ns \<Rightarrow> ret (join ns '', '')
       | Inl e \<Rightarrow> if isPanicErr e then throw e else ret '''')"

definition info :: "clienv \<Rightarrow> ('m cliworld_scheme, serr, unit) io" where
  "info C =
     bind (ubuntuCoreChannel (cliE C)) (\<lambda>rel.
     bind (namesOf (cliE C) TypeFramework) (\<lambda>frameworks.
     bind (namesOf (cliE C) TypeApp) (\<lambda>apps.
       andThen (say (''release: '' @ rel))
      (andThen (say (''architecture: '' @ UbuntuArchitecture (goarch (cliE C))))
      (andThen (say (''frameworks: '' @ frameworks)) (say (''apps: '' @ apps)))))))"

definition cmdInfo :: "clienv \<Rightarrow> string \<Rightarrow> bool \<Rightarrow> bool \<Rightarrow> ('m cliworld_scheme, serr, unit) io" where
  "cmdInfo C pkgname includeRemote verbose =
     (if pkgname \<noteq> '''' then snapInfo C pkgname includeRemote verbose else info C)"

definition searchLine :: "SharedName \<Rightarrow> remoteSnap \<Rightarrow> string" where
  "searchLine sn r =
     (let n = (if IsAlias sn (rsOrigin r) \<or> rsType r = TypeFramework then rsName r else rsName r @ ''.'' @ rsOrigin r)
      in tabbed [n, rsVersion r, Description (RemoteP r)])"

text \<open>The lines of one name, and whether some are not shown.\<close>

definition searchLines :: "bool \<Rightarrow> SharedName \<Rightarrow> string list \<times> bool" where
  "searchLines allVariants sn =
     (case snAlias sn of
        Some r \<Rightarrow>
          if allVariants then (map (searchLine sn) (snParts sn), False)
          else if length (snParts sn) > 1
          then ([tabbed [rsName r, rsVersion r,
                   Description (RemoteP r) @ '' (forks not shown: '' @ itoa (int (length (snParts sn)) - 1) @ '')'']], True)
          else ([tabbed [rsName r, rsVersion r, Description (RemoteP r)]], False)
      | None \<Rightarrow> (map (searchLine sn) (snParts sn), False))"

definition cmdSearch :: "clienv \<Rightarrow> string list \<Rightarrow> bool \<Rightarrow> ('m cliworld_scheme, serr, unit) io" where
  "cmdSearch C args allVariants =
     bind (fromRes (Search (cliN C) args)) (\<lambda>results.
       let ls = map (searchLines allVariants \<circ> snd) results
       in andThen (say (tabbed [''Name'', ''Version'', ''Summary'']))
         (andThen (forEach (concat (map fst ls)) say)
            (whenIO (list_ex snd ls) (say ''Use --show-all to see all available forks.''))))"

section \<open>Installing, updating and removing\<close>

definition doInstallCmd :: "clienv \<Rightarrow> bool \<Rightarrow> bool \<Rightarrow> string \<Rightarrow> string \<Rightarrow> ('m cliworld_scheme, serr, unit) io" where
  "doInstallCmd C allowUnauth disableGC pkgName configFile =
     (if pkgName = '''' then throw (Errorf ''package name is required'')
      else
        (let flags = (if disableGC then 0 else DoInstallGC);
             flags = (if allowUnauth then flags OR AllowUnauthenticated else flags)
         in andThen (say (''Installing '' @ pkgName))
              (bind (Install (cliSort C) (cliE C) (cliN C) (cliAgree C) pkgName flags) (\<lambda>realPkgName.
               andThen (if configFile = '''' then ret () else bind (configurePackage C realPkgName configFile) (\<lambda>_. ret ()))
                 (bind (ListInstalled (cliE C)) (showInstalledList C))))))"

definition doPurge :: "clienv \<Rightarrow> bool \<Rightarrow> string list \<Rightarrow> ('m cliworld_scheme, serr, unit) io" where
  "doPurge C installed args =
     forEach args (\<lambda>part.
       andThen (say (''Purging '' @ part)) (Purge (cliE C) part (if installed then DoPurgeActive else 0)))"

definition doRemove :: "clienv \<Rightarrow> bool \<Rightarrow> string list \<Rightarrow> ('m cliworld_scheme, serr, unit) io" where
  "doRemove C disableGC args =
     forEach args (\<lambda>part.
       andThen (say (''Removing '' @ part)) (Remove (cliE C) part (if disableGC then 0 else DoRemoveGC)))"

definition doRollback :: "clienv \<Rightarrow> string \<Rightarrow> string \<Rightarrow> ('m cliworld_scheme, serr, unit) io" where
  "doRollback C pkg ver =
     (if pkg = '''' then throw (Errorf ''need package name argument'')
      else bind (Rollback (cliSort C) (cliE C) pkg ver) (\<lambda>nowVersion.
        andThen (say (''Setting '' @ pkg @ '' to version '' @ nowVersion))
          (bind (allInstalled (cliE C)) (\<lambda>installed.
             showVerboseList C (FindSnapsByNameAndVersion pkg nowVersion installed)))))"

definition parseSetPropertyCmdline :: "string list \<Rightarrow> (serr, string \<times> string list) res" where
  "parseSetPropertyCmdline args =
     (case args of
        [] \<Rightarrow> Inl (Errorf ''Need at least one argument for set'')
      | a # as \<Rightarrow> if CHR ''='' \<in> set a then Inr (''ubuntu-core'', a # as) else Inr (a, as))"

definition doSet :: "clienv \<Rightarrow> string list \<Rightarrow> ('m cliworld_scheme, serr, unit) io" where
  "doSet C args =
     bind (fromRes (parseSetPropertyCmdline args)) (\<lambda>(pkgname, props). SetProperty (cliE C) pkgname props)"

definition shutdownCmd :: "string list" where
  "shutdownCmd = [''/sbin/shutdown'', ''+10'', ''-r'',
     ''snappy autopilot triggered a reboot to boot into an up to date system -- temprorarily disable the reboot by running ''
     @ single @ ''sudo shutdown -c'' @ single]"

fun rebootTriggers :: "genv \<Rightarrow> Part list \<Rightarrow> ('m world_scheme, serr, string list) io" where
  "rebootTriggers E [] = ret []"
| "rebootTriggers E (part # parts) =
     bind (NeedsReboot E part) (\<lambda>needs.
     bind (rebootTriggers E parts) (\<lambda>ns. ret (if needs then PartName part # ns else ns)))"

definition doUpdate :: "clienv \<Rightarrow> bool \<Rightarrow> bool \<Rightarrow> ('m cliworld_scheme, serr, unit) io" where
  "doUpdate C disableGC autoReboot =
     bind (Update (cliSort C) (cliE C) (cliN C) (cliAgree C) (if disableGC then 0 else DoInstallGC)) (\<lambda>updates.
     andThen (whenIO (updates \<noteq> []) (showVerboseList C updates))
       (if \<not> autoReboot then ret ()
        else bind (ListInstalled (cliE C)) (\<lambda>installed.
             bind (rebootTriggers (cliE C) installed) (\<lambda>ns.
               if ns = [] then ret ()
               else andThen (say (''Rebooting to satisfy updates for '' @ join ns '', ''))
                 (bind (mapErr (\<lambda>(_, out). Errorf (''failed to auto reboot: '' @ out)) (execCmd shutdownCmd)) (\<lambda>_. ret ()))))))"

definition cmdVersions :: "('m cliworld_scheme, serr, unit) io" where
  "cmdVersions = forEach
     [''The \"versions\" command is no longer available.'', '''', ''Please use the \"list\" command instead to see what is installed.'',
      ''The \"list -u\" (or \"list --updates\") will show you the available updates'',
      ''and \"list -v\" (or \"list --verbose\") will show all installed versions.'', ''''] say"

section \<open>Services\<close>

datatype svcCmd = DoStatus | DoStart | DoStop | DoRestart | DoEnable | DoDisable | DoLogs

definition doExecute :: "clienv \<Rightarrow> svcCmd \<Rightarrow> string \<Rightarrow> string \<Rightarrow> ('m cliworld_scheme, serr, string list) io" where
  "doExecute C cmd snap svc =
     bind (FindServices (cliE C) snap svc) (\<lambda>actor.
       let only = (\<lambda>m. andThen m (ret []))
       in case cmd of
            DoStatus \<Rightarrow> actorStatus (cliE C) actor
          | DoLogs \<Rightarrow> actorLoglines (cliR C) (cliE C) actor
          | DoStart \<Rightarrow> only (actorStart (cliE C) actor)
          | DoStop \<Rightarrow> only (actorStop (cliE C) actor)
          | DoRestart \<Rightarrow> only (actorRestart (cliE C) actor)
          | DoEnable \<Rightarrow> only (actorEnable (cliE C) actor)
          | DoDisable \<Rightarrow> only (actorDisable (cliE C) actor))"

text \<open>A header before every \<open>rows\<close> lines; the remainder by zero panics.\<close>

fun statusTable :: "int \<Rightarrow> nat \<Rightarrow> string list \<Rightarrow> (serr, string list) res" where
  "statusTable rows i [] = Inr []"
| "statusTable rows i (s # ss) =
     (if rows = 0 then Inl (GoPanic ''integer divide by zero'')
      else rbind (statusTable rows (Suc i) ss) (\<lambda>ls.
        Inr ((if int i mod abs rows = 0 \<and> (i = 0 \<or> rows > 10)
              then [''Snap'' @ [CHR 0x09] @ ''Service'' @ [CHR 0x09] @ ''State''] else []) @ s # ls)))"

definition svcStatusExecute :: "clienv \<Rightarrow> string \<Rightarrow> string \<Rightarrow> ('m cliworld_scheme, serr, unit) io" where
  "svcStatusExecute C snap svc =
     bind (doExecute C DoStatus snap svc) (\<lambda>stati.
     bind (fromRes (statusTable (cliRows C - 2) 0 stati)) (\<lambda>ls. forEach ls say))"

definition svcRun :: "clienv \<Rightarrow> svcCmd \<Rightarrow> string \<Rightarrow> string \<Rightarrow> ('m cliworld_scheme, serr, unit) io" where
  "svcRun C cmd snap svc = bind (doExecute C cmd snap svc) (\<lambda>ls. forEach ls say)"

section \<open>Logging in\<close>

text \<open>What is typed in is an argument; the prompts are printed without a newline.\<close>

definition requestStoreTokenWith2faRetry ::
    "clienv \<Rightarrow> string \<Rightarrow> string \<Rightarrow> string \<Rightarrow> ('m cliworld_scheme, serr, StoreToken) io" where
  "requestStoreTokenWith2faRetry C username password tokenName =
     (let r = RequestStoreToken (cliSso C) username password tokenName ''''
      in if r = Inl (SErr ErrAuthenticationNeeds2fa)
         then andThen (say ''2fa code: '')
                (bind (fromRes (cliCode C)) (\<lambda>otp. fromRes (RequestStoreToken (cliSso C) username password tokenName otp)))
         else fromRes r)"

definition cmdLogin :: "clienv \<Rightarrow> string \<Rightarrow> ('m cliworld_scheme, serr, unit) io" where
  "cmdLogin C username =
     andThen (say ''Password: '')
       (bind (fromRes (cliPassword C)) (\<lambda>password.
        bind (requestStoreTokenWith2faRetry C username password ''snappy login token'') (\<lambda>token.
          andThen (say ''Login successful'') (WriteStoreToken (cliSso C) token))))"

section \<open>Unpacking without privileges\<close>

definition dropPrivsUsers :: "string list" where "dropPrivsUsers = [''snappypkg'', ''clickpkg'']"

definition passwdFile :: "string \<Rightarrow> string \<Rightarrow> fsys \<Rightarrow> string" where
  "passwdFile rootDir file1 f =
     (let inRoot = pathJoin [rootDir, ''etc'', file1] in if exists f inRoot then inRoot else pathJoin [''/etc/'', file1])"

definition uidLine :: "string \<Rightarrow> string list \<Rightarrow> string list option" where
  "uidLine user ls = find (\<lambda>cols. length cols > 2 \<and> hd cols = user) (map (splitChar (CHR '':'')) ls)"

definition readUID :: "string \<Rightarrow> string \<Rightarrow> ('m world_scheme, serr, int) io" where
  "readUID user passwd =
     bind (ioReadFile passwd) (\<lambda>content.
       case uidLine user (scanLines content) of
         None \<Rightarrow> throw (Errorf ''failed to find user uid/gid'')
       | Some cols \<Rightarrow>
           (case atoi (cols ! 2) of None \<Rightarrow> throw (Errorf ''strconv.ParseInt: invalid syntax'') | Some n \<Rightarrow> ret n))"

fun pickUser :: "string \<Rightarrow> string list \<Rightarrow> ('m world_scheme, serr, string) io" where
  "pickUser passFile [] = ret ''''"
| "pickUser passFile [u] = ret u"
| "pickUser passFile (u # v # us) =
     bind (attempt (readUID u passFile)) (\<lambda>r. case r of Inr _ \<Rightarrow> ret u | Inl _ \<Rightarrow> pickUser passFile (v # us))"

definition ShouldDropPrivs :: "'m cliworld_scheme \<Rightarrow> bool" where
  "ShouldDropPrivs w \<longleftrightarrow> 0 \<in> set (rgroups w) \<or> ruid w = 0 \<or> rgid w = 0"

text \<open>A call that changes the ids of the process, and the error it may fail with.\<close>

definition idCall :: "serr \<Rightarrow> string \<Rightarrow> ('m cliworld_scheme \<Rightarrow> 'm cliworld_scheme) \<Rightarrow> ('m cliworld_scheme, serr, unit) io" where
  "idCall e call g = andThen (fallible e (ECall call)) (modifies g)"

definition notPermitted :: "string \<Rightarrow> serr" where
  "notPermitted call = Errorf (call @ '' call failed: operation not permitted'')"

definition becomeUser :: "int \<Rightarrow> int \<Rightarrow> ('m cliworld_scheme, serr, unit) io" where
  "becomeUser uid gid =
     andThen (idCall (Errorf ''prctl(PR_SET_NO_NEW_PRIVS) failed with -1'') ''prctl'' (\<lambda>w. w))
    (andThen (idCall (notPermitted (''Setgroups([]{'' @ itoa gid @ ''})'')) ''setgroups'' (\<lambda>w. w\<lparr>rgroups := [gid]\<rparr>))
    (andThen (idCall (notPermitted (''Setgid('' @ itoa gid @ '')'')) ''setgid'' (\<lambda>w. w\<lparr>rgid := gid\<rparr>))
    (andThen (idCall (notPermitted (''Setuid('' @ itoa uid @ '')'')) ''setuid'' (\<lambda>w. w\<lparr>ruid := uid\<rparr>))
       (bind (gets (\<lambda>w. (ruid w, rgid w))) (\<lambda>(u, g).
          if u \<noteq> uid \<or> g \<noteq> gid
          then throw (Errorf (''Dropping privileges failed, uid is '' @ itoa u @ '', gid is '' @ itoa g))
          else ret ())))))"

definition dropPrivileges :: "string \<Rightarrow> string \<Rightarrow> ('m cliworld_scheme, serr, unit) io" where
  "dropPrivileges targetDir rootDir =
     bind (gets (\<lambda>w. passwdFile rootDir ''passwd'' (fs w))) (\<lambda>passFile.
     bind (pickUser passFile dropPrivsUsers) (\<lambda>user.
     bind (readUID user passFile) (\<lambda>uid.
     bind (gets (\<lambda>w. passwdFile rootDir ''group'' (fs w))) (\<lambda>groupFile.
     bind (readUID user groupFile) (\<lambda>gid.
       andThen (ioMkdirAll targetDir)
      (andThen (idCall (OsErr KIO (ECall (''chown '' @ targetDir))) (''chown '' @ targetDir) (\<lambda>w. w)) (becomeUser uid gid)))))))"

definition unpackAndDropPrivs :: "clienv \<Rightarrow> string \<Rightarrow> string \<Rightarrow> string \<Rightarrow> ('m cliworld_scheme, serr, unit) io" where
  "unpackAndDropPrivs C snapFile targetDir rootDir =
     bind (ioReadFile snapFile) (\<lambda>_.
     bind (gets ShouldDropPrivs) (\<lambda>privileged.
       andThen (whenIO privileged (dropPrivileges targetDir rootDir)) (debUnpack (bldDeb (cliB C)) snapFile targetDir)))"

section \<open>All commands\<close>

datatype command =
    CmdActivate string bool
  | CmdBooted
  | CmdBuild "string list" string bool
  | CmdConfig string string
  | CmdFirstBoot
  | CmdGrubMigrate
  | CmdHWAssign string string
  | CmdHWInfo string
  | CmdHWUnassign string string
  | CmdInfo string bool bool
  | CmdInstall bool bool string string
  | CmdInternalRunHooks
  | CmdInternalUnpack string string string
  | CmdList bool bool
  | CmdLogin string
  | CmdPurge bool "string list"
  | CmdRemove bool "string list"
  | CmdRollback string string
  | CmdSearch "string list" bool
  | CmdService svcCmd string string
  | CmdSet "string list"
  | CmdUpdate bool bool
  | CmdVersions

text \<open>The commands under the lock, and the others.\<close>

fun lockedRun :: "clienv \<Rightarrow> command \<Rightarrow> ('m cliworld_scheme, serr, unit) io option" where
  "lockedRun C (CmdActivate snap active) = Some (doActivate C snap active)"
| "lockedRun C CmdBooted = Some (doBooted C)"
| "lockedRun C CmdGrubMigrate = Some (doGrubMigrate C)"
| "lockedRun C (CmdHWAssign pkg dev) = Some (doHWAssign C pkg dev)"
| "lockedRun C (CmdHWInfo pkg) = Some (doHWInfo C pkg)"
| "lockedRun C (CmdHWUnassign pkg dev) = Some (doHWUnassign C pkg dev)"
| "lockedRun C (CmdInstall unauth noGC pkg cfg) = Some (doInstallCmd C unauth noGC pkg cfg)"
| "lockedRun C (CmdPurge inst args) = Some (doPurge C inst args)"
| "lockedRun C (CmdRemove noGC args) = Some (doRemove C noGC args)"
| "lockedRun C (CmdRollback pkg ver) = Some (doRollback C pkg ver)"
| "lockedRun C (CmdSet args) = Some (doSet C args)"
| "lockedRun C (CmdUpdate noGC auto) = Some (doUpdate C noGC auto)"
| "lockedRun C (CmdService cmd snap svc) = (if cmd = DoStatus then None else Some (svcRun C cmd snap svc))"
| "lockedRun C _ = None"

fun freeRun :: "clienv \<Rightarrow> command \<Rightarrow> ('m cliworld_scheme, serr, unit) io" where
  "freeRun C (CmdBuild args output snapfs) = cmdBuild C args output snapfs"
| "freeRun C (CmdConfig pkg cfg) = cmdConfig C pkg cfg"
| "freeRun C CmdFirstBoot = cmdFirstBoot C"
| "freeRun C (CmdInfo pkg remote verbose) = cmdInfo C pkg remote verbose"
| "freeRun C CmdInternalRunHooks = RunHooks (cliE C)"
| "freeRun C (CmdInternalUnpack snap dir root) = unpackAndDropPrivs C snap dir root"
| "freeRun C (CmdList upd verbose) = cmdList C upd verbose"
| "freeRun C (CmdLogin user) = cmdLogin C user"
| "freeRun C (CmdSearch args allVariants) = cmdSearch C args allVariants"
| "freeRun C (CmdService cmd snap svc) = svcStatusExecute C snap svc"
| "freeRun C CmdVersions = cmdVersions"
| "freeRun C _ = ret ()"

definition Execute :: "clienv \<Rightarrow> command \<Rightarrow> 'm cliworld_scheme \<Rightarrow> ((serr + unit) \<times> 'm cliworld_scheme) option" where
  "Execute C cmd w = (case lockedRun C cmd of Some f \<Rightarrow> withMutexAndRetry f w | None \<Rightarrow> Some (freeRun C cmd w))"

text \<open>The end of the program: its status and its last words.\<close>

definition main :: "clienv \<Rightarrow> command \<Rightarrow> 'm cliworld_scheme \<Rightarrow> (int \<times> string \<times> 'm cliworld_scheme) option" where
  "main C cmd w =
     map_option (\<lambda>(r, w').
       case r of
         Inr _ \<Rightarrow> (0, '''', w')
       | Inl e \<Rightarrow>
           if isPanicErr e then (2, errorText (goarch (cliE C)) e, w')
           else (1, errorText (goarch (cliE C)) (if e = lockErr PrivNeedRoot then SErr ErrNeedRoot else e), w'))
       (Execute C cmd w)"

section \<open>Facts\<close>

subsection \<open>The lock\<close>

lemma withMutex_unprivileged:
  "\<not> isRoot w \<Longrightarrow> withMutex f w = (Inl (lockErr PrivNeedRoot), w\<lparr>locks := others w (hist w) (locks w)\<rparr>)"
  by (simp add: withMutex_def WithMutex_def TryLock_def mutexLock_def commonChecks_def)

text \<open>
  C17. Without administrator rights every command that works under the lock ends at once with
  status 1 and the message that names \<^verbatim>\<open>sudo\<close>; no file is changed, no program is run and
  nothing is printed.
\<close>

theorem unprivileged_refused:
  fixes w :: "'m cliworld_scheme" and f :: "('m cliworld_scheme, serr, unit) io"
  assumes "lockedRun C cmd = Some f" and "\<not> isRoot w"
  shows "\<exists>w'. main C cmd w = Some (1, snapErrText ErrNeedRoot, w')
    \<and> fs w' = fs w \<and> hist w' = hist w \<and> printed w' = printed w"
proof -
  have "withMutexAndRetry f w = Some (Inl (lockErr PrivNeedRoot), w\<lparr>locks := others w (hist w) (locks w)\<rparr>)"
    using assms(2) by (subst withMutexAndRetry.simps) (simp add: withMutex_unprivileged lockErr_def)
  then show ?thesis using assms(1)
    by (simp add: main_def Execute_def lockErr_def isPanicErr_def)
qed

text \<open>What waiting changes.\<close>

definition waited :: "'m cliworld_scheme \<Rightarrow> 'm cliworld_scheme \<Rightarrow> bool" where
  "waited w v \<longleftrightarrow> (\<exists>ls c h k. v = w\<lparr>hist := h, printed := ls, clock := c, locks := k\<rparr>)"

lemma waited_locks: "waited w (w\<lparr>locks := k\<rparr>)"
proof -
  have "w\<lparr>locks := k\<rparr> = w\<lparr>hist := hist w, printed := printed w, clock := clock w, locks := k\<rparr>" by simp
  then show ?thesis unfolding waited_def by blast
qed

lemma waited_trans: "waited w v \<Longrightarrow> waited v u \<Longrightarrow> waited w u"
  unfolding waited_def by fastforce

lemma isAutoPilotRunning_run:
  "\<exists>b c e. isAutoPilotRunning w = (Inr b, w\<lparr>hist := e # hist w, clock := c\<rparr>)"
proof -
  let ?e = "ECmd [''systemctl'', ''show'', ''--property=SubState'', ''snappy-autopilot'']"
  have "snd (isAutoPilotRunning w) = w\<lparr>hist := ?e # hist w, clock := clock w + int (lapse w (hist w) ?e)\<rparr>"
    and "\<exists>b. fst (isAutoPilotRunning w) = Inr b"
    by (auto simp add: isAutoPilotRunning_def runCmd_def mapErr_def execCmd_def bind_def attempt_def Let_def)
  then show ?thesis by (metis prod.collapse)
qed

lemma waitForLock_run:
  "waited w (snd (waitForLock w)) \<and> length (hist (snd (waitForLock w))) = Suc (length (hist w))"
proof -
  have "\<exists>ls c h. snd (waitForLock w) = w\<lparr>hist := h, printed := ls, clock := c\<rparr> \<and> length h = Suc (length (hist w))"
  proof -
    obtain b c e where a: "isAutoPilotRunning w = (Inr b, w\<lparr>hist := e # hist w, clock := c\<rparr>)"
      using isAutoPilotRunning_run [of w] by blast
    have "\<exists>ls. snd (waitForLock w) = w\<lparr>hist := e # hist w, printed := ls, clock := c + 5 * second\<rparr>"
      using a by (cases b) (auto simp: waitForLock_def say_def sleep_def bind_def andThen_def)
    then show ?thesis by force
  qed
  then obtain ls c h where v: "snd (waitForLock w) = w\<lparr>hist := h, printed := ls, clock := c\<rparr>" "length h = Suc (length (hist w))" by blast
  have "w\<lparr>hist := h, printed := ls, clock := c\<rparr> = w\<lparr>hist := h, printed := ls, clock := c, locks := locks w\<rparr>" by simp
  then have "waited w (snd (waitForLock w))" unfolding waited_def v(1) by blast
  then show ?thesis using v by simp
qed

definition lockFree :: "lkernel \<Rightarrow> bool" where
  "lockFree k \<longleftrightarrow> (case lkNames k snappyLockFile of None \<Rightarrow> True | Some i \<Rightarrow> lkOwner k i = None)"

lemma TryLock_cases:
  assumes "wfKernel k"
  shows "lockFree k \<Longrightarrow> \<exists>m k'. TryLock True False (NewMutex snappyLockFile) k = Some (None, m, k')"
    and "\<not> lockFree k \<Longrightarrow> \<exists>m k'. TryLock True False (NewMutex snappyLockFile) k = Some (Some ErrAlreadyLocked, m, k')"
proof -
  have "lkOwner k (lkNext k) = None" using assms by (cases "lkOwner k (lkNext k)") (auto simp: wfKernel_def)
  then show "lockFree k \<Longrightarrow> \<exists>m k'. TryLock True False (NewMutex snappyLockFile) k = Some (None, m, k')"
    by (auto simp: lockFree_def lock_defs split: option.splits)
next
  assume "\<not> lockFree k"
  then obtain i fd where i: "lkNames k snappyLockFile = Some i" "lkOwner k i = Some fd"
    by (auto simp: lockFree_def split: option.splits)
  then have "fd < lkNext k" using assms by (auto simp: wfKernel_def)
  then show "\<exists>m k'. TryLock True False (NewMutex snappyLockFile) k = Some (Some ErrAlreadyLocked, m, k')"
    using i by (auto simp: lock_defs)
qed

lemma withMutex_cases:
  assumes "isRoot w" and "\<not> faults w (hist w) (ECall ''open /run/snappy.lock'')" and "wfKernel (others w (hist w) (locks w))"
  shows "if lockFree (others w (hist w) (locks w))
    then \<exists>k k'. withMutex f w = (fst (f (w\<lparr>locks := k\<rparr>)), (snd (f (w\<lparr>locks := k\<rparr>)))\<lparr>locks := k'\<rparr>)
    else \<exists>k. withMutex f w = (Inl (lockErr ErrAlreadyLocked), w\<lparr>locks := k\<rparr>)"
proof (cases "lockFree (others w (hist w) (locks w))")
  case True
  then obtain m k where t: "TryLock True False (NewMutex snappyLockFile) (others w (hist w) (locks w)) = Some (None, m, k)"
    using TryLock_cases(1) [OF assms(3)] by blast
  let ?v = "w\<lparr>locks := k\<rparr>"
  have "withMutex f w = (fst (f ?v), (snd (f ?v))\<lparr>locks := snd (snd (mutexUnlock True m (locks (snd (f ?v)))))\<rparr>)"
    using assms(1,2) t by (cases "f ?v"; cases "fst (f ?v)")
      (auto simp: withMutex_def WithMutex_def lockedBody_def split: prod.splits)
  then show ?thesis using True by auto
next
  case False
  then obtain m k where "TryLock True False (NewMutex snappyLockFile) (others w (hist w) (locks w)) = Some (Some ErrAlreadyLocked, m, k)"
    using TryLock_cases(2) [OF assms(3)] by blast
  then show ?thesis using False assms(1,2) by (auto simp: withMutex_def WithMutex_def)
qed

text \<open>What the others do: they never lock a file that is yet to be opened, opening the lock file works, and in the end they leave the lock alone.\<close>

definition lockComesFree :: "nat \<Rightarrow> 'm cliworld_scheme \<Rightarrow> bool" where
  "lockComesFree n w \<longleftrightarrow>
     isRoot w \<and> (\<forall>h. \<not> faults w h (ECall ''open /run/snappy.lock''))
     \<and> (\<forall>h k. wfKernel (others w h k)) \<and> (\<forall>h k. n \<le> length h \<longrightarrow> lockFree (others w h k))"

lemma lockComesFree_waited: "waited w v \<Longrightarrow> lockComesFree n w \<Longrightarrow> lockComesFree n v"
  by (auto simp: waited_def lockComesFree_def)

text \<open>
  C18. Waiting for the lock ends and the command is run once: when the others leave the lock
  alone after some time, the loop returns, with the result of the function run on
  a world where only messages, the clock and the lock files have changed.
\<close>

theorem withMutexAndRetry_returns:
  assumes "lockComesFree n w" and "\<forall>v. fst (f v) \<noteq> Inl (lockErr ErrAlreadyLocked)"
  shows "\<exists>v k. waited w v \<and> withMutexAndRetry f w = Some (fst (f v), (snd (f v))\<lparr>locks := k\<rparr>)"
  using assms(1)
proof (induction "n - length (hist w)" arbitrary: w rule: less_induct)
  case less
  have w: "isRoot w" "\<not> faults w (hist w) (ECall ''open /run/snappy.lock'')" "wfKernel (others w (hist w) (locks w))"
    using less.prems by (auto simp: lockComesFree_def)
  show ?case
  proof (cases "lockFree (others w (hist w) (locks w))")
    case True
    then obtain k k' where r: "withMutex f w = (fst (f (w\<lparr>locks := k\<rparr>)), (snd (f (w\<lparr>locks := k\<rparr>)))\<lparr>locks := k'\<rparr>)"
      using withMutex_cases [OF w, of f] by auto
    then have "withMutexAndRetry f w = Some (fst (f (w\<lparr>locks := k\<rparr>)), (snd (f (w\<lparr>locks := k\<rparr>)))\<lparr>locks := k'\<rparr>)"
      using assms(2) by (subst withMutexAndRetry.simps) simp
    then show ?thesis using waited_locks by blast
  next
    case False
    then obtain k where r: "withMutex f w = (Inl (lockErr ErrAlreadyLocked), w\<lparr>locks := k\<rparr>)"
      using withMutex_cases [OF w, of f] by auto
    let ?v = "snd (waitForLock (w\<lparr>locks := k\<rparr>))"
    have v: "waited w ?v" "length (hist ?v) = Suc (length (hist w))"
      using waitForLock_run [of "w\<lparr>locks := k\<rparr>"] waited_trans [OF waited_locks] by auto
    have "length (hist w) < n" using False less.prems unfolding lockComesFree_def by (meson not_less)
    then have "n - length (hist ?v) < n - length (hist w)" unfolding v(2) by (rule diff_less_mono2 [OF lessI])
    then obtain u k' where u: "waited ?v u" "withMutexAndRetry f ?v = Some (fst (f u), (snd (f u))\<lparr>locks := k'\<rparr>)"
      using less.hyps [OF _ lockComesFree_waited [OF v(1) less.prems]] by blast
    have "withMutexAndRetry f w = withMutexAndRetry f ?v" using r by (subst withMutexAndRetry.simps) simp
    then show ?thesis using u waited_trans [OF v(1) u(1)] by auto
  qed
qed

subsection \<open>Privileges\<close>

lemma idCall_split:
  "P (andThen (idCall e call g) k w) \<longleftrightarrow>
     (let w1 = w\<lparr>hist := ECall call # hist w\<rparr> in if faults w (hist w) (ECall call) then P (Inl e, w1) else P (k (g w1)))"
  by (simp add: idCall_def andThen_def bind_def fallible_def Let_def modifies_def)

lemma becomeUser_run:
  fixes w :: "'m cliworld_scheme"
  shows "fs (snd (becomeUser uid gid w)) = fs w"
    and "fst (becomeUser uid gid w) = Inr () \<Longrightarrow>
      ruid (snd (becomeUser uid gid w)) = uid \<and> rgid (snd (becomeUser uid gid w)) = gid \<and> rgroups (snd (becomeUser uid gid w)) = [gid]"
proof -
  have "fs (snd (becomeUser uid gid w)) = fs w \<and> (fst (becomeUser uid gid w) = Inr () \<longrightarrow>
      ruid (snd (becomeUser uid gid w)) = uid \<and> rgid (snd (becomeUser uid gid w)) = gid \<and> rgroups (snd (becomeUser uid gid w)) = [gid])"
    unfolding becomeUser_def
    by (rule idCall_split [THEN iffD2], simp add: Let_def)+
  then show "fs (snd (becomeUser uid gid w)) = fs w"
    and "fst (becomeUser uid gid w) = Inr () \<Longrightarrow>
      ruid (snd (becomeUser uid gid w)) = uid \<and> rgid (snd (becomeUser uid gid w)) = gid \<and> rgroups (snd (becomeUser uid gid w)) = [gid]"
    by blast+
qed

lemma readUID_world [simp]: "snd (readUID u p w) = w"
  by (auto simp: readUID_def bind_def ioReadFile_world split: prod.splits sum.splits option.splits dest: arg_cong [of _ _ snd])

lemma pickUser_world [simp]: "snd (pickUser p us w) = w"
  by (induction p us arbitrary: w rule: pickUser.induct) (auto simp: bind_def split: sum.splits)

lemma pickUser_mem: "us \<noteq> [] \<Longrightarrow> \<exists>u \<in> set us. pickUser p us w = (Inr u, w)"
proof (induction p us arbitrary: w rule: pickUser.induct)
  case (3 p u v us)
  obtain x where x: "x \<in> set (v # us)" "pickUser p (v # us) w = (Inr x, w)" using 3 by blast
  have r: "readUID u p w = (fst (readUID u p w), w)" by (simp add: prod_eq_iff)
  show ?case
  proof (cases "fst (readUID u p w)")
    case (Inl e)
    then have "pickUser p (u # v # us) w = pickUser p (v # us) w" using r by (simp add: bind_def attempt_def)
    then show ?thesis using x by auto
  next
    case (Inr n)
    then have "pickUser p (u # v # us) w = (Inr u, w)" using r by (simp add: bind_def attempt_def)
    then show ?thesis by auto
  qed
qed simp_all

text \<open>Giving up privileges: an error, or the ids of one of the two users.\<close>

definition userOf :: "string \<Rightarrow> 'm cliworld_scheme \<Rightarrow> string \<Rightarrow> int \<Rightarrow> int \<Rightarrow> bool" where
  "userOf rootDir w user uid gid \<longleftrightarrow>
     user \<in> set dropPrivsUsers \<and> fst (readUID user (passwdFile rootDir ''passwd'' (fs w)) w) = Inr uid
     \<and> fst (readUID user (passwdFile rootDir ''group'' (fs w)) w) = Inr gid"

lemma readUID_bind:
  "bind (readUID u p) k w = (case fst (readUID u p w) of Inl e \<Rightarrow> (Inl e, w) | Inr n \<Rightarrow> k n w)"
  by (cases "readUID u p w") (auto simp: bind_def split: sum.splits dest: arg_cong [of _ _ snd])

lemma dropPrivileges_run:
  fixes w :: "'m cliworld_scheme"
  shows "fs (snd (dropPrivileges dir root w)) \<in> {fs w, fs (snd (ioMkdirAll dir w))}"
    and "fst (dropPrivileges dir root w) = Inr () \<Longrightarrow>
      (\<exists>user uid gid. userOf root w user uid gid \<and> ruid (snd (dropPrivileges dir root w)) = uid
        \<and> rgid (snd (dropPrivileges dir root w)) = gid \<and> rgroups (snd (dropPrivileges dir root w)) = [gid])"
proof -
  let ?w' = "snd (dropPrivileges dir root w)" and ?pass = "passwdFile root ''passwd'' (fs w)" and ?grp = "passwdFile root ''group'' (fs w)"
  obtain user where user: "user \<in> set dropPrivsUsers" "pickUser ?pass dropPrivsUsers w = (Inr user, w)"
    using pickUser_mem [of dropPrivsUsers ?pass w] by (auto simp: dropPrivsUsers_def)
  have "fs ?w' \<in> {fs w, fs (snd (ioMkdirAll dir w))} \<and> (fst (dropPrivileges dir root w) = Inr () \<longrightarrow>
      (\<exists>user uid gid. userOf root w user uid gid \<and> ruid ?w' = uid \<and> rgid ?w' = gid \<and> rgroups ?w' = [gid]))"
  proof (cases "fst (readUID user ?pass w)"; cases "fst (readUID user ?grp w)")
    fix uid gid assume id: "fst (readUID user ?pass w) = Inr uid" "fst (readUID user ?grp w) = Inr gid"
    let ?k = "andThen (idCall (OsErr KIO (ECall (''chown '' @ dir))) (''chown '' @ dir) (\<lambda>w. w)) (becomeUser uid gid)"
    have d: "dropPrivileges dir root w = andThen (ioMkdirAll dir) ?k w"
      using user id by (simp add: dropPrivileges_def bind_gets bind_ok readUID_bind)
    have k: "fs (snd (?k v)) = fs v \<and> (fst (?k v) = Inr () \<longrightarrow>
        ruid (snd (?k v)) = uid \<and> rgid (snd (?k v)) = gid \<and> rgroups (snd (?k v)) = [gid])" for v :: "'m cliworld_scheme"
      by (rule idCall_split [THEN iffD2]) (simp add: Let_def becomeUser_run)
    have "userOf root w user uid gid" using user id by (simp add: userOf_def)
    then show ?thesis using k [of "snd (ioMkdirAll dir w)"] unfolding d
      by (cases "ioMkdirAll dir w"; cases "fst (ioMkdirAll dir w)") (auto simp: andThen_def bind_def)
  qed (use user in \<open>simp_all add: dropPrivileges_def bind_gets bind_ok readUID_bind\<close>)
  then show "fs ?w' \<in> {fs w, fs (snd (ioMkdirAll dir w))}"
    and "fst (dropPrivileges dir root w) = Inr () \<Longrightarrow>
      (\<exists>user uid gid. userOf root w user uid gid \<and> ruid ?w' = uid \<and> rgid ?w' = gid \<and> rgroups ?w' = [gid])"
    by blast+
qed

text \<open>
  C19. A process started with the rights of root never unpacks with them: either the unpacking ends with an error and
  nothing but the target directory was made, or the whole unpacking runs with the user id, the group id and the
  only group of \<^verbatim>\<open>snappypkg\<close> or \<^verbatim>\<open>clickpkg\<close>, as the user and the group file give them.
\<close>

theorem unpack_unprivileged:
  fixes w :: "'m cliworld_scheme"
  assumes "ShouldDropPrivs w" and "unpackAndDropPrivs C snap dir root w = (r, w')"
  shows "(\<exists>e. r = Inl e) \<and> fs w' \<in> {fs w, fs (snd (ioMkdirAll dir w))}
    \<or> (\<exists>v user uid gid. userOf root w user uid gid \<and> ruid v = uid \<and> rgid v = gid \<and> rgroups v = [gid]
        \<and> fs v \<in> {fs w, fs (snd (ioMkdirAll dir w))} \<and> (r, w') = debUnpack (bldDeb (cliB C)) snap dir v)"
proof (cases "fst (ioReadFile snap w)")
  case (Inl e)
  then have "(r, w') = (Inl e, w)" using assms(2)
    by (cases "ioReadFile snap w") (auto simp: unpackAndDropPrivs_def bind_def dest: arg_cong [of _ _ snd])
  then show ?thesis by simp
next
  case (Inr c)
  then have "ioReadFile snap w = (Inr c, w)" by (simp add: prod_eq_iff)
  then have u: "(r, w') = andThen (dropPrivileges dir root) (debUnpack (bldDeb (cliB C)) snap dir) w"
    using assms by (simp add: unpackAndDropPrivs_def bind_ok bind_gets)
  show ?thesis
  proof (cases "fst (dropPrivileges dir root w)")
    case (Inl e)
    then have "(r, w') = (Inl e, snd (dropPrivileges dir root w))" using u
      by (cases "dropPrivileges dir root w") (simp add: andThen_def bind_def)
    then show ?thesis using dropPrivileges_run(1) [of dir root w] by simp
  next
    case (Inr x)
    then have "(r, w') = debUnpack (bldDeb (cliB C)) snap dir (snd (dropPrivileges dir root w))" using u
      by (cases "dropPrivileges dir root w") (simp add: andThen_def bind_def)
    then show ?thesis using dropPrivileges_run [of dir root w] Inr by auto
  qed
qed

section \<open>A session\<close>

text \<open>
  A machine with the user \<^verbatim>\<open>clickpkg\<close>, on which another process holds the lock until we have waited twice.
\<close>

definition busyLock :: lkernel where
  "busyLock = \<lparr>lkNames = [snappyLockFile \<mapsto> 0], lkFiles = [0 \<mapsto> 0], lkOwner = [0 \<mapsto> 0], lkNext = 1, lkRemoved = 0\<rparr>"

definition cliDemo :: "bool \<Rightarrow> cliworld" where
  "cliDemo root =
     \<lparr>fs = [(''/'', FDir), (''/etc'', FDir), (''/etc/passwd'', FFile ''clickpkg:x:1001:1002::/:/bin/false''),
            (''/etc/group'', FFile ''clickpkg:x:1002:'')],
      hist = [], faults = (\<lambda>_ _. False), mounts = [], outs = (\<lambda>_ _. ''''), exits = (\<lambda>_ _. None),
      lapse = (\<lambda>_ _. 0), clock = 0, agrees = (\<lambda>_ _. True), kernelHost = ''ubuntu'', hardLinks = [], printed = [],
      isRoot = root, ruid = 0, rgid = 0, rgroups = [0], locks = freshKernel,
      others = (\<lambda>h k. if length h < 2 then busyLock else freshKernel)\<rparr>"

theorem unprivileged_refused_witness:
  "\<forall>C. \<exists>w'. main C CmdBooted (cliDemo False) = Some (1, snapErrText ErrNeedRoot, w')
    \<and> fs w' = fs (cliDemo False) \<and> hist w' = hist (cliDemo False) \<and> printed w' = printed (cliDemo False)"
  using unprivileged_refused [of _ CmdBooted _ "cliDemo False"] by (simp add: cliDemo_def)

theorem withMutexAndRetry_returns_witness:
  "\<exists>v k. waited (cliDemo True) v
    \<and> withMutexAndRetry (say ''done'') (cliDemo True) = Some (fst (say ''done'' v), (snd (say ''done'' v))\<lparr>locks := k\<rparr>)"
proof (rule withMutexAndRetry_returns [of 2])
  show "lockComesFree 2 (cliDemo True)"
    by (auto simp: lockComesFree_def cliDemo_def wfKernel_def busyLock_def freshKernel_def lockFree_def split: if_splits)
qed (simp add: say_def)

theorem unpack_unprivileged_witness:
  "\<forall>C. case unpackAndDropPrivs C ''/etc/passwd'' ''/apps'' ''/'' (cliDemo True) of
    (r, w') \<Rightarrow> (\<exists>e. r = Inl e) \<and> fs w' \<in> {fs (cliDemo True), fs (snd (ioMkdirAll ''/apps'' (cliDemo True)))}
    \<or> (\<exists>v user uid gid. userOf ''/'' (cliDemo True) user uid gid \<and> ruid v = uid \<and> rgid v = gid \<and> rgroups v = [gid]
        \<and> fs v \<in> {fs (cliDemo True), fs (snd (ioMkdirAll ''/apps'' (cliDemo True)))}
        \<and> (r, w') = debUnpack (bldDeb (cliB C)) ''/etc/passwd'' ''/apps'' v)"
  using unpack_unprivileged [of "cliDemo True" _ "''/etc/passwd''" "''/apps''" "''/''"]
  by (simp add: cliDemo_def ShouldDropPrivs_def split: prod.split)

text \<open>There the package is unpacked as \<^verbatim>\<open>clickpkg\<close>.\<close>

lemma cliDemo_drops:
  "(let (r, w) = dropPrivileges ''/apps'' ''/'' (cliDemo True) in (r, ruid w, rgid w, rgroups w)) = (Inr (), 1001, 1002, [1002])"
  by code_simp

end
