(* ===== verification/Mirror.thy ===== *)
theory Mirror
  imports Policy ClickDeb
begin

text \<open>
  Copying directories and files, \<^verbatim>\<open>helpers/helpers.go\<close> and \<^verbatim>\<open>helpers/cp.go\<close>: \<^verbatim>\<open>RSyncWithDelete\<close> as the two walks it
  is, where the boot loader takes it as one call with a result (\<open>RSyncWithDelete\<close> of \<^verbatim>\<open>Bootloader\<close>), and
  the smaller functions beside it. \<^verbatim>\<open>cp\<close> is an argument: what it makes of the file system, or \<open>None\<close>
  when it fails. The two trees are taken not to overlap.
\<close>

type_synonym cpProgram = "fsys \<Rightarrow> string \<Rightarrow> string \<Rightarrow> fsys option"

section \<open>Synchronising directories\<close>

text \<open>
  The first walk: what has no counterpart in the source is removed; below a directory that was
  removed the walk does not go on.
\<close>

fun deleteWalk :: "string \<Rightarrow> string \<Rightarrow> string list \<Rightarrow> ('m world_scheme, serr, unit) io" where
  "deleteWalk srcDirName destDirName [] = ret ()"
| "deleteWalk srcDirName destDirName (path # paths) =
     bind (gets fs) (\<lambda>f.
       if exists f (pathJoin [srcDirName, drop (length destDirName) path])
       then deleteWalk srcDirName destDirName paths
       else andThen (ioRemoveAll path)
              (deleteWalk srcDirName destDirName
                 (if fget f path = Some FDir then filter (\<lambda>q. \<not> inTree path q) paths else paths)))"

definition lstatErr :: "string \<Rightarrow> serr" where
  "lstatErr p = OsErr KNotExist (ECall (''lstat '' @ p))"

definition cpCopy :: "cpProgram \<Rightarrow> string \<Rightarrow> string \<Rightarrow> ('m sworld_scheme, serr, unit) io" where
  "cpCopy cp src dst =
     bind (mapErr (\<lambda>(_, out). Errorf (''Failed to copy '' @ src @ '' to '' @ dst @ '' ('' @ out @ '')'')) (execCmd [''cp'', ''-va'', src, dst])) (\<lambda>out w.
       case cp (fs w) src dst of
         None \<Rightarrow> (Inl (Errorf (''Failed to copy '' @ src @ '' to '' @ dst @ '' ('' @ out @ '')'')), w)
       | Some f \<Rightarrow> (Inr (), w\<lparr>fs := f\<rparr>))"

text \<open>The second walk: directories are made and get their times, files that differ are copied.\<close>

definition syncOne :: "cpProgram \<Rightarrow> string \<Rightarrow> string \<Rightarrow> string \<Rightarrow> ('m sworld_scheme, serr, unit) io" where
  "syncOne cp srcDirName destDirName src =
     (let dst = pathJoin [destDirName, drop (length srcDirName) src]
      in bind (gets fs) (\<lambda>f.
           case nodeAt f src of
             None \<Rightarrow> throw (lstatErr src)
           | Some FDir \<Rightarrow>
               andThen (ioMkdirAll dst) (fallible (OsErr KIO (ECall (''utimes '' @ dst))) (ECall (''utimes '' @ dst)))
           | Some _ \<Rightarrow> if FilesAreEqual f src dst then ret () else cpCopy cp src dst))"

definition RSyncWalks :: "cpProgram \<Rightarrow> string \<Rightarrow> string \<Rightarrow> ('m sworld_scheme, serr, unit) io" where
  "RSyncWalks cp srcDirName destDirName =
     bind (gets fs) (\<lambda>f.
       if nodeAt f destDirName = None then throw (lstatErr destDirName)
       else andThen (deleteWalk srcDirName destDirName (walkPaths f destDirName))
              (bind (gets fs) (\<lambda>f.
                 if nodeAt f srcDirName = None then throw (lstatErr srcDirName)
                 else forEach (walkPaths f srcDirName) (syncOne cp srcDirName destDirName))))"

section \<open>Files\<close>

definition copyIfDifferent :: "string \<Rightarrow> string \<Rightarrow> ('m world_scheme, serr, unit) io" where
  "copyIfDifferent src dst =
     bind (gets (\<lambda>w. FilesAreEqual (fs w) src dst)) (\<lambda>eq. if eq then ret () else CopyFile src dst True)"

definition ErrCopySpecialFile :: "string \<Rightarrow> string \<Rightarrow> serr" where
  "ErrCopySpecialFile output code = Errorf (''failed to copy device node: '' @ goQuote output @ '' ('' @ code @ '')'')"

definition CopySpecialFile :: "cpProgram \<Rightarrow> string \<Rightarrow> string \<Rightarrow> ('m sworld_scheme, serr, unit) io" where
  "CopySpecialFile cp path dest =
     bind (mapErr (\<lambda>(code, out). ErrCopySpecialFile out (case code of Some c \<Rightarrow> itoa c | None \<Rightarrow> ''exec failed''))
       (execCmd [''cp'', ''-av'', path, dest])) (\<lambda>out w.
         case cp (fs w) path dest of
           None \<Rightarrow> (Inl (ErrCopySpecialFile out ''1''), w)
         | Some f \<Rightarrow> (Inr (), w\<lparr>fs := f\<rparr>))"

definition Sha512sum :: "(string \<Rightarrow> string) \<Rightarrow> string \<Rightarrow> ('m world_scheme, serr, string) io" where
  "Sha512sum hash infile = bind (ioReadFile infile) (\<lambda>c. ret (hash c))"

definition CurrentHomeDir :: "string \<Rightarrow> (serr, string) res \<Rightarrow> (serr, string) res" where
  "CurrentHomeDir home passwdHome = (if home \<noteq> '''' then Inr home else passwdHome)"

section \<open>Paths\<close>

lemma absPath_append: "cs \<noteq> [] \<Longrightarrow> absPath (cs @ xs) = absPath cs @ concat (map (\<lambda>x. slash # x) xs)"
proof (induction xs rule: rev_induct)
  case (snoc x xs)
  then show ?case using absPath_snoc [of "cs @ xs" x] by simp
qed simp

lemma inTree_iff:
  assumes "plainNames as" and "plainNames bs" and "as \<noteq> []"
  shows "inTree (absPath as) (absPath bs) \<longleftrightarrow> (\<exists>cs. bs = as @ cs)"
proof
  assume "\<exists>cs. bs = as @ cs"
  then show "inTree (absPath as) (absPath bs)" using inTree_absPath [OF assms(3)] by auto
next
  assume a: "inTree (absPath as) (absPath bs)"
  show "\<exists>cs. bs = as @ cs"
  proof (cases "absPath bs = absPath as")
    case True
    then show ?thesis using absPath_inj [OF assms(2,1)] by simp
  next
    case False
    then obtain r where r: "absPath bs = absPath as @ slash # r" using a by (auto simp: inTree_def hasPrefix_iff)
    have ne: "bs \<noteq> []" using r assms(3) by (cases as) (auto simp: absPath_def)
    have sp: "splitChar slash (join xs ''/'' @ slash # r) = xs @ splitChar slash r" if "list_all (\<lambda>c. slash \<notin> set c) xs" "xs \<noteq> []" for xs
      using that by (induction xs rule: induct_list012) (auto simp: splitChar_append)
    have "splitChar slash (absPath bs) = [] # as @ splitChar slash r"
      using sp [OF plain_noSlash [OF assms(1)] assms(3)] unfolding r by (simp add: absPath_def)
    then show ?thesis using splitChar_absPath [OF ne plain_noSlash [OF assms(2)]] by auto
  qed
qed

lemma drop_absPath: "rs \<noteq> [] \<Longrightarrow> drop (length (absPath rs)) (absPath (rs @ cs)) = concat (map (\<lambda>x. slash # x) cs)"
  by (simp add: absPath_append)

lemma pathJoin_rel:
  assumes "plainNames (rs @ cs)" and "rs \<noteq> []"
  shows "pathJoin [absPath rs, concat (map (\<lambda>x. slash # x) cs)] = absPath (rs @ cs)"
proof -
  have s: "list_all (\<lambda>c. slash \<notin> set c) (rs @ [[]] @ cs)" using plain_noSlash [OF assms(1)] by simp
  have "join [absPath rs, concat (map (\<lambda>x. slash # x) cs)] ''/'' = absPath (rs @ [[]] @ cs)"
    using absPath_append [OF assms(2), of "[[]] @ cs"] by simp
  moreover have "cleanComps True [] (rs @ [[]] @ cs) = rs @ cs"
  proof -
    have "cleanComps True acc (xs @ [[]] @ ys) = rev acc @ xs @ ys" if "plainNames xs" "plainNames ys" for acc xs ys
      using that by (induction xs arbitrary: acc) (auto simp: plainName_def cleanComps_plain)
    then show ?thesis using assms(1) by simp
  qed
  moreover have "absPath rs \<noteq> ''''" by (simp add: absPath_def)
  ultimately show ?thesis using pathClean_abs [OF _ s] by (simp add: pathJoin_def)
qed

lemma rel_path:
  assumes "plainNames (ss @ cs)" and "ss \<noteq> []" and "ds \<noteq> []"
  shows "pathJoin [absPath ss, drop (length (absPath ds)) (absPath (ds @ cs))] = absPath (ss @ cs)"
  by (simp add: drop_absPath [OF assms(3)] pathJoin_rel [OF assms(1,2)])

text \<open>Below a directory without links a path exists when it is in the table.\<close>

lemma walk_missing:
  assumes "plainNames (ds @ cs)" and "\<And>xs t. plainNames xs \<Longrightarrow> fget f (absPath (ds @ xs)) \<noteq> Some (FLink t)"
    and "cs \<noteq> []" and "fget f (absPath (ds @ cs)) = None"
  shows "\<exists>e. walk n f (absPath ds) cs = Inl e"
  using assms
proof (induction cs arbitrary: ds)
  case (Cons c cs)
  have c: "c \<noteq> ''''" "c \<noteq> ''.''" "c \<noteq> ''..''" and [simp]: "plainNames ds" using Cons.prems(1) by (simp_all, auto simp: plainName_def)
  have nl: "fget f (absPath ((ds @ [c]) @ xs)) \<noteq> Some (FLink t)" if "plainNames xs" for xs t
    using Cons.prems(2) [of "c # xs"] Cons.prems(1) that by simp
  show ?case
  proof (cases "fget f (absPath (ds @ [c]))")
    case None
    then show ?thesis using c by (simp add: child_absPath)
  next
    case (Some m)
    then have cs: "cs \<noteq> []" using Cons.prems(4) by auto
    show ?thesis
    proof (cases m)
      case FDir
      have "\<exists>e. walk n f (absPath (ds @ [c])) cs = Inl e"
        using Cons.IH [of "ds @ [c]"] Cons.prems(1,4) nl cs by simp
      then show ?thesis using c Some FDir by (simp add: child_absPath)
    qed (use c Some cs nl [of "[]"] in \<open>auto simp: child_absPath\<close>)
  qed
qed simp

lemma exists_iff:
  assumes "plainNames (rs @ cs)" and "rs \<noteq> []" and "dirsTo f rs"
    and nl: "\<And>xs t. plainNames xs \<Longrightarrow> fget f (absPath (rs @ xs)) \<noteq> Some (FLink t)"
  shows "stat f (absPath (rs @ cs)) = (case fget f (absPath (rs @ cs)) of Some n \<Rightarrow> Inr n | None \<Rightarrow> stat f (absPath (rs @ cs)))"
    and "exists f (absPath (rs @ cs)) \<longleftrightarrow> fget f (absPath (rs @ cs)) \<noteq> None"
proof -
  let ?p = "absPath (rs @ cs)"
  have root: "?p \<noteq> ''/''" using assms(1,2) by simp
  show st: "stat f ?p = (case fget f ?p of Some n \<Rightarrow> Inr n | None \<Rightarrow> stat f ?p)"
    using nl [of cs] assms(1) root by (auto simp: stat_def nodeAt_def split: option.splits fnode.splits)
  show "exists f ?p \<longleftrightarrow> fget f ?p \<noteq> None"
  proof (cases "fget f ?p")
    case None
    have "fget f (absPath rs) = Some FDir" using assms(2,3) by (cases rs rule: rev_cases) (auto dest: dirsTo_last)
    then have cs: "cs \<noteq> []" using None by auto
    have "evalSymlinks f ?p = walk 255 f (absPath rs) cs"
      using assms(1-3) walk_dirs [of rs f 255 cs] plain_noSlash [OF assms(1)] by (simp add: evalSymlinks_def splitChar_absPath)
    then obtain e where "evalSymlinks f ?p = Inl e" using walk_missing [OF assms(1) nl cs None] by auto
    then show ?thesis using None root by (simp add: exists_def stat_def nodeAt_def)
  next
    case (Some n)
    then show ?thesis using st by (simp add: exists_def)
  qed
qed

section \<open>Trees\<close>

text \<open>A tree without links whose paths are plain and whose nodes hang together.\<close>

definition relNames :: "string list \<Rightarrow> string \<Rightarrow> string list" where
  "relNames rs p = drop (length rs) (tl (splitChar slash p))"

definition plainTree :: "fsys \<Rightarrow> string list \<Rightarrow> bool" where
  "plainTree f rs \<longleftrightarrow>
     rs \<noteq> [] \<and> plainNames rs \<and> dirsTo f rs \<and>
     list_all (\<lambda>(p, n). inTree (absPath rs) p \<longrightarrow>
       (let cs = relNames rs p
        in plainNames cs \<and> p = absPath (rs @ cs) \<and> dirsTo f (rs @ butlast cs)
           \<and> (case n of FLink _ \<Rightarrow> False | _ \<Rightarrow> True))) f"

lemma plainTreeD:
  assumes "plainTree f rs"
  shows "rs \<noteq> []" "plainNames rs" "dirsTo f rs" "fget f (absPath rs) = Some FDir"
    and "\<And>p n. fget f p = Some n \<Longrightarrow> inTree (absPath rs) p \<Longrightarrow>
      \<exists>cs. plainNames cs \<and> p = absPath (rs @ cs) \<and> dirsTo f (rs @ butlast cs) \<and> (\<forall>t. n \<noteq> FLink t)"
proof -
  show 1: "rs \<noteq> []" "plainNames rs" "dirsTo f rs" using assms by (auto simp: plainTree_def)
  then show "fget f (absPath rs) = Some FDir" by (cases rs rule: rev_cases) (auto dest: dirsTo_last)
  fix p n assume "fget f p = Some n" "inTree (absPath rs) p"
  then have "(p, n) \<in> set f" "inTree (absPath rs) p" by (auto simp: fget_def dest: map_of_SomeD)
  moreover from this have "list_all (\<lambda>(p, n). inTree (absPath rs) p \<longrightarrow>
       (let cs = relNames rs p
        in plainNames cs \<and> p = absPath (rs @ cs) \<and> dirsTo f (rs @ butlast cs)
           \<and> (case n of FLink _ \<Rightarrow> False | _ \<Rightarrow> True))) f" using assms by (simp add: plainTree_def)
  ultimately have "plainNames (relNames rs p) \<and> p = absPath (rs @ relNames rs p) \<and> dirsTo f (rs @ butlast (relNames rs p))
      \<and> (case n of FLink _ \<Rightarrow> False | _ \<Rightarrow> True)"
    unfolding list_all_iff [where xs = f] Let_def by fast
  then show "\<exists>cs. plainNames cs \<and> p = absPath (rs @ cs) \<and> dirsTo f (rs @ butlast cs) \<and> (\<forall>t. n \<noteq> FLink t)"
    by (intro exI [of _ "relNames rs p"]) auto
qed

lemma plainTree_noLink: "plainTree f rs \<Longrightarrow> fget f (absPath (rs @ xs)) \<noteq> Some (FLink t)"
  using plainTreeD(1,5) inTree_absPath by metis

lemma plainTree_prefix:
  assumes "plainTree f rs" and "plainNames (cs @ xs)" and "fget f (absPath (rs @ cs @ xs)) \<noteq> None" and "xs \<noteq> []"
  shows "fget f (absPath (rs @ cs)) = Some FDir"
proof -
  obtain n where n: "fget f (absPath (rs @ cs @ xs)) = Some n" using assms(3) by auto
  obtain ys where ys: "plainNames ys" "absPath (rs @ cs @ xs) = absPath (rs @ ys)" "dirsTo f (rs @ butlast ys)"
    using plainTreeD(5) [OF assms(1) n] inTree_absPath [OF plainTreeD(1) [OF assms(1)]] by metis
  then have "ys = cs @ xs" using absPath_inj [of "rs @ cs @ xs" "rs @ ys"] plainTreeD(2) [OF assms(1)] assms(2) by simp
  then have "dirsTo f ((rs @ cs) @ butlast xs)" using ys(3) assms(4) by (simp add: butlast_append)
  then have d: "dirsTo f (rs @ cs)" by (rule dirsTo_prefix)
  show ?thesis
  proof (cases cs rule: rev_cases)
    case Nil
    then show ?thesis using plainTreeD(4) [OF assms(1)] by simp
  next
    case (snoc bs b)
    then show ?thesis using dirsTo_last [of f "rs @ bs" b] d by simp
  qed
qed

lemma inTree_trans: "inTree a b \<Longrightarrow> inTree b c \<Longrightarrow> inTree a c"
  by (auto simp: inTree_def hasPrefix_iff)

text \<open>Two trees side by side, and no directory in the target where the source has a file.\<close>

definition syncable :: "fsys \<Rightarrow> string list \<Rightarrow> string list \<Rightarrow> bool" where
  "syncable f ss ds \<longleftrightarrow>
     plainTree f ss \<and> plainTree f ds \<and> take (length ds) ss \<noteq> ds \<and> take (length ss) ds \<noteq> ss
     \<and> list_all (\<lambda>(p, n). inTree (absPath ss) p \<and> n \<noteq> FDir \<longrightarrow> fget f (absPath (ds @ relNames ss p)) \<noteq> Some FDir) f"

lemma syncable_apart: "syncable f ss ds \<Longrightarrow> ss @ xs \<noteq> ds @ ys"
  by (auto simp: syncable_def append_eq_append_conv_if split: if_splits)

lemma syncable_trees: "syncable f ss ds \<Longrightarrow> plainTree f ss" "syncable f ss ds \<Longrightarrow> plainTree f ds"
  by (simp_all add: syncable_def)

lemma relNames_absPath: "rs \<noteq> [] \<Longrightarrow> plainNames (rs @ cs) \<Longrightarrow> relNames rs (absPath (rs @ cs)) = cs"
  using plain_noSlash [of "rs @ cs"] by (simp add: relNames_def splitChar_absPath)

lemma syncable_kinds:
  assumes "syncable f ss ds" and "plainNames cs" and "fget f (absPath (ss @ cs)) = Some n" and "n \<noteq> FDir"
  shows "fget f (absPath (ds @ cs)) \<noteq> Some FDir"
proof -
  note t = plainTreeD(1,2) [OF syncable_trees(1) [OF assms(1)]]
  have "(absPath (ss @ cs), n) \<in> set f" using assms(3) by (auto simp: fget_def dest: map_of_SomeD)
  moreover have "list_all (\<lambda>(p, n). inTree (absPath ss) p \<and> n \<noteq> FDir \<longrightarrow> fget f (absPath (ds @ relNames ss p)) \<noteq> Some FDir) f"
    using assms(1) by (simp add: syncable_def)
  ultimately have "fget f (absPath (ds @ relNames ss (absPath (ss @ cs)))) \<noteq> Some FDir"
    using inTree_absPath [OF t(1)] assms(4) unfolding list_all_iff [where xs = f] by fast
  then show ?thesis using relNames_absPath [OF t(1), of cs] t(2) assms(2) by simp
qed

text \<open>The target is apart from the source and from the way to it.\<close>

lemma outside:
  assumes "syncable f ss ds" and "plainNames cs"
  shows "\<not> inTree (absPath ds) (absPath (ss @ cs))" and "\<not> inTree (absPath ds) (absPath (take i ss))"
proof -
  note s = plainTreeD(1,2) [OF syncable_trees(1) [OF assms(1)]] and d = plainTreeD(1,2) [OF syncable_trees(2) [OF assms(1)]]
  show "\<not> inTree (absPath ds) (absPath (ss @ cs))"
    using inTree_iff [OF d(2) _ d(1), of "ss @ cs"] s(2) assms(2) syncable_apart [OF assms(1), of cs] by auto
  have "plainNames (take i ss)" using s(2) by (auto simp: list_all_iff dest: in_set_takeD)
  moreover have "take i ss \<noteq> ds @ xs" for xs
    using syncable_apart [OF assms(1), of "[]" "xs @ drop i ss"] by (metis append.assoc append_Nil2 append_take_drop_id)
  ultimately show "\<not> inTree (absPath ds) (absPath (take i ss))"
    using inTree_iff [OF d(2) _ d(1)] by auto
qed

definition sameOutside :: "string list \<Rightarrow> fsys \<Rightarrow> fsys \<Rightarrow> bool" where
  "sameOutside ds f0 f \<longleftrightarrow> (\<forall>q. \<not> inTree (absPath ds) q \<longrightarrow> fget f q = fget f0 q)"

lemma source_same:
  assumes "syncable f0 ss ds" and "sameOutside ds f0 f" and "plainNames cs"
  shows "fget f (absPath (ss @ cs)) = fget f0 (absPath (ss @ cs))"
    and "exists f (absPath (ss @ cs)) \<longleftrightarrow> fget f0 (absPath (ss @ cs)) \<noteq> None"
proof -
  note s = plainTreeD(1-3) [OF syncable_trees(1) [OF assms(1)]]
  have src: "fget f (absPath (ss @ xs)) = fget f0 (absPath (ss @ xs))" if "plainNames xs" for xs
    using assms(2) outside(1) [OF assms(1) that] by (simp add: sameOutside_def)
  have "fget f (absPath (take i ss)) = fget f0 (absPath (take i ss))" for i
    using assms(2) outside(2) [OF assms(1,3)] by (simp add: sameOutside_def)
  then have "dirsTo f ss" using s(3) by (simp add: dirsTo_def)
  moreover have "fget f (absPath (ss @ xs)) \<noteq> Some (FLink t)" if "plainNames xs" for xs t
    using src [OF that] plainTree_noLink [OF syncable_trees(1) [OF assms(1)]] by simp
  ultimately show "exists f (absPath (ss @ cs)) \<longleftrightarrow> fget f0 (absPath (ss @ cs)) \<noteq> None"
    using exists_iff(2) [of ss cs f] s assms(3) src [OF assms(3)] by simp
  show "fget f (absPath (ss @ cs)) = fget f0 (absPath (ss @ cs))" by (rule src [OF assms(3)])
qed

section \<open>The first walk\<close>

definition orphan :: "fsys \<Rightarrow> string list \<Rightarrow> string list \<Rightarrow> string \<Rightarrow> bool" where
  "orphan f ss ds p \<longleftrightarrow> (\<exists>cs. plainNames cs \<and> p = absPath (ds @ cs) \<and> fget f (absPath (ss @ cs)) = None)"

lemma orphan_exists:
  assumes "syncable f0 ss ds" and "sameOutside ds f0 f" and "plainNames cs"
  shows "exists f (pathJoin [absPath ss, drop (length (absPath ds)) (absPath (ds @ cs))]) \<longleftrightarrow> \<not> orphan f0 ss ds (absPath (ds @ cs))"
proof -
  note s = plainTreeD(1,2) [OF syncable_trees(1) [OF assms(1)]] and d = plainTreeD(1,2) [OF syncable_trees(2) [OF assms(1)]]
  have "orphan f0 ss ds (absPath (ds @ cs)) \<longleftrightarrow> fget f0 (absPath (ss @ cs)) = None"
  proof
    assume "orphan f0 ss ds (absPath (ds @ cs))"
    then obtain xs where xs: "plainNames xs" "absPath (ds @ cs) = absPath (ds @ xs)" "fget f0 (absPath (ss @ xs)) = None"
      by (auto simp: orphan_def)
    then have "ds @ cs = ds @ xs" using assms(3) d(2) by (intro absPath_inj) simp_all
    then show "fget f0 (absPath (ss @ cs)) = None" using xs(3) by simp
  qed (use assms(3) in \<open>auto simp: orphan_def\<close>)
  then show ?thesis using rel_path [of ss cs ds] s d assms(3) source_same(2) [OF assms] by simp
qed

lemma deleteWalk_run:
  assumes "syncable f0 ss ds" and "deleteWalk (absPath ss) (absPath ds) ps w = (Inr (), w')"
    and "sameOutside ds f0 (fs w)" and "\<forall>p \<in> set ps. \<exists>cs. plainNames cs \<and> p = absPath (ds @ cs)"
  shows "fget (fs w') q = (if \<exists>p \<in> set ps. orphan f0 ss ds p \<and> inTree p q then None else fget (fs w) q)"
  using assms(2-)
proof (induction "length ps" arbitrary: ps w rule: less_induct)
  case less
  note d = plainTreeD(1,2) [OF syncable_trees(2) [OF assms(1)]]
  show ?case
  proof (cases ps)
    case Nil
    then show ?thesis using less.prems(1) by simp
  next
    case (Cons p qs)
    obtain cs where cs: "plainNames cs" "p = absPath (ds @ cs)" using less.prems(3) Cons by auto
    have e: "exists (fs w) (pathJoin [absPath ss, drop (length (absPath ds)) p]) \<longleftrightarrow> \<not> orphan f0 ss ds p"
      using orphan_exists [OF assms(1) less.prems(2) cs(1)] cs(2) by simp
    show ?thesis
    proof (cases "orphan f0 ss ds p")
      case False
      then have "deleteWalk (absPath ss) (absPath ds) qs w = (Inr (), w')" using less.prems(1) e Cons by (simp add: bind_gets)
      moreover have "length qs < length ps" "\<forall>p \<in> set qs. \<exists>cs. plainNames cs \<and> p = absPath (ds @ cs)"
        using less.prems(3) Cons by simp_all
      ultimately have "fget (fs w') q = (if \<exists>p \<in> set qs. orphan f0 ss ds p \<and> inTree p q then None else fget (fs w) q)"
        using less.hyps less.prems(2) by blast
      then show ?thesis using Cons False by simp
    next
      case True
      let ?rs = "if fget (fs w) p = Some FDir then filter (\<lambda>q. \<not> inTree p q) qs else qs"
      have "deleteWalk (absPath ss) (absPath ds) ?rs (w\<lparr>hist := ERemoveAll p # hist w, fs := fdrop (inTree p) (fs w)\<rparr>) = (Inr (), w')"
        using less.prems(1) e Cons True
        by (auto simp: bind_gets andThen_Inr ioRemoveAll_def fallible_def Let_def split: if_splits)
      then obtain w1 where w1: "fs w1 = fdrop (inTree p) (fs w)" "deleteWalk (absPath ss) (absPath ds) ?rs w1 = (Inr (), w')"
        by (rule that [rotated]) simp
      have "inTree (absPath ds) p" using cs inTree_absPath [OF d(1)] by simp
      then have "sameOutside ds f0 (fs w1)" using less.prems(2) inTree_trans w1(1) by (auto simp: sameOutside_def)
      moreover have "length ?rs < length ps" using Cons by (simp add: le_imp_less_Suc)
      moreover have "\<forall>p \<in> set ?rs. \<exists>cs. plainNames cs \<and> p = absPath (ds @ cs)" using less.prems(3) Cons by (auto split: if_splits)
      ultimately have f: "fget (fs w') q = (if \<exists>p \<in> set ?rs. orphan f0 ss ds p \<and> inTree p q then None else fget (fs w1) q)"
        using less.hyps w1(2) by blast
      show ?thesis
      proof (cases "inTree p q")
        case True
        then show ?thesis using f w1(1) \<open>orphan f0 ss ds p\<close> Cons by simp
      next
        case False
        then have cond: "(\<exists>p \<in> set ?rs. orphan f0 ss ds p \<and> inTree p q) \<longleftrightarrow> (\<exists>p \<in> set ps. orphan f0 ss ds p \<and> inTree p q)"
          using Cons inTree_trans [of p _ q] by (cases "fget (fs w) p = Some FDir") (simp_all, blast+)
        then show ?thesis using f w1(1) False unfolding cond by (simp only: fget_fdrop if_False)
      qed
    qed
  qed
qed

lemma walkPaths_plain:
  assumes "plainTree f rs" and "p \<in> set (walkPaths f (absPath rs))"
  shows "\<exists>cs n. plainNames cs \<and> p = absPath (rs @ cs) \<and> fget f p = Some n \<and> (\<forall>t. n \<noteq> FLink t)"
proof -
  have p: "p \<in> fst ` set f" "inTree (absPath rs) p" using assms(2) by (auto simp: walkPaths_set)
  then obtain n where n: "fget f p = Some n" by (cases "fget f p") (auto simp: fget_def map_of_eq_None_iff)
  then show ?thesis using plainTreeD(5) [OF assms(1) n p(2)] by blast
qed

lemma walkPaths_mem: "plainTree f rs \<Longrightarrow> fget f (absPath (rs @ cs)) = Some n \<Longrightarrow> absPath (rs @ cs) \<in> set (walkPaths f (absPath rs))"
  using inTree_absPath [OF plainTreeD(1)] by (auto simp: walkPaths_set intro: fget_dom)

text \<open>After the first walk the target has what it had, as far as the source has something there.\<close>

lemma deleteWalk_keeps:
  assumes "syncable (fs w) ss ds" and "deleteWalk (absPath ss) (absPath ds) (walkPaths (fs w) (absPath ds)) w = (Inr (), w')"
  shows "sameOutside ds (fs w) (fs w')"
    and "plainNames cs \<Longrightarrow> fget (fs w') (absPath (ds @ cs)) =
      (if fget (fs w) (absPath (ss @ cs)) = None then None else fget (fs w) (absPath (ds @ cs)))"
    and "fget (fs w') q = fget (fs w) q \<or> fget (fs w') q = None"
proof -
  let ?ps = "walkPaths (fs w) (absPath ds)"
  note t = syncable_trees [OF assms(1)] and d = plainTreeD(1,2) [OF syncable_trees(2) [OF assms(1)]]
  have "sameOutside ds (fs w) (fs w)" by (simp add: sameOutside_def)
  moreover have ps: "\<forall>p \<in> set ?ps. \<exists>cs. plainNames cs \<and> p = absPath (ds @ cs)" using walkPaths_plain [OF t(2)] by blast
  ultimately have run: "fget (fs w') q = (if \<exists>p \<in> set ?ps. orphan (fs w) ss ds p \<and> inTree p q then None else fget (fs w) q)" for q
    using deleteWalk_run [OF assms] by blast
  then show "fget (fs w') q = fget (fs w) q \<or> fget (fs w') q = None" by simp
  have "inTree (absPath ds) q" if "p \<in> set ?ps" "inTree p q" for p q
    using that inTree_trans by (auto simp: walkPaths_set)
  then show "sameOutside ds (fs w) (fs w')" using run by (auto simp: sameOutside_def)
  assume cs: "plainNames cs"
  show "fget (fs w') (absPath (ds @ cs)) =
      (if fget (fs w) (absPath (ss @ cs)) = None then None else fget (fs w) (absPath (ds @ cs)))"
  proof (cases "fget (fs w) (absPath (ss @ cs)) = None")
    case True
    then have "orphan (fs w) ss ds (absPath (ds @ cs))" using cs by (auto simp: orphan_def)
    moreover have "inTree (absPath (ds @ cs)) (absPath (ds @ cs))" by (simp add: inTree_def)
    ultimately show ?thesis using run [of "absPath (ds @ cs)"] walkPaths_mem [OF t(2), of cs] True
      by (cases "fget (fs w) (absPath (ds @ cs))") auto
  next
    case False
    have "\<not> (orphan (fs w) ss ds p \<and> inTree p (absPath (ds @ cs)))" for p
    proof
      assume a: "orphan (fs w) ss ds p \<and> inTree p (absPath (ds @ cs))"
      then obtain xs where xs: "plainNames xs" "p = absPath (ds @ xs)" "fget (fs w) (absPath (ss @ xs)) = None" by (auto simp: orphan_def)
      then have "\<exists>ys. ds @ cs = (ds @ xs) @ ys" using inTree_iff [of "ds @ xs" "ds @ cs"] a cs d by simp
      then obtain ys where ys: "cs = xs @ ys" by auto
      then show False using plainTree_prefix [OF t(1), of xs ys] cs xs(3) False by (cases "ys = []") auto
    qed
    then show ?thesis using run [of "absPath (ds @ cs)"] False by auto
  qed
qed

section \<open>The second walk\<close>

lemma mkdirs_run:
  assumes "plainNames (as @ cs)" and "\<And>xs ys t. cs = xs @ ys \<Longrightarrow> xs \<noteq> [] \<Longrightarrow> fget f (absPath (as @ xs)) \<noteq> Some (FLink t)"
    and "mkdirs (absPath as) cs f = (True, f')"
  shows "fget f' q = (if \<exists>xs ys. cs = xs @ ys \<and> xs \<noteq> [] \<and> q = absPath (as @ xs) then Some FDir else fget f q)"
  using assms
proof (induction cs arbitrary: as f)
  case (Cons c cs)
  have c: "c \<noteq> ''''" and pl: "plainNames as" "plainNames ((as @ [c]) @ cs)" using Cons.prems(1) by (simp_all, auto simp: plainName_def)
  let ?p = "absPath (as @ [c])"
  have root: "?p \<noteq> ''/''" using pl by simp
  have prefixes: "(\<exists>xs ys. c # cs = xs @ ys \<and> xs \<noteq> [] \<and> q = absPath (as @ xs)) \<longleftrightarrow>
      q = ?p \<or> (\<exists>xs ys. cs = xs @ ys \<and> xs \<noteq> [] \<and> q = absPath ((as @ [c]) @ xs))"
  proof
    assume "\<exists>xs ys. c # cs = xs @ ys \<and> xs \<noteq> [] \<and> q = absPath (as @ xs)"
    then obtain xs ys where x: "c # cs = xs @ ys" "xs \<noteq> []" "q = absPath (as @ xs)" by blast
    then obtain zs where zs: "xs = c # zs" "cs = zs @ ys" by (cases xs) auto
    then have "q = absPath ((as @ [c]) @ zs)" using x(3) by simp
    then show "q = ?p \<or> (\<exists>xs ys. cs = xs @ ys \<and> xs \<noteq> [] \<and> q = absPath ((as @ [c]) @ xs))"
      using zs(2) by (cases "zs = []") (simp, blast)
  next
    assume "q = ?p \<or> (\<exists>xs ys. cs = xs @ ys \<and> xs \<noteq> [] \<and> q = absPath ((as @ [c]) @ xs))"
    then show "\<exists>xs ys. c # cs = xs @ ys \<and> xs \<noteq> [] \<and> q = absPath (as @ xs)"
      by (metis append.assoc append_Cons append_Nil list.distinct(1))
  qed
  have nl: "fget f (absPath ((as @ [c]) @ xs)) \<noteq> Some (FLink t)" if "cs = xs @ ys" for xs ys t
    using Cons.prems(2) [of "c # xs" ys] that by simp
  have "\<exists>g. mkdirs ?p cs g = (True, f') \<and> (\<forall>q. fget g q = (if q = ?p then Some FDir else fget f q))"
  proof (cases "fget f ?p")
    case None
    then have "mkdirs ?p cs (fput f ?p FDir) = (True, f')" using Cons.prems(3) c root pl(1) by (simp add: child_absPath nodeAt_def)
    then show ?thesis by (intro exI [of _ "fput f ?p FDir"]) simp
  next
    case (Some n)
    then have "isDirectory f ?p \<and> mkdirs ?p cs f = (True, f')"
      using Cons.prems(3) c root pl(1) by (simp add: child_absPath nodeAt_def split: if_splits)
    moreover from this have "n = FDir" using Some nl [of "[]" cs] root
      by (cases n) (auto simp: isDirectory_def stat_def nodeAt_def)
    ultimately show ?thesis using Some by (intro exI [of _ f]) auto
  qed
  then obtain g where g: "mkdirs ?p cs g = (True, f')" "\<And>q. fget g q = (if q = ?p then Some FDir else fget f q)" by blast
  have "fget f' q = (if \<exists>xs ys. cs = xs @ ys \<and> xs \<noteq> [] \<and> q = absPath ((as @ [c]) @ xs) then Some FDir else fget g q)"
    using Cons.IH [OF pl(2) _ g(1)] nl g(2) by auto
  moreover have "(if B then s else if A then s else x) = (if A \<or> B then s else x)" for A B and s x :: "fnode option" by simp
  ultimately show ?case unfolding prefixes g(2) by simp
qed simp

text \<open>What the documentation of \<^verbatim>\<open>cp -a\<close> promises for a file and a target that is no directory and no link.\<close>

definition cp_ok :: "cpProgram \<Rightarrow> bool" where
  "cp_ok cp \<longleftrightarrow>
     (\<forall>f src dst c f'. fget f src = Some (FFile c) \<and> fget f dst \<noteq> Some FDir \<and> (\<forall>t. fget f dst \<noteq> Some (FLink t))
        \<and> cp f src dst = Some f' \<longrightarrow> (\<forall>q. fget f' q = (if q = dst then Some (FFile c) else fget f q)))"

text \<open>A change of the target to what the source \<open>f0\<close> has.\<close>

definition moved :: "fsys \<Rightarrow> string list \<Rightarrow> string list \<Rightarrow> fsys \<Rightarrow> fsys \<Rightarrow> bool" where
  "moved f0 ss ds f f' \<longleftrightarrow>
     (\<forall>q. fget f' q = fget f q \<or>
        (\<exists>xs. plainNames xs \<and> q = absPath (ds @ xs) \<and> fget f' q = fget f0 (absPath (ss @ xs)) \<and> fget f' q \<noteq> None))"

lemma moved_refl: "moved f0 ss ds f f"
  by (simp add: moved_def)

lemma moved_trans: "moved f0 ss ds f g \<Longrightarrow> moved f0 ss ds g h \<Longrightarrow> moved f0 ss ds f h"
  unfolding moved_def by metis

lemma moved_done:
  assumes "moved f0 ss ds f g" and "plainNames (ds @ xs)" and "fget f (absPath (ds @ xs)) = fget f0 (absPath (ss @ xs))"
  shows "fget g (absPath (ds @ xs)) = fget f0 (absPath (ss @ xs))"
proof (rule ccontr)
  assume a: "fget g (absPath (ds @ xs)) \<noteq> fget f0 (absPath (ss @ xs))"
  then obtain ys where ys: "plainNames ys" "absPath (ds @ xs) = absPath (ds @ ys)"
      "fget g (absPath (ds @ xs)) = fget f0 (absPath (ss @ ys))"
    using assms(1,3) unfolding moved_def by metis
  then have "ds @ xs = ds @ ys" using assms(2) by (intro absPath_inj) simp_all
  then show False using ys(3) a by simp
qed

text \<open>The state of the second walk: \<open>f1\<close> is what the first has left.\<close>

definition afterDelete :: "fsys \<Rightarrow> string list \<Rightarrow> string list \<Rightarrow> fsys \<Rightarrow> bool" where
  "afterDelete f0 ss ds f1 \<longleftrightarrow>
     sameOutside ds f0 f1 \<and> (\<forall>q. fget f1 q = fget f0 q \<or> fget f1 q = None)
     \<and> (\<forall>cs. plainNames cs \<longrightarrow> fget f1 (absPath (ds @ cs)) =
           (if fget f0 (absPath (ss @ cs)) = None then None else fget f0 (absPath (ds @ cs))))"

lemma moved_state:
  assumes "syncable f0 ss ds" and "afterDelete f0 ss ds f1" and "moved f0 ss ds f1 f"
  shows "sameOutside ds f0 f" and "fget f (absPath (ds @ xs)) \<noteq> Some (FLink t)" and "dirsTo f ds"
    and "plainNames cs \<Longrightarrow> fget f0 (absPath (ss @ cs)) = Some (FFile c) \<Longrightarrow> fget f (absPath (ds @ cs)) \<noteq> Some FDir"
proof -
  note t = syncable_trees [OF assms(1)]
  note s = plainTreeD [OF t(1)] and d = plainTreeD [OF t(2)]
  show out: "sameOutside ds f0 f"
    using assms(2,3) inTree_absPath [OF d(1)] unfolding sameOutside_def afterDelete_def moved_def by metis
  show "fget f (absPath (ds @ xs)) \<noteq> Some (FLink t)"
    using assms(2,3) plainTree_noLink [OF t(1)] plainTree_noLink [OF t(2)] unfolding afterDelete_def moved_def by (metis option.distinct(1))
  have del: "fget f1 (absPath (ds @ cs)) = (if fget f0 (absPath (ss @ cs)) = None then None else fget f0 (absPath (ds @ cs)))"
    if "plainNames cs" for cs using assms(2) that by (simp add: afterDelete_def)
  have "fget f1 (absPath (ds @ [])) = Some FDir" using del [of "[]"] s(4) d(4) by simp
  then have root: "fget f (absPath ds) = Some FDir"
    using moved_done [OF assms(3), of "[]"] d(2) s(4) by simp
  have "fget f (absPath (take (Suc i) ds)) = Some FDir" if "i < length ds" for i
  proof (cases "Suc i = length ds")
    case False
    have p: "plainNames (take (Suc i) ds)" using d(2) by (auto simp: list_all_iff dest: in_set_takeD)
    have "take (Suc i) ds \<noteq> ds @ xs" for xs using False that by (metis length_append length_take linorder_not_less min.absorb4 nat_le_linear not_add_less1 order_le_less Suc_leI)
    then have "\<not> inTree (absPath ds) (absPath (take (Suc i) ds))" using inTree_iff [OF d(2) p d(1)] by simp
    then show ?thesis using out d(3) that by (auto simp: sameOutside_def dirsTo_def list_all_iff)
  qed (use root in simp)
  then show "dirsTo f ds" by (simp add: dirsTo_def list_all_iff)
  assume cs: "plainNames cs" and c: "fget f0 (absPath (ss @ cs)) = Some (FFile c)"
  then have n: "fget f1 (absPath (ds @ cs)) \<noteq> Some FDir"
    using assms(2) syncable_kinds [OF assms(1) cs c] by (auto simp: afterDelete_def)
  show "fget f (absPath (ds @ cs)) \<noteq> Some FDir"
  proof
    assume a: "fget f (absPath (ds @ cs)) = Some FDir"
    then obtain ys where ys: "plainNames ys" "absPath (ds @ cs) = absPath (ds @ ys)" "fget f0 (absPath (ss @ ys)) = Some FDir"
      using assms(3) n unfolding moved_def by metis
    then have "ds @ cs = ds @ ys" using cs d(2) by (intro absPath_inj) simp_all
    then show False using ys(3) c by simp
  qed
qed

lemma syncOne_dir:
  assumes "syncable f0 ss ds" and "afterDelete f0 ss ds f1" and "moved f0 ss ds f1 (fs w)"
    and "plainNames cs" and "fget f0 (absPath (ss @ cs)) = Some FDir" and "ioMkdirAll (absPath (ds @ cs)) w = (Inr (), w')"
  shows "moved f0 ss ds (fs w) (fs w') \<and> fget (fs w') (absPath (ds @ cs)) = Some FDir"
proof -
  note t = syncable_trees [OF assms(1)] and st = moved_state [OF assms(1-3)]
  note d = plainTreeD(1,2) [OF t(2)]
  let ?dst = "absPath (ds @ cs)"
  have "mkdirs ''/'' (splitChar slash ?dst) (fs w) = (True, fs w')"
    using assms(6) by (auto simp: andThen_Inr ioMkdirAll_def fallible_def Let_def split: if_splits prod.splits bool.splits)
  then have m: "mkdirs (absPath []) (ds @ cs) (fs w) = (True, fs w')"
    using splitChar_absPath [of "ds @ cs"] plain_noSlash [of "ds @ cs"] d assms(4) by (simp add: absPath_def)
  have dir: "fget (fs w) (absPath xs) = Some FDir \<or> (\<exists>zs. plainNames zs \<and> xs = ds @ zs \<and> fget f0 (absPath (ss @ zs)) = Some FDir)"
    if x: "ds @ cs = xs @ ys" "xs \<noteq> []" for xs ys
  proof (cases "length xs \<le> length ds")
    case True
    then obtain us where "ds = xs @ us" using x(1) by (auto simp: append_eq_append_conv2)
    then have "dirsTo (fs w) xs" using st(3) dirsTo_prefix by metis
    then show ?thesis using x(2) by (cases xs rule: rev_cases) (auto dest: dirsTo_last)
  next
    case False
    then obtain zs where zs: "xs = ds @ zs" "cs = zs @ ys" using x(1) by (auto simp: append_eq_append_conv2)
    then have "fget f0 (absPath (ss @ zs)) = Some FDir"
      using plainTree_prefix [OF t(1), of zs ys] assms(4,5) by (cases "ys = []") auto
    then show ?thesis using zs assms(4) by auto
  qed
  have nl: "fget (fs w) (absPath ([] @ xs)) \<noteq> Some (FLink u)" if "ds @ cs = xs @ ys" "xs \<noteq> []" for xs ys u
    using dir [OF that] st(2) by auto
  have run: "fget (fs w') q = (if \<exists>xs ys. ds @ cs = xs @ ys \<and> xs \<noteq> [] \<and> q = absPath ([] @ xs) then Some FDir else fget (fs w) q)" for q
    by (rule mkdirs_run [OF _ nl m]) (use d assms(4) in simp_all)
  have "fget (fs w') ?dst = Some FDir" unfolding run using d(1) by (metis append_Nil append_Nil2 append_is_Nil_conv)
  moreover have "moved f0 ss ds (fs w) (fs w')"
    unfolding moved_def
  proof
    fix q
    show "fget (fs w') q = fget (fs w) q \<or>
      (\<exists>xs. plainNames xs \<and> q = absPath (ds @ xs) \<and> fget (fs w') q = fget f0 (absPath (ss @ xs)) \<and> fget (fs w') q \<noteq> None)"
    proof (cases "\<exists>xs ys. ds @ cs = xs @ ys \<and> xs \<noteq> [] \<and> q = absPath ([] @ xs)")
      case True
      then obtain xs ys where x: "ds @ cs = xs @ ys" "xs \<noteq> []" "q = absPath xs" by auto
      have "fget (fs w') q = Some FDir" using run [of q] True by simp
      then show ?thesis using dir [OF x(1,2)] x(3) by auto
    next
      case False
      then show ?thesis unfolding run by (simp only: if_False simp_thms)
    qed
  qed
  ultimately show ?thesis by simp
qed

lemma syncOne_file:
  assumes "syncable f0 ss ds" and "afterDelete f0 ss ds f1" and "moved f0 ss ds f1 (fs w)" and "cp_ok cp"
    and "plainNames cs" and "fget (fs w) (absPath (ss @ cs)) = Some (FFile c)" and "fget f0 (absPath (ss @ cs)) = Some (FFile c)"
    and "(if FilesAreEqual (fs w) (absPath (ss @ cs)) (absPath (ds @ cs)) then ret ()
          else cpCopy cp (absPath (ss @ cs)) (absPath (ds @ cs))) w = (Inr (), w')"
  shows "moved f0 ss ds (fs w) (fs w') \<and> fget (fs w') (absPath (ds @ cs)) = Some (FFile c)"
proof -
  note t = syncable_trees [OF assms(1)] and st = moved_state [OF assms(1-3)]
  note s = plainTreeD(1,2) [OF t(1)] and d = plainTreeD(1,2) [OF t(2)]
  let ?src = "absPath (ss @ cs)" and ?dst = "absPath (ds @ cs)"
  have sf: "stat (fs w) ?src = Inr (FFile c)" using stat_file assms(5,6) s by simp
  show ?thesis
  proof (cases "FilesAreEqual (fs w) ?src ?dst")
    case True
    then have w: "w' = w" using assms(8) by simp
    have "stat (fs w) ?dst = Inr (FFile c)" using True sf by (simp add: FilesAreEqual_spec)
    moreover from this have "exists (fs w) ?dst" by (simp add: exists_def)
    ultimately have "fget (fs w) ?dst = Some (FFile c)"
      using exists_iff [of ds cs "fs w"] d assms(5) st(2,3) by (auto split: option.splits)
    then show ?thesis using w moved_refl by simp
  next
    case False
    then have "cpCopy cp ?src ?dst w = (Inr (), w')" using assms(8) by simp
    then have c: "cp (fs w) ?src ?dst = Some (fs w')"
      by (auto simp: cpCopy_def bind_def mapErr_def execCmd_def Let_def split: if_splits option.splits)
    have "fget (fs w) ?src = Some (FFile c) \<and> fget (fs w) ?dst \<noteq> Some FDir \<and> (\<forall>t. fget (fs w) ?dst \<noteq> Some (FLink t))"
      using assms(6) st(2) st(4) [OF assms(5,7)] by simp
    then have "\<forall>q. fget (fs w') q = (if q = ?dst then Some (FFile c) else fget (fs w) q)"
      using assms(4) c unfolding cp_ok_def by blast
    then show ?thesis using assms(5,7) unfolding moved_def by (metis option.distinct(1))
  qed
qed

lemma syncOne_step:
  assumes "syncable f0 ss ds" and "afterDelete f0 ss ds f1" and "moved f0 ss ds f1 (fs w)" and "cp_ok cp"
    and "plainNames cs" and "fget f0 (absPath (ss @ cs)) \<noteq> None"
    and "syncOne cp (absPath ss) (absPath ds) (absPath (ss @ cs)) w = (Inr (), w')"
  shows "moved f0 ss ds (fs w) (fs w') \<and> fget (fs w') (absPath (ds @ cs)) = fget f0 (absPath (ss @ cs))"
proof -
  note t = syncable_trees [OF assms(1)] and st = moved_state [OF assms(1-3)]
  note s = plainTreeD(1,2) [OF t(1)] and d = plainTreeD(1,2) [OF t(2)]
  let ?src = "absPath (ss @ cs)" and ?dst = "absPath (ds @ cs)"
  have root: "?src \<noteq> ''/''" using s assms(5) by simp
  have dst: "pathJoin [absPath ds, drop (length (absPath ss)) ?src] = ?dst" using rel_path [of ds cs ss] s d assms(5) by simp
  have src: "fget (fs w) ?src = fget f0 ?src" using source_same(1) [OF assms(1) st(1) assms(5)] .
  obtain n where n: "fget f0 ?src = Some n" using assms(6) by auto
  show ?thesis
  proof (cases n)
    case FDir
    then have "andThen (ioMkdirAll ?dst) (fallible (OsErr KIO (ECall (''utimes '' @ ?dst))) (ECall (''utimes '' @ ?dst))) w = (Inr (), w')"
      using assms(7) dst src n root by (simp add: syncOne_def Let_def nodeAt_def bind_gets)
    then obtain w1 where w1: "ioMkdirAll ?dst w = (Inr (), w1)" "fs w' = fs w1"
      by (auto simp: andThen_Inr fallible_def Let_def split: if_splits)
    then show ?thesis using syncOne_dir [OF assms(1-3,5) _ w1(1)] n FDir by simp
  next
    case (FFile c)
    then have "(if FilesAreEqual (fs w) ?src ?dst then ret () else cpCopy cp ?src ?dst) w = (Inr (), w')"
      using assms(7) dst src n root by (simp add: syncOne_def Let_def nodeAt_def bind_gets)
    then show ?thesis using syncOne_file [OF assms(1-5)] src n FFile by simp
  next
    case (FLink u)
    then show ?thesis using n plainTree_noLink [OF t(1)] by simp
  qed
qed

lemma syncAll_run:
  assumes "syncable f0 ss ds" and "afterDelete f0 ss ds f1" and "cp_ok cp"
    and "\<forall>p \<in> set ps. \<exists>cs. plainNames cs \<and> p = absPath (ss @ cs) \<and> fget f0 p \<noteq> None"
    and "moved f0 ss ds f1 (fs w)" and "forEach ps (syncOne cp (absPath ss) (absPath ds)) w = (Inr (), w')"
  shows "moved f0 ss ds (fs w) (fs w')
    \<and> (\<forall>cs. plainNames cs \<and> absPath (ss @ cs) \<in> set ps \<longrightarrow> fget (fs w') (absPath (ds @ cs)) = fget f0 (absPath (ss @ cs)))"
  using assms(4-)
proof (induction ps arbitrary: w)
  case Nil
  then show ?case by (simp add: moved_refl)
next
  case (Cons p ps)
  note s = plainTreeD(1,2) [OF syncable_trees(1) [OF assms(1)]] and d = plainTreeD(1,2) [OF syncable_trees(2) [OF assms(1)]]
  obtain cs where cs: "plainNames cs" "p = absPath (ss @ cs)" "fget f0 (absPath (ss @ cs)) \<noteq> None" using Cons.prems(1) by auto
  obtain w1 where w1: "syncOne cp (absPath ss) (absPath ds) (absPath (ss @ cs)) w = (Inr (), w1)"
      "forEach ps (syncOne cp (absPath ss) (absPath ds)) w1 = (Inr (), w')"
    using Cons.prems(3) cs(2) by (auto simp: andThen_Inr)
  have step: "moved f0 ss ds (fs w) (fs w1)" "fget (fs w1) (absPath (ds @ cs)) = fget f0 (absPath (ss @ cs))"
    using syncOne_step [OF assms(1,2) Cons.prems(2) assms(3) cs(1,3) w1(1)] by auto
  have rest: "moved f0 ss ds (fs w1) (fs w')"
    "\<forall>cs. plainNames cs \<and> absPath (ss @ cs) \<in> set ps \<longrightarrow> fget (fs w') (absPath (ds @ cs)) = fget f0 (absPath (ss @ cs))"
    using Cons.IH [OF _ moved_trans [OF Cons.prems(2) step(1)] w1(2)] Cons.prems(1) by auto
  have "fget (fs w') (absPath (ds @ xs)) = fget f0 (absPath (ss @ xs))"
    if "plainNames xs" "absPath (ss @ xs) \<in> set (p # ps)" for xs
  proof (cases "absPath (ss @ xs) \<in> set ps")
    case False
    then have "absPath (ss @ xs) = absPath (ss @ cs)" using that(2) cs(2) by simp
    then have "ss @ xs = ss @ cs" using that(1) cs(1) s(2) by (intro absPath_inj) simp_all
    then show ?thesis using moved_done [OF rest(1), of cs] step(2) d(2) cs(1) by simp
  qed (use rest(2) that(1) in blast)
  then show ?case using moved_trans [OF step(1) rest(1)] by blast
qed

lemma RSync_mirrors:
  fixes w :: "'m sworld_scheme"
  assumes "syncable (fs w) ss ds" and "cp_ok cp" and "RSyncWalks cp (absPath ss) (absPath ds) w = (Inr (), w')"
  shows "(\<forall>cs. plainNames cs \<longrightarrow> fget (fs w') (absPath (ds @ cs)) = fget (fs w) (absPath (ss @ cs)))
    \<and> (\<forall>q. \<not> inTree (absPath ds) q \<longrightarrow> fget (fs w') q = fget (fs w) q)"
proof -
  note t = syncable_trees [OF assms(1)]
  note s = plainTreeD [OF t(1)] and d = plainTreeD [OF t(2)]
  obtain w1 where w1: "deleteWalk (absPath ss) (absPath ds) (walkPaths (fs w) (absPath ds)) w = (Inr (), w1)"
      "forEach (walkPaths (fs w1) (absPath ss)) (syncOne cp (absPath ss) (absPath ds)) w1 = (Inr (), w')"
    using assms(3) by (auto simp: RSyncWalks_def bind_gets andThen_Inr split: if_splits)
  have del: "afterDelete (fs w) ss ds (fs w1)"
    unfolding afterDelete_def using deleteWalk_keeps [OF assms(1) w1(1)] by blast
  then have out: "sameOutside ds (fs w) (fs w1)" by (simp add: afterDelete_def)
  have same: "fget (fs w1) p = fget (fs w) p" if p: "inTree (absPath ss) p" for p
  proof (cases "fget (fs w) p")
    case None
    then show ?thesis using del unfolding afterDelete_def by metis
  next
    case (Some n)
    then obtain cs where "plainNames cs" "p = absPath (ss @ cs)" using s(5) p by blast
    then show ?thesis using source_same(1) [OF assms(1) out] by simp
  qed
  have dom: "p \<in> fst ` set (fs w1) \<longleftrightarrow> fget (fs w1) p \<noteq> None" for p by (auto simp: fget_def map_of_eq_None_iff)
  have mem: "p \<in> set (walkPaths (fs w1) (absPath ss)) \<longleftrightarrow> inTree (absPath ss) p \<and> fget (fs w) p \<noteq> None" for p
    unfolding walkPaths_set mem_Collect_eq dom by (cases "inTree (absPath ss) p") (simp_all add: same)
  have src: "\<forall>p \<in> set (walkPaths (fs w1) (absPath ss)). \<exists>cs. plainNames cs \<and> p = absPath (ss @ cs) \<and> fget (fs w) p \<noteq> None"
  proof
    fix p assume "p \<in> set (walkPaths (fs w1) (absPath ss))"
    then obtain n where n: "fget (fs w) p = Some n" "inTree (absPath ss) p" using mem [of p] by auto
    then show "\<exists>cs. plainNames cs \<and> p = absPath (ss @ cs) \<and> fget (fs w) p \<noteq> None" using s(5) [OF n] by auto
  qed
  note run = syncAll_run [OF assms(1) del assms(2) src moved_refl w1(2)]
  have "fget (fs w') (absPath (ds @ cs)) = fget (fs w) (absPath (ss @ cs))" if cs: "plainNames cs" for cs
  proof (cases "fget (fs w) (absPath (ss @ cs)) = None")
    case True
    then have "fget (fs w1) (absPath (ds @ cs)) = fget (fs w) (absPath (ss @ cs))" using del cs by (simp add: afterDelete_def)
    then show ?thesis using moved_done [OF conjunct1 [OF run]] cs d(2) by simp
  next
    case False
    then show ?thesis using conjunct2 [OF run] cs mem inTree_absPath [OF s(1)] by blast
  qed
  then show ?thesis using moved_state(1) [OF assms(1) del conjunct1 [OF run]] by (simp add: sameOutside_def)
qed

section \<open>The call of the boot loader\<close>

lemma map_of_rebase:
  "map_of (map (\<lambda>(p, n). (rebase src dst p, n)) (filter (\<lambda>(p, n). below src p \<and> p \<noteq> src) f)) (dst @ slash # r)
     = map_of f (src @ slash # r)"
proof (induction f)
  case (Cons e f)
  obtain p n where e: "e = (p, n)" by (cases e)
  have "rebase src dst p = dst @ slash # r \<longleftrightarrow> p = src @ slash # r" if "below src p" "p \<noteq> src"
    using that by (auto simp: rebase_def below_def hasPrefix_iff)
  then show ?case using Cons.IH e by (auto simp: below_def hasPrefix_iff)
qed simp

lemma RSyncWithDelete_files:
  assumes "RSyncWithDelete src dst w = (Inr (), v)"
  shows "fget (fs v) dst = fget (fs w) dst" and "fget (fs v) (dst @ slash # r) = fget (fs w) (src @ slash # r)"
proof -
  let ?m = "map (\<lambda>(p, n). (rebase src dst p, n)) (filter (\<lambda>(p, n). below src p \<and> p \<noteq> src) (fs w))"
    and ?d = "fdrop (\<lambda>p. below dst p \<and> p \<noteq> dst) (fs w)"
  have v: "fs v = ?m @ ?d"
    using assms by (auto simp: RSyncWithDelete_def andThen_Inr fallible_def Let_def split: if_splits)
  have "fget ?d dst = fget (fs w) dst" "fget ?d (dst @ slash # r) = None" by (simp_all add: below_def hasPrefix_iff)
  moreover have "map_of ?m dst = None" by (auto simp: map_of_eq_None_iff rebase_def below_def hasPrefix_iff)
  ultimately show "fget (fs v) dst = fget (fs w) dst" and "fget (fs v) (dst @ slash # r) = fget (fs w) (src @ slash # r)"
    using map_of_rebase [of src dst "fs w" r] unfolding v by (auto simp: fget_def map_add_def split: option.splits)
qed

text \<open>
  C26. The synchronisation of two directories makes the target an image of the source and changes
  nothing else, when it reports no error: for trees side by side without links, as long as no file of
  the source meets a directory of the target. So it refines the call with a result that the boot loader
  is modelled with.
\<close>

theorem RSync_refines:
  fixes w :: "'m sworld_scheme"
  assumes "syncable (fs w) ss ds" and "cp_ok cp" and "RSyncWalks cp (absPath ss) (absPath ds) w = (Inr (), w')"
    and "RSyncWithDelete (absPath ss) (absPath ds) w = (Inr (), v)"
  shows "(\<forall>cs. plainNames cs \<longrightarrow> fget (fs w') (absPath (ds @ cs)) = fget (fs w) (absPath (ss @ cs))
        \<and> fget (fs v) (absPath (ds @ cs)) = fget (fs w') (absPath (ds @ cs)))
    \<and> (\<forall>q. \<not> inTree (absPath ds) q \<longrightarrow> fget (fs w') q = fget (fs w) q)"
proof -
  note s = plainTreeD [OF syncable_trees(1) [OF assms(1)]] and d = plainTreeD [OF syncable_trees(2) [OF assms(1)]]
  have "fget (fs v) (absPath (ds @ cs)) = fget (fs w) (absPath (ss @ cs))" for cs
  proof (cases cs)
    case Nil
    then show ?thesis using RSyncWithDelete_files(1) [OF assms(4)] s(4) d(4) by simp
  next
    case (Cons c cs')
    then obtain r where "absPath (ds @ cs) = absPath ds @ slash # r" "absPath (ss @ cs) = absPath ss @ slash # r"
      using absPath_append [OF d(1), of cs] absPath_append [OF s(1), of cs] by simp
    then show ?thesis using RSyncWithDelete_files(2) [OF assms(4)] by simp
  qed
  then show ?thesis using RSync_mirrors [OF assms(1-3)] by simp
qed

section \<open>Two directories\<close>

text \<open>A \<^verbatim>\<open>cp\<close> that copies a file into the target when that is a directory, as the real one does.\<close>

definition plainCp :: cpProgram where
  "plainCp f src dst =
     (case fget f src of
        Some (FFile c) \<Rightarrow> Some (fput f (if fget f dst = Some FDir then pathJoin [dst, pathBase src] else dst) (FFile c))
      | _ \<Rightarrow> None)"

lemma plainCp_ok: "cp_ok plainCp"
  by (auto simp: cp_ok_def plainCp_def)

definition bootFs :: fsys where
  "bootFs =
     [(''/a'', FDir), (''/a/vmlinuz'', FFile ''new''), (''/a/dtbs'', FDir), (''/a/dtbs/x.dtb'', FFile ''x''),
      (''/b'', FDir), (''/b/vmlinuz'', FFile ''old''), (''/b/stale'', FDir), (''/b/stale/y'', FFile ''y'')]"

theorem RSync_refines_witness:
  "fget (fs (snd (RSyncWalks plainCp ''/a'' ''/b'' (quietWorld (\<lambda>_ _. '''') bootFs)))) ''/b/vmlinuz'' = Some (FFile ''new'')
   \<and> fget (fs (snd (RSyncWalks plainCp ''/a'' ''/b'' (quietWorld (\<lambda>_ _. '''') bootFs)))) ''/b/stale/y'' = None"
proof -
  let ?w = "quietWorld (\<lambda>_ _. '''') bootFs"
  have "syncable (fs ?w) [''a''] [''b'']" by code_simp
  moreover have "fst (RSyncWalks plainCp ''/a'' ''/b'' ?w) = Inr ()" by code_simp
  then have "RSyncWalks plainCp (absPath [''a'']) (absPath [''b'']) ?w = (Inr (), snd (RSyncWalks plainCp ''/a'' ''/b'' ?w))"
    by (simp add: absPath_def prod_eq_iff)
  moreover have "fst (RSyncWithDelete ''/a'' ''/b'' ?w) = Inr ()" by code_simp
  then have "RSyncWithDelete (absPath [''a'']) (absPath [''b'']) ?w = (Inr (), snd (RSyncWithDelete ''/a'' ''/b'' ?w))"
    by (simp add: absPath_def prod_eq_iff)
  ultimately have m: "fget (fs (snd (RSyncWalks plainCp ''/a'' ''/b'' ?w))) (absPath ([''b''] @ cs)) = fget (fs ?w) (absPath ([''a''] @ cs))"
    if "plainNames cs" for cs
    using RSync_refines [OF _ plainCp_ok] that by blast
  have "plainNames [''vmlinuz'']" "plainNames [''stale'', ''y'']" by code_simp+
  then show ?thesis using m [of "[''vmlinuz'']"] m [of "[''stale'', ''y'']"] by (simp add: absPath_def quietWorld_def bootFs_def fget_def)
qed

text \<open>
  Where the source has a file and the target a directory, the file is copied into the directory and the
  call reports no error, now and every time it is made again.
\<close>

lemma RSync_into_directory:
  "(let (r, w) = RSyncWalks plainCp ''/a'' ''/b''
       (quietWorld (\<lambda>_ _. '''') [(''/a'', FDir), (''/a/x'', FFile ''c''), (''/b'', FDir), (''/b/x'', FDir)])
    in (r, fget (fs w) ''/b/x'', fget (fs w) ''/b/x/x'')) = (Inr (), Some FDir, Some (FFile ''c''))"
  by code_simp

section \<open>The working directory\<close>

record wdworld = sworld +
  wd :: string

definition osChdir :: "string \<Rightarrow> ('m wdworld_scheme, serr, unit) io" where
  "osChdir p =
     andThen (fallible (OsErr KIO (ECall (''chdir '' @ p))) (ECall (''chdir '' @ p))) (\<lambda>w.
       case stat (fs w) p of
         Inl k \<Rightarrow> (Inl (OsErr k (ECall (''chdir '' @ p))), w)
       | Inr n \<Rightarrow> if n = FDir then (Inr (), w\<lparr>wd := p\<rparr>) else (Inl (OsErr KNotDir (ECall (''chdir '' @ p))), w))"

definition ChDir :: "string \<Rightarrow> ('m wdworld_scheme, serr, unit) io \<Rightarrow> ('m wdworld_scheme, serr, unit) io" where
  "ChDir newDir f =
     bind (gets wd) (\<lambda>cwd.
       andThen (osChdir newDir) (deferIO f (\<lambda>r. andThen (ignoring (osChdir cwd)) (fromRes r))))"

text \<open>
  The function is run in the directory or not at all, its result is the result, and the program is
  back where it was if the directory is still there.
\<close>

lemma ChDir_returns:
  fixes w :: "'m wdworld_scheme"
  assumes "ChDir newDir f w = (r, w')"
  shows "(\<exists>e. r = Inl e \<and> wd w' = wd w \<and> fs w' = fs w)
    \<or> (\<exists>v. wd v = newDir \<and> fs v = fs w \<and> r = fst (f v)
        \<and> ((\<forall>h e. \<not> faults (snd (f v)) h e) \<and> stat (fs (snd (f v))) (wd w) = Inr FDir \<longrightarrow> wd w' = wd w))"
proof (cases "osChdir newDir w")
  case (Pair r1 v)
  have v: "fs v = fs w" "r1 = Inr () \<Longrightarrow> wd v = newDir" "\<And>e. r1 = Inl e \<Longrightarrow> wd v = wd w"
    using Pair by (auto simp: osChdir_def andThen_def bind_def fallible_def Let_def split: if_splits sum.splits)
  show ?thesis
  proof (cases r1)
    case (Inl e)
    then show ?thesis using assms v Pair by (auto simp: ChDir_def bind_gets andThen_def bind_def)
  next
    case (Inr u)
    have home: "wd (snd (osChdir d x)) = d" if "\<forall>h e. \<not> faults x h e" "stat (fs x) d = Inr FDir" for d and x :: "'m wdworld_scheme"
      using that by (simp add: osChdir_def andThen_def bind_def fallible_def Let_def)
    have "r = fst (f v) \<and> w' = snd (osChdir (wd w) (snd (f v)))"
      using assms Inr Pair by (cases "f v"; cases "osChdir (wd w) (snd (f v))"; cases "fst (f v)"; cases "fst (osChdir (wd w) (snd (f v)))")
        (auto simp: ChDir_def bind_gets andThen_def bind_def deferIO_def ignoring_def attempt_def fromRes_def)
    then show ?thesis using v Inr home by auto
  qed
qed

end
