(* ===== verification/Release.thy ===== *)
theory Release
  imports Os
begin

text \<open>
  What release the system is, \<^verbatim>\<open>release/release.go\<close>. The variable of the package is passed on explicitly;
  the parser of the configuration file is an argument.
\<close>

record Release =
  Flavor :: string
  Series :: string
  Channel :: string

definition channelsIni :: string where "channelsIni = ''/etc/system-image/channel.ini''"

definition legacyRelease :: Release where
  "legacyRelease = \<lparr>Flavor = ''core'', Series = ''15.04'', Channel = ''''\<rparr>"

definition releaseString :: "Release \<Rightarrow> string" where
  "releaseString r = Series r @ ''-'' @ Flavor r"

text \<open>\<^verbatim>\<open>strings.Trim\<close> takes a set of characters.\<close>

definition trimSet :: "string \<Rightarrow> string \<Rightarrow> string" where
  "trimSet s cutset = rev (dropWhile (\<lambda>c. c \<in> set cutset) (rev (dropWhile (\<lambda>c. c \<in> set cutset) s)))"

definition releaseOf :: "string \<Rightarrow> (serr, Release) res" where
  "releaseOf channel =
     (if \<not> hasPrefix channel ''ubuntu-'' then Inl (Errorf ''release does not correspond to an ubuntu channel'')
      else case splitChar slash channel of
        [a, b, c] \<Rightarrow> Inr \<lparr>Flavor = trimSet a ''ubuntu-'', Series = b, Channel = c\<rparr>
      | _ \<Rightarrow> Inr legacyRelease)"

definition Setup ::
    "(string \<Rightarrow> (string, string \<Rightarrow> string \<Rightarrow> (string, string) res) res) \<Rightarrow> string \<Rightarrow> Release
     \<Rightarrow> ('m world_scheme, serr, Release) io" where
  "Setup ini rootDir rel =
     bind (ioReadFile (pathJoin [rootDir, channelsIni])) (\<lambda>content.
       case ini content of
         Inl e \<Rightarrow> throw (Errorf e)
       | Inr cfg \<Rightarrow>
           (case cfg ''service'' ''channel'' of
              Inl e \<Rightarrow> throw (Errorf e)
            | Inr channel \<Rightarrow> fromRes (releaseOf channel)))"

section \<open>Facts\<close>

lemma trimSet_id_iff: "trimSet s cs = s \<longleftrightarrow> s = [] \<or> hd s \<notin> set cs \<and> last s \<notin> set cs"
proof (cases s)
  case (Cons a t)
  have len: "length (trimSet s cs) \<le> length (dropWhile (\<lambda>c. c \<in> set cs) s)"
    using length_dropWhile_le [of "\<lambda>c. c \<in> set cs" "rev (dropWhile (\<lambda>c. c \<in> set cs) s)"] by (simp add: trimSet_def)
  show ?thesis
  proof (cases "a \<in> set cs")
    case True
    then have "length (trimSet s cs) < length s"
      using len length_dropWhile_le [of "\<lambda>c. c \<in> set cs" t] Cons by simp
    then show ?thesis using True Cons by auto
  next
    case False
    then have "trimSet s cs = rev (dropWhile (\<lambda>c. c \<in> set cs) (rev s))" using Cons by (simp add: trimSet_def)
    moreover have "rev (dropWhile (\<lambda>c. c \<in> set cs) (rev s)) = s \<longleftrightarrow> last s \<notin> set cs"
    proof -
      obtain r where r: "rev s = last s # r" using Cons by (metis append_butlast_last_id list.distinct(1) rev.simps(2) rev_append rev_singleton_conv append_Cons append_Nil)
      then show ?thesis
        using length_dropWhile_le [of "\<lambda>c. c \<in> set cs" r]
        by (metis dropWhile.simps(2) impossible_Cons rev_rev_ident)
    qed
    ultimately show ?thesis using False Cons by simp
  qed
qed (simp add: trimSet_def)

text \<open>
  A channel of three parts gives its series and its channel name, and its flavor when that
  neither begins nor ends with a letter of \<^verbatim>\<open>ubuntu-\<close>: the prefix is taken off as a set of
  characters.
\<close>

lemma releaseOf_flavor:
  assumes "slash \<notin> set f" and "slash \<notin> set s" and "slash \<notin> set c"
  shows "\<exists>r. releaseOf (''ubuntu-'' @ f @ slash # s @ slash # c) = Inr r \<and> Series r = s \<and> Channel r = c
     \<and> (Flavor r = f \<longleftrightarrow> f = '''' \<or> hd f \<notin> set ''ubuntu-'' \<and> last f \<notin> set ''ubuntu-'')"
proof -
  let ?ch = "''ubuntu-'' @ f @ slash # s @ slash # c"
  have sp: "splitChar slash (xs @ slash # ys) = xs # splitChar slash ys" if "slash \<notin> set xs" for xs ys :: string
    using that by (simp add: splitChar_append splitChar_absent)
  have "splitChar slash ((''ubuntu-'' @ f) @ slash # s @ slash # c) = [''ubuntu-'' @ f, s, c]"
    using assms by (subst sp, simp) (simp add: sp splitChar_absent)
  then have "releaseOf ?ch = Inr \<lparr>Flavor = trimSet (''ubuntu-'' @ f) ''ubuntu-'', Series = s, Channel = c\<rparr>"
    by (simp add: releaseOf_def)
  moreover have "trimSet (''ubuntu-'' @ f) ''ubuntu-'' = trimSet f ''ubuntu-''" by (simp add: trimSet_def)
  ultimately show ?thesis using trimSet_id_iff [of f "''ubuntu-''"] by simp
qed

lemma releaseOf_flavor_example:
  "\<exists>r. releaseOf ''ubuntu-touch/15.04/edge'' = Inr r \<and> Series r = ''15.04'' \<and> Flavor r \<noteq> ''touch''"
  using releaseOf_flavor [of "''touch''" "''15.04''" "''edge''"] by auto

end
