(* ===== verification/Terminal.thy ===== *)
theory Terminal
  imports SnapPart Login Release
begin

text \<open>
  What snappy shows, writes to the log and tells the store about itself: \<^verbatim>\<open>progress/progress.go\<close>, \<^verbatim>\<open>logger/logger.go\<close>,
  the encodings of \<^verbatim>\<open>snappy/timeout.go\<close> and \<^verbatim>\<open>pkg/types.go\<close>, and the headers of a request to the store of
  \<^verbatim>\<open>snappy/snapp.go\<close>. The bar that is drawn is a library; what is kept of it are its numbers.
\<close>

section \<open>Progress\<close>

record TextProgress =
  pbar :: "(int \<times> int) option"
  spinStep :: nat
  drawn :: "string list"

definition NewTextProgress :: TextProgress where
  "NewTextProgress = \<lparr>pbar = None, spinStep = 0, drawn = []\<rparr>"

definition nilBar :: serr where "nilBar = GoPanic ''nil pointer dereference''"

definition tpStart :: "string \<Rightarrow> int \<Rightarrow> TextProgress \<Rightarrow> (serr, TextProgress) res" where
  "tpStart pkg steps t = Inr (t\<lparr>pbar := Some (0, steps), drawn := (''Starting download of '' @ pkg) # drawn t\<rparr>)"

definition tpSet :: "int \<Rightarrow> TextProgress \<Rightarrow> (serr, TextProgress) res" where
  "tpSet current t =
     (case pbar t of None \<Rightarrow> Inl nilBar | Some (_, steps) \<Rightarrow> Inr (t\<lparr>pbar := Some (current, steps)\<rparr>))"

definition tpSetTotal :: "int \<Rightarrow> TextProgress \<Rightarrow> (serr, TextProgress) res" where
  "tpSetTotal steps t =
     (case pbar t of None \<Rightarrow> Inl nilBar | Some (current, _) \<Rightarrow> Inr (t\<lparr>pbar := Some (current, steps)\<rparr>))"

definition tpWrite :: "string \<Rightarrow> TextProgress \<Rightarrow> (serr, TextProgress) res" where
  "tpWrite p t =
     (case pbar t of None \<Rightarrow> Inl nilBar | Some (current, steps) \<Rightarrow> Inr (t\<lparr>pbar := Some (current + int (length p), steps)\<rparr>))"

definition tpFinished :: "TextProgress \<Rightarrow> (serr, TextProgress) res" where
  "tpFinished t = Inr (t\<lparr>drawn := ''Done'' # drawn t\<rparr>)"

definition spinStates :: string where "spinStates = [CHR ''|'', CHR ''/'', CHR ''-'', CHR 0x5C]"

definition tpSpin :: "string \<Rightarrow> TextProgress \<Rightarrow> (serr, TextProgress) res" where
  "tpSpin msg t =
     (if length spinStates \<le> spinStep t then Inl (GoPanic ''index out of range'')
      else
        (let shown = CHR 0x0D # msg @ ''['' @ [spinStates ! spinStep t] @ '']'' @ [CHR 0x1B] @ ''[K'';
             next1 = Suc (spinStep t)
         in Inr (t\<lparr>spinStep := (if length spinStates \<le> next1 then 0 else next1), drawn := shown # drawn t\<rparr>)))"

text \<open>
  The question about the license: the text has to be shown, and the first character that is typed in
  decides. \<open>typed\<close> is \<open>None\<close> when there is nothing to read.
\<close>

definition tpAgreed :: "bool \<Rightarrow> string option \<Rightarrow> string \<Rightarrow> string \<Rightarrow> TextProgress \<Rightarrow> bool \<times> TextProgress" where
  "tpAgreed writable typed intro license t =
     (if \<not> writable then (False, t)
      else
        ((case typed of Some (r # _) \<Rightarrow> r = CHR ''y'' \<or> r = CHR ''Y'' | _ \<Rightarrow> False),
         t\<lparr>drawn := ''Do you agree? [y/n] '' # license # intro # drawn t\<rparr>))"

definition tpNotify :: "string \<Rightarrow> TextProgress \<Rightarrow> TextProgress" where
  "tpNotify msg t = t\<lparr>drawn := msg # drawn t\<rparr>"

datatype Meter = NullProgress | TextMeter TextProgress

definition MakeProgressBar :: "bool \<Rightarrow> Meter" where
  "MakeProgressBar tty = (if tty then TextMeter NewTextProgress else NullProgress)"

definition Agreed :: "bool \<Rightarrow> string option \<Rightarrow> string \<Rightarrow> string \<Rightarrow> Meter \<Rightarrow> bool \<times> Meter" where
  "Agreed writable typed intro license m =
     (case m of
        NullProgress \<Rightarrow> (False, NullProgress)
      | TextMeter t \<Rightarrow> map_prod id TextMeter (tpAgreed writable typed intro license t))"

section \<open>The log\<close>

datatype Logger = NullLogger | ConsoleLog bool

record logstate =
  logger :: Logger
  sysLog :: "string list"
  conLog :: "string list"

definition logDebug :: "string \<Rightarrow> logstate \<Rightarrow> logstate" where
  "logDebug msg s =
     (case logger s of
        ConsoleLog True \<Rightarrow> s\<lparr>sysLog := (''DEBUG: '' @ msg) # sysLog s\<rparr>
      | _ \<Rightarrow> s)"

definition logNotice :: "string \<Rightarrow> logstate \<Rightarrow> logstate" where
  "logNotice msg s =
     (case logger s of
        NullLogger \<Rightarrow> s
      | ConsoleLog sys \<Rightarrow> s\<lparr>sysLog := (if sys then msg # sysLog s else sysLog s), conLog := msg # conLog s\<rparr>)"

definition Panicf :: "string \<Rightarrow> logstate \<Rightarrow> (serr, unit) res \<times> logstate" where
  "Panicf msg s = (Inl (GoPanic msg), logNotice (''PANIC '' @ msg) s)"

definition SimpleSetup :: "bool \<Rightarrow> logstate \<Rightarrow> logstate" where
  "SimpleSetup syslogWorks s =
     (if syslogWorks then s\<lparr>logger := ConsoleLog True\<rparr>
      else s\<lparr>logger := ConsoleLog False, conLog := ''WARNING: can not create syslog logger'' # conLog s\<rparr>)"

section \<open>Encodings\<close>

text \<open>The json codec of strings and \<^verbatim>\<open>time.ParseDuration\<close> are arguments.\<close>

definition typeUnmarshalJSON :: "(string \<Rightarrow> (serr, string) res) \<Rightarrow> string \<Rightarrow> (serr, string) res" where
  "typeUnmarshalJSON dec data = rbind (dec data) (\<lambda>str. Inr (if str = ''application'' then TypeApp else str))"

definition timeoutUnmarshalJSON :: "(string \<Rightarrow> (serr, string) res) \<Rightarrow> (string \<Rightarrow> (serr, int) res) \<Rightarrow> string \<Rightarrow> (serr, int) res" where
  "timeoutUnmarshalJSON dec parseDuration buf = rbind (dec buf) (\<lambda>str. parseDuration str)"

section \<open>Requests to the store\<close>

definition cpiURL :: "string \<Rightarrow> string" where
  "cpiURL staging =
     (if staging \<noteq> '''' then ''https://search.apps.staging.ubuntu.com/api/v1/'' else ''https://search.apps.ubuntu.com/api/v1/'')"

text \<open>
  \<^verbatim>\<open>setUbuntuStoreHeaders\<close>: \<open>rel\<close> is the release, \<open>storeEnv\<close> the variable \<^verbatim>\<open>UBUNTU_STORE_ID\<close>, \<open>nonce\<close> and \<open>now\<close> the random
  string and the time of the signature. Errors of the list of frameworks and of the token are not
  reported.
\<close>

definition storeHeader :: "genv \<Rightarrow> string \<Rightarrow> ('m pworld_scheme, serr, (string \<times> string) list) io" where
  "storeHeader E storeEnv =
     (if storeEnv \<noteq> '''' then ret [(''X-Ubuntu-Store'', storeEnv)]
      else bind (StoreID E) (\<lambda>sid. ret (if sid = '''' then [] else [(''X-Ubuntu-Store'', sid)])))"

definition authHeader :: "ssoenv \<Rightarrow> string \<Rightarrow> int \<Rightarrow> ('m world_scheme, serr, (string \<times> string) list) io" where
  "authHeader S nonce now =
     bind (attempt (ReadStoreToken S)) (\<lambda>r.
       ret (case r of Inl _ \<Rightarrow> [] | Inr token \<Rightarrow> [(''Authorization'', MakePlaintextSignature nonce now token)]))"

definition setUbuntuStoreHeaders ::
    "genv \<Rightarrow> ssoenv \<Rightarrow> Release \<Rightarrow> string \<Rightarrow> string \<Rightarrow> int \<Rightarrow> ('m pworld_scheme, serr, (string \<times> string) list) io" where
  "setUbuntuStoreHeaders E S rel storeEnv nonce now =
     bind (attempt (ActiveSnapIterByType E PartName [TypeFramework])) (\<lambda>r.
     bind (case r of Inr ns \<Rightarrow> ret ns | Inl e \<Rightarrow> if isPanicErr e then throw e else ret []) (\<lambda>frameworks.
     bind (storeHeader E storeEnv) (\<lambda>store.
     bind (authHeader S nonce now) (\<lambda>auth.
       ret ([(''Accept'', ''application/hal+json''), (''X-Ubuntu-Frameworks'', join (addCoreFmk frameworks) '',''),
             (''X-Ubuntu-Architecture'', UbuntuArchitecture (goarch E)), (''X-Ubuntu-Release'', releaseString rel),
             (''X-Ubuntu-Device-Channel'', Release.Channel rel)] @ store @ auth)))))"

section \<open>Facts\<close>

text \<open>The spinner never leaves its four pictures, and after four steps it is where it was.\<close>

definition spinning :: "TextProgress \<Rightarrow> bool" where "spinning t \<longleftrightarrow> spinStep t < length spinStates"

lemma spinning_kept:
  "spinning NewTextProgress"
  "spinning t \<Longrightarrow> \<exists>t'. tpSpin msg t = Inr t' \<and> spinning t' \<and> spinStep t' = (if spinStep t = 3 then 0 else Suc (spinStep t))"
  "spinning t \<Longrightarrow> op1 \<in> {tpStart p n, tpSet n, tpSetTotal n, tpWrite p, tpFinished} \<Longrightarrow> op1 t = Inr t' \<Longrightarrow> spinning t'"
  by (auto simp: spinning_def NewTextProgress_def tpSpin_def spinStates_def Let_def tpStart_def tpSet_def tpSetTotal_def
      tpWrite_def tpFinished_def split: option.splits prod.splits)

text \<open>A license is agreed to only by a letter typed at a terminal, after its text was shown.\<close>

lemma Agreed_only_if:
  assumes "Agreed writable typed intro license m = (True, m')"
  shows "\<exists>t t' r rest. m = TextMeter t \<and> m' = TextMeter t' \<and> typed = Some (r # rest) \<and> r \<in> {CHR ''y'', CHR ''Y''}
    \<and> license \<in> set (drawn t') \<and> intro \<in> set (drawn t')"
  using assms by (auto simp: Agreed_def tpAgreed_def split: Meter.splits if_splits option.splits list.splits)

lemma typeUnmarshalJSON_app:
  assumes "\<And>s. dec (enc s) = Inr s"
  shows "typeUnmarshalJSON dec (enc t) = Inr (if t = ''application'' then TypeApp else t)"
  by (simp add: typeUnmarshalJSON_def assms)

lemma oauthQuote_chars: "c \<in> set (oauthQuote s) \<Longrightarrow> c = CHR ''%'' \<or> \<not> needsEscape c"
  using upperHex_range hex_digits by (auto simp: oauthQuote_def quoteByte_def split: if_splits)

text \<open>Whatever is in the token file, the signature stays on one line of the request.\<close>

lemma signature_one_line:
  assumes "\<forall>c \<in> set nonce. c \<noteq> CHR 0x0A \<and> c \<noteq> CHR 0x0D"
  shows "\<forall>c \<in> set (MakePlaintextSignature nonce now token). c \<noteq> CHR 0x0A \<and> c \<noteq> CHR 0x0D"
proof -
  have esc: "needsEscape (CHR 0x0A)" "needsEscape (CHR 0x0D)" by code_simp+
  have q: "\<forall>c \<in> set (oauthQuote s). c \<noteq> CHR 0x0A \<and> c \<noteq> CHR 0x0D" for s
    using oauthQuote_chars [of _ s] esc by force
  have i: "\<forall>c \<in> set (itoa n). c \<noteq> CHR 0x0A \<and> c \<noteq> CHR 0x0D" for n
  proof -
    have "isDigit c \<or> c = CHR ''-''" if "c \<in> set (itoa n)" for c
      using that itoaU_digits [of "abs n"] by (auto simp: itoa_def list_all_iff split: if_splits)
    moreover have "\<not> isDigit (CHR 0x0A)" "\<not> isDigit (CHR 0x0D)" by code_simp+
    ultimately show ?thesis by force
  qed
  show ?thesis using q i assms by (simp add: MakePlaintextSignature_def ball_Un)
qed

end
