(* ===== verification/Spec2Isabelle.thy ===== *)
theory Spec2Isabelle
  imports BootMachine Api Commands Mirror Terminal
begin

text \<open>
  A verification development for snappy, the package and image manager of Ubuntu Core.

  \<^bold>\<open>The program.\<close> A device has two root partitions, a boot loader that chooses between them, and
  packages (snaps) in directories \<^verbatim>\<open>/apps/<name>.<origin>/<version>\<close> with a link \<^verbatim>\<open>current\<close> to the
  active version. The package \<^verbatim>\<open>partition\<close> finds and mounts the partitions and writes the boot
  variables; \<^verbatim>\<open>snappy\<close> installs, activates, updates, rolls back and removes packages and the
  system image; \<^verbatim>\<open>systemd\<close>, \<^verbatim>\<open>policy\<close>, \<^verbatim>\<open>helpers\<close> and \<^verbatim>\<open>dirs\<close> serve it; \<^verbatim>\<open>pkg/lightweight\<close> gives
  the daemon a quick view of what is there; \<^verbatim>\<open>daemon\<close> answers http requests. Everything meets in the file system: a package is
  active because a link says so, a root is tried next because a variable in a file says so.

  \<^bold>\<open>The model.\<close> Go code with effects is a function of the state monad of \<^verbatim>\<open>GoIO\<close>, from a world to
  a result and a world. The world holds the file system (paths to files, directories and
  links), the history of the calls that leave the process, newest first, and an oracle that
  decides, from that history, which calls fail; extensions add the mount list and the
  outputs, exit codes and durations of commands. An error is \<open>Inl\<close>, a panic is an error of its
  own that no handler catches. \<^verbatim>\<open>defer\<close> is \<open>deferIO\<close> or \<open>onError\<close>. Libraries and servers are
  arguments: the records \<open>boottools\<close>, \<open>yamltools\<close>, \<open>genv\<close>, \<open>netenv\<close> and \<open>runenv\<close> hold the yaml, json
  and ini decoders, \<^verbatim>\<open>lsblk\<close>, \<^verbatim>\<open>grub-editenv\<close>, the u-boot environment, the package formats, the
  store and the scripts of packages.

  \<^bold>\<open>The theories\<close>, in the order of their dependence:
  \<^item> \<^verbatim>\<open>Prelude\<close>: strings, digits, splitting, searching, and the rule collections.
  \<^item> \<^verbatim>\<open>Version\<close> (\<open>snappy/sort.go\<close>): \<open>VersionCompare\<close>. It is a total preorder where numbers fit 64
    bits (locale \<open>comparator\<close>, interpreted on it), a tilde sorts before, and what happens
    beyond 64 bits.
  \<^item> \<^verbatim>\<open>GoIO\<close>, \<^verbatim>\<open>Errors\<close>, \<^verbatim>\<open>Os\<close>, \<^verbatim>\<open>Paths\<close>: the monad with its frame calculus (\<open>keeps\<close>), the errors of
    \<open>snappy/errors.go\<close>, the calls of the standard library on files, and facts on paths.
  \<^item> \<^verbatim>\<open>Partition\<close> (\<open>partition/partition.go\<close>, \<open>mount.go\<close>, \<open>utils.go\<close>, \<open>dirs.go\<close>): reading \<^verbatim>\<open>lsblk\<close>, mounting the
    other root; it is always mounted read-only again, and mounts are undone inside out.
  \<^item> \<^verbatim>\<open>Bootloader\<close>, \<^verbatim>\<open>BootEnv\<close> (\<open>partition/bootloader*.go\<close>, \<open>assets.go\<close>): boot variables on the three
    back ends; the locale of a boot environment states what reading after writing gives,
    every back end is an interpretation, and \<open>ToggleNextBoot\<close> and \<open>MarkBootSuccessful\<close> are proved
    from it.
  \<^item> \<^verbatim>\<open>BootMachine\<close> (\<open>partition/migrate_grub.go\<close>): the boot script together with the single writes of
    the running system as a step relation with loss of power between any two; an update
    that never confirms itself is abandoned on the next boot.
  \<^item> \<^verbatim>\<open>Systemd\<close> (\<open>systemd/systemd.go\<close>): unit files, \<^verbatim>\<open>systemctl\<close>, and that waiting for a stop ends.
  \<^item> \<^verbatim>\<open>Helpers\<close> (\<open>helpers/helpers.go\<close>): sideload versions, device numbers, and \<open>AtomicWriteFile\<close> call by
    call, which refines one atomic step.
  \<^item> \<^verbatim>\<open>PackageYaml\<close>, \<^verbatim>\<open>Env\<close>, \<^verbatim>\<open>Click\<close>, \<^verbatim>\<open>Policy\<close>, \<^verbatim>\<open>HwAccess\<close> (\<open>snappy/snapp.go\<close>, \<open>click.go\<close>, \<open>security.go\<close>, \<open>dbus.go\<close>,
    \<open>hwaccess.go\<close>, \<open>oem.go\<close>, \<open>policy/policy.go\<close>, \<open>helpers/cmp.go\<close>, \<open>cp.go\<close>, \<open>dirs/dirs.go\<close>): the description of
    a package and its validation, hooks, profiles, wrappers, units, data, framework policy,
    and access to devices.
  \<^item> \<^verbatim>\<open>SystemImage\<close> (\<open>snappy/systemimage.go\<close>, \<open>systemimage_native.go\<close>, \<open>provisioning\<close>): the two system
    versions as parts; the next boot is changed only after the new version was checked.
  \<^item> \<^verbatim>\<open>SnapPart\<close> (\<open>snappy/parts.go\<close>, \<open>snapp.go\<close>, \<open>pkgformat.go\<close>): parts and repositories; at most one
    version of a package is active.
  \<^item> \<^verbatim>\<open>Lifecycle\<close> (\<open>snappy/snapp.go\<close>): installing with every deferred clean-up, activating,
    deactivating, removing; what they leave behind on success and on failure.
  \<^item> \<^verbatim>\<open>Store\<close>, \<^verbatim>\<open>Manage\<close> (\<open>snappy/snapp.go\<close>, \<open>install.go\<close>, \<open>remove.go\<close>, \<open>rollback.go\<close>, \<open>set*.go\<close>, \<open>purge.go\<close>,
    \<open>datadir.go\<close>, \<open>list.go\<close>, \<open>search.go\<close>): updates, downloads, searching, and the commands. The sort
    of versions is an argument with the locale \<open>snap_sort\<close> as its contract, because
    \<^verbatim>\<open>sort.Sort\<close> leaves the order of equal versions open; garbage collection keeps the active
    version and its predecessor for every such sort.
  \<^item> \<^verbatim>\<open>Services\<close> (\<open>snappy/service.go\<close>, \<open>config.go\<close>, \<open>systemd/systemd.go\<close>): acting on services, the
    journal, configuration hooks.
  \<^item> \<^verbatim>\<open>Lightweight\<close> (\<open>pkg/lightweight\<close>, \<open>pkg/removed\<close>): bags of versions.
  \<^item> \<^verbatim>\<open>Tasks\<close> (\<open>daemon/uuid.go\<close>, \<open>task.go\<close>, \<open>response.go\<close>, \<open>daemon.go\<close>): the operations that the daemon runs
    in the background and its table of them, as a step relation in which requests and the
    ends of tasks interleave; what a client can observe of a task.
  \<^item> \<^verbatim>\<open>Api\<close> (\<open>daemon/api.go\<close>, \<open>daemon.go\<close>): every handler, the commands with their verbs and routes, and
    what the tasks run. The steps of the daemon refine the steps of the table.
  \<^item> \<^verbatim>\<open>CoreConfig\<close> (\<open>coreconfig/config.go\<close>): reading and setting the configuration of the core system;
    the list of kernel modules is read back as it was set.
  \<^item> \<^verbatim>\<open>ClickDeb\<close> (\<open>pkg/clickdeb\<close>, \<open>helpers/helpers.go\<close>): unpacking, with paths resolved through links, and
    building packages; without links nothing outside of the target changes, and with them it can.
  \<^item> \<^verbatim>\<open>Hashes\<close>, \<^verbatim>\<open>Build\<close> (\<open>snappy/hashes.go\<close>, \<open>build.go\<close>, \<open>pkg/snapfs/pkg.go\<close>): building packages from a
    directory; the list of hashes describes the archive, and what goes wrong with ignore files
    and hard links.
  \<^item> \<^verbatim>\<open>Mirror\<close> (\<open>helpers/helpers.go\<close>, \<open>cp.go\<close>): the synchronisation of two directories as its two walks, which refines
    the single call that \<^verbatim>\<open>Bootloader\<close> uses; copying files and changing the directory.
  \<^item> \<^verbatim>\<open>Priv\<close> (\<open>priv/priv.go\<close>, \<open>filelock.go\<close>): the lock of the command line, over a kernel of open files, inodes
    and \<^verbatim>\<open>flock\<close>, with several processes as a step relation whose steps are single calls.
    Two processes are inside at once only on two files, which takes a removal, and a run
    where that happens.
  \<^item> \<^verbatim>\<open>Release\<close>, \<^verbatim>\<open>Login\<close> (\<open>release/release.go\<close>, \<open>snappy/auth.go\<close>, \<open>oauth/oauth.go\<close>): the release that a channel stands
    for; quoting, tokens and the answers of the single sign-on service.
  \<^item> \<^verbatim>\<open>Terminal\<close> (\<open>progress/progress.go\<close>, \<open>logger/logger.go\<close>, \<open>snappy/snapp.go\<close>, \<open>timeout.go\<close>, \<open>pkg/types.go\<close>): meters, the question
    about a license, logs, and the headers of a request to the store, which put release, token and
    packages together.
  \<^item> \<^verbatim>\<open>FirstBoot\<close>, \<^verbatim>\<open>GrubMigrate\<close> (\<open>snappy/firstboot.go\<close>, \<open>partition/migrate_grub.go\<close>): what is done once, and
    that it is not done twice.
  \<^item> \<^verbatim>\<open>Commands\<close> (\<open>cmd/snappy\<close>): every command from its parsed options to the lines it prints, under the
    lock where the code takes it, and the end of the program. Without rights a command that
    takes the lock does nothing; waiting for the lock ends when the others leave it alone; a
    package is unpacked under the ids of an unprivileged user.
  \<^bold>\<open>Bounds.\<close> Symbolic links are followed at most 255 times, as in Go. Waiting for a service is a
  terminating function on the clock: every poll takes at least its delay. Loops over lists
  are structural; the loop over paths of \<^verbatim>\<open>Lightweight\<close> ends because every round consumes a path.
  Waiting for the lock may never end and is a \<^verbatim>\<open>partial_function\<close> with \<open>None\<close> for that; it is proved
  to return when the lock comes free. Other processes act on the lock between the calls of ours
  as a function \<open>others\<close> in the world says.

  \<^bold>\<open>Not modelled.\<close> What is logged or drawn in between by the functions of the other theories; the signal handler of the mount
  list; the limit of 64 KB on a line of \<^verbatim>\<open>bufio.Scanner\<close>; read errors of files that exist;
  links in the middle of a path that is changed; a directory tree created only in part;
  character classes and escapes in globs; the owners of files. A relative path is taken from
  the root directory. The function of a task of the daemon takes effect in one step, at its
  end. The bytes of archives, http requests and their headers, the daemon's socket and router,
  the parser of the command line with its help texts, the alignment of tables, the interactive
  console and the manual page are not modelled, because they are calls of libraries and of
  external programs; nor is the tool that extracts messages, which is a walk over the trees of
  the Go parser.
\<close>

end
